(* ===== verification/Prelude.thy ===== *)
theory Prelude
  imports Complex_Main "HOL-Library.Char_ord" "HOL-Library.List_Lexorder"
    "HOL-Library.Product_Lexorder" "HOL-Library.Monad_Syntax"
begin

text \<open>
  Shared ground of the development: the exceptions the Python code raises and the result type
  that carries them, insertion-ordered dictionaries, the string operations the code uses on
  symbols and names, and the generic lemmas on lists that several components share.
\<close>

named_theorems res_simps \<open>evaluation of the result combinators\<close>
named_theorems dict_simps \<open>laws of the insertion-ordered dictionary\<close>

section \<open>Exceptions and results\<close>

text \<open>
  A Python function that may raise is a function into \<open>py_exc + 'a\<close>: \<open>Inl\<close> is the exception,
  \<open>Inr\<close> the returned value. The constructors are the exception classes the modelled code raises
  itself or lets escape from the decimal and dictionary operations it uses.
\<close>

text \<open>The provider errors of \<open>modules/market/domain.py\<close>: the class, and the fields the base class stores.\<close>

datatype provider_error_kind = ProviderAuthenticationError | ProviderForbiddenError
  | ProviderNotFoundError | ProviderValidationError | ProviderRateLimitError
  | ProviderUnavailableError | ProviderMalformedResponseError

record ProviderError =
  er_kind :: provider_error_kind
  er_message :: string
  er_provider :: string
  er_retryable :: bool
  er_provider_code :: "string option"
  er_request_id :: "string option"
  er_retry_after :: "rat option"
  er_provider_message :: "string option"

datatype py_exc =
    DivisionByZero
  | InvalidOperation
  | KeyError string
  | KeyErrorDate int
  | ValueError string
  | LookupError string
  | RuntimeError string
  | IntegrityError string
  | InvalidBacktestParameters string
  | UnsupportedBacktestStrategy string
  | DuplicateDailyBarError string int
  | InvalidBacktestTransition string string
  | BacktestRangeError int
  | BacktestNotFoundError
  | BacktestAnalysisUnavailableError string
  | PortfolioUnavailableError string
  | SyncAlreadyRunningError string
  | ProviderException ProviderError
  | TypeError string
  | OverflowError string
  | TransportError string

type_synonym 'a res = "py_exc + 'a"

definition bindE :: "'a res \<Rightarrow> ('a \<Rightarrow> 'b res) \<Rightarrow> 'b res" where
  "bindE m f = (case m of Inl e \<Rightarrow> Inl e | Inr x \<Rightarrow> f x)"

definition assertE :: "bool \<Rightarrow> py_exc \<Rightarrow> unit res" where
  "assertE b e = (if b then Inr () else Inl e)"

primrec mapE :: "('a \<Rightarrow> 'b res) \<Rightarrow> 'a list \<Rightarrow> 'b list res" where
  "mapE f [] = Inr []"
| "mapE f (x # xs) = bindE (f x) (\<lambda>y. bindE (mapE f xs) (\<lambda>ys. Inr (y # ys)))"

primrec foldE :: "('s \<Rightarrow> 'a \<Rightarrow> 's res) \<Rightarrow> 's \<Rightarrow> 'a list \<Rightarrow> 's res" where
  "foldE f s [] = Inr s"
| "foldE f s (x # xs) = bindE (f s x) (\<lambda>s'. foldE f s' xs)"

declare bindE_def [code_unfold]

lemma bindE_simps [simp, res_simps]:
  "bindE (Inl e) f = Inl e" "bindE (Inr x) f = f x"
  by (simp_all add: bindE_def)

lemma assertE_simps [simp, res_simps]:
  "assertE True e = Inr ()" "assertE False e = Inl e"
  by (simp_all add: assertE_def)

lemma bindE_eq_Inr: "bindE m f = Inr y \<longleftrightarrow> (\<exists>x. m = Inr x \<and> f x = Inr y)"
  by (cases m) auto

lemma bindE_eq_Inl: "bindE m f = Inl e \<longleftrightarrow> m = Inl e \<or> (\<exists>x. m = Inr x \<and> f x = Inl e)"
  by (cases m) auto

lemma assertE_eq_Inr [simp]: "assertE b e = Inr u \<longleftrightarrow> b"
  by (simp add: assertE_def)

lemma assertE_eq_Inl [simp]: "assertE b e = Inl e' \<longleftrightarrow> \<not> b \<and> e' = e"
  by (auto simp: assertE_def)

text \<open>The code returns, whatever the value.\<close>

definition returns :: "'a res \<Rightarrow> bool" where
  "returns m = (case m of Inl _ \<Rightarrow> False | Inr _ \<Rightarrow> True)"

lemma returns_simps [simp, res_simps]: "returns (Inl e) = False" "returns (Inr x) = True"
  by (simp_all add: returns_def)

lemma returns_iff: "returns m \<longleftrightarrow> (\<exists>x. m = Inr x)"
  by (cases m) auto

lemma returns_bindE_dep: "returns (bindE m f) \<longleftrightarrow> (\<exists>x. m = Inr x \<and> returns (f x))"
  by (cases m) auto

lemma ex_Inr_const: "(\<exists>x. m = Inr x \<and> P) \<longleftrightarrow> returns m \<and> P"
  by (cases m) auto

lemma ex_Inr_returns: "(\<exists>x. m = Inr x) \<longleftrightarrow> returns m"
  by (simp add: returns_iff)

lemmas returns_bindE = returns_bindE_dep ex_Inr_const ex_Inr_returns

lemma mapE_length: "mapE f xs = Inr ys \<Longrightarrow> length ys = length xs"
  by (induction xs arbitrary: ys) (auto simp: bindE_eq_Inr)

lemma mapE_nth: "mapE f xs = Inr ys \<Longrightarrow> i < length xs \<Longrightarrow> f (xs ! i) = Inr (ys ! i)"
proof (induction xs arbitrary: ys i)
  case (Cons x xs)
  then show ?case by (cases i) (auto simp: bindE_eq_Inr)
qed simp

text \<open>Where it returns, the fallible map is a map, so it keeps multisets.\<close>

definition value_of :: "'a res \<Rightarrow> 'a" where
  "value_of m = projr m"

lemma mapE_iff: "mapE f xs = Inr ys \<longleftrightarrow> list_all (\<lambda>x. returns (f x)) xs \<and> ys = map (\<lambda>x. value_of (f x)) xs"
proof (induction xs arbitrary: ys)
  case (Cons x xs)
  then show ?case by (cases "f x") (auto simp: bindE_eq_Inr value_of_def)
qed (simp add: eq_commute)

lemma mapE_returns: "returns (mapE f xs) \<longleftrightarrow> list_all (\<lambda>x. returns (f x)) xs"
  by (auto simp: returns_iff [of "mapE f xs"] mapE_iff)

lemma foldE_append: "foldE f s (xs @ ys) = bindE (foldE f s xs) (\<lambda>s'. foldE f s' ys)"
  by (induction xs arbitrary: s) (auto simp: bindE_def split: sum.splits)

text \<open>An invariant of the loop body is an invariant of the loop.\<close>

lemma foldE_invariant:
  assumes "foldE f s xs = Inr s'" and "P s"
    and "\<And>s x s'. P s \<Longrightarrow> x \<in> set xs \<Longrightarrow> f s x = Inr s' \<Longrightarrow> P s'"
  shows "P s'"
  using assms
proof (induction xs arbitrary: s)
  case (Cons x xs)
  from Cons.prems(1) obtain t where t: "f s x = Inr t" "foldE f t xs = Inr s'"
    by (auto simp: bindE_eq_Inr)
  have "P t" using Cons.prems(2,3) t(1) by auto
  with t(2) show ?case using Cons.IH Cons.prems(3) by (metis list.set_intros(2))
qed simp

text \<open>Which exceptions a result can be.\<close>

definition fails_only :: "(py_exc \<Rightarrow> bool) \<Rightarrow> 'a res \<Rightarrow> bool" where
  "fails_only Q m \<longleftrightarrow> (\<forall>e. m = Inl e \<longrightarrow> Q e)"

named_theorems failing \<open>results that fail only with certain exceptions\<close>

lemma fails_bind [failing]: "fails_only Q m \<Longrightarrow> (\<And>x. fails_only Q (f x)) \<Longrightarrow> fails_only Q (bindE m f)"
  unfolding fails_only_def bindE_eq_Inl by blast

lemma fails_Inr [failing]: "fails_only Q (Inr x)"
  by (simp add: fails_only_def)

lemma fails_map [failing]: "(\<And>x. fails_only Q (f x)) \<Longrightarrow> fails_only Q (mapE f xs)"
  by (induction xs) (auto intro!: failing)

lemma fails_fold [failing]: "(\<And>x a. fails_only Q (f x a)) \<Longrightarrow> fails_only Q (foldE f x as)"
  by (induction "as" arbitrary: x) (auto intro!: failing)

lemma fails_assert [failing]: "Q e \<Longrightarrow> fails_only Q (assertE b e)"
  by (simp add: fails_only_def)

lemma fails_weaken: "fails_only Q m \<Longrightarrow> (\<And>e. Q e \<Longrightarrow> R e) \<Longrightarrow> fails_only R m"
  by (simp add: fails_only_def)

section \<open>Effects\<close>

text \<open>
  An action on a state: it answers or raises, and what it did before it raised stays done.
\<close>

type_synonym ('s, 'a) io = "'s \<Rightarrow> 's \<times> 'a res"

definition answer :: "'a \<Rightarrow> ('s, 'a) io" where
  "answer x s = (s, Inr x)"

definition raising :: "py_exc \<Rightarrow> ('s, 'a) io" where
  "raising e s = (s, Inl e)"

definition lift_res :: "'a res \<Rightarrow> ('s, 'a) io" where
  "lift_res m s = (s, m)"

definition and_then :: "('s, 'a) io \<Rightarrow> ('a \<Rightarrow> ('s, 'b) io) \<Rightarrow> ('s, 'b) io" where
  "and_then m f s = (case m s of (s', Inl e) \<Rightarrow> (s', Inl e) | (s', Inr x) \<Rightarrow> f x s')"

text \<open>A loop over a list that carries a value, and one that collects what each turn returns.\<close>

primrec fold_io :: "('x \<Rightarrow> 'a \<Rightarrow> ('s, 'x) io) \<Rightarrow> 'x \<Rightarrow> 'a list \<Rightarrow> ('s, 'x) io" where
  "fold_io f x [] = answer x"
| "fold_io f x (a # as) = and_then (f x a) (\<lambda>y. fold_io f y as)"

primrec map_io :: "('a \<Rightarrow> ('s, 'b) io) \<Rightarrow> 'a list \<Rightarrow> ('s, 'b list) io" where
  "map_io f [] = answer []"
| "map_io f (a # as) = and_then (f a) (\<lambda>y. and_then (map_io f as) (\<lambda>ys. answer (y # ys)))"

text \<open>\<open>except\<close>: an exception the handler knows becomes another.\<close>

definition except_as :: "(py_exc \<Rightarrow> bool) \<Rightarrow> py_exc \<Rightarrow> ('s, 'a) io \<Rightarrow> ('s, 'a) io" where
  "except_as known e' m s = (case m s of (s', Inl e) \<Rightarrow> (s', Inl (if known e then e' else e)) | r \<Rightarrow> r)"

lemma except_as_Inr [simp]: "except_as known e' m s = (s', Inr x) \<longleftrightarrow> m s = (s', Inr x)"
  by (auto simp: except_as_def split: prod.splits sum.splits)

lemma except_as_fst [simp]: "fst (except_as known e' m s) = fst (m s)"
  by (auto simp: except_as_def split: prod.splits sum.splits)

lemma answer_Inr [simp]: "answer x s = (s', Inr y) \<longleftrightarrow> s' = s \<and> y = x"
  by (auto simp: answer_def)

lemma raising_Inr [simp]: "raising e s \<noteq> (s', Inr y)"
  by (simp add: raising_def)

lemma lift_res_Inr [simp]: "lift_res m s = (s', Inr y) \<longleftrightarrow> s' = s \<and> m = Inr y"
  by (auto simp: lift_res_def)

lemma and_then_Inr: "and_then m f s = (s', Inr y) \<longleftrightarrow> (\<exists>s1 x. m s = (s1, Inr x) \<and> f x s1 = (s', Inr y))"
  by (auto simp: and_then_def split: prod.splits sum.splits)

lemma and_then_Inl: "and_then m f s = (s', Inl e)
    \<longleftrightarrow> m s = (s', Inl e) \<or> (\<exists>s1 x. m s = (s1, Inr x) \<and> f x s1 = (s', Inl e))"
  by (auto simp: and_then_def split: prod.splits sum.splits)

section \<open>Dates, instants, identifiers\<close>

text \<open>
  A \<open>date\<close> is its proleptic ordinal (\<open>date.toordinal()\<close>), a timezone-aware \<open>datetime\<close> the instant
  it names in microseconds since 1970, a \<open>UUID\<close> a number. The clock and the UUID generator are inputs of the
  functions that read them.
\<close>

type_synonym date = int
type_synonym datetime = int
type_synonym uuid = nat

section \<open>Insertion-ordered dictionaries\<close>

text \<open>
  A Python \<open>dict\<close> is an association list in insertion order: a new key goes to the end, an
  existing key keeps its place. Lookup is the library's \<^const>\<open>map_of\<close>.
\<close>

type_synonym ('k, 'v) dict = "('k \<times> 'v) list"

fun dict_set :: "'k \<Rightarrow> 'v \<Rightarrow> ('k, 'v) dict \<Rightarrow> ('k, 'v) dict" where
  "dict_set k v [] = [(k, v)]"
| "dict_set k v ((k', v') # d) = (if k = k' then (k, v) # d else (k', v') # dict_set k v d)"

definition dict_del :: "'k \<Rightarrow> ('k, 'v) dict \<Rightarrow> ('k, 'v) dict" where
  "dict_del k d = filter (\<lambda>p. fst p \<noteq> k) d"

definition dict_keys :: "('k, 'v) dict \<Rightarrow> 'k list" where
  "dict_keys d = map fst d"

definition dict_getd :: "('k, 'v) dict \<Rightarrow> 'k \<Rightarrow> 'v \<Rightarrow> 'v" where
  "dict_getd d k v = (case map_of d k of None \<Rightarrow> v | Some w \<Rightarrow> w)"

definition dict_ok :: "('k, 'v) dict \<Rightarrow> bool" where
  "dict_ok d = distinct (map fst d)"

text \<open>\<open>d.setdefault(k, []).append(x)\<close>, the grouping idiom of the code.\<close>

definition dict_append :: "'k \<Rightarrow> 'v \<Rightarrow> ('k, 'v list) dict \<Rightarrow> ('k, 'v list) dict" where
  "dict_append k x d = dict_set k (dict_getd d k [] @ [x]) d"

lemma map_of_dict_set [simp, dict_simps]:
  "map_of (dict_set k v d) k' = (if k' = k then Some v else map_of d k')"
  by (induction d) auto

lemma dict_set_keys [dict_simps]:
  "fst ` set (dict_set k v d) = insert k (fst ` set d)"
proof (induction d)
  case (Cons p d)
  then show ?case by (cases p) auto
qed simp

lemma dict_set_ok [simp]: "dict_ok d \<Longrightarrow> dict_ok (dict_set k v d)"
proof (induction d)
  case (Cons p d)
  then show ?case using dict_set_keys [of k v d] by (cases p) (auto simp: dict_ok_def)
qed (simp add: dict_ok_def)

lemma dict_set_new: "k \<notin> set (map fst d) \<Longrightarrow> dict_set k v d = d @ [(k, v)]"
  by (induction d) auto

lemma dict_ok_Nil [simp]: "dict_ok []"
  by (simp add: dict_ok_def)

lemma dict_del_ok [simp]: "dict_ok d \<Longrightarrow> dict_ok (dict_del k d)"
  by (auto simp: dict_ok_def dict_del_def distinct_map inj_on_def)

lemma map_of_dict_del [simp, dict_simps]:
  "map_of (dict_del k d) k' = (if k' = k then None else map_of d k')"
  by (induction d) (auto simp: dict_del_def)

lemma dict_del_keys [dict_simps]:
  "fst ` set (dict_del k d) = fst ` set d - {k}"
  by (auto simp: dict_del_def)

lemma dict_getd_set [simp]: "dict_getd (dict_set k v d) k' w = (if k' = k then v else dict_getd d k' w)"
  by (simp add: dict_getd_def)

lemma dict_getd_append [simp]:
  "dict_getd (dict_append k x d) k' [] = (if k' = k then dict_getd d k [] @ [x] else dict_getd d k' [])"
  by (simp add: dict_append_def)

lemma dict_append_keys: "fst ` set (dict_append k x d) = insert k (fst ` set d)"
  by (simp add: dict_append_def dict_set_keys)

lemma dict_append_ok [simp]: "dict_ok d \<Longrightarrow> dict_ok (dict_append k x d)"
  by (simp add: dict_append_def)

section \<open>Grouping\<close>

definition groups :: "('a \<Rightarrow> 'k) \<Rightarrow> 'a list \<Rightarrow> ('k, 'a list) dict" where
  "groups key xs = foldl (\<lambda>out x. dict_append (key x) x out) [] xs"

lemma groups_snoc: "groups key (xs @ [x]) = dict_append (key x) x (groups key xs)"
  by (simp add: groups_def)

lemma groups_ok [simp]: "dict_ok (groups key xs)"
  by (induction xs rule: rev_induct) (simp_all add: groups_snoc, simp add: groups_def)

text \<open>A group is the list of the elements with its key, in order.\<close>

lemma groups_getd: "dict_getd (groups key xs) k [] = filter (\<lambda>x. key x = k) xs"
  by (induction xs rule: rev_induct) (auto simp: groups_snoc, simp add: groups_def dict_getd_def)

lemma groups_keys: "fst ` set (groups key xs) = key ` set xs"
  by (induction xs rule: rev_induct) (simp_all add: groups_snoc dict_append_keys, simp add: groups_def)

lemma groups_mem: "(k, g) \<in> set (groups key xs) \<Longrightarrow> g = filter (\<lambda>x. key x = k) xs \<and> k \<in> key ` set xs"
proof -
  assume m: "(k, g) \<in> set (groups key xs)"
  then have "map_of (groups key xs) k = Some g"
    using groups_ok [of key xs] by (simp add: dict_ok_def)
  then have "g = dict_getd (groups key xs) k []" by (simp add: dict_getd_def)
  moreover have "k \<in> key ` set xs" using m groups_keys [of key xs] by force
  ultimately show ?thesis by (simp add: groups_getd)
qed

lemma groups_map_of: "map_of (groups key xs) k =
    (if k \<in> key ` set xs then Some (filter (\<lambda>x. key x = k) xs) else None)"
proof (cases "k \<in> key ` set xs")
  case True
  then obtain g where g: "(k, g) \<in> set (groups key xs)" by (metis groups_keys imageE prod.collapse)
  then have "map_of (groups key xs) k = Some g"
    using groups_ok [of key xs] by (simp add: dict_ok_def)
  with groups_mem [OF g] show ?thesis by simp
next
  case False
  then have "map_of (groups key xs) k = None"
    using groups_keys [of key xs] by (simp add: map_of_eq_None_iff)
  with False show ?thesis by simp
qed

text \<open>The groups partition the list, so a count per group adds up.\<close>

lemma length_dict_append_values:
  "(\<Sum>p\<leftarrow>dict_append k x d. length (snd p)) = Suc (\<Sum>p\<leftarrow>d. length (snd p))"
proof -
  have "(\<Sum>p\<leftarrow>dict_set k (dict_getd d k [] @ [x]) d. length (snd p)) = Suc (\<Sum>p\<leftarrow>d. length (snd p))"
    by (induction d) (auto simp: dict_getd_def)
  then show ?thesis by (simp add: dict_append_def)
qed

lemma groups_sum: "(\<Sum>p\<leftarrow>groups key xs. sum_list (map g (snd p))) = sum_list (map g xs)"
  for g :: "_ \<Rightarrow> 'n :: comm_monoid_add"
proof -
  have one: "(\<Sum>p\<leftarrow>dict_append k x d. sum_list (map g (snd p))) = (\<Sum>p\<leftarrow>d. sum_list (map g (snd p))) + g x"
    for k x and d :: "('k, _ list) dict"
    unfolding dict_append_def by (induction d) (auto simp: dict_getd_def ac_simps)
  show ?thesis
    by (induction xs rule: rev_induct) (simp_all add: groups_snoc one, simp add: groups_def)
qed

lemma groups_total: "(\<Sum>p\<leftarrow>groups key xs. length (snd p)) = length xs"
  by (induction xs rule: rev_induct)
    (simp_all add: groups_snoc length_dict_append_values, simp add: groups_def)

section \<open>Strings\<close>

text \<open>
  Symbols, names and keys are ASCII strings. \<open>str.strip()\<close> removes white space at both ends.
\<close>

definition is_space :: "char \<Rightarrow> bool" where
  "is_space c = (of_char c \<in> {9, 10, 11, 12, 13, 28, 29, 30, 31, 32 :: nat})"

definition strip :: "string \<Rightarrow> string" where
  "strip s = rev (dropWhile is_space (rev (dropWhile is_space s)))"

lemma strip_Nil [simp]: "strip [] = []"
  by (simp add: strip_def)

section \<open>Lists\<close>

text \<open>\<open>xs[-n:]\<close> and \<open>xs[-n-1:-1]\<close>, the windows the indicators use.\<close>

definition last_n :: "nat \<Rightarrow> 'a list \<Rightarrow> 'a list" where
  "last_n n xs = drop (length xs - n) xs"

definition prior_n :: "nat \<Rightarrow> 'a list \<Rightarrow> 'a list" where
  "prior_n n xs = last_n n (butlast xs)"

lemma length_last_n [simp]: "length (last_n n xs) = min n (length xs)"
  by (auto simp: last_n_def)

lemma set_last_n: "set (last_n n xs) \<subseteq> set xs"
  by (simp add: last_n_def set_drop_subset)

lemma length_prior_n [simp]: "length (prior_n n xs) = min n (length xs - 1)"
  by (simp add: prior_n_def)

lemma set_prior_n: "set (prior_n n xs) \<subseteq> set xs"
  using set_last_n [of n "butlast xs"] by (auto simp: prior_n_def dest: in_set_butlastD)

lemma map_last_n: "map f (last_n n xs) = last_n n (map f xs)"
  by (simp add: last_n_def drop_map)

lemma sort_key_stable_set: "set (sort_key f xs) = set xs"
  by simp

text \<open>\<open>xs[i : i + n]\<close> for \<open>i\<close> in \<open>range(0, len(xs), n)\<close>: the batches.\<close>

function batches :: "nat \<Rightarrow> 'a list \<Rightarrow> 'a list list" where
  "batches n xs = (if n = 0 \<or> xs = [] then [] else take n xs # batches n (drop n xs))"
  by auto
termination
  by (relation "measure (\<lambda>(n, xs). length xs)") auto

declare batches.simps [simp del]

lemma concat_batches: "0 < n \<Longrightarrow> concat (batches n xs) = xs"
proof (induction n xs rule: batches.induct)
  case (1 n xs)
  then show ?case by (cases "xs = []") (auto simp: batches.simps [of n xs] batches.simps [of n "[]"])
qed

end
