(* ===== verification/Decimal.thy ===== *)
theory Decimal
  imports Prelude
begin

text \<open>
  Python's \<open>decimal\<close> arithmetic as the code uses it. The value of a finite \<open>Decimal\<close> is a
  rational; every arithmetic operator rounds its exact result to the context's 28 significant
  digits, ties to even (\<open>dround\<close>); \<open>quantize\<close> rounds to a multiple of a quantum and raises
  \<open>InvalidOperation\<close> when the coefficient would need more than 28 digits; division by zero raises.
  The context's exponent limits (\<open>10 ^ 999999\<close>) are out of reach of the data and not modelled.
  The rounding laws are stated once, as a locale over the rounding function, and interpreted for
  the context rounding and for the quantizing ones.
\<close>

named_theorems dec_simps \<open>evaluation of decimal operations\<close>

type_synonym decimal = rat

section \<open>Rounding to an integer\<close>

definition half_even :: "rat \<Rightarrow> int" where
  "half_even r = (let f = \<lfloor>r\<rfloor>; t = r - of_int f
     in if t < 1/2 then f else if 1/2 < t then f + 1 else if even f then f else f + 1)"

definition half_up :: "rat \<Rightarrow> int" where
  "half_up r = (if 0 \<le> r then \<lfloor>r + 1/2\<rfloor> else - \<lfloor>1/2 - r\<rfloor>)"

definition round_down :: "rat \<Rightarrow> int" where
  "round_down r = (if 0 \<le> r then \<lfloor>r\<rfloor> else \<lceil>r\<rceil>)"

text \<open>The contract of a rounding to integers, and what follows for multiples of a quantum.\<close>

locale int_rounding =
  fixes rnd :: "rat \<Rightarrow> int"
  assumes rnd_mono: "x \<le> y \<Longrightarrow> rnd x \<le> rnd y"
    and rnd_int: "rnd (of_int n) = n"
begin

lemma rnd_ge: "of_int n \<le> x \<Longrightarrow> n \<le> rnd x"
  using rnd_mono [of "of_int n" x] by (simp add: rnd_int)

lemma rnd_le: "x \<le> of_int n \<Longrightarrow> rnd x \<le> n"
  using rnd_mono [of x "of_int n"] by (simp add: rnd_int)

lemma rnd_between: "\<lfloor>x\<rfloor> \<le> rnd x \<and> rnd x \<le> \<lceil>x\<rceil>"
  by (simp add: rnd_ge rnd_le)

lemma rnd_zero: "rnd 0 = 0"
  using rnd_int [of 0] by simp

end

text \<open>
  The contract of a rounding of values: monotone, and the identity on what it returns. A value
  it leaves alone is \<^emph>\<open>representable\<close>, and bounds by representable values survive the rounding.
\<close>

locale value_rounding =
  fixes vr :: "rat \<Rightarrow> rat"
  assumes vr_mono: "x \<le> y \<Longrightarrow> vr x \<le> vr y"
    and vr_idem: "vr (vr x) = vr x"
begin

lemma vr_ge: "vr l = l \<Longrightarrow> l \<le> x \<Longrightarrow> l \<le> vr x"
  using vr_mono [of l x] by simp

lemma vr_le: "vr u = u \<Longrightarrow> x \<le> u \<Longrightarrow> vr x \<le> u"
  using vr_mono [of x u] by simp

lemma vr_between: "vr l = l \<Longrightarrow> vr u = u \<Longrightarrow> l \<le> x \<Longrightarrow> x \<le> u \<Longrightarrow> l \<le> vr x \<and> vr x \<le> u"
  by (simp add: vr_ge vr_le)

lemma vr_less_imp: "vr x < vr y \<Longrightarrow> x < y"
  using vr_mono [of y x] by (meson linorder_not_le)

end

locale quantum_rounding = int_rounding +
  fixes q :: rat
  assumes q_pos: "0 < q"
begin

lemma multiple_fixed: "of_int (rnd (of_int n * q / q)) * q = of_int n * q"
  using q_pos by (simp add: rnd_int)

end

sublocale quantum_rounding \<subseteq> value_rounding "\<lambda>x. of_int (rnd (x / q)) * q"
proof
  fix x y :: rat
  assume "x \<le> y"
  then have "x / q \<le> y / q" using q_pos by (simp add: divide_right_mono)
  then have "rnd (x / q) \<le> rnd (y / q)" by (rule rnd_mono)
  then show "of_int (rnd (x / q)) * q \<le> of_int (rnd (y / q)) * q"
    using q_pos by (simp add: mult_right_mono)
next
  fix x
  show "of_int (rnd (of_int (rnd (x / q)) * q / q)) * q = of_int (rnd (x / q)) * q"
    by (rule multiple_fixed)
qed

lemma half_even_bounds: "\<lfloor>r\<rfloor> \<le> half_even r \<and> half_even r \<le> \<lfloor>r\<rfloor> + 1"
  by (simp add: half_even_def Let_def)

lemma half_even_mono: "x \<le> y \<Longrightarrow> half_even x \<le> half_even y"
proof -
  assume xy: "x \<le> y"
  then have fl: "\<lfloor>x\<rfloor> \<le> \<lfloor>y\<rfloor>" by (rule floor_mono)
  show "half_even x \<le> half_even y"
  proof (cases "\<lfloor>x\<rfloor> = \<lfloor>y\<rfloor>")
    case True
    with xy show ?thesis by (auto simp: half_even_def Let_def)
  next
    case False
    with fl half_even_bounds [of x] half_even_bounds [of y] show ?thesis by linarith
  qed
qed

lemma half_even_of_int [simp]: "half_even (of_int n) = n"
  by (simp add: half_even_def Let_def)

interpretation he: int_rounding half_even
  by unfold_locales (simp_all add: half_even_mono)

lemma half_up_mono: "x \<le> y \<Longrightarrow> half_up x \<le> half_up y"
proof -
  assume xy: "x \<le> y"
  consider "0 \<le> x" | "x < 0" "0 \<le> y" | "x < 0" "y < 0" using xy by linarith
  then show ?thesis
  proof cases
    case 1
    with xy show ?thesis by (simp add: half_up_def floor_mono)
  next
    case 2
    then have "0 \<le> \<lfloor>1/2 - x\<rfloor>" "0 \<le> \<lfloor>y + 1/2\<rfloor>" by (simp_all add: le_floor_iff)
    moreover have "half_up x = - \<lfloor>1/2 - x\<rfloor>" "half_up y = \<lfloor>y + 1/2\<rfloor>"
      using 2 by (simp_all add: half_up_def)
    ultimately show ?thesis by linarith
  next
    case 3
    with xy show ?thesis by (simp add: half_up_def floor_mono)
  qed
qed

lemma floor_of_int_half: "\<lfloor>of_int n + 1/2 :: rat\<rfloor> = n"
  by (simp add: floor_eq_iff)

lemma half_up_of_int [simp]: "half_up (of_int n) = n"
proof (cases "0 \<le> n")
  case True
  then show ?thesis by (simp add: half_up_def floor_of_int_half)
next
  case False
  have "\<lfloor>1/2 - of_int n :: rat\<rfloor> = - n"
    by (simp add: floor_eq_iff)
  with False show ?thesis by (simp add: half_up_def)
qed

interpretation hu: int_rounding half_up
  by unfold_locales (simp_all add: half_up_mono)

lemma round_down_mono: "x \<le> y \<Longrightarrow> round_down x \<le> round_down y"
proof -
  assume xy: "x \<le> y"
  have "x < 0 \<Longrightarrow> 0 \<le> y \<Longrightarrow> \<lceil>x\<rceil> \<le> \<lfloor>y\<rfloor>"
    by (meson ceiling_le_zero less_imp_le order_trans zero_le_floor)
  with xy show ?thesis
    by (auto simp: round_down_def floor_mono ceiling_mono)
qed

lemma round_down_of_int [simp]: "round_down (of_int n) = n"
  by (simp add: round_down_def)

interpretation rd: int_rounding round_down
  by unfold_locales (simp_all add: round_down_mono)

lemma half_even_minus: "half_even (- r) = - half_even r"
proof (cases "r = of_int \<lfloor>r\<rfloor>")
  case True
  then show ?thesis by (metis half_even_of_int of_int_minus)
next
  case False
  define f where "f = \<lfloor>r\<rfloor>"
  have lt: "of_int f < r" using False of_int_floor_le [of r] unfolding f_def by linarith
  have lt1: "r < of_int f + 1" unfolding f_def by linarith
  have fm: "\<lfloor>- r\<rfloor> = - f - 1"
    using lt lt1 by (simp add: floor_eq_iff)
  show ?thesis
    unfolding half_even_def Let_def fm f_def [symmetric] by auto
qed

lemma half_even_error: "\<bar>of_int (half_even r) - r\<bar> \<le> 1 / 2"
proof -
  define f t where "f = \<lfloor>r\<rfloor>" and "t = r - of_int f"
  have r: "r = of_int f + t" by (simp add: t_def)
  have "0 \<le> t" "t < 1" by (simp_all add: t_def f_def) linarith
  moreover have "half_even r = (if t < 1/2 then f else if 1/2 < t then f + 1 else if even f then f else f + 1)"
    by (simp add: half_even_def Let_def f_def t_def)
  ultimately show ?thesis by (simp add: r abs_le_iff)
qed

section \<open>The context rounding\<close>

fun ndigits :: "nat \<Rightarrow> nat" where
  "ndigits n = (if n < 10 then 1 else Suc (ndigits (n div 10)))"

declare ndigits.simps [simp del]

lemma ndigits_upper: "n < 10 ^ ndigits n"
proof (induction n rule: ndigits.induct)
  case (1 n)
  show ?case
  proof (cases "n < 10")
    case False
    with 1 have "n div 10 < 10 ^ ndigits (n div 10)" by simp
    then have "n < 10 * 10 ^ ndigits (n div 10)" by linarith
    with False show ?thesis by (simp add: ndigits.simps [of n])
  qed (simp add: ndigits.simps [of n])
qed

lemma ndigits_lower: "0 < n \<Longrightarrow> 10 ^ (ndigits n - 1) \<le> n"
proof (induction n rule: ndigits.induct)
  case (1 n)
  show ?case
  proof (cases "n < 10")
    case False
    with 1 have IH: "10 ^ (ndigits (n div 10) - 1) \<le> n div 10" by simp
    have pos: "ndigits (n div 10) = Suc (ndigits (n div 10) - 1)"
      by (subst (1 2) ndigits.simps) simp
    have "10 * 10 ^ (ndigits (n div 10) - 1) \<le> n" using IH by linarith
    moreover have "10 ^ ndigits (n div 10) = (10 :: nat) * 10 ^ (ndigits (n div 10) - 1)"
      by (subst pos) simp
    ultimately show ?thesis using False by (simp add: ndigits.simps [of n])
  qed (use 1 in \<open>simp add: ndigits.simps [of n]\<close>)
qed

text \<open>\<open>Decimal.adjusted()\<close>: the exponent of the leading digit.\<close>

definition adjusted :: "rat \<Rightarrow> int" where
  "adjusted x = (let (n, d) = quotient_of \<bar>x\<bar>;
      k = int (ndigits (nat n)) - int (ndigits (nat d))
    in if 10 powi k \<le> \<bar>x\<bar> then k else k - 1)"

definition dround :: "rat \<Rightarrow> decimal" where
  "dround x = (if x = 0 then 0 else
     let q = 10 powi (adjusted x - 27) in of_int (half_even (x / q)) * q)"

lemma ndigits_pos: "0 < ndigits n"
  by (subst ndigits.simps) simp

lemma ndigits_of_int:
  assumes "0 < n"
  shows "(10 :: rat) ^ (ndigits (nat n) - 1) \<le> of_int n" "of_int n < (10 :: rat) ^ ndigits (nat n)"
proof -
  have "of_nat (10 ^ (ndigits (nat n) - 1)) \<le> (of_nat (nat n) :: rat)"
    using ndigits_lower [of "nat n"] assms by (simp only: of_nat_le_iff zero_less_nat_eq)
  then show "(10 :: rat) ^ (ndigits (nat n) - 1) \<le> of_int n" using assms by simp
  have "of_nat (nat n) < (of_nat (10 ^ ndigits (nat n)) :: rat)"
    using ndigits_upper [of "nat n"] by (simp only: of_nat_less_iff)
  then show "of_int n < (10 :: rat) ^ ndigits (nat n)" using assms by simp
qed

lemma adjusted_bounds:
  assumes "x \<noteq> 0"
  shows "10 powi adjusted x \<le> \<bar>x\<bar>" "\<bar>x\<bar> < 10 powi (adjusted x + 1)"
proof -
  obtain n d where nd: "quotient_of \<bar>x\<bar> = (n, d)" by fastforce
  then have d: "0 < d" and x: "\<bar>x\<bar> = of_int n / of_int d"
    using quotient_of_denom_pos quotient_of_div by blast+
  with assms have "0 < (of_int n / of_int d :: rat)" by simp
  with d have n: "0 < n" by (simp add: zero_less_divide_iff)
  define a b where "a = ndigits (nat n)" and "b = ndigits (nat d)"
  have pos: "0 < a" "0 < b" by (simp_all add: a_def b_def ndigits_pos)
  note nb = ndigits_of_int [OF n, folded a_def] and db = ndigits_of_int [OF d, folded b_def]
  have pw: "(10 :: rat) powi (int i - int j) = 10 ^ i / 10 ^ j" for i j
    by (simp add: power_int_diff)
  have "\<bar>x\<bar> < 10 ^ a / 10 ^ (b - 1)"
    unfolding x using nb(2) db(1) n by (intro frac_less) simp_all
  also have "\<dots> = 10 powi (int a - int b + 1)"
    using pw [of a "b - 1"] pos by (simp add: algebra_simps)
  finally have up: "\<bar>x\<bar> < 10 powi (int a - int b + 1)" .
  have "10 powi (int a - int b - 1) = (10 :: rat) ^ (a - 1) / 10 ^ b"
    using pw [of "a - 1" b] pos by (simp add: algebra_simps)
  also have "\<dots> \<le> \<bar>x\<bar>"
    unfolding x using nb(1) db(2) d n by (intro frac_le) simp_all
  finally have lo: "10 powi (int a - int b - 1) \<le> \<bar>x\<bar>" .
  have adj: "adjusted x = (if 10 powi (int a - int b) \<le> \<bar>x\<bar> then int a - int b else int a - int b - 1)"
    unfolding adjusted_def nd a_def b_def by simp
  show "10 powi adjusted x \<le> \<bar>x\<bar>" "\<bar>x\<bar> < 10 powi (adjusted x + 1)"
    using up lo by (simp_all add: adj)
qed

lemma powi10_mono: "i \<le> j \<Longrightarrow> (10 :: rat) powi i \<le> 10 powi j"
  by (rule power_int_increasing) simp_all

lemma powi10_less_imp: "(10 :: rat) powi i < 10 powi j \<Longrightarrow> i < j"
  by (meson linorder_not_le powi10_mono)

lemma powi10_ex_int: "0 \<le> i \<Longrightarrow> (10 :: rat) powi i = of_int (10 ^ nat i)"
  by (simp add: power_int_def)

lemma adjusted_mono: "x \<noteq> 0 \<Longrightarrow> \<bar>x\<bar> \<le> \<bar>y\<bar> \<Longrightarrow> adjusted x \<le> adjusted y"
  using adjusted_bounds(1) [of x] adjusted_bounds(2) [of y] powi10_less_imp [of "adjusted x" "adjusted y + 1"]
  by fastforce

lemma adjusted_minus [simp]: "adjusted (- x) = adjusted x"
  by (simp add: adjusted_def)

lemma dround_0 [simp, dec_simps]: "dround 0 = 0"
  by (simp add: dround_def)

lemma dround_minus: "dround (- x) = - dround x"
  by (simp add: dround_def Let_def half_even_minus)

text \<open>A number with at most 28 significant digits is its own rounding.\<close>

lemma dround_exact:
  assumes "x = of_int c * 10 powi k" and "\<bar>c\<bar> < 10 ^ 28"
  shows "dround x = x"
proof (cases "c = 0")
  case False
  then have x0: "x \<noteq> 0" using assms by simp
  define q where "q = (10 :: rat) powi (adjusted x - 27)"
  have "\<bar>x\<bar> < 10 powi (28 + k)"
  proof -
    have "of_int \<bar>c\<bar> < (of_int (10 ^ 28) :: rat)" using assms(2) by (simp only: of_int_less_iff)
    then have "\<bar>of_int c\<bar> * 10 powi k < (10 :: rat) ^ 28 * 10 powi k"
      by (intro mult_strict_right_mono) simp_all
    then show ?thesis using assms(1) by (simp add: abs_mult power_int_add)
  qed
  then have "10 powi adjusted x < (10 :: rat) powi (28 + k)"
    using adjusted_bounds(1) [OF x0] by linarith
  then have k: "0 \<le> k - (adjusted x - 27)" by (auto dest: powi10_less_imp)
  have "x / q = of_int c * 10 powi (k - (adjusted x - 27))"
    by (simp add: assms(1) q_def power_int_diff)
  also have "\<dots> = of_int (c * 10 ^ nat (k - (adjusted x - 27)))"
    using k by (simp add: powi10_ex_int)
  finally have e: "x / q = of_int (c * 10 ^ nat (k - (adjusted x - 27)))" .
  have "half_even (x / q) = c * 10 ^ nat (k - (adjusted x - 27))"
    unfolding e by (rule half_even_of_int)
  then have "of_int (half_even (x / q)) * q = x / q * q" by (simp only: e)
  then show ?thesis using x0 by (simp add: dround_def q_def)
qed (use assms in simp)

text \<open>The quantum of a rounding, and the rounded coefficient.\<close>

lemma dround_coefficient:
  assumes "x \<noteq> 0"
  defines "q \<equiv> 10 powi (adjusted x - 27)"
  shows "dround x = of_int (half_even (x / q)) * q" "\<bar>half_even (x / q)\<bar> \<le> 10 ^ 28"
    "\<bar>dround x - x\<bar> \<le> q / 2"
proof -
  show eq: "dround x = of_int (half_even (x / q)) * q"
    using assms by (simp add: dround_def Let_def)
  have q0: "0 < q" by (simp add: q_def)
  have "\<bar>x\<bar> < 10 powi (28 + (adjusted x - 27))"
    using adjusted_bounds(2) [OF assms(1)] by (simp add: algebra_simps)
  also have "\<dots> = 10 powi 28 * q" unfolding q_def by (subst power_int_add) simp_all
  finally have "\<bar>x\<bar> < of_int (10 ^ 28) * q" by simp
  then have "x \<le> of_int (10 ^ 28) * q" "of_int (- (10 ^ 28)) * q \<le> x" by (simp_all add: abs_less_iff)
  then have "x / q \<le> of_int (10 ^ 28)" "of_int (- (10 ^ 28)) \<le> x / q"
    using q0 by (simp_all only: pos_divide_le_eq pos_le_divide_eq)
  then show "\<bar>half_even (x / q)\<bar> \<le> 10 ^ 28"
    using he.rnd_le [of "x / q" "10 ^ 28"] he.rnd_ge [of "- (10 ^ 28)" "x / q"]
    by (simp only: abs_le_iff minus_le_iff)
  have "\<bar>of_int (half_even (x / q)) - x / q\<bar> \<le> 1 / 2" by (rule half_even_error)
  then have "\<bar>of_int (half_even (x / q)) - x / q\<bar> * q \<le> 1 / 2 * q"
    using q0 by (intro mult_right_mono) simp_all
  moreover have "\<bar>of_int (half_even (x / q)) - x / q\<bar> * q = \<bar>dround x - x\<bar>"
  proof -
    have "\<bar>of_int (half_even (x / q)) - x / q\<bar> * q = \<bar>(of_int (half_even (x / q)) - x / q) * q\<bar>"
      using q0 by (simp add: abs_mult)
    also have "(of_int (half_even (x / q)) - x / q) * q = dround x - x"
      using q0 unfolding eq by (simp add: left_diff_distrib)
    finally show ?thesis .
  qed
  ultimately show "\<bar>dround x - x\<bar> \<le> q / 2" by simp
qed

lemma dround_idem [simp, dec_simps]: "dround (dround x) = dround x"
proof (cases "x = 0")
  case False
  define q where "q = (10 :: rat) powi (adjusted x - 27)"
  define m where "m = half_even (x / q)"
  note d = dround_coefficient [OF False, folded q_def, folded m_def]
  show ?thesis
  proof (cases "\<bar>m\<bar> = 10 ^ 28")
    case True
    then have "m = sgn m * 10 ^ 27 * 10" by (simp add: sgn_if abs_if split: if_splits)
    then have "of_int m = (of_int (sgn m * 10 ^ 27) * 10 :: rat)" by (metis of_int_mult of_int_numeral)
    then have "dround x = of_int (sgn m * 10 ^ 27) * (10 * 10 powi (adjusted x - 27))"
      unfolding d(1) q_def by simp
    also have "10 * 10 powi (adjusted x - 27) = (10 :: rat) powi (adjusted x - 26)"
      by (simp add: power_int_diff)
    finally have "dround x = of_int (sgn m * 10 ^ 27) * 10 powi (adjusted x - 26)" .
    moreover have "\<bar>sgn m * 10 ^ 27 :: int\<bar> < 10 ^ 28" by (simp add: abs_mult sgn_if)
    ultimately show ?thesis by (rule dround_exact)
  next
    case False
    with d(2) have "\<bar>m\<bar> < 10 ^ 28" by simp
    with d(1) show ?thesis unfolding q_def by (rule dround_exact)
  qed
qed simp

lemma dround_powi [simp]: "dround (10 powi k) = 10 powi k"
  by (rule dround_exact [where c = 1]) simp_all

lemma dround_error: "\<bar>dround x - x\<bar> \<le> \<bar>x\<bar> / 10 ^ 27"
proof (cases "x = 0")
  case False
  have "10 powi (adjusted x - 27) / 2 \<le> \<bar>x\<bar> / (10 :: rat) ^ 27"
    using adjusted_bounds(1) [OF False] by (simp add: power_int_diff)
  with dround_coefficient(3) [OF False] show ?thesis by linarith
qed simp

lemma dround_mono_pos:
  assumes "0 < x" and "x \<le> y"
  shows "dround x \<le> dround y"
proof (cases "adjusted x = adjusted y")
  case True
  have "x / 10 powi (adjusted y - 27) \<le> y / 10 powi (adjusted y - 27)"
    using assms by (simp add: divide_right_mono)
  then have "half_even (x / 10 powi (adjusted y - 27)) \<le> half_even (y / 10 powi (adjusted y - 27))"
    by (rule half_even_mono)
  with assms True show ?thesis
    by (simp add: dround_def Let_def)
next
  case False
  define i where "i = adjusted x - 27"
  define j where "j = adjusted y - 27"
  from False adjusted_mono [of x y] assms have lt: "i + 28 \<le> j + 27" by (simp add: i_def j_def)
  have "half_even (x / 10 powi i) \<le> 10 ^ 28"
    using dround_coefficient(2) [of x] assms by (simp add: i_def abs_le_iff)
  then have "of_int (half_even (x / 10 powi i)) \<le> (of_int (10 ^ 28) :: rat)"
    by (simp only: of_int_le_iff)
  then have "of_int (half_even (x / 10 powi i)) * 10 powi i \<le> of_int (10 ^ 28) * (10 :: rat) powi i"
    by (rule mult_right_mono) simp
  then have "dround x \<le> of_int (10 ^ 28) * 10 powi i"
    using dround_coefficient(1) [of x] assms by (simp add: i_def)
  also have "\<dots> = 10 powi (i + 28)" by (simp add: power_int_add)
  also have "\<dots> \<le> 10 powi (j + 27)" using lt by (rule powi10_mono)
  also have "\<dots> = of_int (10 ^ 27) * 10 powi j" by (simp add: power_int_add)
  also have "\<dots> \<le> of_int (half_even (y / 10 powi j)) * 10 powi j"
  proof (intro mult_right_mono, subst of_int_le_iff, rule he.rnd_ge)
    have "10 powi (j + 27) \<le> y" using adjusted_bounds(1) [of y] assms by (simp add: j_def)
    then have "of_int (10 ^ 27) * 10 powi j \<le> y" by (simp add: power_int_add)
    then show "of_int (10 ^ 27) \<le> y / 10 powi j" by (simp add: pos_le_divide_eq)
  qed simp
  also have "\<dots> = dround y" using dround_coefficient(1) [of y] assms by (simp add: j_def)
  finally show ?thesis .
qed

lemma dround_nonneg: "0 \<le> x \<Longrightarrow> 0 \<le> dround x"
proof (cases "x = 0")
  case False
  assume "0 \<le> x"
  with False show ?thesis
    by (simp add: dround_def Let_def he.rnd_ge [of 0, simplified])
qed simp

lemma dround_mono: "x \<le> y \<Longrightarrow> dround x \<le> dround y"
proof -
  assume xy: "x \<le> y"
  consider "0 < x" | "x \<le> 0" "0 \<le> y" | "y < 0" by linarith
  then show ?thesis
  proof cases
    case 2
    then show ?thesis
      using dround_nonneg [of y] dround_nonneg [of "- x"] by (simp add: dround_minus)
  next
    case 3
    then show ?thesis using dround_mono_pos [of "- y" "- x"] xy by (simp add: dround_minus)
  next
    case 1
    then show ?thesis using xy by (rule dround_mono_pos)
  qed
qed

interpretation dr: value_rounding dround
  by unfold_locales (simp_all add: dround_mono)

section \<open>The operators\<close>

definition dadd :: "decimal \<Rightarrow> decimal \<Rightarrow> decimal" where
  "dadd a b = dround (a + b)"

definition dsub :: "decimal \<Rightarrow> decimal \<Rightarrow> decimal" where
  "dsub a b = dround (a - b)"

definition dmul :: "decimal \<Rightarrow> decimal \<Rightarrow> decimal" where
  "dmul a b = dround (a * b)"

definition dneg :: "decimal \<Rightarrow> decimal" where
  "dneg a = dround (- a)"

definition dabs :: "decimal \<Rightarrow> decimal" where
  "dabs a = dround \<bar>a\<bar>"

definition ddiv :: "decimal \<Rightarrow> decimal \<Rightarrow> decimal res" where
  "ddiv a b = (if b = 0 then Inl (if a = 0 then InvalidOperation else DivisionByZero)
     else Inr (dround (a / b)))"

text \<open>A quotient whose divisor the code has tested, used under such a guard only.\<close>

definition dquot :: "decimal \<Rightarrow> decimal \<Rightarrow> decimal" where
  "dquot a b = dround (a / b)"

text \<open>\<open>sum(xs, ZERO)\<close>: additions from the left, each rounded.\<close>

definition dsum :: "decimal list \<Rightarrow> decimal" where
  "dsum xs = foldl dadd 0 xs"

text \<open>\<open>x.quantize(q, rounding)\<close>.\<close>

definition dquantize :: "(rat \<Rightarrow> int) \<Rightarrow> decimal \<Rightarrow> decimal \<Rightarrow> decimal res" where
  "dquantize rm q x = (let m = rm (x / q) in
     if \<bar>m\<bar> < 10 ^ 28 then Inr (of_int m * q) else Inl InvalidOperation)"

text \<open>A value the context rounding leaves alone.\<close>

definition representable :: "decimal \<Rightarrow> bool" where
  "representable x = (dround x = x)"

lemma representable_dround [simp]: "representable (dround x)"
  by (simp add: representable_def)

lemma representable_ops [simp]:
  "representable (dadd a b)" "representable (dsub a b)" "representable (dmul a b)"
  by (simp_all add: dadd_def dsub_def dmul_def)

lemma representable_0 [simp]: "representable 0"
  by (simp add: representable_def)

lemma dround_ge: "representable l \<Longrightarrow> l \<le> x \<Longrightarrow> l \<le> dround x"
  by (simp add: representable_def dr.vr_ge)

lemma dround_le: "representable u \<Longrightarrow> x \<le> u \<Longrightarrow> dround x \<le> u"
  by (simp add: representable_def dr.vr_le)

lemma dadd_nonneg: "0 \<le> a \<Longrightarrow> 0 \<le> b \<Longrightarrow> 0 \<le> dadd a b"
  by (simp add: dadd_def dround_nonneg)

lemma dmul_nonneg: "0 \<le> a \<Longrightarrow> 0 \<le> b \<Longrightarrow> 0 \<le> dmul a b"
  by (simp add: dmul_def dround_nonneg)

lemma dquot_nonneg: "0 \<le> a \<Longrightarrow> 0 \<le> b \<Longrightarrow> 0 \<le> dquot a b"
  by (simp add: dquot_def dround_nonneg)

lemma dquot_le_1: "a \<le> b \<Longrightarrow> 0 < b \<Longrightarrow> dquot a b \<le> 1"
  unfolding dquot_def using dround_powi [of 0] by (intro dr.vr_le) simp_all

lemma dsub_nonneg: "b \<le> a \<Longrightarrow> 0 \<le> dsub a b"
  by (simp add: dsub_def dround_nonneg)

lemma dround_pos: "0 < x \<Longrightarrow> 0 < dround x"
proof -
  assume x: "0 < x"
  have "10 powi adjusted x \<le> dround x"
    using adjusted_bounds(1) [of x] x by (intro dr.vr_ge) simp_all
  moreover have "0 < (10 :: rat) powi adjusted x" by simp
  ultimately show ?thesis by linarith
qed

lemma dmul_pos: "0 < a \<Longrightarrow> 0 < b \<Longrightarrow> 0 < dmul a b"
  by (simp add: dmul_def dround_pos)

lemma dround_sign: "dround x < 0 \<longleftrightarrow> x < 0" "0 < dround x \<longleftrightarrow> 0 < x" "dround x = 0 \<longleftrightarrow> x = 0"
  using dround_pos [of x] dround_pos [of "- x"] dround_minus [of x]
  by (metis dround_0 neg_0_less_iff_less not_less_iff_gr_or_eq)+

lemma dmul_mono: "a \<le> a' \<Longrightarrow> b \<le> b' \<Longrightarrow> 0 \<le> a \<Longrightarrow> 0 \<le> b \<Longrightarrow> dmul a b \<le> dmul a' b'"
  by (simp add: dmul_def dround_mono mult_mono)

text \<open>Values on a decimal grid: with at most \<open>k\<close> fractional digits and 28 digits in all, exact.\<close>

definition on_grid :: "nat \<Rightarrow> decimal \<Rightarrow> bool" where
  "on_grid k x = (of_int \<lfloor>x * 10 ^ k\<rfloor> = x * 10 ^ k)"

lemma dround_grid: "on_grid k x \<Longrightarrow> \<bar>x\<bar> * 10 ^ k < 10 ^ 28 \<Longrightarrow> dround x = x"
proof -
  assume g: "on_grid k x" and b: "\<bar>x\<bar> * 10 ^ k < 10 ^ 28"
  have pw: "(10 :: rat) powi (- int k) = 1 / 10 ^ k" by (simp add: power_int_minus field_simps)
  have "x = of_int \<lfloor>x * 10 ^ k\<rfloor> * 10 powi (- int k)"
    using g [unfolded on_grid_def] unfolding pw by (simp only:) simp
  moreover have "\<bar>\<lfloor>x * 10 ^ k\<rfloor>\<bar> < 10 ^ 28"
  proof -
    have "of_int \<bar>\<lfloor>x * 10 ^ k\<rfloor>\<bar> = \<bar>x\<bar> * 10 ^ k"
      using g [unfolded on_grid_def] by (simp only: of_int_abs) (simp add: abs_mult)
    with b have "of_int \<bar>\<lfloor>x * 10 ^ k\<rfloor>\<bar> < (of_int (10 ^ 28) :: rat)" by simp
    then show ?thesis by (simp only: of_int_less_iff)
  qed
  ultimately show ?thesis by (rule dround_exact)
qed

lemma dround_eval [dec_simps]:
  "of_int \<lfloor>x * 10 ^ 12\<rfloor> = x * 10 ^ 12 \<Longrightarrow> \<bar>x\<bar> < 10 ^ 16 \<Longrightarrow> dround x = x"
  by (rule dround_grid [of 12]) (simp_all add: on_grid_def)

lemma on_grid_iff: "on_grid k x \<longleftrightarrow> (\<exists>c. x = of_int c / 10 ^ k)"
proof
  assume "on_grid k x"
  then have "x = of_int \<lfloor>x * 10 ^ k\<rfloor> / 10 ^ k" unfolding on_grid_def by (simp only:) simp
  then show "\<exists>c. x = of_int c / 10 ^ k" ..
qed (auto simp: on_grid_def)

lemma on_grid_add: "on_grid k x \<Longrightarrow> on_grid k y \<Longrightarrow> on_grid k (x + y)"
  unfolding on_grid_iff by (metis add_divide_distrib of_int_add)

lemma on_grid_0 [simp]: "on_grid k 0"
  by (simp add: on_grid_def)

lemma on_grid_of_nat [simp]: "on_grid k (of_nat n)"
  unfolding on_grid_iff by (rule exI [of _ "int n * 10 ^ k"]) simp

lemma on_grid_sum_list: "(\<And>x. x \<in> set xs \<Longrightarrow> on_grid k x) \<Longrightarrow> on_grid k (sum_list xs)"
  by (induction xs) (auto intro: on_grid_add)

text \<open>A sum of nonnegative grid values is exact as long as the exact total has 28 digits.\<close>

lemma dsum_exact_aux:
  assumes "\<And>x. x \<in> set xs \<Longrightarrow> on_grid k x \<and> 0 \<le> x" and "on_grid k a" and "0 \<le> a"
    and "(a + sum_list xs) * 10 ^ k < 10 ^ 28"
  shows "foldl dadd a xs = a + sum_list xs"
  using assms
proof (induction xs arbitrary: a)
  case (Cons x xs)
  have s: "0 \<le> sum_list xs" using Cons.prems(1) by (intro sum_list_nonneg) auto
  then have "(a + x) * 10 ^ k \<le> (a + sum_list (x # xs)) * 10 ^ k"
    by (intro mult_right_mono) simp_all
  then have b: "(a + x) * 10 ^ k < 10 ^ 28" using Cons.prems(4) by linarith
  have g: "on_grid k (a + x)" using Cons.prems by (intro on_grid_add) simp_all
  have "dadd a x = a + x"
    unfolding dadd_def using g b Cons.prems by (intro dround_grid) simp_all
  then show ?case
    using Cons.IH [of "a + x"] Cons.prems g by (simp add: add.assoc)
qed simp

lemma dsum_exact:
  assumes "\<And>x. x \<in> set xs \<Longrightarrow> on_grid k x \<and> 0 \<le> x" and "sum_list xs * 10 ^ k < 10 ^ 28"
  shows "dsum xs = sum_list xs"
  using dsum_exact_aux [of xs k 0] assms by (simp add: dsum_def)

lemma foldl_dadd_nonneg: "0 \<le> a \<Longrightarrow> (\<And>x. x \<in> set xs \<Longrightarrow> 0 \<le> x) \<Longrightarrow> 0 \<le> foldl dadd a xs"
  by (induction xs arbitrary: a) (simp_all add: dadd_nonneg)

lemma dsum_nonneg: "(\<And>x. x \<in> set xs \<Longrightarrow> 0 \<le> x) \<Longrightarrow> 0 \<le> dsum xs"
  by (simp add: dsum_def foldl_dadd_nonneg)

lemma dsum_Nil [simp, dec_simps]: "dsum [] = 0"
  by (simp add: dsum_def)

section \<open>Quantizing\<close>

lemma dquantize_Inr_iff:
  "dquantize rm q x = Inr y \<longleftrightarrow> \<bar>rm (x / q)\<bar> < 10 ^ 28 \<and> y = of_int (rm (x / q)) * q"
  by (auto simp: dquantize_def Let_def)

lemma quantum_rounding_half_even: "0 < q \<Longrightarrow> quantum_rounding half_even q"
  by unfold_locales simp_all

lemma quantum_rounding_half_up: "0 < q \<Longrightarrow> quantum_rounding half_up q"
  by unfold_locales simp_all

interpretation cents: quantum_rounding half_up "1 / 100"
  by (rule quantum_rounding_half_up) simp

section \<open>Evaluation\<close>

text \<open>
  Code equations for the kernel's evaluator: the digit count on binary integers, and the rounding
  of a short decimal without counting digits at all.
\<close>

function int_digits :: "int \<Rightarrow> int" where
  "int_digits n = (if n < 10 then 1 else 1 + int_digits (n div 10))"
  by auto
termination by (relation "measure nat") auto

declare int_digits.simps [simp del]

lemma int_digits_ndigits: "0 \<le> n \<Longrightarrow> int (ndigits (nat n)) = int_digits n"
proof (induction n rule: int_digits.induct)
  case (1 n)
  show ?case
  proof (cases "n < 10")
    case False
    then have "\<not> nat n < 10" by (simp add: nat_less_iff)
    moreover from False 1 have "int (ndigits (nat (n div 10))) = int_digits (n div 10)" by simp
    moreover have "nat n div 10 = nat (n div 10)" using 1 by (simp add: nat_div_distrib)
    ultimately show ?thesis
      using False by (simp add: ndigits.simps [of "nat n"] int_digits.simps [of n])
  next
    case True
    then have "nat n < 10" by simp
    with True show ?thesis by (simp add: ndigits.simps [of "nat n"] int_digits.simps [of n])
  qed
qed

lemma adjusted_code [code]: "adjusted x = (let (n, d) = quotient_of \<bar>x\<bar>;
    k = int_digits n - int_digits d in if 10 powi k \<le> \<bar>x\<bar> then k else k - 1)"
proof -
  obtain n d where q: "quotient_of \<bar>x\<bar> = (n, d)" by fastforce
  have "0 < d" using quotient_of_denom_pos [OF q] .
  moreover have "0 \<le> n" using quotient_of_div [OF q] \<open>0 < d\<close> by (metis abs_ge_zero
      leD linorder_not_le of_int_0_less_iff divide_less_0_iff of_int_less_0_iff)
  ultimately show ?thesis by (simp add: adjusted_def q int_digits_ndigits)
qed

definition dround_long :: "rat \<Rightarrow> decimal" where
  "dround_long x = dround x"

lemma dround_long_code [code]: "dround_long x = (if x = 0 then 0 else
    let q = 10 powi (adjusted x - 27) in of_int (half_even (x / q)) * q)"
  by (simp add: dround_long_def dround_def)

lemma dround_code [code]: "dround x = (let (n, d) = quotient_of x in
    if 10 ^ 12 mod d = 0 \<and> \<bar>n\<bar> < 10 ^ 16 * d then x else dround_long x)"
proof -
  obtain n d where q: "quotient_of x = (n, d)" by fastforce
  have d: "0 < d" using quotient_of_denom_pos [OF q] .
  have x: "x = of_int n / of_int d" using quotient_of_div [OF q] .
  have "dround x = x" if m: "10 ^ 12 mod d = 0" and b: "\<bar>n\<bar> < 10 ^ 16 * d"
  proof (rule dround_eval)
    obtain k where k: "10 ^ 12 = d * k" using m by (auto simp: dvd_def mod_eq_0_iff_dvd)
    have "x * 10 ^ 12 = x * of_int (10 ^ 12)" by simp
    also have "\<dots> = of_int (n * k)" using d by (simp only: k x) simp
    finally have "x * 10 ^ 12 = of_int (n * k)" .
    then show "of_int \<lfloor>x * 10 ^ 12\<rfloor> = x * 10 ^ 12" by (simp only: floor_of_int)
    have "\<bar>of_int n\<bar> < (of_int (10 ^ 16 * d) :: rat)"
      using b by (simp only: of_int_abs [symmetric] of_int_less_iff)
    then show "\<bar>x\<bar> < 10 ^ 16" using d by (simp add: x pos_divide_less_eq)
  qed
  then show ?thesis by (simp add: q dround_long_def)
qed

lemmas dec_defs = dadd_def dsub_def dmul_def ddiv_def dquot_def dneg_def dabs_def dsum_def

end
