(* ===== verification/Decimal_Text.thy ===== *)
theory Decimal_Text
  imports Decimal
begin

text \<open>
  The standard library's constructors from text that the code calls on external values:
  \<open>Decimal(str)\<close> with its special values and \<open>int(str)\<close>; and \<open>str(int)\<close>.
\<close>

datatype pydec = Fin decimal | Infinite | NotANumber

section \<open>\<open>Decimal(str)\<close>\<close>

definition is_digit :: "char \<Rightarrow> bool" where
  "is_digit c = (48 \<le> (of_char c :: nat) \<and> (of_char c :: nat) \<le> 57)"

definition lower :: "char \<Rightarrow> char" where
  "lower c = (if 65 \<le> (of_char c :: nat) \<and> (of_char c :: nat) \<le> 90
     then char_of ((of_char c :: nat) + 32) else c)"

definition digits_value :: "string \<Rightarrow> int" where
  "digits_value s = foldl (\<lambda>n c. 10 * n + (int (of_char c) - 48)) 0 s"

definition drop_sign :: "string \<Rightarrow> bool \<times> string" where
  "drop_sign s = (case s of c # cs \<Rightarrow> if c = CHR ''-'' then (True, cs)
     else if c = CHR ''+'' then (False, cs) else (False, s) | [] \<Rightarrow> (False, s))"

text \<open>The exponent part: empty, or \<open>E\<close>, an optional sign and at least one digit.\<close>

definition parse_exponent :: "string \<Rightarrow> int option" where
  "parse_exponent s = (case s of [] \<Rightarrow> Some 0
     | c # cs \<Rightarrow> if lower c \<noteq> CHR ''e'' then None
         else (let (neg, ds) = drop_sign cs in
           if ds = [] \<or> \<not> list_all is_digit ds then None
           else Some (if neg then - digits_value ds else digits_value ds)))"

definition parse_number :: "string \<Rightarrow> decimal option" where
  "parse_number s = (let i = takeWhile is_digit s; r = dropWhile is_digit s;
       f = (case r of c # cs \<Rightarrow> if c = CHR ''.'' then takeWhile is_digit cs else [] | [] \<Rightarrow> []);
       r' = (case r of c # cs \<Rightarrow> if c = CHR ''.'' then dropWhile is_digit cs else r | [] \<Rightarrow> [])
     in if i @ f = [] then None
        else map_option (\<lambda>e. of_int (digits_value (i @ f)) * 10 powi (e - int (length f)))
          (parse_exponent r'))"

definition parse_special :: "string \<Rightarrow> pydec option" where
  "parse_special s = (let l = map lower s;
       nan = (case l of c # cs \<Rightarrow> if c = CHR ''s'' then cs else l | [] \<Rightarrow> l)
     in if l = ''inf'' \<or> l = ''infinity'' then Some Infinite
        else if take 3 nan = ''nan'' \<and> list_all is_digit (drop 3 nan) then Some NotANumber
        else None)"

text \<open>\<open>None\<close> is the raised \<open>decimal.InvalidOperation\<close>.\<close>

definition decimal_of_string :: "string \<Rightarrow> pydec option" where
  "decimal_of_string s = (let (neg, body) = drop_sign (filter (\<lambda>c. c \<noteq> CHR ''_'') (strip s))
     in case parse_number body of
          Some d \<Rightarrow> Some (Fin (if neg then - d else d))
        | None \<Rightarrow> parse_special body)"

section \<open>\<open>int(str)\<close>\<close>

text \<open>
  An optional sign, then digits with single underscores between them; more than 4300 digits raise,
  as anything else does (\<open>None\<close>).
\<close>

fun digit_groups :: "string \<Rightarrow> string option" where
  "digit_groups [] = None"
| "digit_groups [c] = (if is_digit c then Some [c] else None)"
| "digit_groups (c # d # s) = (if is_digit c
     then map_option (\<lambda>r. c # r) (digit_groups (if d = CHR ''_'' then s else d # s)) else None)"

definition int_of_string :: "string \<Rightarrow> int option" where
  "int_of_string s = (let (neg, body) = drop_sign (strip s)
     in case digit_groups body of None \<Rightarrow> None
        | Some ds \<Rightarrow> if length ds \<le> 4300 then Some (if neg then - digits_value ds else digits_value ds) else None)"

lemma decimal_text_examples:
  "int_of_string '' 1_200 '' = Some 1200" "int_of_string ''-7'' = Some (- 7)" "int_of_string ''1__2'' = None"
  "int_of_string ''1_'' = None" "int_of_string ''1.0'' = None" "decimal_of_string ''1.50e1'' = Some (Fin 15)"
  by code_simp+

section \<open>\<open>str(int)\<close>\<close>

function digits_text :: "nat \<Rightarrow> string" where
  "digits_text n = (if n < 10 then [char_of (48 + n)] else digits_text (n div 10) @ [char_of (48 + n mod 10)])"
  by auto
termination by (relation "measure id") auto

declare digits_text.simps [simp del]

definition int_text :: "int \<Rightarrow> string" where
  "int_text i = (if i < 0 then ''-'' @ digits_text (nat (- i)) else digits_text (nat i))"

end
