(* ===== verification/Backtest_Domain.thy ===== *)
theory Backtest_Domain
  imports Decimal_Text
begin

text \<open>
  The backtest value types and the run lifecycle of
  \<open>backend/src/screener/modules/backtest/domain.py\<close>: the four statuses, the exit reasons, the
  trade and snapshot records, and the run with its guarded transitions.
\<close>

section \<open>Enumerations and records\<close>

datatype BacktestStatus = PENDING | RUNNING | COMPLETED | FAILED

datatype BacktestExecutionMode = INDEPENDENT | PORTFOLIO

datatype BacktestExitReason = STOP_LOSS | TAKE_PROFIT | MAX_HOLDING_DAYS | END_OF_PERIOD
  | NO_ENTRY_BAR | INSUFFICIENT_POSITION_SIZE

fun status_value :: "BacktestStatus \<Rightarrow> string" where
  "status_value PENDING = ''pending''"
| "status_value RUNNING = ''running''"
| "status_value COMPLETED = ''completed''"
| "status_value FAILED = ''failed''"

text \<open>Parameter values: what JSON gives, and the decimals the code puts in. A float is its \<open>str()\<close>.\<close>

datatype pyval = VNone | VBool bool | VInt int | VFloat string | VStr string | VDec pydec | VOther

text \<open>Values of a result dictionary; \<open>MDec d\<close> stands for the decimal string \<open>str(d)\<close>.\<close>

datatype mval = MNone | MInt int | MDec decimal | MCounts "(string, nat) dict"

type_synonym metrics = "(string, mval) dict"

record BacktestTrade =
  t_id :: uuid
  t_run_id :: uuid
  t_symbol :: string
  t_signal_date :: date
  t_entry_date :: date
  t_entry_price :: decimal
  t_quantity :: int
  t_exit_date :: date
  t_exit_price :: decimal
  t_exit_reason :: BacktestExitReason
  t_gross_pnl :: decimal
  t_commission :: decimal
  t_tax :: decimal
  t_slippage_cost :: decimal
  t_net_pnl :: decimal
  t_holding_days :: int
  t_created_at :: datetime

record PortfolioSnapshot =
  sn_id :: uuid
  sn_run_id :: uuid
  sn_trading_date :: date
  sn_cash :: decimal
  sn_market_value :: decimal
  sn_realized_pnl :: decimal
  sn_unrealized_pnl :: decimal
  sn_total_equity :: decimal
  sn_cumulative_return :: decimal
  sn_running_peak_equity :: decimal
  sn_drawdown :: decimal
  sn_drawdown_pct :: decimal
  sn_open_position_count :: nat
  sn_created_at :: datetime

record BacktestRun =
  r_id :: uuid
  r_strategy_name :: string
  r_start_date :: date
  r_end_date :: date
  r_status :: BacktestStatus
  r_created_at :: datetime
  r_strategy_version :: "string option"
  r_parameters :: "(string, pyval) dict"
  r_data_as_of :: "datetime option"
  r_started_at :: "datetime option"
  r_completed_at :: "datetime option"
  r_result :: "metrics option"
  r_failure_code :: "string option"
  r_failure_message :: "string option"

section \<open>Creation and transitions\<close>

text \<open>
  \<open>execution_mode\<close>: rows without a mode are independent; an unknown value raises \<open>ValueError\<close>
  from the enum's constructor.
\<close>

definition execution_mode :: "BacktestRun \<Rightarrow> BacktestExecutionMode res" where
  "execution_mode r = (case map_of (r_parameters r) ''execution_mode'' of
      None \<Rightarrow> Inr INDEPENDENT
    | Some v \<Rightarrow> if v = VStr ''independent'' then Inr INDEPENDENT
        else if v = VStr ''portfolio'' then Inr PORTFOLIO
        else Inl (ValueError ''not a valid BacktestExecutionMode''))"

text \<open>
  \<open>BacktestRun.create\<close>. \<open>data_as_of\<close> comes as an instant paired with whether it is timezone-aware.
\<close>

definition create_run :: "uuid \<Rightarrow> datetime \<Rightarrow> string \<Rightarrow> date \<Rightarrow> date \<Rightarrow> string option
    \<Rightarrow> (string, pyval) dict \<Rightarrow> (datetime \<times> bool) option \<Rightarrow> BacktestRun res" where
  "create_run uid now strategy_name start_date end_date strategy_version parameters data_as_of =
    (let name = strip strategy_name;
         version = (case strategy_version of None \<Rightarrow> None
           | Some v \<Rightarrow> if strip v = [] then None else Some (strip v))
     in if name = [] then Inl (ValueError ''strategy_name must not be blank'')
        else if start_date > end_date
          then Inl (ValueError ''start_date must be on or before end_date'')
        else if (case data_as_of of None \<Rightarrow> False | Some (_, aware) \<Rightarrow> \<not> aware)
          then Inl (ValueError ''data_as_of must be timezone-aware'')
        else Inr \<lparr>r_id = uid, r_strategy_name = name, r_start_date = start_date,
          r_end_date = end_date, r_status = PENDING, r_created_at = now,
          r_strategy_version = version, r_parameters = parameters,
          r_data_as_of = map_option fst data_as_of, r_started_at = None, r_completed_at = None,
          r_result = None, r_failure_code = None, r_failure_message = None\<rparr>)"

definition require :: "BacktestRun \<Rightarrow> BacktestStatus \<Rightarrow> BacktestStatus \<Rightarrow> unit res" where
  "require r current target = assertE (r_status r = current)
     (InvalidBacktestTransition (status_value (r_status r)) (status_value target))"

text \<open>The transitions take the optional \<open>at\<close> (here \<open>at_time\<close>) and the clock's value that replaces it.\<close>

definition start_run :: "datetime \<Rightarrow> datetime option \<Rightarrow> BacktestRun \<Rightarrow> BacktestRun res" where
  "start_run now at_time r = bindE (require r PENDING RUNNING) (\<lambda>_.
     Inr (r\<lparr>r_status := RUNNING,
            r_started_at := Some (case at_time of None \<Rightarrow> now | Some t \<Rightarrow> t)\<rparr>))"

definition complete_run :: "datetime \<Rightarrow> datetime option \<Rightarrow> metrics \<Rightarrow> BacktestRun \<Rightarrow> BacktestRun res" where
  "complete_run now at_time result r = bindE (require r RUNNING COMPLETED) (\<lambda>_.
     Inr (r\<lparr>r_status := COMPLETED, r_result := Some result,
            r_completed_at := Some (case at_time of None \<Rightarrow> now | Some t \<Rightarrow> t)\<rparr>))"

definition fail_run :: "datetime \<Rightarrow> datetime option \<Rightarrow> string \<Rightarrow> string option
    \<Rightarrow> BacktestRun \<Rightarrow> BacktestRun res" where
  "fail_run now at_time msg code r = bindE (require r RUNNING FAILED) (\<lambda>_.
     Inr (r\<lparr>r_status := FAILED, r_failure_code := code, r_failure_message := Some msg,
            r_completed_at := Some (case at_time of None \<Rightarrow> now | Some t \<Rightarrow> t)\<rparr>))"

section \<open>The lifecycle as a step relation\<close>

inductive run_step :: "BacktestRun \<Rightarrow> BacktestRun \<Rightarrow> bool" where
  rs_start: "start_run now at_time r = Inr r' \<Longrightarrow> run_step r r'"
| rs_complete: "complete_run now at_time res r = Inr r' \<Longrightarrow> run_step r r'"
| rs_fail: "fail_run now at_time msg code r = Inr r' \<Longrightarrow> run_step r r'"

inductive run_reachable :: "BacktestRun \<Rightarrow> bool" where
  rr_create: "create_run uid now name s e v ps asof = Inr r \<Longrightarrow> run_reachable r"
| rr_step: "run_reachable r \<Longrightarrow> run_step r r' \<Longrightarrow> run_reachable r'"

text \<open>What the fields of a run say about one another in each status.\<close>

fun run_wf :: "BacktestRun \<Rightarrow> bool" where
  "run_wf r = (r_strategy_name r \<noteq> [] \<and> r_start_date r \<le> r_end_date r
     \<and> r_strategy_version r \<noteq> Some []
     \<and> (case r_status r of
          PENDING \<Rightarrow> r_started_at r = None \<and> r_completed_at r = None \<and> r_result r = None
            \<and> r_failure_message r = None \<and> r_failure_code r = None
        | RUNNING \<Rightarrow> r_started_at r \<noteq> None \<and> r_completed_at r = None \<and> r_result r = None
            \<and> r_failure_message r = None \<and> r_failure_code r = None
        | COMPLETED \<Rightarrow> r_started_at r \<noteq> None \<and> r_completed_at r \<noteq> None \<and> r_result r \<noteq> None
            \<and> r_failure_message r = None \<and> r_failure_code r = None
        | FAILED \<Rightarrow> r_started_at r \<noteq> None \<and> r_completed_at r \<noteq> None \<and> r_result r = None
            \<and> r_failure_message r \<noteq> None))"

lemmas transition_defs = start_run_def complete_run_def fail_run_def require_def

lemma start_run_iff: "start_run now at_time r = Inr r' \<longleftrightarrow> r_status r = PENDING
    \<and> r' = r\<lparr>r_status := RUNNING, r_started_at := Some (case at_time of None \<Rightarrow> now | Some t \<Rightarrow> t)\<rparr>"
  by (auto simp: start_run_def require_def bindE_eq_Inr)

lemma complete_run_iff: "complete_run now at_time res r = Inr r' \<longleftrightarrow> r_status r = RUNNING
    \<and> r' = r\<lparr>r_status := COMPLETED, r_result := Some res,
        r_completed_at := Some (case at_time of None \<Rightarrow> now | Some t \<Rightarrow> t)\<rparr>"
  by (auto simp: complete_run_def require_def bindE_eq_Inr)

lemma fail_run_iff: "fail_run now at_time msg code r = Inr r' \<longleftrightarrow> r_status r = RUNNING
    \<and> r' = r\<lparr>r_status := FAILED, r_failure_code := code, r_failure_message := Some msg,
        r_completed_at := Some (case at_time of None \<Rightarrow> now | Some t \<Rightarrow> t)\<rparr>"
  by (auto simp: fail_run_def require_def bindE_eq_Inr)

inductive_cases run_stepE: "run_step r r'"

lemma create_run_wf: "create_run uid now name s e v ps asof = Inr r \<Longrightarrow> run_wf r"
  by (auto simp: create_run_def Let_def split: if_splits option.splits)

lemma run_step_wf: "run_step r r' \<Longrightarrow> run_wf r \<Longrightarrow> run_wf r'"
  by (erule run_stepE) (auto simp: start_run_iff complete_run_iff fail_run_iff)

lemma run_step_identity:
  "run_step r r' \<Longrightarrow> r_id r' = r_id r \<and> r_strategy_name r' = r_strategy_name r
     \<and> r_parameters r' = r_parameters r \<and> r_start_date r' = r_start_date r
     \<and> r_end_date r' = r_end_date r \<and> r_created_at r' = r_created_at r"
  by (erule run_stepE) (auto simp: start_run_iff complete_run_iff fail_run_iff)

lemma run_step_from_terminal: "r_status r \<in> {COMPLETED, FAILED} \<Longrightarrow> \<not> run_step r r'"
  by (auto elim!: run_stepE simp: start_run_iff complete_run_iff fail_run_iff)

lemma run_step_status:
  "run_step r r' \<Longrightarrow> (r_status r = PENDING \<and> r_status r' = RUNNING)
     \<or> (r_status r = RUNNING \<and> r_status r' \<in> {COMPLETED, FAILED})"
  by (erule run_stepE) (auto simp: start_run_iff complete_run_iff fail_run_iff)

section \<open>Properties\<close>

text \<open>
  In every run the lifecycle can reach, the fields agree with the status: dates in order, the
  name not blank, a start time from RUNNING on, a completion time exactly in the two final
  statuses, a result exactly when COMPLETED, a failure message exactly when FAILED.
\<close>

theorem reachable_run_wf: "run_reachable r \<Longrightarrow> run_wf r"
proof (induction rule: run_reachable.induct)
  case (rr_create uid now name s e v ps asof r)
  then show ?case by (rule create_run_wf)
next
  case (rr_step r r')
  then show ?case by (blast intro: run_step_wf)
qed

lemma reachable_run_wf_witness:
  "\<exists>a b c. create_run 7 1 '' demo '' 100 200 (Some '' '') [] None = Inr a
     \<and> start_run 2 None a = Inr b \<and> fail_run 3 (Some 4) ''boom'' None b = Inr c
     \<and> run_wf c \<and> r_completed_at c = Some 4 \<and> r_strategy_name c = ''demo''"
proof -
  have "run_reachable c" if "create_run 7 1 '' demo '' 100 200 (Some '' '') [] None = Inr a"
    "start_run 2 None a = Inr b" "fail_run 3 (Some 4) ''boom'' None b = Inr c" for a b c
    using that by (blast intro: run_step.intros run_reachable.intros)
  note wf = this [THEN reachable_run_wf]
  obtain a where a: "create_run 7 1 '' demo '' 100 200 (Some '' '') [] None = Inr a"
    and "r_status a = PENDING" "r_strategy_name a = ''demo''"
    by (simp add: create_run_def strip_def is_space_def)
  moreover from this obtain b where b: "start_run 2 None a = Inr b" "r_status b = RUNNING"
    "r_strategy_name b = ''demo''"
    by (simp add: start_run_iff)
  moreover from b obtain c where "fail_run 3 (Some 4) ''boom'' None b = Inr c"
    "r_completed_at c = Some 4" "r_strategy_name c = ''demo''"
    by (simp add: fail_run_iff)
  ultimately show ?thesis using wf by blast
qed

end
