(* ===== verification/Backtest_Params.thy ===== *)
theory Backtest_Params
  imports Backtest_Domain
begin

text \<open>
  Parameter parsing: \<open>BacktestParameters.parse\<close> and \<open>validate_strategy_contract\<close> of
  \<open>modules/backtest/executor.py\<close>, \<open>PortfolioParameters.parse\<close> of \<open>modules/backtest/portfolio.py\<close>,
  over the constructor \<open>Decimal(str)\<close> of the standard library.
\<close>

section \<open>\<open>Decimal(str(v))\<close>\<close>

text \<open>\<open>Decimal(str(v))\<close>; the \<open>str\<close> of a boolean, \<open>None\<close>, list or dict is no number.\<close>

fun decimal_of_value :: "pyval \<Rightarrow> pydec option" where
  "decimal_of_value (VInt i) = Some (Fin (of_int i))"
| "decimal_of_value (VFloat s) = decimal_of_string s"
| "decimal_of_value (VStr s) = decimal_of_string s"
| "decimal_of_value (VDec d) = Some d"
| "decimal_of_value (VBool b) = None"
| "decimal_of_value VNone = None"
| "decimal_of_value VOther = None"

fun is_number_like :: "pyval \<Rightarrow> bool" where
  "is_number_like (VInt i) = True"
| "is_number_like (VFloat s) = True"
| "is_number_like (VStr s) = True"
| "is_number_like (VDec d) = True"
| "is_number_like v = False"

section \<open>The strategy contract\<close>

definition validate_strategy_contract :: "string \<Rightarrow> string option \<Rightarrow> (string \<times> string) res" where
  "validate_strategy_contract strategy_name strategy_version =
    (let name = strip strategy_name; version = map_option strip strategy_version
     in if name \<noteq> ''watchlist_entry'' \<or> (version \<noteq> None \<and> version \<noteq> Some ''1'')
        then Inl (UnsupportedBacktestStrategy
          ''only strategy_name watchlist_entry with strategy_version null or 1 is supported'')
        else Inr (name, ''1''))"

section \<open>Independent-mode parameters\<close>

record BacktestParameters =
  initial_capital :: decimal
  position_size :: decimal
  stop_loss_pct :: decimal
  take_profit_pct :: decimal
  max_holding_days :: int
  commission_rate :: decimal
  sell_tax_rate :: decimal
  slippage_rate :: decimal

definition default_parameters :: BacktestParameters where
  "default_parameters = \<lparr>initial_capital = 5000000, position_size = 500000,
     stop_loss_pct = 5 / 100, take_profit_pct = 10 / 100, max_holding_days = 10,
     commission_rate = 15 / 100000, sell_tax_rate = 15 / 10000, slippage_rate = 1 / 1000\<rparr>"

definition decimal_value :: "(string, pyval) dict \<Rightarrow> string \<Rightarrow> decimal \<Rightarrow> decimal res" where
  "decimal_value supplied name d =
    (let value = (case map_of supplied name of None \<Rightarrow> VDec (Fin d) | Some v \<Rightarrow> v)
     in if \<not> is_number_like value then Inl (InvalidBacktestParameters (name @ '' must be numeric''))
        else case decimal_of_value value of
          None \<Rightarrow> Inl (InvalidBacktestParameters (name @ '' must be numeric''))
        | Some (Fin x) \<Rightarrow> Inr x
        | Some _ \<Rightarrow> Inl (InvalidBacktestParameters (name @ '' must be finite'')))"

definition holding_value :: "(string, pyval) dict \<Rightarrow> int \<Rightarrow> int res" where
  "holding_value supplied d = (case map_of supplied ''max_holding_days'' of None \<Rightarrow> Inr d
     | Some (VInt i) \<Rightarrow> Inr i
     | Some _ \<Rightarrow> Inl (InvalidBacktestParameters ''max_holding_days must be an integer''))"

definition check_rate :: "string \<Rightarrow> decimal \<Rightarrow> unit res" where
  "check_rate name x = assertE (0 \<le> x \<and> x < 1)
     (InvalidBacktestParameters (name @ '' must be at least zero and less than one''))"

definition check_parameters :: "BacktestParameters \<Rightarrow> BacktestParameters res" where
  "check_parameters p =
    bindE (assertE (0 < initial_capital p)
      (InvalidBacktestParameters ''initial_capital must be greater than zero'')) (\<lambda>_.
    bindE (assertE (0 < position_size p \<and> position_size p \<le> initial_capital p)
      (InvalidBacktestParameters ''position_size must be positive and no greater than initial_capital'')) (\<lambda>_.
    bindE (check_rate ''commission_rate'' (commission_rate p)) (\<lambda>_.
    bindE (check_rate ''sell_tax_rate'' (sell_tax_rate p)) (\<lambda>_.
    bindE (check_rate ''slippage_rate'' (slippage_rate p)) (\<lambda>_.
    bindE (assertE (0 < stop_loss_pct p \<and> stop_loss_pct p < 1)
      (InvalidBacktestParameters ''stop_loss_pct must be greater than zero and less than one'')) (\<lambda>_.
    bindE (assertE (0 < take_profit_pct p \<and> take_profit_pct p < 10)
      (InvalidBacktestParameters ''take_profit_pct must be greater than zero and less than ten'')) (\<lambda>_.
    bindE (assertE (1 \<le> max_holding_days p)
      (InvalidBacktestParameters ''max_holding_days must be at least one'')) (\<lambda>_.
    Inr p))))))))"

definition parse_parameters :: "(string, pyval) dict \<Rightarrow> BacktestParameters res" where
  "parse_parameters supplied = (let d = default_parameters in
    bindE (holding_value supplied (max_holding_days d)) (\<lambda>holding.
    bindE (decimal_value supplied ''initial_capital'' (initial_capital d)) (\<lambda>capital.
    bindE (decimal_value supplied ''position_size'' (position_size d)) (\<lambda>size.
    bindE (decimal_value supplied ''stop_loss_pct'' (stop_loss_pct d)) (\<lambda>stop.
    bindE (decimal_value supplied ''take_profit_pct'' (take_profit_pct d)) (\<lambda>take.
    bindE (decimal_value supplied ''commission_rate'' (commission_rate d)) (\<lambda>commission.
    bindE (decimal_value supplied ''sell_tax_rate'' (sell_tax_rate d)) (\<lambda>tax.
    bindE (decimal_value supplied ''slippage_rate'' (slippage_rate d)) (\<lambda>slippage.
    check_parameters \<lparr>initial_capital = capital, position_size = size, stop_loss_pct = stop,
      take_profit_pct = take, max_holding_days = holding, commission_rate = commission,
      sell_tax_rate = tax, slippage_rate = slippage\<rparr>)))))))))"

text \<open>What a parsed parameter set guarantees to the simulation.\<close>

definition valid_parameters :: "BacktestParameters \<Rightarrow> bool" where
  "valid_parameters p \<longleftrightarrow> 0 < initial_capital p \<and> 0 < position_size p
     \<and> position_size p \<le> initial_capital p \<and> 0 \<le> commission_rate p \<and> commission_rate p < 1
     \<and> 0 \<le> sell_tax_rate p \<and> sell_tax_rate p < 1 \<and> 0 \<le> slippage_rate p \<and> slippage_rate p < 1
     \<and> 0 < stop_loss_pct p \<and> stop_loss_pct p < 1 \<and> 0 < take_profit_pct p
     \<and> take_profit_pct p < 10 \<and> 1 \<le> max_holding_days p"

lemma check_parameters_iff: "check_parameters p = Inr p' \<longleftrightarrow> p' = p \<and> valid_parameters p"
  by (auto simp: check_parameters_def check_rate_def valid_parameters_def bindE_eq_Inr)

fun is_invalid_parameters :: "py_exc \<Rightarrow> bool" where
  "is_invalid_parameters (InvalidBacktestParameters m) = True"
| "is_invalid_parameters e = False"

lemma decimal_value_error: "decimal_value s n d = Inl e \<Longrightarrow> is_invalid_parameters e"
  by (auto simp: decimal_value_def Let_def split: if_splits option.splits pydec.splits)

lemma holding_value_error: "holding_value s d = Inl e \<Longrightarrow> is_invalid_parameters e"
  by (auto simp: holding_value_def split: option.splits pyval.splits)

lemma check_parameters_error: "check_parameters p = Inl e \<Longrightarrow> is_invalid_parameters e"
  by (auto simp: check_parameters_def check_rate_def bindE_eq_Inl)

lemmas parse_errors = decimal_value_error holding_value_error check_parameters_error

lemma parse_parameters_valid: "parse_parameters s = Inr p \<Longrightarrow> valid_parameters p"
  by (auto simp: parse_parameters_def Let_def bindE_eq_Inr check_parameters_iff)

lemma parse_parameters_error: "parse_parameters s = Inl e \<Longrightarrow> is_invalid_parameters e"
  unfolding parse_parameters_def Let_def bindE_eq_Inl by (blast dest: parse_errors)

section \<open>Portfolio-mode parameters\<close>

record PortfolioParameters =
  pf_initial_capital :: decimal
  pf_max_open_positions :: int
  pf_position_size_pct :: decimal
  pf_minimum_cash_buffer_pct :: decimal
  pf_position_sizing_mode :: string
  pf_trading :: BacktestParameters

definition portfolio_required :: "string list" where
  "portfolio_required = [''initial_capital'', ''max_open_positions'', ''position_sizing_mode'',
     ''position_size_pct'', ''minimum_cash_buffer_pct'']"

text \<open>The local \<open>dec\<close>: any value but a boolean, no default.\<close>

definition portfolio_decimal :: "(string, pyval) dict \<Rightarrow> string \<Rightarrow> decimal res" where
  "portfolio_decimal values name = (case map_of values name of
      None \<Rightarrow> Inl (KeyError name)
    | Some value \<Rightarrow> (case decimal_of_value value of
        None \<Rightarrow> Inl (InvalidBacktestParameters (name @ '' must be numeric''))
      | Some (Fin x) \<Rightarrow> Inr x
      | Some _ \<Rightarrow> Inl (InvalidBacktestParameters (name @ '' must be finite''))))"

definition positive_int :: "pyval option \<Rightarrow> int res" where
  "positive_int v = (case v of Some (VInt i) \<Rightarrow> if i < 1
        then Inl (InvalidBacktestParameters ''max_open_positions must be a positive integer'')
        else Inr i
    | _ \<Rightarrow> Inl (InvalidBacktestParameters ''max_open_positions must be a positive integer''))"

definition parse_portfolio :: "(string, pyval) dict \<Rightarrow> PortfolioParameters res" where
  "parse_portfolio values =
    bindE (assertE (\<forall>k \<in> set portfolio_required. map_of values k \<noteq> None)
      (InvalidBacktestParameters ''portfolio mode requires missing keys'')) (\<lambda>_.
    bindE (assertE (map_of values ''position_size'' = None)
      (InvalidBacktestParameters ''position_size is incompatible with portfolio mode'')) (\<lambda>_.
    bindE (portfolio_decimal values ''initial_capital'') (\<lambda>capital.
    bindE (portfolio_decimal values ''position_size_pct'') (\<lambda>size.
    bindE (portfolio_decimal values ''minimum_cash_buffer_pct'') (\<lambda>buffer.
    bindE (assertE (0 < capital)
      (InvalidBacktestParameters ''initial_capital must be greater than zero'')) (\<lambda>_.
    bindE (positive_int (map_of values ''max_open_positions'')) (\<lambda>maximum.
    bindE (assertE (0 < size \<and> size \<le> 1)
      (InvalidBacktestParameters ''position_size_pct must be greater than zero and at most one'')) (\<lambda>_.
    bindE (assertE (0 \<le> buffer \<and> buffer < 1)
      (InvalidBacktestParameters ''minimum_cash_buffer_pct must be at least zero and less than one'')) (\<lambda>_.
    bindE (assertE (map_of values ''position_sizing_mode'' = Some (VStr ''fixed_fraction''))
      (InvalidBacktestParameters ''position_sizing_mode must be fixed_fraction'')) (\<lambda>_.
    bindE (parse_parameters (dict_set ''position_size'' (VDec (Fin capital)) values)) (\<lambda>trading.
    Inr \<lparr>pf_initial_capital = capital, pf_max_open_positions = maximum,
      pf_position_size_pct = size, pf_minimum_cash_buffer_pct = buffer,
      pf_position_sizing_mode = ''fixed_fraction'', pf_trading = trading\<rparr>)))))))))))"

definition valid_portfolio :: "PortfolioParameters \<Rightarrow> bool" where
  "valid_portfolio p \<longleftrightarrow> 0 < pf_initial_capital p \<and> 1 \<le> pf_max_open_positions p
     \<and> 0 < pf_position_size_pct p \<and> pf_position_size_pct p \<le> 1
     \<and> 0 \<le> pf_minimum_cash_buffer_pct p \<and> pf_minimum_cash_buffer_pct p < 1
     \<and> valid_parameters (pf_trading p)
     \<and> initial_capital (pf_trading p) = pf_initial_capital p"

lemma portfolio_decimal_error:
  "portfolio_decimal v n = Inl e \<Longrightarrow> map_of v n \<noteq> None \<Longrightarrow> is_invalid_parameters e"
  by (auto simp: portfolio_decimal_def split: option.splits pydec.splits)

lemma positive_int_Inr: "positive_int v = Inr i \<Longrightarrow> 1 \<le> i"
  by (auto simp: positive_int_def split: option.splits pyval.splits if_splits)

lemma positive_int_error: "positive_int v = Inl e \<Longrightarrow> is_invalid_parameters e"
  by (auto simp: positive_int_def split: option.splits pyval.splits if_splits)

text \<open>The capital both parsers read is the same number, whatever form the caller gave it in.\<close>

lemma decimal_of_value_number_like: "decimal_of_value v = Some d \<Longrightarrow> is_number_like v"
  by (cases v) auto

lemma decimal_value_portfolio_decimal:
  "portfolio_decimal s n = Inr c \<Longrightarrow> decimal_value s n d = Inr c"
  by (auto simp: decimal_value_def portfolio_decimal_def Let_def
      split: option.splits pydec.splits dest: decimal_of_value_number_like)

lemma parse_parameters_reads_capital:
  "parse_parameters s = Inr p \<Longrightarrow>
     decimal_value s ''initial_capital'' (initial_capital default_parameters) = Inr (initial_capital p)"
  unfolding parse_parameters_def Let_def bindE_eq_Inr check_parameters_iff by auto

lemma parse_parameters_capital:
  "parse_parameters s = Inr p \<Longrightarrow> portfolio_decimal s ''initial_capital'' = Inr c
     \<Longrightarrow> initial_capital p = c"
  using parse_parameters_reads_capital [of s p]
    decimal_value_portfolio_decimal [of s "''initial_capital''" c "initial_capital default_parameters"]
  by simp

lemma portfolio_decimal_dict_set:
  "n \<noteq> k \<Longrightarrow> portfolio_decimal (dict_set k v s) n = portfolio_decimal s n"
  by (simp add: portfolio_decimal_def)

lemma parse_portfolio_valid: "parse_portfolio v = Inr p \<Longrightarrow> valid_portfolio p"
  unfolding parse_portfolio_def valid_portfolio_def
  by (auto simp: bindE_eq_Inr portfolio_decimal_dict_set dest!: positive_int_Inr
      dest: parse_parameters_valid intro!: parse_parameters_capital)

lemma parse_portfolio_error: "parse_portfolio v = Inl e \<Longrightarrow> is_invalid_parameters e"
  unfolding parse_portfolio_def
  by (auto simp: bindE_eq_Inl portfolio_required_def
      dest: portfolio_decimal_error positive_int_error parse_parameters_error)

end
