(* ===== verification/Backtest_Simulate.thy ===== *)
theory Backtest_Simulate
  imports Backtest_Params
begin

text \<open>
  Independent-mode simulation, \<open>modules/backtest/executor.py\<close>: one signal against the bars that
  follow it (\<open>simulate_signal\<close>), and the entry-signal query of \<open>modules/backtest/strategy.py\<close>.
  The exit search is a scan of the bars after the entry bar; its first-trigger specification is
  stated with the library's \<open>find\<close>.
\<close>

section \<open>Bars and signals\<close>

record DailyBar =
  b_symbol :: string
  b_date :: date
  b_open :: decimal
  b_high :: decimal
  b_low :: decimal
  b_close :: decimal

datatype BacktestSignalType = ENTER_LONG

record BacktestSignal =
  sig_symbol :: string
  sig_date :: date
  sig_type :: BacktestSignalType

definition signal_key :: "BacktestSignal \<Rightarrow> date \<times> string" where
  "signal_key s = (sig_date s, sig_symbol s)"

text \<open>\<open>WatchlistEntryStrategy.generate_signals\<close>: the watchlist rows \<open>(symbol, trading_date)\<close> of the range.\<close>

definition generate_signals :: "(string \<times> date) list \<Rightarrow> BacktestRun \<Rightarrow> BacktestSignal list" where
  "generate_signals rows run =
    map (\<lambda>(symbol, day). \<lparr>sig_symbol = symbol, sig_date = day, sig_type = ENTER_LONG\<rparr>)
      (sort_key (\<lambda>(symbol, day). (day, symbol))
        (filter (\<lambda>(symbol, day). r_start_date run \<le> day \<and> day \<le> r_end_date run) rows))"

section \<open>One signal\<close>

definition MONEY :: decimal where
  "MONEY = 1 / 10 ^ 8"

definition RATE :: decimal where
  "RATE = 1 / 10 ^ 8"

definition money :: "decimal \<Rightarrow> decimal res" where
  "money x = dquantize half_even MONEY x"

datatype sim_result = Traded BacktestTrade | Untraded BacktestExitReason

text \<open>The bars the signal may use, in date order: strictly after the signal, up to the run's end.\<close>

definition eligible_bars :: "BacktestRun \<Rightarrow> BacktestSignal \<Rightarrow> DailyBar list \<Rightarrow> DailyBar list" where
  "eligible_bars run signal bars =
    sort_key b_date (filter (\<lambda>bar. sig_date signal < b_date bar \<and> b_date bar \<le> r_end_date run) bars)"

text \<open>
  The exit conditions of one bar, in the code's order: the stop (filled at the open on a gap),
  the target (likewise), the holding limit.
\<close>

definition exit_trigger :: "decimal \<Rightarrow> decimal \<Rightarrow> int \<Rightarrow> int \<Rightarrow> DailyBar
    \<Rightarrow> (BacktestExitReason \<times> decimal) option" where
  "exit_trigger stop target limit holding bar =
    (if b_open bar \<le> stop \<or> b_low bar \<le> stop
       then Some (STOP_LOSS, if b_open bar \<le> stop then b_open bar else stop)
     else if target \<le> b_open bar \<or> target \<le> b_high bar
       then Some (TAKE_PROFIT, if target \<le> b_open bar then b_open bar else target)
     else if limit \<le> holding then Some (MAX_HOLDING_DAYS, b_close bar)
     else None)"

text \<open>The loop \<open>for holding, bar in enumerate(later, 1)\<close>.\<close>

fun scan_exit :: "decimal \<Rightarrow> decimal \<Rightarrow> int \<Rightarrow> int \<Rightarrow> DailyBar list
    \<Rightarrow> (DailyBar \<times> BacktestExitReason \<times> decimal) option" where
  "scan_exit stop target limit holding [] = None"
| "scan_exit stop target limit holding (bar # bars) =
    (case exit_trigger stop target limit holding bar of
       Some (reason, raw) \<Rightarrow> Some (bar, reason, raw)
     | None \<Rightarrow> scan_exit stop target limit (holding + 1) bars)"

definition select_exit :: "BacktestParameters \<Rightarrow> decimal \<Rightarrow> DailyBar \<Rightarrow> DailyBar list
    \<Rightarrow> DailyBar \<times> BacktestExitReason \<times> decimal" where
  "select_exit p entry_price entry_bar later =
    (if later = [] then (entry_bar, END_OF_PERIOD, b_close entry_bar)
     else case scan_exit (dmul entry_price (dsub 1 (stop_loss_pct p)))
            (dmul entry_price (dadd 1 (take_profit_pct p))) (max_holding_days p) 1 later of
       Some r \<Rightarrow> r
     | None \<Rightarrow> (last later, END_OF_PERIOD, b_close (last later)))"

definition list_index :: "'a \<Rightarrow> 'a list \<Rightarrow> nat" where
  "list_index x xs = length (takeWhile (\<lambda>y. y \<noteq> x) xs)"

definition simulate_signal :: "uuid \<Rightarrow> datetime \<Rightarrow> BacktestRun \<Rightarrow> BacktestSignal \<Rightarrow> DailyBar list
    \<Rightarrow> BacktestParameters \<Rightarrow> sim_result res" where
  "simulate_signal uid now run signal bars p =
    (case eligible_bars run signal bars of
       [] \<Rightarrow> Inr (Untraded NO_ENTRY_BAR)
     | entry_bar # later \<Rightarrow>
       (let entry_price = dmul (b_open entry_bar) (dadd 1 (slippage_rate p)) in
        bindE (ddiv (position_size p) entry_price) (\<lambda>shares.
        let quantity = round_down shares in
        if quantity < 1 then Inr (Untraded INSUFFICIENT_POSITION_SIZE)
        else
         (let (exit_bar, reason, raw_exit) = select_exit p entry_price entry_bar later;
              exit_price = dmul raw_exit (dsub 1 (slippage_rate p));
              gross = dmul (dsub exit_price entry_price) (of_int quantity);
              buy_notional = dmul entry_price (of_int quantity);
              sell_notional = dmul exit_price (of_int quantity);
              commission = dmul (dadd buy_notional sell_notional) (commission_rate p);
              tax = dmul sell_notional (sell_tax_rate p);
              slippage = dmul (dadd (dsub entry_price (b_open entry_bar)) (dsub raw_exit exit_price))
                (of_int quantity)
          in bindE (money entry_price) (\<lambda>q_entry.
             bindE (money exit_price) (\<lambda>q_exit.
             bindE (money gross) (\<lambda>q_gross.
             bindE (money commission) (\<lambda>q_commission.
             bindE (money tax) (\<lambda>q_tax.
             bindE (money slippage) (\<lambda>q_slippage.
             bindE (money (dsub (dsub gross commission) tax)) (\<lambda>q_net.
             Inr (Traded \<lparr>t_id = uid, t_run_id = r_id run, t_symbol = sig_symbol signal,
               t_signal_date = sig_date signal, t_entry_date = b_date entry_bar,
               t_entry_price = q_entry, t_quantity = quantity, t_exit_date = b_date exit_bar,
               t_exit_price = q_exit, t_exit_reason = reason, t_gross_pnl = q_gross,
               t_commission = q_commission, t_tax = q_tax, t_slippage_cost = q_slippage,
               t_net_pnl = q_net,
               t_holding_days = (if later = [] then 0 else int (list_index exit_bar later) + 1),
               t_created_at = now\<rparr>))))))))))))"

section \<open>The exit search\<close>

text \<open>
  Specification of the scan: the first bar, counted from the given holding day, on which a
  trigger fires, with what fired.
\<close>

definition first_trigger :: "decimal \<Rightarrow> decimal \<Rightarrow> int \<Rightarrow> int \<Rightarrow> DailyBar list \<Rightarrow> nat option" where
  "first_trigger stop target limit holding bars =
    find (\<lambda>i. exit_trigger stop target limit (holding + int i) (bars ! i) \<noteq> None) [0..<length bars]"

lemma find_shift: "find P (map Suc xs) = map_option Suc (find (\<lambda>i. P (Suc i)) xs)"
  by (induction xs) auto

lemma first_trigger_Cons:
  "first_trigger stop target limit holding (b # bs) =
    (if exit_trigger stop target limit holding b \<noteq> None then Some 0
     else map_option Suc (first_trigger stop target limit (holding + 1) bs))"
  unfolding first_trigger_def
  by (simp add: upt_conv_Cons map_Suc_upt [symmetric] find_shift algebra_simps del: upt_Suc)

lemma scan_exit_first_trigger:
  "scan_exit stop target limit holding bars =
    map_option (\<lambda>i. (bars ! i, the (exit_trigger stop target limit (holding + int i) (bars ! i))))
      (first_trigger stop target limit holding bars)"
proof (induction bars arbitrary: holding)
  case Nil
  show ?case by (simp add: first_trigger_def)
next
  case (Cons b bs)
  show ?case
  proof (cases "exit_trigger stop target limit holding b")
    case None
    then show ?thesis
      by (cases "first_trigger stop target limit (holding + 1) bs")
        (simp_all add: first_trigger_Cons Cons.IH algebra_simps)
  qed (auto simp: first_trigger_Cons)
qed

lemma scan_exit_append:
  "scan_exit stop target limit h (xs @ ys) = (case scan_exit stop target limit h xs of
     Some r \<Rightarrow> Some r | None \<Rightarrow> scan_exit stop target limit (h + int (length xs)) ys)"
  by (induction xs arbitrary: h) (auto simp: algebra_simps split: option.splits)

lemma scan_exit_SomeD:
  "scan_exit stop target limit h bars = Some (b, reason, raw) \<Longrightarrow>
     \<exists>i < length bars. b = bars ! i \<and> exit_trigger stop target limit (h + int i) b = Some (reason, raw)
       \<and> (\<forall>j < i. exit_trigger stop target limit (h + int j) (bars ! j) = None)"
proof (induction bars arbitrary: h)
  case (Cons x xs)
  show ?case
  proof (cases "exit_trigger stop target limit h x")
    case None
    with Cons.prems have "scan_exit stop target limit (h + 1) xs = Some (b, reason, raw)" by simp
    from Cons.IH [OF this] obtain i where i: "i < length xs" "b = xs ! i"
      "exit_trigger stop target limit (h + 1 + int i) b = Some (reason, raw)"
      "\<forall>j<i. exit_trigger stop target limit (h + 1 + int j) (xs ! j) = None" by blast
    have "\<forall>j<Suc i. exit_trigger stop target limit (h + int j) ((x # xs) ! j) = None"
      using i(4) None by (auto simp: less_Suc_eq_0_disj algebra_simps)
    with i show ?thesis by (intro exI [of _ "Suc i"]) (simp add: algebra_simps)
  next
    case (Some r)
    with Cons.prems show ?thesis by (intro exI [of _ 0]) auto
  qed
qed simp

lemma scan_exit_NoneD:
  "scan_exit stop target limit h bars = None \<Longrightarrow> i < length bars \<Longrightarrow> h + int i < limit"
proof (induction bars arbitrary: h i)
  case (Cons x xs)
  from Cons.prems(1) have n: "exit_trigger stop target limit h x = None"
    "scan_exit stop target limit (h + 1) xs = None"
    by (auto split: option.splits)
  from n(1) have "h < limit" by (auto simp: exit_trigger_def split: if_splits)
  with Cons.IH [OF n(2)] Cons.prems(2) show ?case by (cases i) (auto simp: algebra_simps)
qed simp

lemma exit_trigger_reason:
  "exit_trigger stop target limit h b = Some (reason, raw) \<Longrightarrow>
    reason \<in> {STOP_LOSS, TAKE_PROFIT, MAX_HOLDING_DAYS}"
  by (auto simp: exit_trigger_def split: if_splits)

lemma scan_exit_holding:
  assumes "scan_exit stop target limit 1 bars = Some (b, reason, raw)" and "1 \<le> limit"
  shows "\<exists>i < length bars. b = bars ! i \<and> int i + 1 \<le> limit"
proof -
  from scan_exit_SomeD [OF assms(1)] obtain i where i: "i < length bars" "b = bars ! i"
    and pre: "\<forall>j<i. exit_trigger stop target limit (1 + int j) (bars ! j) = None" by blast
  have "int i + 1 \<le> limit"
  proof (cases i)
    case (Suc j)
    with pre have "exit_trigger stop target limit (1 + int j) (bars ! j) = None" by simp
    then have "1 + int j < limit" by (auto simp: exit_trigger_def split: if_splits)
    with Suc show ?thesis by simp
  qed (use assms in simp)
  with i show ?thesis by blast
qed

end
