(* ===== verification/Simulate_Props.thy ===== *)
theory Simulate_Props
  imports Backtest_Simulate
begin

text \<open>
  What independent-mode simulation guarantees: the shape of a trade, no look-ahead, the accounting
  identity up to rounding, and exactly when it raises.
\<close>

section \<open>Inversion\<close>

lemma simulate_tradedE:
  assumes "simulate_signal uid now run signal bars p = Inr (Traded t)"
  obtains entry_bar later quantity exit_bar reason raw entry_price exit_price
  where "eligible_bars run signal bars = entry_bar # later"
    and "entry_price = dmul (b_open entry_bar) (dadd 1 (slippage_rate p))"
    and "entry_price \<noteq> 0" and "quantity = round_down (dround (position_size p / entry_price))"
    and "1 \<le> quantity"
    and "select_exit p entry_price entry_bar later = (exit_bar, reason, raw)"
    and "exit_price = dmul raw (dsub 1 (slippage_rate p))"
    and "money entry_price = Inr (t_entry_price t)"
    and "money exit_price = Inr (t_exit_price t)"
    and "money (dmul (dsub exit_price entry_price) (of_int quantity)) = Inr (t_gross_pnl t)"
    and "money (dmul (dadd (dmul entry_price (of_int quantity)) (dmul exit_price (of_int quantity)))
           (commission_rate p)) = Inr (t_commission t)"
    and "money (dmul (dmul exit_price (of_int quantity)) (sell_tax_rate p)) = Inr (t_tax t)"
    and "money (dsub (dsub (dmul (dsub exit_price entry_price) (of_int quantity))
           (dmul (dadd (dmul entry_price (of_int quantity)) (dmul exit_price (of_int quantity)))
             (commission_rate p)))
           (dmul (dmul exit_price (of_int quantity)) (sell_tax_rate p))) = Inr (t_net_pnl t)"
    and "t_symbol t = sig_symbol signal" and "t_signal_date t = sig_date signal"
    and "t_run_id t = r_id run" and "t_entry_date t = b_date entry_bar"
    and "t_quantity t = quantity" and "t_exit_date t = b_date exit_bar"
    and "t_exit_reason t = reason"
    and "t_holding_days t = (if later = [] then 0 else int (list_index exit_bar later) + 1)"
  using assms
  by (auto simp: simulate_signal_def Let_def bindE_eq_Inr ddiv_def
      split: list.splits if_splits prod.splits)

section \<open>Dates and holding period\<close>

lemma eligible_bars_mem: "b \<in> set (eligible_bars run signal bars) \<longleftrightarrow>
    b \<in> set bars \<and> sig_date signal < b_date b \<and> b_date b \<le> r_end_date run"
  by (auto simp: eligible_bars_def)

lemma eligible_bars_sorted: "sorted (map b_date (eligible_bars run signal bars))"
  by (simp add: eligible_bars_def)

lemma select_exit_mem:
  "select_exit p e entry_bar later = (exit_bar, reason, raw) \<Longrightarrow>
     (later = [] \<and> exit_bar = entry_bar) \<or> exit_bar \<in> set later"
  by (auto simp: select_exit_def split: if_splits option.splits dest: scan_exit_SomeD)

lemma select_exit_reason:
  "select_exit p e entry_bar later = (exit_bar, reason, raw) \<Longrightarrow>
     reason \<in> {STOP_LOSS, TAKE_PROFIT, MAX_HOLDING_DAYS, END_OF_PERIOD}"
  by (auto simp: select_exit_def split: if_splits option.splits
      dest!: scan_exit_SomeD exit_trigger_reason)

lemma list_index_le: "i < length xs \<Longrightarrow> list_index (xs ! i) xs \<le> i"
proof (induction xs arbitrary: i)
  case (Cons x xs)
  then show ?case by (cases i) (auto simp: list_index_def)
qed simp

lemma select_exit_holding:
  assumes "select_exit p e entry_bar later = (exit_bar, reason, raw)" and "later \<noteq> []"
    and "1 \<le> max_holding_days p"
  shows "int (list_index exit_bar later) + 1 \<le> max_holding_days p"
proof (cases "scan_exit (dmul e (dsub 1 (stop_loss_pct p))) (dmul e (dadd 1 (take_profit_pct p)))
    (max_holding_days p) 1 later")
  case None
  then have "exit_bar = later ! (length later - 1)"
    using assms(1,2) by (simp add: select_exit_def last_conv_nth)
  then have "list_index exit_bar later \<le> length later - 1"
    using assms(2) by (simp add: list_index_le)
  moreover have "1 + int (length later - 1) < max_holding_days p"
    using scan_exit_NoneD [OF None, of "length later - 1"] assms(2) by simp
  ultimately show ?thesis by linarith
next
  case (Some r)
  then have "scan_exit (dmul e (dsub 1 (stop_loss_pct p))) (dmul e (dadd 1 (take_profit_pct p)))
      (max_holding_days p) 1 later = Some (exit_bar, reason, raw)"
    using assms(1,2) by (simp add: select_exit_def)
  from scan_exit_holding [OF this assms(3)] obtain i
    where "i < length later" "exit_bar = later ! i" "int i + 1 \<le> max_holding_days p" by blast
  then show ?thesis using list_index_le [of i later] by simp
qed

text \<open>
  A trade of the simulation belongs to its signal and its run; it enters strictly after the
  signal and exits no earlier than it entered and no later than the run's end; it holds at least
  one share, at most the configured number of bars, and ends for one of the four exit reasons.
\<close>

theorem simulate_trade_shape:
  assumes "simulate_signal uid now run signal bars p = Inr (Traded t)" and "valid_parameters p"
  shows "t_symbol t = sig_symbol signal \<and> t_run_id t = r_id run
    \<and> sig_date signal < t_entry_date t \<and> t_entry_date t \<le> t_exit_date t
    \<and> t_exit_date t \<le> r_end_date run \<and> 1 \<le> t_quantity t
    \<and> 0 \<le> t_holding_days t \<and> t_holding_days t \<le> max_holding_days p
    \<and> t_exit_reason t \<in> {STOP_LOSS, TAKE_PROFIT, MAX_HOLDING_DAYS, END_OF_PERIOD}"
  using assms(1)
proof (rule simulate_tradedE)
  fix entry_bar later quantity exit_bar reason raw entry_price
  assume e: "eligible_bars run signal bars = entry_bar # later"
    and s: "select_exit p entry_price entry_bar later = (exit_bar, reason, raw)"
    and q: "1 \<le> quantity" "t_quantity t = quantity"
    and t: "t_symbol t = sig_symbol signal" "t_run_id t = r_id run"
      "t_entry_date t = b_date entry_bar" "t_exit_date t = b_date exit_bar"
      "t_exit_reason t = reason"
      "t_holding_days t = (if later = [] then 0 else int (list_index exit_bar later) + 1)"
  have mem: "exit_bar \<in> set (entry_bar # later)" using select_exit_mem [OF s] by auto
  then have "b_date entry_bar \<le> b_date exit_bar"
    using eligible_bars_sorted [of run signal bars] by (auto simp: e)
  moreover have "b \<in> set (entry_bar # later) \<Longrightarrow> sig_date signal < b_date b \<and> b_date b \<le> r_end_date run"
    for b using eligible_bars_mem [of b run signal bars] by (simp add: e)
  moreover have "t_holding_days t \<le> max_holding_days p"
    using select_exit_holding [OF s] assms(2) t(6) by (simp add: valid_parameters_def)
  ultimately show ?thesis using t q mem select_exit_reason [OF s] by simp
qed

section \<open>No look-ahead\<close>

lemma sorted_split_at:
  "sorted (map f xs) \<Longrightarrow> xs = filter (\<lambda>x. f x \<le> d) xs @ filter (\<lambda>x. \<not> f x \<le> (d :: 'b :: linorder)) xs"
proof (induction xs)
  case (Cons x xs)
  show ?case
  proof (cases "f x \<le> d")
    case False
    with Cons.prems have "filter (\<lambda>x. f x \<le> d) xs = []" by (auto simp: filter_empty_conv)
    with False Cons show ?thesis by (auto simp: filter_id_conv)
  qed (use Cons in simp)
qed simp

lemma eligible_bars_prefix:
  assumes "filter (\<lambda>b. b_date b \<le> d) bars = filter (\<lambda>b. b_date b \<le> d) bars'"
  shows "filter (\<lambda>b. b_date b \<le> d) (eligible_bars run signal bars)
    = filter (\<lambda>b. b_date b \<le> d) (eligible_bars run signal bars')"
proof -
  have "filter (\<lambda>b. b_date b \<le> d) (eligible_bars run signal bs) =
      sort_key b_date (filter (\<lambda>b. sig_date signal < b_date b \<and> b_date b \<le> r_end_date run)
        (filter (\<lambda>b. b_date b \<le> d) bs))" for bs
    unfolding eligible_bars_def filter_sort filter_filter by (simp only: conj_ac)
  with assms show ?thesis by (simp only:)
qed

lemma list_index_append: "x \<in> set xs \<Longrightarrow> list_index x (xs @ ys) = list_index x xs"
  by (induction xs) (auto simp: list_index_def)

lemma scan_exit_prefix:
  assumes "scan_exit stop target limit h (xs @ ys) = Some (b, reason, raw)"
    and "\<And>y. y \<in> set ys \<Longrightarrow> b_date b < b_date y"
  shows "scan_exit stop target limit h xs = Some (b, reason, raw)"
proof -
  have "b \<notin> set ys" using assms(2) by blast
  moreover have "scan_exit stop target limit (h + int (length xs)) ys = Some (b, reason, raw) \<Longrightarrow> b \<in> set ys"
    by (auto dest!: scan_exit_SomeD)
  ultimately show ?thesis using assms(1) by (auto simp: scan_exit_append split: option.splits)
qed

text \<open>
  The exit chosen on one continuation of the bars is the exit chosen on any other that agrees up
  to the exit date.
\<close>

lemma select_exit_prefix:
  assumes s: "select_exit p e entry_bar (pre @ post) = (exit_bar, reason, raw)"
    and r: "reason \<noteq> END_OF_PERIOD" and later: "\<And>y. y \<in> set post \<Longrightarrow> b_date exit_bar < b_date y"
  shows "select_exit p e entry_bar (pre @ post') = (exit_bar, reason, raw)"
    and "exit_bar \<in> set pre"
proof -
  let ?st = "dmul e (dsub 1 (stop_loss_pct p))" and ?tg = "dmul e (dadd 1 (take_profit_pct p))"
  have "scan_exit ?st ?tg (max_holding_days p) 1 (pre @ post) = Some (exit_bar, reason, raw)"
    using s r by (auto simp: select_exit_def split: if_splits option.splits)
  then have pre: "scan_exit ?st ?tg (max_holding_days p) 1 pre = Some (exit_bar, reason, raw)"
    using later by (rule scan_exit_prefix)
  then show "exit_bar \<in> set pre" by (auto dest!: scan_exit_SomeD)
  then have "pre \<noteq> []" by auto
  with pre show "select_exit p e entry_bar (pre @ post') = (exit_bar, reason, raw)"
    by (simp add: select_exit_def scan_exit_append)
qed

lemma simulate_signal_cong:
  assumes "eligible_bars run signal bars = entry_bar # later"
    and "eligible_bars run signal bars' = entry_bar # later'"
    and "later \<noteq> []" "later' \<noteq> []"
    and "select_exit p (dmul (b_open entry_bar) (dadd 1 (slippage_rate p))) entry_bar later
      = (exit_bar, reason, raw)"
    and "select_exit p (dmul (b_open entry_bar) (dadd 1 (slippage_rate p))) entry_bar later'
      = (exit_bar, reason, raw)"
    and "list_index exit_bar later = list_index exit_bar later'"
  shows "simulate_signal uid now run signal bars' p = simulate_signal uid now run signal bars p"
  using assms unfolding simulate_signal_def Let_def by (simp cong: if_cong)

text \<open>
  C1. No look-ahead: a trade closed by a stop, a target or the holding limit is determined by the
  bars up to its exit date. Any other history that agrees with this one up to that date gives
  exactly the same trade.
\<close>

theorem simulate_no_lookahead:
  assumes sim: "simulate_signal uid now run signal bars p = Inr (Traded t)"
    and reason: "t_exit_reason t \<noteq> END_OF_PERIOD"
    and agree: "filter (\<lambda>b. b_date b \<le> t_exit_date t) bars'
      = filter (\<lambda>b. b_date b \<le> t_exit_date t) bars"
  shows "simulate_signal uid now run signal bars' p = Inr (Traded t)"
  using sim
proof (rule simulate_tradedE)
  fix entry_bar later quantity exit_bar r raw entry_price
  let ?d = "t_exit_date t"
  let ?lo = "\<lambda>bs. filter (\<lambda>b. b_date b \<le> ?d) bs" and ?hi = "\<lambda>bs. filter (\<lambda>b. \<not> b_date b \<le> ?d) bs"
  assume e: "eligible_bars run signal bars = entry_bar # later"
    and ep: "entry_price = dmul (b_open entry_bar) (dadd 1 (slippage_rate p))"
    and s: "select_exit p entry_price entry_bar later = (exit_bar, r, raw)"
    and t: "t_exit_date t = b_date exit_bar" "t_exit_reason t = r"
  have later0: "later \<noteq> []" using s reason t(2) by (auto simp: select_exit_def)
  then have "exit_bar \<in> set later" using select_exit_mem [OF s] by auto
  then have entry_le: "b_date entry_bar \<le> ?d"
    using eligible_bars_sorted [of run signal bars] by (auto simp: e t(1))
  have split: "later = ?lo later @ ?hi later"
    using eligible_bars_sorted [of run signal bars] by (intro sorted_split_at) (simp add: e)
  have "?lo (eligible_bars run signal bars') = entry_bar # ?lo later"
    using eligible_bars_prefix [OF agree, of run signal] entry_le by (simp add: e)
  then have e': "eligible_bars run signal bars' = entry_bar # (?lo later @ ?hi (eligible_bars run signal bars'))"
    using sorted_split_at [OF eligible_bars_sorted [of run signal bars'], of ?d] by (metis append_Cons)
  have s': "select_exit p entry_price entry_bar (?lo later @ ?hi later) = (exit_bar, r, raw)"
    using s split by simp
  have hi: "b_date exit_bar < b_date y" if "y \<in> set (?hi later)" for y using that t(1) by auto
  note sel = select_exit_prefix [OF s' reason [unfolded t(2)] hi]
  have idx: "list_index exit_bar later = list_index exit_bar (?lo later @ ?hi (eligible_bars run signal bars'))"
    using sel(2) by (subst split) (simp only: list_index_append)
  have "simulate_signal uid now run signal bars' p = simulate_signal uid now run signal bars p"
  proof (rule simulate_signal_cong [OF e e' later0 _ s [unfolded ep] _ idx])
    show "?lo later @ ?hi (eligible_bars run signal bars') \<noteq> []"
      using sel(2) by (metis append_is_Nil_conv empty_iff list.set(1))
    show "select_exit p (dmul (b_open entry_bar) (dadd 1 (slippage_rate p))) entry_bar
        (?lo later @ ?hi (eligible_bars run signal bars')) = (exit_bar, r, raw)"
      using sel(1) unfolding ep .
  qed
  with sim show ?thesis by simp
qed

section \<open>Accounting\<close>

lemma money_error:
  assumes "money x = Inr y"
  shows "\<bar>y - x\<bar> \<le> 1 / (2 * 10 ^ 8)" "\<bar>x\<bar> \<le> 10 ^ 20"
proof -
  have y: "y = of_int (half_even (x / MONEY)) * MONEY" and m: "\<bar>half_even (x / MONEY)\<bar> < 10 ^ 28"
    using assms by (auto simp: money_def dquantize_Inr_iff)
  have e: "\<bar>of_int (half_even (x / MONEY)) - x / MONEY\<bar> \<le> 1 / 2" by (rule half_even_error)
  then show "\<bar>y - x\<bar> \<le> 1 / (2 * 10 ^ 8)" by (simp add: y MONEY_def abs_if split: if_splits)
  have b: "h \<le> N - 1 \<Longrightarrow> \<bar>i - z\<bar> \<le> 1 / 2 \<Longrightarrow> \<bar>i\<bar> = h \<Longrightarrow> \<bar>z\<bar> \<le> N" for h i z N :: rat
    by linarith
  have "\<bar>half_even (x / MONEY)\<bar> \<le> 10 ^ 28 - 1" using m by simp
  then have "of_int \<bar>half_even (x / MONEY)\<bar> \<le> (of_int (10 ^ 28 - 1) :: rat)"
    by (simp only: of_int_le_iff)
  then have "of_int \<bar>half_even (x / MONEY)\<bar> \<le> (10 ^ 28 - 1 :: rat)" by simp
  from b [OF this e] have "\<bar>x / MONEY\<bar> \<le> 10 ^ 28" by simp
  then show "\<bar>x\<bar> \<le> 10 ^ 20" by (simp add: MONEY_def abs_mult)
qed

lemma dsub_error: "\<bar>a\<bar> \<le> 10 ^ 20 \<Longrightarrow> \<bar>b\<bar> \<le> 10 ^ 20 \<Longrightarrow> \<bar>dsub a b - (a - b)\<bar> \<le> 2 / 10 ^ 7"
proof -
  assume ab: "\<bar>a\<bar> \<le> 10 ^ 20" "\<bar>b\<bar> \<le> (10 ^ 20 :: rat)"
  have "\<bar>a - b\<bar> \<le> \<bar>a\<bar> + \<bar>b\<bar>" by linarith
  also have "\<dots> \<le> 10 ^ 20 + 10 ^ 20" using ab by (rule add_mono)
  finally have "\<bar>a - b\<bar> / 10 ^ 27 \<le> 2 / 10 ^ 7" by simp
  then show ?thesis unfolding dsub_def using dround_error [of "a - b"] by linarith
qed

lemma round_down_bounds: "0 \<le> x \<Longrightarrow> 0 \<le> round_down x \<and> of_int (round_down x) \<le> x"
  by (simp add: round_down_def)

lemma money_balance:
  assumes "money g = Inr g'" and "money c = Inr c'" and "money x = Inr x'"
    and "money (dsub (dsub g c) x) = Inr n'"
  shows "\<bar>n' - (g' - c' - x')\<bar> \<le> 1 / 10 ^ 6"
proof -
  note bnd = assms [THEN money_error(2)] and err = assms [THEN money_error(1)]
  have 1: "\<bar>dsub g c - (g - c)\<bar> \<le> 2 / 10 ^ 7" using bnd(1,2) by (rule dsub_error)
  have "\<bar>dsub g c\<bar> \<le> \<bar>dsub g c - (g - c)\<bar> + (\<bar>g\<bar> + \<bar>c\<bar>)" by linarith
  also have "\<dots> \<le> 2 / 10 ^ 7 + (10 ^ 20 + 10 ^ 20)" using 1 bnd(1,2) by (intro add_mono)
  also have "\<dots> \<le> 3 * 10 ^ 20" by simp
  finally have b: "\<bar>dsub g c\<bar> \<le> 3 * 10 ^ 20" .
  have "\<bar>dsub g c - x\<bar> \<le> \<bar>dsub g c\<bar> + \<bar>x\<bar>" by linarith
  also have "\<dots> \<le> 3 * 10 ^ 20 + 10 ^ 20" using b bnd(3) by (rule add_mono)
  finally have "\<bar>dsub g c - x\<bar> / 10 ^ 27 \<le> 4 / 10 ^ 7" by simp
  then have 2: "\<bar>dsub (dsub g c) x - (dsub g c - x)\<bar> \<le> 4 / 10 ^ 7"
    unfolding dsub_def [of "dsub g c" x] using dround_error [of "dsub g c - x"] by linarith
  have tri: "\<bar>n' - (g' - c' - x')\<bar> \<le> \<bar>n' - s\<bar> + \<bar>s - (d - x)\<bar> + \<bar>d - (g - c)\<bar>
      + \<bar>g' - g\<bar> + \<bar>c' - c\<bar> + \<bar>x' - x\<bar>" for s d
    by linarith
  have "\<bar>n' - dsub (dsub g c) x\<bar> + \<bar>dsub (dsub g c) x - (dsub g c - x)\<bar> + \<bar>dsub g c - (g - c)\<bar>
      + \<bar>g' - g\<bar> + \<bar>c' - c\<bar> + \<bar>x' - x\<bar>
    \<le> 1 / (2 * 10 ^ 8) + 4 / 10 ^ 7 + 2 / 10 ^ 7 + 1 / (2 * 10 ^ 8) + 1 / (2 * 10 ^ 8) + 1 / (2 * 10 ^ 8)"
    by (intro add_mono err 1 2)
  also have "\<dots> \<le> 1 / 10 ^ 6" by simp
  finally show ?thesis using tri [of "dsub (dsub g c) x" "dsub g c"] by linarith
qed

text \<open>What rounding the number of shares down costs at most.\<close>

lemma shares_cost:
  assumes "0 < price" and "0 < stake"
  shows "price * of_int (round_down (dround (stake / price))) \<le> stake * (1 + 1 / 10 ^ 27)"
proof -
  have s: "0 \<le> stake / price" using assms by simp
  have "of_int (round_down (dround (stake / price))) \<le> dround (stake / price)"
    using s by (simp add: round_down_bounds dround_nonneg)
  also have "\<dots> \<le> stake / price * (1 + 1 / 10 ^ 27)"
    using dround_error [of "stake / price"] s by (simp add: algebra_simps)
  finally have "price * of_int (round_down (dround (stake / price)))
      \<le> price * (stake / price * (1 + 1 / 10 ^ 27))"
    using assms by (intro mult_left_mono) simp_all
  then show ?thesis using assms by simp
qed

text \<open>
  C2. The books of a trade balance: the stored net result is the stored gross result less the
  stored commission and tax, up to one millionth of a won of rounding; and the shares bought cost
  no more than the position size, up to the relative precision of 27 digits.
\<close>

theorem simulate_accounting:
  assumes sim: "simulate_signal uid now run signal bars p = Inr (Traded t)" and "valid_parameters p"
    and pos: "\<forall>b \<in> set bars. 0 < b_open b"
  shows "\<bar>t_net_pnl t - (t_gross_pnl t - t_commission t - t_tax t)\<bar> \<le> 1 / 10 ^ 6
    \<and> (\<exists>b \<in> set bars. b_date b = t_entry_date t
      \<and> dmul (b_open b) (dadd 1 (slippage_rate p)) * of_int (t_quantity t)
        \<le> position_size p * (1 + 1 / 10 ^ 27))"
  using sim
proof (rule simulate_tradedE)
  fix entry_bar later quantity exit_bar r raw entry_price exit_price
  assume e: "eligible_bars run signal bars = entry_bar # later"
    and ep: "entry_price = dmul (b_open entry_bar) (dadd 1 (slippage_rate p))"
    and q: "quantity = round_down (dround (position_size p / entry_price))" "1 \<le> quantity"
    and m: "money (dmul (dsub exit_price entry_price) (of_int quantity)) = Inr (t_gross_pnl t)"
      "money (dmul (dadd (dmul entry_price (of_int quantity)) (dmul exit_price (of_int quantity)))
        (commission_rate p)) = Inr (t_commission t)"
      "money (dmul (dmul exit_price (of_int quantity)) (sell_tax_rate p)) = Inr (t_tax t)"
      "money (dsub (dsub (dmul (dsub exit_price entry_price) (of_int quantity))
           (dmul (dadd (dmul entry_price (of_int quantity)) (dmul exit_price (of_int quantity)))
             (commission_rate p)))
           (dmul (dmul exit_price (of_int quantity)) (sell_tax_rate p))) = Inr (t_net_pnl t)"
    and t: "t_quantity t = quantity" "t_entry_date t = b_date entry_bar"
  have net: "\<bar>t_net_pnl t - (t_gross_pnl t - t_commission t - t_tax t)\<bar> \<le> 1 / 10 ^ 6"
    using money_balance [OF m] .
  have bar: "entry_bar \<in> set bars" using eligible_bars_mem [of entry_bar run signal bars] by (simp add: e)
  have "0 < entry_price"
    using pos bar assms(2) unfolding ep
    by (intro dmul_pos) (auto simp: dadd_def valid_parameters_def intro: dround_pos)
  then have "entry_price * of_int quantity \<le> position_size p * (1 + 1 / 10 ^ 27)"
    using assms(2) unfolding q(1) by (intro shares_cost) (auto simp: valid_parameters_def)
  with net bar show ?thesis unfolding t ep by blast
qed

section \<open>Outcomes and errors\<close>

lemma money_Inl: "money x = Inl e \<Longrightarrow> e = InvalidOperation"
  by (auto simp: money_def dquantize_def Let_def split: if_splits)

lemma ddiv_Inl: "ddiv a b = Inl e \<longleftrightarrow> b = 0 \<and> e = (if a = 0 then InvalidOperation else DivisionByZero)"
  by (auto simp: ddiv_def)

lemma simulate_signal_errors:
  "simulate_signal uid now run signal bars p = Inl e \<Longrightarrow> \<exists>b bs. eligible_bars run signal bars = b # bs
     \<and> (e = InvalidOperation \<or> ddiv (position_size p) (dmul (b_open b) (dadd 1 (slippage_rate p))) = Inl e)"
  by (auto simp: simulate_signal_def Let_def bindE_eq_Inl dest!: money_Inl
      split: list.splits if_splits prod.splits)

lemma simulate_signal_zero:
  "eligible_bars run signal bars = b # bs
    \<Longrightarrow> ddiv (position_size p) (dmul (b_open b) (dadd 1 (slippage_rate p))) = Inl e
    \<Longrightarrow> simulate_signal uid now run signal bars p = Inl e"
  by (simp add: simulate_signal_def Let_def)

lemma simulate_untraded:
  "simulate_signal uid now run signal bars p = Inr (Untraded r) \<Longrightarrow>
     (r = NO_ENTRY_BAR \<and> eligible_bars run signal bars = []) \<or> r = INSUFFICIENT_POSITION_SIZE"
  by (auto simp: simulate_signal_def Let_def bindE_eq_Inr split: list.splits if_splits prod.splits)

text \<open>
  What else the simulation may answer, under valid parameters: no entry bar exactly when no
  bar follows the signal within the run; otherwise too small a position; a division by zero
  exactly when the entry bar opens at zero; and no other exception than an amount too large to
  be quantized.
\<close>

theorem simulate_outcomes:
  assumes "valid_parameters p"
  shows "(simulate_signal uid now run signal bars p = Inr (Untraded NO_ENTRY_BAR)
        \<longleftrightarrow> (\<forall>b \<in> set bars. \<not> (sig_date signal < b_date b \<and> b_date b \<le> r_end_date run)))
    \<and> (simulate_signal uid now run signal bars p = Inl DivisionByZero
        \<longleftrightarrow> (\<exists>b bs. eligible_bars run signal bars = b # bs \<and> b_open b = 0))
    \<and> (\<forall>r. simulate_signal uid now run signal bars p = Inr (Untraded r)
        \<longrightarrow> r \<in> {NO_ENTRY_BAR, INSUFFICIENT_POSITION_SIZE})
    \<and> (\<forall>e. simulate_signal uid now run signal bars p = Inl e
        \<longrightarrow> e \<in> {DivisionByZero, InvalidOperation})"
proof (intro conjI allI impI)
  let ?sim = "simulate_signal uid now run signal bars p"
  have nil: "eligible_bars run signal bars = [] \<longleftrightarrow>
      (\<forall>b \<in> set bars. \<not> (sig_date signal < b_date b \<and> b_date b \<le> r_end_date run))"
    using eligible_bars_mem [of _ run signal bars]
    by (metis all_not_in_conv set_empty)
  have "?sim = Inr (Untraded NO_ENTRY_BAR) \<longleftrightarrow> eligible_bars run signal bars = []"
    using simulate_untraded [of uid now run signal bars p NO_ENTRY_BAR]
    by (auto simp: simulate_signal_def)
  then show "?sim = Inr (Untraded NO_ENTRY_BAR) \<longleftrightarrow>
      (\<forall>b \<in> set bars. \<not> (sig_date signal < b_date b \<and> b_date b \<le> r_end_date run))"
    by (simp only: nil)
  have "0 < dadd 1 (slippage_rate p)" "0 < position_size p"
    using assms by (auto simp: dadd_def valid_parameters_def intro: dround_pos)
  then have z: "ddiv (position_size p) (dmul (b_open b) (dadd 1 (slippage_rate p))) = Inl e
      \<longleftrightarrow> b_open b = 0 \<and> e = DivisionByZero" for b :: DailyBar and e
    by (auto simp: ddiv_Inl dmul_def dround_sign)
  show "?sim = Inl DivisionByZero \<longleftrightarrow> (\<exists>b bs. eligible_bars run signal bars = b # bs \<and> b_open b = 0)"
    using simulate_signal_errors [of uid now run signal bars p DivisionByZero]
      simulate_signal_zero [OF _ z [THEN iffD2]]
    by (metis py_exc.distinct(1) z)
  show "e \<in> {DivisionByZero, InvalidOperation}" if "?sim = Inl e" for e
    using simulate_signal_errors [OF that] by (auto simp: z)
  show "r \<in> {NO_ENTRY_BAR, INSUFFICIENT_POSITION_SIZE}" if "?sim = Inr (Untraded r)" for r
    using simulate_untraded [OF that] by auto
qed

section \<open>A concrete run\<close>

definition demo_run :: BacktestRun where
  "demo_run = \<lparr>r_id = 7, r_strategy_name = ''watchlist_entry'', r_start_date = 100, r_end_date = 200,
    r_status = RUNNING, r_created_at = 1, r_strategy_version = Some ''1'', r_parameters = [],
    r_data_as_of = None, r_started_at = Some 2, r_completed_at = None, r_result = None,
    r_failure_code = None, r_failure_message = None\<rparr>"

definition demo_signal :: BacktestSignal where
  "demo_signal = \<lparr>sig_symbol = ''005930'', sig_date = 110, sig_type = ENTER_LONG\<rparr>"

definition demo_bar :: "date \<Rightarrow> int \<Rightarrow> int \<Rightarrow> int \<Rightarrow> int \<Rightarrow> DailyBar" where
  "demo_bar d op hi lo cl = \<lparr>b_symbol = ''005930'', b_date = d, b_open = of_int op,
     b_high = of_int hi, b_low = of_int lo, b_close = of_int cl\<rparr>"

definition demo_bars :: "DailyBar list" where
  "demo_bars = [demo_bar 110 9000 9100 8900 9000, demo_bar 111 10000 10100 9900 10000,
     demo_bar 112 10000 10500 9800 10400, demo_bar 113 10400 11200 10300 11100]"

definition demo_trade :: BacktestTrade where
  "demo_trade = \<lparr>t_id = 1, t_run_id = 7, t_symbol = ''005930'', t_signal_date = 110,
     t_entry_date = 111, t_entry_price = 10010, t_quantity = 49, t_exit_date = 113,
     t_exit_price = 10999989 / 1000, t_exit_reason = TAKE_PROFIT,
     t_gross_pnl = 48509461 / 1000, t_commission = 3088468383 / 20000000,
     t_tax = 1616998383 / 2000000, t_slippage_cost = 1029539 / 1000,
     t_net_pnl = 950930767787 / 20000000, t_holding_days = 2, t_created_at = 0\<rparr>"

lemma demo_simulate:
  "simulate_signal 1 0 demo_run demo_signal demo_bars default_parameters = Inr (Traded demo_trade)"
  by code_simp

lemma demo_valid: "valid_parameters default_parameters"
  by code_simp

lemma simulate_trade_shape_witness: "t_quantity demo_trade = 49 \<and> t_exit_reason demo_trade = TAKE_PROFIT
    \<and> t_holding_days demo_trade \<le> max_holding_days default_parameters
    \<and> t_exit_date demo_trade \<le> r_end_date demo_run"
  using simulate_trade_shape [OF demo_simulate demo_valid] by (simp add: demo_trade_def)

lemma simulate_no_lookahead_witness:
  "simulate_signal 1 0 demo_run demo_signal (demo_bars @ [demo_bar 114 1 1 1 1]) default_parameters
    = Inr (Traded demo_trade)"
  by (rule simulate_no_lookahead [OF demo_simulate])
    (simp_all add: demo_trade_def demo_bars_def demo_bar_def)

lemma simulate_accounting_witness:
  "\<bar>t_net_pnl demo_trade - (t_gross_pnl demo_trade - t_commission demo_trade - t_tax demo_trade)\<bar>
    \<le> 1 / 10 ^ 6"
  using simulate_accounting [OF demo_simulate demo_valid]
  by (simp add: demo_bars_def demo_bar_def)

lemma simulate_outcomes_witness:
  "simulate_signal 1 0 demo_run demo_signal [demo_bar 150 0 1 0 1] default_parameters = Inl DivisionByZero"
  using simulate_outcomes [OF demo_valid, of 1 0 demo_run demo_signal "[demo_bar 150 0 1 0 1]"]
  by (simp add: eligible_bars_def demo_run_def demo_signal_def demo_bar_def)

end
