(* ===== verification/Streaks.thy ===== *)
theory Streaks
  imports Prelude "HOL-Library.Sublist"
begin

text \<open>
  The longest streak of a list: the specification, by contiguous sublists, and the running
  counter that computes it. The counter is shared by the two places the code counts streaks.
\<close>

definition longest :: "('a \<Rightarrow> bool) \<Rightarrow> 'a list \<Rightarrow> nat" where
  "longest P xs = Max (set (map length (filter (list_all P) (sublists xs))))"

definition run_end :: "('a \<Rightarrow> bool) \<Rightarrow> 'a list \<Rightarrow> nat" where
  "run_end P xs = length (takeWhile P (rev xs))"

definition streak_sizes :: "('a \<Rightarrow> bool) \<Rightarrow> 'a list \<Rightarrow> nat set" where
  "streak_sizes P xs = {length ys | ys. list_all P ys \<and> sublist ys xs}"

lemma longest_Max: "longest P xs = Max (streak_sizes P xs)"
  by (simp add: longest_def streak_sizes_def image_def) (metis (lifting))

lemma streak_sizes_finite [simp]: "finite (streak_sizes P xs)"
proof -
  have "streak_sizes P xs \<subseteq> {.. length xs}"
    by (auto simp: streak_sizes_def dest: sublist_length_le)
  then show ?thesis by (rule finite_subset) simp
qed

lemma streak_sizes_0 [simp]: "0 \<in> streak_sizes P xs"
  by (auto simp: streak_sizes_def intro: exI [of _ "[]"])

lemma longest_ge: "list_all P ys \<Longrightarrow> sublist ys xs \<Longrightarrow> length ys \<le> longest P xs"
  unfolding longest_Max by (rule Max_ge [OF streak_sizes_finite]) (auto simp: streak_sizes_def)

lemma longest_obtain: "\<exists>ys. list_all P ys \<and> sublist ys xs \<and> longest P xs = length ys"
proof -
  have "longest P xs \<in> streak_sizes P xs"
    unfolding longest_Max
    using streak_sizes_0 [of P xs] by (intro Max_in) (simp, metis empty_iff)
  then show ?thesis by (auto simp: streak_sizes_def)
qed

lemma longest_le: "longest P xs \<le> length (filter P xs)"
proof -
  obtain ys where ys: "list_all P ys" "sublist ys xs" "longest P xs = length ys"
    using longest_obtain [of P xs] by blast
  then obtain as bs where "xs = as @ ys @ bs" by (auto simp: sublist_def)
  moreover have "filter P ys = ys" using ys(1) by (simp add: list_all_iff filter_id_conv)
  ultimately show ?thesis using ys(3) by simp
qed

lemma longest_Nil [simp]: "longest P [] = 0"
  using longest_le [of P "[]"] by simp

lemma run_end_Nil [simp]: "run_end P [] = 0"
  by (simp add: run_end_def)

lemma run_end_snoc: "run_end P (xs @ [x]) = (if P x then Suc (run_end P xs) else 0)"
  by (simp add: run_end_def)

text \<open>The longest suffix all of whose elements satisfy the predicate has length \<^const>\<open>run_end\<close>.\<close>

lemma suffix_run_end: "suffix ys xs \<Longrightarrow> list_all P ys \<Longrightarrow> length ys \<le> run_end P xs"
proof -
  assume s: "suffix ys xs" and a: "list_all P ys"
  from s obtain zs where xs: "xs = zs @ ys" by (auto simp: suffix_def)
  have "takeWhile P (rev xs) = rev ys @ takeWhile P (rev zs)"
    using a unfolding xs rev_append by (intro takeWhile_append2) (auto simp: list_all_iff)
  then show ?thesis by (simp add: run_end_def)
qed

lemma run_end_suffix: "\<exists>ys. suffix ys xs \<and> list_all P ys \<and> length ys = run_end P xs"
proof (intro exI conjI)
  let ?ys = "rev (takeWhile P (rev xs))"
  have "rev xs = takeWhile P (rev xs) @ dropWhile P (rev xs)" by simp
  then have "xs = rev (dropWhile P (rev xs)) @ ?ys" by (metis rev_append rev_rev_ident)
  then show "suffix ?ys xs" unfolding suffix_def by blast
  show "list_all P ?ys" by (auto simp: list_all_iff dest: set_takeWhileD)
  show "length ?ys = run_end P xs" by (simp add: run_end_def)
qed

lemma longest_snoc: "longest P (xs @ [x]) = (if P x then max (longest P xs) (Suc (run_end P xs)) else longest P xs)"
proof (rule antisym)
  obtain ys where ys: "list_all P ys" "sublist ys (xs @ [x])" "longest P (xs @ [x]) = length ys"
    using longest_obtain [of P "xs @ [x]"] by blast
  from ys(2) have "suffix ys (xs @ [x]) \<or> sublist ys xs" by (metis sublist_snoc)
  then show "longest P (xs @ [x]) \<le> (if P x then max (longest P xs) (Suc (run_end P xs)) else longest P xs)"
  proof
    assume "suffix ys (xs @ [x])"
    then have "length ys \<le> run_end P (xs @ [x])" using ys(1) by (rule suffix_run_end)
    then show ?thesis by (simp add: ys(3) run_end_snoc split: if_splits)
  next
    assume "sublist ys xs"
    then show ?thesis using longest_ge [OF ys(1)] by (simp add: ys(3) le_max_iff_disj)
  qed
next
  have mono: "longest P xs \<le> longest P (xs @ [x])"
    using longest_obtain [of P xs] longest_ge [of P _ "xs @ [x]"]
    by (metis sublist_append_rightI sublist_order.order_trans)
  moreover have "Suc (run_end P xs) \<le> longest P (xs @ [x])" if "P x"
    using run_end_suffix [of "xs @ [x]" P] that longest_ge [of P _ "xs @ [x]"]
    by (metis run_end_snoc suffix_imp_sublist)
  ultimately show "(if P x then max (longest P xs) (Suc (run_end P xs)) else longest P xs) \<le> longest P (xs @ [x])"
    by simp
qed

end
