(* ===== verification/Backtest_Metrics.thy ===== *)
theory Backtest_Metrics
  imports Simulate_Props Streaks
begin

text \<open>
  The result dictionary of an independent run, \<open>calculate_metrics\<close> of
  \<open>modules/backtest/executor.py\<close>: totals, ratios, the equity drawdown over the trades in exit
  order, and the two longest streaks.
\<close>

section \<open>The fold over the ordered trades\<close>

record metric_state =
  ms_equity :: decimal
  ms_peak :: decimal
  ms_drawdown :: decimal
  ms_wins :: nat
  ms_losses :: nat
  ms_max_wins :: nat
  ms_max_losses :: nat

text \<open>The sort key; the text of a UUID orders as the number does.\<close>

definition metric_key :: "BacktestTrade \<Rightarrow> date \<times> date \<times> string \<times> uuid" where
  "metric_key t = (t_exit_date t, t_entry_date t, t_symbol t, t_id t)"

definition metric_step :: "metric_state \<Rightarrow> BacktestTrade \<Rightarrow> metric_state" where
  "metric_step s t =
    (let equity = dadd (ms_equity s) (t_net_pnl t);
         peak = max (ms_peak s) equity;
         drawdown = (if peak \<noteq> 0 then max (ms_drawdown s) (dquot (dsub peak equity) peak)
           else ms_drawdown s);
         s1 = s\<lparr>ms_equity := equity, ms_peak := peak, ms_drawdown := drawdown\<rparr>
     in if 0 < t_net_pnl t
        then s1\<lparr>ms_wins := ms_wins s + 1, ms_losses := 0,
                 ms_max_wins := max (ms_max_wins s) (ms_wins s + 1)\<rparr>
        else if t_net_pnl t < 0
        then s1\<lparr>ms_losses := ms_losses s + 1, ms_wins := 0,
                 ms_max_losses := max (ms_max_losses s) (ms_losses s + 1)\<rparr>
        else s1)"

definition metric_start :: "decimal \<Rightarrow> metric_state" where
  "metric_start capital = \<lparr>ms_equity = capital, ms_peak = capital, ms_drawdown = 0,
     ms_wins = 0, ms_losses = 0, ms_max_wins = 0, ms_max_losses = 0\<rparr>"

definition metric_fold :: "decimal \<Rightarrow> BacktestTrade list \<Rightarrow> metric_state" where
  "metric_fold capital trades = foldl metric_step (metric_start capital) (sort_key metric_key trades)"

section \<open>The dictionary\<close>

definition ratio :: "decimal \<Rightarrow> decimal res" where
  "ratio x = dquantize half_even RATE x"

definition wins_of :: "BacktestTrade list \<Rightarrow> BacktestTrade list" where
  "wins_of trades = filter (\<lambda>t. 0 < t_net_pnl t) trades"

definition losses_of :: "BacktestTrade list \<Rightarrow> BacktestTrade list" where
  "losses_of trades = filter (\<lambda>t. t_net_pnl t < 0) trades"

definition pnl_sum :: "BacktestTrade list \<Rightarrow> decimal" where
  "pnl_sum trades = dsum (map t_net_pnl trades)"

definition trade_return :: "BacktestTrade \<Rightarrow> decimal res" where
  "trade_return t = ddiv (t_net_pnl t) (dmul (t_entry_price t) (of_int (t_quantity t)))"

text \<open>\<open>x if count else ratio(ZERO)\<close>\<close>

definition when_count :: "nat \<Rightarrow> decimal res \<Rightarrow> decimal res" where
  "when_count count x = (if count = 0 then ratio 0 else bindE x ratio)"

definition calculate_metrics :: "BacktestTrade list \<Rightarrow> nat \<Rightarrow> BacktestParameters \<Rightarrow> metrics res" where
  "calculate_metrics trades total_signals p =
    (let wins = wins_of trades; losses = losses_of trades;
         gross_profit = pnl_sum wins; gross_loss = pnl_sum losses; net = pnl_sum trades;
         st = metric_fold (initial_capital p) trades; count = length trades
     in bindE (money (initial_capital p)) (\<lambda>capital.
        bindE (when_count count (Inr (dquot (of_nat (length wins)) (of_nat count)))) (\<lambda>win_rate.
        bindE (money gross_profit) (\<lambda>q_profit.
        bindE (money gross_loss) (\<lambda>q_loss.
        bindE (money net) (\<lambda>q_net.
        bindE (bindE (ddiv net (initial_capital p)) ratio) (\<lambda>total_return.
        bindE (when_count count (bindE (mapE trade_return trades)
          (\<lambda>rs. Inr (dquot (dsum rs) (of_nat count))))) (\<lambda>average_return.
        bindE (when_count count
          (Inr (dquot (of_int (sum_list (map t_holding_days trades))) (of_nat count)))) (\<lambda>average_holding.
        bindE (if gross_loss = 0 then Inr MNone
          else bindE (ratio (dquot gross_profit (dabs gross_loss))) (\<lambda>f. Inr (MDec f))) (\<lambda>factor.
        bindE (ratio (ms_drawdown st)) (\<lambda>drawdown.
        Inr [(''initial_capital'', MDec capital), (''total_signals'', MInt (int total_signals)),
          (''entered_trades'', MInt (int count)),
          (''skipped_signals'', MInt (int total_signals - int count)),
          (''winning_trades'', MInt (int (length wins))),
          (''losing_trades'', MInt (int (length losses))), (''win_rate'', MDec win_rate),
          (''gross_profit'', MDec q_profit), (''gross_loss'', MDec q_loss),
          (''net_profit'', MDec q_net), (''total_return'', MDec total_return),
          (''average_trade_return'', MDec average_return),
          (''average_holding_days'', MDec average_holding), (''profit_factor'', factor),
          (''max_drawdown'', MDec drawdown),
          (''max_consecutive_wins'', MInt (int (ms_max_wins st))),
          (''max_consecutive_losses'', MInt (int (ms_max_losses st)))])))))))))))"

section \<open>The streak counters\<close>

definition pnls :: "BacktestTrade list \<Rightarrow> decimal list" where
  "pnls trades = map t_net_pnl trades"

text \<open>A break-even trade leaves both counters alone, so they count on the list without them.\<close>

lemma metric_fold_streaks:
  "let s = foldl metric_step (metric_start c) ts; ps = filter (\<lambda>x. x \<noteq> 0) (pnls ts) in
     ms_wins s = run_end (\<lambda>x. 0 < x) ps \<and> ms_losses s = run_end (\<lambda>x. x < 0) ps
     \<and> ms_max_wins s = longest (\<lambda>x. 0 < x) ps \<and> ms_max_losses s = longest (\<lambda>x. x < 0) ps"
proof (induction ts rule: rev_induct)
  case Nil
  show ?case by (simp add: metric_start_def pnls_def)
next
  case (snoc t ts)
  consider "0 < t_net_pnl t" | "t_net_pnl t < 0" | "t_net_pnl t = 0" by linarith
  then show ?case using snoc
    by cases (simp_all add: Let_def pnls_def metric_step_def run_end_snoc longest_snoc)
qed

lemma metric_step_bounds:
  "0 \<le> ms_drawdown s \<Longrightarrow> ms_equity s \<le> ms_peak s \<Longrightarrow> 0 < ms_peak s \<Longrightarrow>
    0 \<le> ms_drawdown (metric_step s t) \<and> ms_equity (metric_step s t) \<le> ms_peak (metric_step s t)
    \<and> ms_peak s \<le> ms_peak (metric_step s t)"
  by (auto simp: metric_step_def Let_def)

lemma metric_fold_bounds:
  "0 < c \<Longrightarrow> let s = foldl metric_step (metric_start c) ts in
     0 \<le> ms_drawdown s \<and> ms_equity s \<le> ms_peak s \<and> c \<le> ms_peak s"
proof (induction ts rule: rev_induct)
  case (snoc t ts)
  then show ?case using metric_step_bounds [of "foldl metric_step (metric_start c) ts" t]
    by (simp add: Let_def)
qed (simp add: metric_start_def)

lemma half_even_nonneg: "0 \<le> x \<Longrightarrow> 0 \<le> half_even x"
  using he.rnd_ge [of 0 x] by simp

lemma ratio_Inr: "ratio x = Inr y \<Longrightarrow> y = of_int (half_even (x / RATE)) * RATE"
  by (simp add: ratio_def dquantize_Inr_iff)

lemma ratio_mono: "ratio x = Inr y \<Longrightarrow> ratio x' = Inr y' \<Longrightarrow> x \<le> x' \<Longrightarrow> y \<le> y'"
  by (auto dest!: ratio_Inr simp: RATE_def half_even_mono)

lemma ratio_0 [simp]: "ratio 0 = Inr 0"
  by (simp add: ratio_def dquantize_def RATE_def half_even_def)

lemma ratio_1: "ratio 1 = Inr 1"
proof -
  have "half_even (1 / RATE) = 10 ^ 8"
    using half_even_of_int [of "10 ^ 8"] by (simp add: RATE_def)
  then show ?thesis by (simp add: ratio_def dquantize_def RATE_def)
qed

lemma ratio_unit: "ratio x = Inr y \<Longrightarrow> 0 \<le> x \<Longrightarrow> x \<le> 1 \<Longrightarrow> 0 \<le> y \<and> y \<le> 1"
  using ratio_mono [OF ratio_0, of x y] ratio_mono [OF _ ratio_1, of x y] by simp

lemma ratio_nonneg: "ratio x = Inr y \<Longrightarrow> 0 \<le> x \<Longrightarrow> 0 \<le> y"
  using ratio_mono [OF ratio_0] by simp

lemma money_ratio: "money = ratio"
  by (simp add: fun_eq_iff money_def ratio_def MONEY_def RATE_def)

lemma pnl_sum_wins: "0 \<le> pnl_sum (wins_of ts)"
  by (auto simp: pnl_sum_def wins_of_def intro!: dsum_nonneg)

lemma foldl_dadd_neg: "(\<And>x. x \<in> set xs \<Longrightarrow> x < 0) \<Longrightarrow> a \<le> 0 \<Longrightarrow> a < 0 \<or> xs \<noteq> [] \<Longrightarrow> foldl dadd a xs < 0"
proof (induction xs arbitrary: a)
  case (Cons x xs)
  have "a + x < 0" using Cons.prems by (simp add: add_nonpos_neg)
  then have "dadd a x < 0" by (simp add: dadd_def dround_sign)
  then show ?case using Cons.IH [of "dadd a x"] Cons.prems(1) by simp
qed simp

lemma pnl_sum_losses: "pnl_sum (losses_of ts) \<le> 0" "pnl_sum (losses_of ts) = 0 \<longleftrightarrow> losses_of ts = []"
proof -
  have neg: "x < 0" if "x \<in> set (map t_net_pnl (losses_of ts))" for x
    using that by (auto simp: losses_of_def)
  have "pnl_sum (losses_of ts) < 0" if "losses_of ts \<noteq> []"
    unfolding pnl_sum_def dsum_def by (rule foldl_dadd_neg [OF neg]) (use that in simp_all)
  moreover have "pnl_sum (losses_of ts) = 0" if "losses_of ts = []"
    by (simp add: pnl_sum_def that)
  ultimately show "pnl_sum (losses_of ts) \<le> 0" "pnl_sum (losses_of ts) = 0 \<longleftrightarrow> losses_of ts = []"
    by (cases "losses_of ts = []", simp_all)+
qed

lemma wins_losses_length: "length (wins_of ts) + length (losses_of ts) \<le> length ts"
  by (induction ts) (auto simp: wins_of_def losses_of_def)

section \<open>Properties\<close>

lemma win_rate_unit:
  assumes "when_count (length ts) (Inr (dquot (of_nat (length (wins_of ts))) (of_nat (length ts)))) = Inr y"
  shows "0 \<le> y \<and> y \<le> 1"
proof (cases "ts = []")
  case False
  then have "0 \<le> dquot (of_nat (length (wins_of ts))) (of_nat (length ts))"
    "dquot (of_nat (length (wins_of ts))) (of_nat (length ts)) \<le> 1"
    using wins_losses_length [of ts] by (intro dquot_nonneg dquot_le_1; simp)+
  with False assms show ?thesis by (auto simp: when_count_def dest: ratio_unit)
qed (use assms in \<open>simp add: when_count_def\<close>)

lemma ratio_nonpos: "ratio x = Inr y \<Longrightarrow> x \<le> 0 \<Longrightarrow> y \<le> 0"
  using ratio_mono [OF _ ratio_0] by simp

text \<open>
  The counts and signs of the result dictionary: signals split into entered and skipped,
  winners and losers are at most all trades, the win rate lies between 0 and 1, the gross profit
  is not negative, the gross loss not positive, the drawdown not negative; there is a profit
  factor exactly when there is a losing trade, and it is not negative.
\<close>

theorem metrics_consistent:
  assumes m: "calculate_metrics trades n p = Inr d" and capital: "0 < initial_capital p"
  shows "map_of d ''entered_trades'' = Some (MInt (int (length trades)))
    \<and> map_of d ''skipped_signals'' = Some (MInt (int n - int (length trades)))
    \<and> (\<exists>w l. map_of d ''winning_trades'' = Some (MInt (int w))
        \<and> map_of d ''losing_trades'' = Some (MInt (int l)) \<and> w + l \<le> length trades)
    \<and> (\<exists>r. map_of d ''win_rate'' = Some (MDec r) \<and> 0 \<le> r \<and> r \<le> 1)
    \<and> (\<exists>g. map_of d ''gross_profit'' = Some (MDec g) \<and> 0 \<le> g)
    \<and> (\<exists>g. map_of d ''gross_loss'' = Some (MDec g) \<and> g \<le> 0)
    \<and> (\<exists>r. map_of d ''max_drawdown'' = Some (MDec r) \<and> 0 \<le> r)
    \<and> (if \<exists>t \<in> set trades. t_net_pnl t < 0
       then \<exists>f. map_of d ''profit_factor'' = Some (MDec f) \<and> 0 \<le> f
       else map_of d ''profit_factor'' = Some MNone)"
proof -
  have loss: "(\<exists>t \<in> set trades. t_net_pnl t < 0) \<longleftrightarrow> pnl_sum (losses_of trades) \<noteq> 0"
    unfolding pnl_sum_losses by (auto simp: losses_of_def filter_empty_conv)
  have dd: "0 \<le> ms_drawdown (metric_fold (initial_capital p) trades)"
    using metric_fold_bounds [OF capital] by (simp add: metric_fold_def Let_def)
  have pf: "0 \<le> dquot (pnl_sum (wins_of trades)) (dabs (pnl_sum (losses_of trades)))"
    by (intro dquot_nonneg pnl_sum_wins) (simp add: dabs_def dround_nonneg)
  show ?thesis
    using m unfolding calculate_metrics_def Let_def bindE_eq_Inr money_ratio
    using wins_losses_length [of trades] dd pf pnl_sum_wins [of trades] pnl_sum_losses(1) [of trades]
    by (auto simp: loss bindE_eq_Inr dest: ratio_nonneg ratio_nonpos win_rate_unit split: if_splits)
qed

text \<open>
  The two streak metrics are the longest runs of winning and of losing trades in exit order,
  after the break-even trades have been left out.
\<close>

theorem metrics_streaks:
  assumes "calculate_metrics trades n p = Inr d"
  shows "map_of d ''max_consecutive_wins'' = Some (MInt (int (longest (\<lambda>x. 0 < x)
        (filter (\<lambda>x. x \<noteq> 0) (pnls (sort_key metric_key trades))))))
    \<and> map_of d ''max_consecutive_losses'' = Some (MInt (int (longest (\<lambda>x. x < 0)
        (filter (\<lambda>x. x \<noteq> 0) (pnls (sort_key metric_key trades))))))"
  using assms metric_fold_streaks [of "initial_capital p" "sort_key metric_key trades"]
  unfolding calculate_metrics_def Let_def bindE_eq_Inr metric_fold_def [symmetric]
  by auto

definition demo_closed :: "BacktestTrade list" where
  "demo_closed = map (\<lambda>(i, pnl). demo_trade\<lparr>t_id := i, t_entry_price := 100, t_quantity := 1,
     t_net_pnl := of_int pnl\<rparr>) [(1, 10), (2, 0), (3, 20), (4, -5)]"

lemma demo_metrics_Inr: "\<exists>d. calculate_metrics demo_closed 5 default_parameters = Inr d"
proof -
  have "case calculate_metrics demo_closed 5 default_parameters of Inr d \<Rightarrow> True | Inl e \<Rightarrow> False"
    by code_simp
  then show ?thesis by (cases "calculate_metrics demo_closed 5 default_parameters") auto
qed

lemma metrics_consistent_witness:
  "\<exists>d. calculate_metrics demo_closed 5 default_parameters = Inr d
     \<and> map_of d ''skipped_signals'' = Some (MInt 1)
     \<and> (\<exists>f. map_of d ''profit_factor'' = Some (MDec f) \<and> 0 \<le> f)"
proof -
  obtain d where d: "calculate_metrics demo_closed 5 default_parameters = Inr d"
    using demo_metrics_Inr by blast
  have "length demo_closed = 4" "\<exists>t \<in> set demo_closed. t_net_pnl t < 0"
    by (simp_all add: demo_closed_def)
  then show ?thesis
    using metrics_consistent [OF d] d by (simp add: default_parameters_def)
qed

lemma metrics_streaks_witness:
  "\<exists>d. calculate_metrics demo_closed 5 default_parameters = Inr d
     \<and> map_of d ''max_consecutive_wins'' = Some (MInt 2)
     \<and> map_of d ''max_consecutive_losses'' = Some (MInt 1)"
proof -
  obtain d where d: "calculate_metrics demo_closed 5 default_parameters = Inr d"
    using demo_metrics_Inr by blast
  have "longest (\<lambda>x. 0 < x) (filter (\<lambda>x. x \<noteq> 0) (pnls (sort_key metric_key demo_closed))) = 2"
    "longest (\<lambda>x. x < 0) (filter (\<lambda>x. x \<noteq> 0) (pnls (sort_key metric_key demo_closed))) = 1"
    by code_simp+
  then show ?thesis using metrics_streaks [OF d] d by simp
qed

end
