(* ===== verification/Canonical_Order.thy ===== *)
theory Canonical_Order
  imports Prelude "HOL-Library.Multiset"
begin

text \<open>
  The contract of a canonical order: a sort key fine enough to tell apart the rows that an
  identifier tells apart. Sorting by it forgets the order the rows came in, which is what the code
  relies on where it sorts rows it has read in an unspecified order.
\<close>

locale canonical_order =
  fixes key :: "'a \<Rightarrow> 'k :: linorder" and ident :: "'a \<Rightarrow> 'i"
  assumes key_ident: "key x = key y \<Longrightarrow> ident x = ident y"
begin

lemma key_inj: "distinct (map ident xs) \<Longrightarrow> inj_on key (set xs)"
  by (rule inj_onI) (metis distinct_map inj_onD key_ident)

lemma sort_mset:
  assumes "mset xs = mset ys" and "distinct (map ident xs)"
  shows "sort_key key xs = sort_key key ys"
  by (rule sort_key_inj_key_eq) (simp_all add: assms key_inj)

lemma sort_strict: "distinct (map ident xs) \<Longrightarrow> sorted_wrt (\<lambda>a b. key a < key b) (sort_key key xs)"
proof -
  assume d: "distinct (map ident xs)"
  have "distinct (map key (sort_key key xs))"
    using key_inj [OF d] d by (simp add: distinct_map)
  then have "sorted_wrt (<) (map key (sort_key key xs))" by (simp add: strict_sorted_iff)
  then show ?thesis by (simp add: sorted_wrt_map)
qed

end

end
