(* ===== verification/Calendar.thy ===== *)
theory Calendar
  imports Decimal_Text
begin

text \<open>
  The proleptic Gregorian calendar of the standard library's \<open>date\<close>: the fields of an ordinal and its
  ISO text.
\<close>

section \<open>Ordinals\<close>

text \<open>The standard library's conversion of an ordinal to year, month and day (\<open>date.fromordinal\<close>).\<close>

type_synonym month = "int \<times> int"

definition days_before_month :: "int list" where
  "days_before_month = [-1, 0, 31, 59, 90, 120, 151, 181, 212, 243, 273, 304, 334]"

definition civil :: "date \<Rightarrow> int \<times> int \<times> int" where
  "civil ordinal =
    (let n = ordinal - 1; n400 = n div 146097; n = n mod 146097;
         n100 = n div 36524; n = n mod 36524; n4 = n div 1461; n = n mod 1461;
         n1 = n div 365; n = n mod 365;
         year = n400 * 400 + 1 + n100 * 100 + n4 * 4 + n1
     in if n1 = 4 \<or> n100 = 4 then (year - 1, 12, 31)
        else let leap = (n1 = 3 \<and> (n4 \<noteq> 24 \<or> n100 = 3)); m = (n + 50) div 32;
                 preceding = days_before_month ! nat m + (if 2 < m \<and> leap then 1 else 0)
          in if n < preceding
             then (year, m - 1, n - (days_before_month ! nat (m - 1) + (if 2 < m - 1 \<and> leap then 1 else 0)) + 1)
             else (year, m, n - preceding + 1))"

definition month_of :: "date \<Rightarrow> month" where
  "month_of ordinal = (let (y, m, d) = civil ordinal in (y, m))"

text \<open>\<open>date.isoformat()\<close>\<close>

definition padded :: "nat \<Rightarrow> int \<Rightarrow> string" where
  "padded k i = (let s = int_text i in replicate (k - length s) (CHR ''0'') @ s)"

definition date_text :: "date \<Rightarrow> string" where
  "date_text d = (let (y, m, day) = civil d in padded 4 y @ ''-'' @ padded 2 m @ ''-'' @ padded 2 day)"

lemma calendar_examples:
  "date_text 1 = ''0001-01-01''" "date_text 738945 = ''2024-02-29''" "date_text 739251 = ''2024-12-31''"
  "date_text 3652059 = ''9999-12-31''" "month_of 738946 = (2024, 3)"
  by (simp_all add: date_text_def month_of_def civil_def Let_def padded_def int_text_def days_before_month_def digits_text.simps) code_simp+

end
