(* ===== verification/Analysis.thy ===== *)
theory Analysis
  imports Backtest_Metrics Canonical_Order Calendar
begin

text \<open>
  Realized-trade analysis, \<open>modules/backtest/analysis.py\<close>: per-group statistics, the cumulative
  curve with its drawdown, streaks, and the breakdowns by symbol, exit reason and month. A month is
  the pair of year and month that \<open>strftime("%Y-%m")\<close> prints; pairs order as the text does.
\<close>

section \<open>Result records\<close>

record TradeStats =
  ts_trade_count :: nat
  ts_winning_trades :: nat
  ts_losing_trades :: nat
  ts_breakeven_trades :: int
  ts_win_rate :: "decimal option"
  ts_gross_profit :: decimal
  ts_gross_loss :: decimal
  ts_net_profit :: decimal
  ts_average_trade_pnl :: "decimal option"
  ts_average_holding_days :: "decimal option"
  ts_largest_win :: "decimal option"
  ts_largest_loss :: "decimal option"

record AnalysisSummary = TradeStats +
  as_average_win :: "decimal option"
  as_average_loss :: "decimal option"
  as_profit_factor :: "decimal option"
  as_max_consecutive_wins :: nat
  as_max_consecutive_losses :: nat
  as_max_realized_pnl_drawdown :: decimal

record CumulativePoint =
  cp_sequence :: nat
  cp_trade_id :: uuid
  cp_exit_date :: date
  cp_symbol :: string
  cp_exit_reason :: BacktestExitReason
  cp_net_pnl :: decimal
  cp_cumulative_net_pnl :: decimal
  cp_running_peak :: decimal
  cp_realized_drawdown :: decimal
  cp_realized_drawdown_pct :: "decimal option"

record SymbolAnalysis = TradeStats +
  sy_symbol :: string

record ExitReasonAnalysis =
  er_exit_reason :: BacktestExitReason
  er_trade_count :: nat
  er_trade_share :: decimal
  er_winning_trades :: nat
  er_losing_trades :: nat
  er_breakeven_trades :: int
  er_win_rate :: "decimal option"
  er_net_profit :: decimal
  er_average_trade_pnl :: "decimal option"
  er_average_holding_days :: "decimal option"

record MonthAnalysis = TradeStats +
  mo_month :: month

record BacktestAnalysis =
  ba_run_id :: uuid
  ba_trade_count :: nat
  ba_summary :: AnalysisSummary
  ba_cumulative_realized_pnl :: "CumulativePoint list"
  ba_by_symbol :: "SymbolAnalysis list"
  ba_by_exit_reason :: "ExitReasonAnalysis list"
  ba_by_month :: "MonthAnalysis list"

section \<open>Statistics of a group\<close>

definition opt_max :: "decimal list \<Rightarrow> decimal option" where
  "opt_max xs = (case xs of [] \<Rightarrow> None | y # ys \<Rightarrow> Some (foldl max y ys))"

definition opt_min :: "decimal list \<Rightarrow> decimal option" where
  "opt_min xs = (case xs of [] \<Rightarrow> None | y # ys \<Rightarrow> Some (foldl min y ys))"

definition per_count :: "decimal \<Rightarrow> nat \<Rightarrow> decimal option" where
  "per_count x n = (if n = 0 then None else Some (dquot x (of_nat n)))"

definition trade_stats :: "BacktestTrade list \<Rightarrow> TradeStats" where
  "trade_stats trades =
    (let wins = map t_net_pnl (wins_of trades); losses = map t_net_pnl (losses_of trades);
         count = length trades; gross_profit = dsum wins; gross_loss = dsum losses;
         net = dsum (map t_net_pnl trades)
     in \<lparr>ts_trade_count = count, ts_winning_trades = length wins, ts_losing_trades = length losses,
       ts_breakeven_trades = int count - int (length wins) - int (length losses),
       ts_win_rate = per_count (of_nat (length wins)) count, ts_gross_profit = gross_profit,
       ts_gross_loss = gross_loss, ts_net_profit = net,
       ts_average_trade_pnl = per_count net count,
       ts_average_holding_days = per_count (dsum (map (\<lambda>t. of_int (t_holding_days t)) trades)) count,
       ts_largest_win = opt_max wins, ts_largest_loss = opt_min losses\<rparr>)"

section \<open>The analysis\<close>

definition analysis_key :: "BacktestTrade \<Rightarrow> date \<times> string \<times> uuid" where
  "analysis_key t = (t_exit_date t, t_symbol t, t_id t)"

record curve_state =
  cs_cumulative :: decimal
  cs_peak :: decimal
  cs_max_drawdown :: decimal
  cs_points :: "CumulativePoint list"
  cs_wins :: nat
  cs_losses :: nat
  cs_max_wins :: nat
  cs_max_losses :: nat

definition curve_start :: curve_state where
  "curve_start = \<lparr>cs_cumulative = 0, cs_peak = 0, cs_max_drawdown = 0, cs_points = [],
     cs_wins = 0, cs_losses = 0, cs_max_wins = 0, cs_max_losses = 0\<rparr>"

definition curve_step :: "curve_state \<Rightarrow> BacktestTrade \<Rightarrow> curve_state" where
  "curve_step s t =
    (let cumulative = dadd (cs_cumulative s) (t_net_pnl t); peak = max (cs_peak s) cumulative;
         drawdown = dsub peak cumulative;
         point = \<lparr>cp_sequence = length (cs_points s) + 1, cp_trade_id = t_id t,
           cp_exit_date = t_exit_date t, cp_symbol = t_symbol t, cp_exit_reason = t_exit_reason t,
           cp_net_pnl = t_net_pnl t, cp_cumulative_net_pnl = cumulative, cp_running_peak = peak,
           cp_realized_drawdown = drawdown,
           cp_realized_drawdown_pct = (if 0 < peak then Some (dquot drawdown peak) else None)\<rparr>;
         s1 = s\<lparr>cs_cumulative := cumulative, cs_peak := peak,
           cs_max_drawdown := max (cs_max_drawdown s) drawdown, cs_points := cs_points s @ [point]\<rparr>
     in if 0 < t_net_pnl t
        then s1\<lparr>cs_wins := cs_wins s + 1, cs_losses := 0,
                 cs_max_wins := max (cs_max_wins s) (cs_wins s + 1)\<rparr>
        else if t_net_pnl t < 0
        then s1\<lparr>cs_losses := cs_losses s + 1, cs_wins := 0,
                 cs_max_losses := max (cs_max_losses s) (cs_losses s + 1)\<rparr>
        else s1\<lparr>cs_wins := 0, cs_losses := 0\<rparr>)"

definition summarize :: "TradeStats \<Rightarrow> curve_state \<Rightarrow> AnalysisSummary" where
  "summarize stats c = TradeStats.extend stats (AnalysisSummary.fields
     (per_count (ts_gross_profit stats) (ts_winning_trades stats))
     (per_count (ts_gross_loss stats) (ts_losing_trades stats))
     (if ts_gross_loss stats = 0 then None
      else Some (dquot (ts_gross_profit stats) (dabs (ts_gross_loss stats))))
     (cs_max_wins c) (cs_max_losses c) (cs_max_drawdown c))"

definition symbol_rows :: "BacktestTrade list \<Rightarrow> SymbolAnalysis list" where
  "symbol_rows ordered = sort_key (\<lambda>row. - ts_net_profit row) (sort_key sy_symbol
     (map (\<lambda>(symbol, g). TradeStats.extend (trade_stats g) (SymbolAnalysis.fields symbol))
       (groups t_symbol ordered)))"

definition all_exit_reasons :: "BacktestExitReason list" where
  "all_exit_reasons = [STOP_LOSS, TAKE_PROFIT, MAX_HOLDING_DAYS, END_OF_PERIOD, NO_ENTRY_BAR,
     INSUFFICIENT_POSITION_SIZE]"

definition reason_row :: "nat \<Rightarrow> BacktestExitReason \<Rightarrow> BacktestTrade list \<Rightarrow> ExitReasonAnalysis" where
  "reason_row total_count reason g = (let item = trade_stats g in
     \<lparr>er_exit_reason = reason, er_trade_count = ts_trade_count item,
      er_trade_share = dquot (of_nat (ts_trade_count item)) (of_nat total_count),
      er_winning_trades = ts_winning_trades item, er_losing_trades = ts_losing_trades item,
      er_breakeven_trades = ts_breakeven_trades item, er_win_rate = ts_win_rate item,
      er_net_profit = ts_net_profit item, er_average_trade_pnl = ts_average_trade_pnl item,
      er_average_holding_days = ts_average_holding_days item\<rparr>)"

definition reason_rows :: "BacktestTrade list \<Rightarrow> ExitReasonAnalysis list" where
  "reason_rows ordered = concat (map (\<lambda>reason. case map_of (groups t_exit_reason ordered) reason of
       None \<Rightarrow> []
     | Some g \<Rightarrow> if g = [] then [] else [reason_row (length ordered) reason g]) all_exit_reasons)"

definition month_rows :: "BacktestTrade list \<Rightarrow> MonthAnalysis list" where
  "month_rows ordered = sort_key mo_month
     (map (\<lambda>(month, g). TradeStats.extend (trade_stats g) (MonthAnalysis.fields month))
       (groups (\<lambda>t. month_of (t_exit_date t)) ordered))"

definition analyze_trades :: "uuid \<Rightarrow> BacktestTrade list \<Rightarrow> BacktestAnalysis" where
  "analyze_trades run_id trades =
    (let ordered = sort_key analysis_key trades; stats = trade_stats ordered;
         curve = foldl curve_step curve_start ordered
     in \<lparr>ba_run_id = run_id, ba_trade_count = ts_trade_count stats,
       ba_summary = summarize stats curve, ba_cumulative_realized_pnl = cs_points curve,
       ba_by_symbol = symbol_rows ordered, ba_by_exit_reason = reason_rows ordered,
       ba_by_month = month_rows ordered\<rparr>)"

interpretation analysis_order: canonical_order analysis_key t_id
  by unfold_locales (simp add: analysis_key_def)

interpretation metric_order: canonical_order metric_key t_id
  by unfold_locales (simp add: metric_key_def)

end
