(* ===== verification/Backtest_Store.thy ===== *)
theory Backtest_Store
  imports Analysis
begin

text \<open>
  The database as the backtest module sees it (\<open>modules/backtest/models.py\<close>) and the repository on
  it (\<open>modules/backtest/repository.py\<close>): tables are lists of rows in insertion order, a query is
  the filter, order, offset and limit of its statement, and a flush that violates a uniqueness
  constraint raises \<open>IntegrityError\<close>. The capacity of the numeric columns is not modelled.
\<close>

section \<open>Tables and constraints\<close>

record backtest_db =
  db_runs :: "BacktestRun list"
  db_trades :: "BacktestTrade list"
  db_snapshots :: "PortfolioSnapshot list"
  db_bars :: "DailyBar list"
  db_watchlist :: "(string \<times> date) list"

definition trade_unique :: "BacktestTrade \<Rightarrow> uuid \<times> string \<times> date" where
  "trade_unique t = (t_run_id t, t_symbol t, t_signal_date t)"

definition snapshot_unique :: "PortfolioSnapshot \<Rightarrow> uuid \<times> date" where
  "snapshot_unique s = (sn_run_id s, sn_trading_date s)"

definition trades_table_ok :: "BacktestTrade list \<Rightarrow> bool" where
  "trades_table_ok ts \<longleftrightarrow> distinct (map t_id ts) \<and> distinct (map trade_unique ts)"

definition snapshots_table_ok :: "PortfolioSnapshot list \<Rightarrow> bool" where
  "snapshots_table_ok ss \<longleftrightarrow> distinct (map sn_id ss) \<and> distinct (map snapshot_unique ss)"

definition run_row_ok :: "BacktestRun \<Rightarrow> bool" where
  "run_row_ok r \<longleftrightarrow> r_start_date r \<le> r_end_date r"

definition insert_trades :: "BacktestTrade list \<Rightarrow> backtest_db \<Rightarrow> backtest_db res" where
  "insert_trades ts db =
    (if trades_table_ok (db_trades db @ ts) \<and> list_all (\<lambda>t. t_run_id t \<in> r_id ` set (db_runs db)) ts
     then Inr (db\<lparr>db_trades := db_trades db @ ts\<rparr>)
     else Inl (IntegrityError ''backtest_trades''))"

definition insert_snapshots :: "PortfolioSnapshot list \<Rightarrow> backtest_db \<Rightarrow> backtest_db res" where
  "insert_snapshots ss db =
    (if snapshots_table_ok (db_snapshots db @ ss) \<and> list_all (\<lambda>s. sn_run_id s \<in> r_id ` set (db_runs db)) ss
     then Inr (db\<lparr>db_snapshots := db_snapshots db @ ss\<rparr>)
     else Inl (IntegrityError ''backtest_portfolio_snapshots''))"

section \<open>The repository\<close>

definition get_run :: "uuid \<Rightarrow> backtest_db \<Rightarrow> BacktestRun option" where
  "get_run i db = find (\<lambda>r. r_id r = i) (db_runs db)"

text \<open>\<open>save\<close>: the record of the id is fetched or added, then every field is overwritten.\<close>

fun put_run :: "BacktestRun \<Rightarrow> BacktestRun list \<Rightarrow> BacktestRun list" where
  "put_run r [] = [r]"
| "put_run r (q # qs) = (if r_id q = r_id r then r # qs else q # put_run r qs)"

definition save_run :: "BacktestRun \<Rightarrow> backtest_db \<Rightarrow> backtest_db res" where
  "save_run r db = (if run_row_ok r then Inr (db\<lparr>db_runs := put_run r (db_runs db)\<rparr>)
     else Inl (IntegrityError ''date_range''))"

definition list_runs :: "backtest_db \<Rightarrow> BacktestRun list" where
  "list_runs db = sort_key (\<lambda>r. - r_created_at r) (db_runs db)"

definition page_key :: "BacktestTrade \<Rightarrow> date \<times> string \<times> uuid" where
  "page_key t = (t_entry_date t, t_symbol t, t_id t)"

definition list_trades :: "uuid \<Rightarrow> nat \<Rightarrow> nat \<Rightarrow> string option \<Rightarrow> BacktestExitReason option
    \<Rightarrow> backtest_db \<Rightarrow> BacktestTrade list" where
  "list_trades run_id limit offset symbol exit_reason db =
    take limit (drop offset (sort_key page_key (filter (\<lambda>t. t_run_id t = run_id
      \<and> (case symbol of None \<Rightarrow> True | Some s \<Rightarrow> t_symbol t = s)
      \<and> (case exit_reason of None \<Rightarrow> True | Some e \<Rightarrow> t_exit_reason t = e)) (db_trades db))))"

definition list_all_trades :: "uuid \<Rightarrow> backtest_db \<Rightarrow> BacktestTrade list" where
  "list_all_trades run_id db = sort_key analysis_key (filter (\<lambda>t. t_run_id t = run_id) (db_trades db))"

definition list_snapshots :: "uuid \<Rightarrow> backtest_db \<Rightarrow> PortfolioSnapshot list" where
  "list_snapshots run_id db = sort_key sn_trading_date (filter (\<lambda>s. sn_run_id s = run_id) (db_snapshots db))"

interpretation page_order: canonical_order page_key t_id
  by unfold_locales (simp add: page_key_def)

section \<open>Laws of the store\<close>

lemma put_run_ids: "r_id ` set (put_run r qs) = insert (r_id r) (r_id ` set qs)"
  by (induction qs) auto

lemma find_put_run: "find (\<lambda>q. r_id q = i) (put_run r qs) =
    (if r_id r = i then Some r else find (\<lambda>q. r_id q = i) qs)"
  by (induction qs) auto

lemma save_run_Inr: "save_run r db = Inr db' \<longleftrightarrow> run_row_ok r \<and> db' = db\<lparr>db_runs := put_run r (db_runs db)\<rparr>"
  by (auto simp: save_run_def)

text \<open>Reading after a save: the saved run under its id, every other id as before.\<close>

lemma get_run_save: "save_run r db = Inr db' \<Longrightarrow> get_run i db' = (if r_id r = i then Some r else get_run i db)"
  by (auto simp: save_run_Inr get_run_def find_put_run)

lemma put_run_length: "length (put_run r qs) = (if r_id r \<in> r_id ` set qs then length qs else Suc (length qs))"
  by (induction qs) auto

lemma put_run_distinct: "distinct (map r_id qs) \<Longrightarrow> distinct (map r_id (put_run r qs))"
proof (induction qs)
  case (Cons q qs)
  then show ?case using put_run_ids [of r qs] by (auto simp: image_iff)
qed simp

lemma insert_trades_Inr: "insert_trades ts db = Inr db' \<Longrightarrow> db' = db\<lparr>db_trades := db_trades db @ ts\<rparr>"
  by (auto simp: insert_trades_def split: if_splits)

lemma insert_snapshots_Inr: "insert_snapshots ss db = Inr db' \<Longrightarrow> db' = db\<lparr>db_snapshots := db_snapshots db @ ss\<rparr>"
  by (auto simp: insert_snapshots_def split: if_splits)

text \<open>
  Pages are consecutive stretches of one list: a page of \<open>m\<close> rows followed by the next page of
  \<open>n\<close> rows is the page of \<open>m + n\<close> rows, and a page of the whole run, unfiltered, in one piece is
  strictly ordered by entry date, symbol and id when the stored ids are distinct.
\<close>

theorem list_trades_pages:
  "list_trades run_id m off symbol reason db @ list_trades run_id n (off + m) symbol reason db
      = list_trades run_id (m + n) off symbol reason db
    \<and> (trades_table_ok (db_trades db) \<longrightarrow>
        sorted_wrt (\<lambda>a b. page_key a < page_key b) (list_trades run_id m off symbol reason db))"
proof
  show "list_trades run_id m off symbol reason db @ list_trades run_id n (off + m) symbol reason db
      = list_trades run_id (m + n) off symbol reason db"
    by (simp add: list_trades_def take_add add.commute)
  show "trades_table_ok (db_trades db) \<longrightarrow>
      sorted_wrt (\<lambda>a b. page_key a < page_key b) (list_trades run_id m off symbol reason db)"
  proof
    assume "trades_table_ok (db_trades db)"
    then have "distinct (map t_id (filter P (db_trades db)))" for P
      by (simp add: trades_table_ok_def distinct_map_filter)
    from page_order.sort_strict [OF this] show
      "sorted_wrt (\<lambda>a b. page_key a < page_key b) (list_trades run_id m off symbol reason db)"
      unfolding list_trades_def by (intro sorted_wrt_take sorted_wrt_drop)
  qed
qed

lemma list_trades_pages_witness:
  "sorted_wrt (\<lambda>a b. page_key a < page_key b) (list_trades 7 2 1 None None
     \<lparr>db_runs = [], db_trades = [demo_trade, demo_trade\<lparr>t_id := 2, t_symbol := ''A''\<rparr>],
      db_snapshots = [], db_bars = [], db_watchlist = []\<rparr>)"
  using list_trades_pages by (simp add: trades_table_ok_def trade_unique_def demo_trade_def)

end
