(* ===== verification/Portfolio.thy ===== *)
theory Portfolio
  imports Backtest_Metrics
begin

text \<open>
  Shared-cash portfolio execution, \<open>modules/backtest/portfolio.py\<close>: share sizing, exit terms,
  open positions, and the day loop (exits, entries, final liquidation, marking, snapshot), with the
  calendar, bar and entry-event tables the loop runs on. The day loop threads one record, the local
  variables of \<open>execute\<close>; UUIDs come from a supply indexed by a counter.
\<close>

section \<open>Skips, positions, state\<close>

datatype PortfolioSkipReason = MAX_OPEN_POSITIONS | DUPLICATE_SYMBOL | INSUFFICIENT_CASH
  | MINIMUM_CASH_BUFFER | QUANTITY_ZERO | SKIP_NO_ENTRY_BAR | INVALID_PRICE

fun skip_value :: "PortfolioSkipReason \<Rightarrow> string" where
  "skip_value MAX_OPEN_POSITIONS = ''max_open_positions''"
| "skip_value DUPLICATE_SYMBOL = ''duplicate_symbol''"
| "skip_value INSUFFICIENT_CASH = ''insufficient_cash''"
| "skip_value MINIMUM_CASH_BUFFER = ''minimum_cash_buffer''"
| "skip_value QUANTITY_ZERO = ''quantity_zero''"
| "skip_value SKIP_NO_ENTRY_BAR = ''no_entry_bar''"
| "skip_value INVALID_PRICE = ''invalid_price''"

record OpenPosition =
  op_signal :: BacktestSignal
  op_entry_date :: date
  op_entry_raw_price :: decimal
  op_entry_price :: decimal
  op_quantity :: int
  op_buy_commission :: decimal
  op_last_close :: decimal
  op_holding_days :: int

definition position_cost :: "OpenPosition \<Rightarrow> decimal" where
  "position_cost p = dadd (dmul (op_entry_price p) (of_int (op_quantity p))) (op_buy_commission p)"

definition position_value :: "OpenPosition \<Rightarrow> decimal" where
  "position_value p = dmul (op_last_close p) (of_int (op_quantity p))"

record PortfolioState =
  ps_initial_capital :: decimal
  ps_cash :: decimal
  ps_running_peak :: decimal
  ps_realized_pnl :: decimal
  ps_positions :: "(string, OpenPosition) dict"

definition create_state :: "decimal \<Rightarrow> PortfolioState res" where
  "create_state capital = (if capital \<le> 0 then Inl (ValueError ''initial capital must be positive'')
     else Inr \<lparr>ps_initial_capital = capital, ps_cash = capital, ps_running_peak = capital,
       ps_realized_pnl = 0, ps_positions = []\<rparr>)"

definition market_value :: "PortfolioState \<Rightarrow> decimal" where
  "market_value s = dsum (map (\<lambda>(_, p). position_value p) (ps_positions s))"

definition equity :: "PortfolioState \<Rightarrow> decimal" where
  "equity s = dadd (ps_cash s) (market_value s)"

section \<open>Sizing and exit terms\<close>

text \<open>\<open>while quantity > 0 and price * quantity * (1 + commission_rate) > allowed: quantity -= 1\<close>\<close>

function decrement :: "decimal \<Rightarrow> decimal \<Rightarrow> decimal \<Rightarrow> int \<Rightarrow> int" where
  "decrement price rate allowed quantity =
    (if 0 < quantity \<and> allowed < dmul (dmul price (of_int quantity)) (dadd 1 rate)
     then decrement price rate allowed (quantity - 1) else quantity)"
  by auto
termination by (relation "measure (\<lambda>(_, _, _, q). nat q)") auto

declare decrement.simps [simp del]

definition affordable_quantity :: "decimal \<Rightarrow> decimal \<Rightarrow> decimal \<Rightarrow> decimal \<Rightarrow> decimal
    \<Rightarrow> int \<times> PortfolioSkipReason option" where
  "affordable_quantity target cash buffer price rate =
    (if price \<le> 0 then (0, Some INVALID_PRICE)
     else let spendable = dsub cash buffer in
       if spendable \<le> 0 then (0, Some MINIMUM_CASH_BUFFER)
       else let allowed = min target spendable;
                quantity = decrement price rate allowed (round_down (dquot allowed price))
         in if quantity \<le> 0
            then (0, Some (if allowed < price then QUANTITY_ZERO else INSUFFICIENT_CASH))
            else (quantity, None))"

definition exit_terms :: "OpenPosition \<Rightarrow> DailyBar \<Rightarrow> BacktestParameters \<Rightarrow> bool
    \<Rightarrow> (BacktestExitReason \<times> decimal) option" where
  "exit_terms position bar p final =
    (if final then Some (END_OF_PERIOD, b_close bar)
     else let stop = dmul (op_entry_price position) (dsub 1 (stop_loss_pct p));
              target = dmul (op_entry_price position) (dadd 1 (take_profit_pct p))
       in if b_open bar \<le> stop \<or> b_low bar \<le> stop
          then Some (STOP_LOSS, if b_open bar \<le> stop then b_open bar else stop)
          else if target \<le> b_open bar \<or> target \<le> b_high bar
          then Some (TAKE_PROFIT, if target \<le> b_open bar then b_open bar else target)
          else if max_holding_days p \<le> op_holding_days position
          then Some (MAX_HOLDING_DAYS, b_close bar)
          else None)"

section \<open>The local variables of the day loop\<close>

record exec_state =
  ex_state :: PortfolioState
  ex_trades :: "BacktestTrade list"
  ex_snapshots :: "PortfolioSnapshot list"
  ex_skips :: "(string, nat) dict"
  ex_maximum_open :: nat
  ex_utilization :: decimal
  ex_ids :: nat

text \<open>What one execution fixes: the run, its parameters, the clock and the UUID supply.\<close>

record exec_env =
  en_run :: BacktestRun
  en_params :: PortfolioParameters
  en_now :: datetime
  en_uuid :: "nat \<Rightarrow> uuid"

type_synonym bar_table = "(string, DailyBar) dict"

definition add_skip :: "PortfolioSkipReason \<Rightarrow> (string, nat) dict \<Rightarrow> (string, nat) dict" where
  "add_skip r skips = dict_set (skip_value r) (dict_getd skips (skip_value r) 0 + 1) skips"

abbreviation positions_of :: "exec_state \<Rightarrow> (string, OpenPosition) dict" where
  "positions_of x \<equiv> ps_positions (ex_state x)"

definition set_positions :: "(string, OpenPosition) dict \<Rightarrow> exec_state \<Rightarrow> exec_state" where
  "set_positions d x = x\<lparr>ex_state := (ex_state x)\<lparr>ps_positions := d\<rparr>\<rparr>"

definition sorted_symbols :: "exec_state \<Rightarrow> string list" where
  "sorted_symbols x = sort (map fst (positions_of x))"

section \<open>Closing a position\<close>

definition sale_proceeds :: "decimal \<Rightarrow> BacktestParameters \<Rightarrow> decimal" where
  "sale_proceeds sell_notional p = dsub (dsub sell_notional (dmul sell_notional (commission_rate p)))
     (dmul sell_notional (sell_tax_rate p))"

definition close_position :: "exec_env \<Rightarrow> string \<Rightarrow> OpenPosition \<Rightarrow> date \<Rightarrow> decimal
    \<Rightarrow> BacktestExitReason \<Rightarrow> exec_state \<Rightarrow> exec_state res" where
  "close_position env symbol position day raw_exit reason x =
    (let p = pf_trading (en_params env); s = ex_state x; quantity = of_int (op_quantity position);
         exit_price = dmul raw_exit (dsub 1 (slippage_rate p));
         sell_notional = dmul exit_price quantity;
         sell_commission = dmul sell_notional (commission_rate p);
         tax = dmul sell_notional (sell_tax_rate p);
         cash = dadd (ps_cash s) (sale_proceeds sell_notional p);
         gross = dmul (dsub exit_price (op_entry_price position)) quantity;
         commission = dadd (op_buy_commission position) sell_commission;
         net = dsub (dsub gross commission) tax;
         realized = dadd (ps_realized_pnl s) net
     in bindE (money (op_entry_price position)) (\<lambda>q_entry.
        bindE (money exit_price) (\<lambda>q_exit.
        bindE (money gross) (\<lambda>q_gross.
        bindE (money commission) (\<lambda>q_commission.
        bindE (money tax) (\<lambda>q_tax.
        bindE (money (dmul (dadd (dsub (op_entry_price position) (op_entry_raw_price position))
          (dsub raw_exit exit_price)) quantity)) (\<lambda>q_slippage.
        bindE (money net) (\<lambda>q_net.
        Inr (x\<lparr>ex_state := s\<lparr>ps_cash := cash, ps_realized_pnl := realized,
                  ps_positions := dict_del symbol (ps_positions s)\<rparr>,
               ex_trades := ex_trades x @
                 [\<lparr>t_id = en_uuid env (ex_ids x), t_run_id = r_id (en_run env), t_symbol = symbol,
                   t_signal_date = sig_date (op_signal position),
                   t_entry_date = op_entry_date position, t_entry_price = q_entry,
                   t_quantity = op_quantity position, t_exit_date = day, t_exit_price = q_exit,
                   t_exit_reason = reason, t_gross_pnl = q_gross, t_commission = q_commission,
                   t_tax = q_tax, t_slippage_cost = q_slippage, t_net_pnl = q_net,
                   t_holding_days = op_holding_days position, t_created_at = en_now env\<rparr>],
               ex_ids := ex_ids x + 1\<rparr>)))))))))"

section \<open>One day\<close>

definition flat_bar :: "string \<Rightarrow> date \<Rightarrow> decimal \<Rightarrow> DailyBar" where
  "flat_bar symbol day c =
    \<lparr>b_symbol = symbol, b_date = day, b_open = c, b_high = c, b_low = c, b_close = c\<rparr>"

text \<open>Exits: the position found under the symbol is updated in place before its terms are read.\<close>

definition exit_step :: "exec_env \<Rightarrow> date \<Rightarrow> bar_table \<Rightarrow> bool \<Rightarrow> exec_state \<Rightarrow> string
    \<Rightarrow> exec_state res" where
  "exit_step env day bars final x symbol =
    (case map_of (positions_of x) symbol of
       None \<Rightarrow> Inl (KeyError symbol)
     | Some position \<Rightarrow>
       (let bar = (case map_of bars symbol of
             None \<Rightarrow> if final then Some (flat_bar symbol day (op_last_close position)) else None
           | Some b \<Rightarrow> Some b)
        in case bar of
          None \<Rightarrow> Inr x
        | Some b \<Rightarrow>
          (let position' = position\<lparr>op_holding_days := op_holding_days position + 1\<rparr>;
               x' = set_positions (dict_set symbol position' (positions_of x)) x
           in case exit_terms position' b (pf_trading (en_params env)) final of
             None \<Rightarrow> Inr x'
           | Some (reason, raw_exit) \<Rightarrow> close_position env symbol position' day raw_exit reason x')))"

definition skip_entry :: "PortfolioSkipReason \<Rightarrow> exec_state \<Rightarrow> exec_state" where
  "skip_entry r x = x\<lparr>ex_skips := add_skip r (ex_skips x)\<rparr>"

definition entry_skip :: "exec_env \<Rightarrow> exec_state \<Rightarrow> BacktestSignal \<Rightarrow> PortfolioSkipReason option" where
  "entry_skip env x signal =
    (if map_of (positions_of x) (sig_symbol signal) \<noteq> None then Some DUPLICATE_SYMBOL
     else if pf_max_open_positions (en_params env) \<le> int (length (positions_of x))
     then Some MAX_OPEN_POSITIONS else None)"

definition open_position :: "BacktestSignal \<Rightarrow> date \<Rightarrow> DailyBar \<Rightarrow> decimal \<Rightarrow> int \<Rightarrow> decimal
    \<Rightarrow> OpenPosition" where
  "open_position signal day bar effective quantity commission =
    \<lparr>op_signal = signal, op_entry_date = day, op_entry_raw_price = b_open bar,
     op_entry_price = effective, op_quantity = quantity, op_buy_commission = commission,
     op_last_close = effective, op_holding_days = 0\<rparr>"

definition entry_step :: "exec_env \<Rightarrow> date \<Rightarrow> bar_table \<Rightarrow> exec_state \<Rightarrow> BacktestSignal
    \<Rightarrow> exec_state res" where
  "entry_step env day bars x signal =
    (let pp = en_params env; p = pf_trading pp; s = ex_state x; symbol = sig_symbol signal in
     case map_of bars symbol of
       None \<Rightarrow> Inl (KeyError symbol)
     | Some bar \<Rightarrow>
       (let effective = dmul (b_open bar) (dadd 1 (slippage_rate p));
            (quantity, skip) = (case entry_skip env x signal of
                Some r \<Rightarrow> (0, Some r)
              | None \<Rightarrow> affordable_quantity (dmul (equity s) (pf_position_size_pct pp)) (ps_cash s)
                  (dmul (pf_initial_capital pp) (pf_minimum_cash_buffer_pct pp)) effective
                  (commission_rate p))
        in case skip of
          Some r \<Rightarrow> Inr (skip_entry r x)
        | None \<Rightarrow>
          (let notional = dmul effective (of_int quantity);
               commission = dmul notional (commission_rate p);
               required = dadd notional commission
           in if ps_cash s < required then Inr (skip_entry INSUFFICIENT_CASH x)
              else let d = dict_set symbol
                       (open_position signal day bar effective quantity commission) (ps_positions s)
                in Inr (x\<lparr>ex_state := s\<lparr>ps_cash := dsub (ps_cash s) required, ps_positions := d\<rparr>,
                     ex_maximum_open := max (ex_maximum_open x) (length d)\<rparr>))))"

definition liquidate_step :: "exec_env \<Rightarrow> date \<Rightarrow> bar_table \<Rightarrow> exec_state \<Rightarrow> string
    \<Rightarrow> exec_state res" where
  "liquidate_step env day bars x symbol =
    (case map_of (positions_of x) symbol of
       None \<Rightarrow> Inl (KeyError symbol)
     | Some position \<Rightarrow>
       if op_entry_date position = day
       then (case map_of bars symbol of
           None \<Rightarrow> Inl (KeyError symbol)
         | Some bar \<Rightarrow> close_position env symbol position day (b_close bar) END_OF_PERIOD x)
       else Inr x)"

definition mark_positions :: "bar_table \<Rightarrow> exec_state \<Rightarrow> exec_state" where
  "mark_positions bars x = set_positions (map (\<lambda>(symbol, position).
     (symbol, case map_of bars symbol of None \<Rightarrow> position
        | Some bar \<Rightarrow> position\<lparr>op_last_close := b_close bar\<rparr>)) (positions_of x)) x"

definition snapshot_step :: "exec_env \<Rightarrow> date \<Rightarrow> exec_state \<Rightarrow> exec_state res" where
  "snapshot_step env day x =
    (let s = ex_state x; market = market_value s;
         unrealized = dsum (map (\<lambda>(_, pos). dsub (position_value pos) (position_cost pos))
           (ps_positions s));
         eq = dadd (ps_cash s) market;
         peak = max (ps_running_peak s) eq;
         drawdown = dsub peak eq;
         utilization = dadd (ex_utilization x) (if eq \<noteq> 0 then dquot market eq else 0)
     in bindE (money (ps_cash s)) (\<lambda>q_cash.
        bindE (money market) (\<lambda>q_market.
        bindE (money (ps_realized_pnl s)) (\<lambda>q_realized.
        bindE (money unrealized) (\<lambda>q_unrealized.
        bindE (money eq) (\<lambda>q_equity.
        bindE (ddiv eq (pf_initial_capital (en_params env))) (\<lambda>growth.
        bindE (ratio (dsub growth 1)) (\<lambda>q_return.
        bindE (money peak) (\<lambda>q_peak.
        bindE (money drawdown) (\<lambda>q_drawdown.
        bindE (ddiv drawdown peak) (\<lambda>pct.
        bindE (ratio pct) (\<lambda>q_pct.
        Inr (x\<lparr>ex_state := s\<lparr>ps_running_peak := peak\<rparr>, ex_utilization := utilization,
               ex_ids := ex_ids x + 1,
               ex_snapshots := ex_snapshots x @
                 [\<lparr>sn_id = en_uuid env (ex_ids x), sn_run_id = r_id (en_run env),
                   sn_trading_date = day, sn_cash = q_cash, sn_market_value = q_market,
                   sn_realized_pnl = q_realized, sn_unrealized_pnl = q_unrealized,
                   sn_total_equity = q_equity, sn_cumulative_return = q_return,
                   sn_running_peak_equity = q_peak, sn_drawdown = q_drawdown,
                   sn_drawdown_pct = q_pct, sn_open_position_count = length (ps_positions s),
                   sn_created_at = en_now env\<rparr>]\<rparr>)))))))))))))"

definition day_step :: "exec_env \<Rightarrow> (date, bar_table) dict \<Rightarrow> (date, BacktestSignal list) dict
    \<Rightarrow> date \<Rightarrow> exec_state \<Rightarrow> date \<Rightarrow> exec_state res" where
  "day_step env by_date entry_events last_day x day =
    (let bars = dict_getd by_date day []; final = (day = last_day) in
     bindE (foldE (exit_step env day bars final) x (sorted_symbols x)) (\<lambda>x1.
     bindE (foldE (entry_step env day bars) x1
       (sort_key signal_key (dict_getd entry_events day []))) (\<lambda>x2.
     bindE (if final then foldE (liquidate_step env day bars) x2 (sorted_symbols x2) else Inr x2) (\<lambda>x3.
     snapshot_step env day (mark_positions bars x3)))))"

section \<open>The tables of a run\<close>

text \<open>
  The market calendar: the distinct dates of all bars in the run's range, in order; and the bars
  of the signalled symbols in date and symbol order.
\<close>

definition calendar :: "BacktestRun \<Rightarrow> DailyBar list \<Rightarrow> date list" where
  "calendar run rows = sort (remdups (map b_date
     (filter (\<lambda>b. r_start_date run \<le> b_date b \<and> b_date b \<le> r_end_date run) rows)))"

definition signal_symbols :: "BacktestSignal list \<Rightarrow> string list" where
  "signal_symbols signals = sort (remdups (map sig_symbol signals))"

definition bars_of :: "BacktestRun \<Rightarrow> string list \<Rightarrow> DailyBar list \<Rightarrow> DailyBar list" where
  "bars_of run symbols rows = sort_key (\<lambda>b. (b_date b, b_symbol b))
     (filter (\<lambda>b. r_start_date run \<le> b_date b \<and> b_date b \<le> r_end_date run
        \<and> b_symbol b \<in> set symbols) rows)"

definition index_step :: "(date, bar_table) dict \<times> (string \<times> date) list \<Rightarrow> DailyBar
    \<Rightarrow> ((date, bar_table) dict \<times> (string \<times> date) list) res" where
  "index_step acc row = (case acc of (by_date, seen) \<Rightarrow>
     if (b_symbol row, b_date row) \<in> set seen
     then Inl (DuplicateDailyBarError (b_symbol row) (b_date row))
     else Inr (dict_set (b_date row)
                 (dict_set (b_symbol row) row (dict_getd by_date (b_date row) [])) by_date,
               (b_symbol row, b_date row) # seen))"

definition index_bars :: "DailyBar list \<Rightarrow> (date, bar_table) dict res" where
  "index_bars rows = bindE (foldE index_step ([], []) rows) (\<lambda>acc. Inr (fst acc))"

text \<open>
  The entry day of a signal: the first calendar day after it on which its symbol has a bar. The
  lookup \<open>by_date[day]\<close> raises when no signalled symbol at all has a bar on a day it inspects.
\<close>

fun find_entry :: "(date, bar_table) dict \<Rightarrow> BacktestSignal \<Rightarrow> date list \<Rightarrow> date option res" where
  "find_entry by_date signal [] = Inr None"
| "find_entry by_date signal (day # days) =
    (if sig_date signal < day
     then (case map_of by_date day of
         None \<Rightarrow> Inl (KeyErrorDate day)
       | Some bars \<Rightarrow> if map_of bars (sig_symbol signal) \<noteq> None then Inr (Some day)
           else find_entry by_date signal days)
     else find_entry by_date signal days)"

definition schedule_step :: "(date, bar_table) dict \<Rightarrow> date list
    \<Rightarrow> (date, BacktestSignal list) dict \<times> (string, nat) dict \<Rightarrow> BacktestSignal
    \<Rightarrow> ((date, BacktestSignal list) dict \<times> (string, nat) dict) res" where
  "schedule_step by_date dates acc signal = (case acc of (events, skips) \<Rightarrow>
     bindE (find_entry by_date signal dates) (\<lambda>entry_date.
     case entry_date of
       None \<Rightarrow> Inr (events, add_skip SKIP_NO_ENTRY_BAR skips)
     | Some day \<Rightarrow> Inr (dict_append day signal events, skips)))"

section \<open>The whole execution\<close>

definition list_max :: "decimal \<Rightarrow> decimal list \<Rightarrow> decimal" where
  "list_max d xs = (case xs of [] \<Rightarrow> d | y # ys \<Rightarrow> foldl max y ys)"

definition start_exec :: "PortfolioState \<Rightarrow> (string, nat) dict \<Rightarrow> exec_state" where
  "start_exec s skips = \<lparr>ex_state = s, ex_trades = [], ex_snapshots = [], ex_skips = skips,
     ex_maximum_open = 0, ex_utilization = 0, ex_ids = 0\<rparr>"

definition run_days :: "exec_env \<Rightarrow> BacktestSignal list \<Rightarrow> DailyBar list \<Rightarrow> exec_state res" where
  "run_days env signals rows =
    (let dates = calendar (en_run env) rows in
     bindE (index_bars (bars_of (en_run env) (signal_symbols signals) rows)) (\<lambda>by_date.
     bindE (foldE (schedule_step by_date dates) ([], []) signals) (\<lambda>(events, skips).
     bindE (create_state (pf_initial_capital (en_params env))) (\<lambda>s.
     foldE (day_step env by_date events (last dates)) (start_exec s skips) dates))))"

definition portfolio_metrics :: "exec_env \<Rightarrow> nat \<Rightarrow> exec_state \<Rightarrow> metrics res" where
  "portfolio_metrics env total_signals x =
    (let capital = pf_initial_capital (en_params env); snaps = ex_snapshots x;
         final_equity = (if snaps = [] then capital else sn_total_equity (last snaps));
         max_dd = list_max 0 (map sn_drawdown snaps);
         max_dd_pct = list_max 0 (map sn_drawdown_pct snaps)
     in bindE (money capital) (\<lambda>q_capital.
        bindE (money final_equity) (\<lambda>q_final.
        bindE (money (ps_cash (ex_state x))) (\<lambda>q_cash.
        bindE (money (dsub final_equity capital)) (\<lambda>q_net.
        bindE (ddiv final_equity capital) (\<lambda>growth.
        bindE (ratio (dsub growth 1)) (\<lambda>q_return.
        bindE (money max_dd) (\<lambda>q_dd.
        bindE (ratio max_dd_pct) (\<lambda>q_dd_pct.
        bindE (ratio (if snaps = [] then 0 else dquot (ex_utilization x) (of_nat (length snaps)))) (\<lambda>q_util.
        Inr [(''initial_capital'', MDec q_capital), (''final_equity'', MDec q_final),
          (''final_cash'', MDec q_cash), (''net_profit'', MDec q_net),
          (''total_return'', MDec q_return), (''max_drawdown'', MDec q_dd),
          (''max_drawdown_pct'', MDec q_dd_pct), (''total_signals'', MInt (int total_signals)),
          (''entered_trades'', MInt (int (length (ex_trades x)))),
          (''skipped_signals'', MInt (int (sum_list (map snd (ex_skips x))))),
          (''skip_reasons'', MCounts (ex_skips x)),
          (''maximum_open_positions_used'', MInt (int (ex_maximum_open x))),
          (''average_capital_utilization'', MDec q_util)]))))))))))"

end
