(* ===== verification/Portfolio_Props.thy ===== *)
theory Portfolio_Props
  imports Portfolio
begin

text \<open>
  The invariant of portfolio execution and its preservation by every phase of the day loop; what
  follows for the snapshots, the counts and the final state; and the sizing function.
\<close>

section \<open>Dictionary facts\<close>

lemma length_dict_set: "length (dict_set k v d) = (if map_of d k = None then Suc (length d) else length d)"
  by (induction d) auto

lemma dict_set_mem: "(k', w) \<in> set (dict_set k v d) \<Longrightarrow> (k' = k \<and> w = v) \<or> (k', w) \<in> set d"
  by (induction d) (auto split: if_splits)

lemma dict_del_length: "dict_ok d \<Longrightarrow> map_of d k \<noteq> None \<Longrightarrow> Suc (length (dict_del k d)) = length d"
proof (induction d)
  case (Cons q d)
  obtain a b where q: "q = (a, b)" by (cases q)
  show ?case
  proof (cases "a = k")
    case True
    with Cons.prems(1) have "filter (\<lambda>p. fst p \<noteq> k) d = d"
      by (auto simp: q dict_ok_def filter_id_conv)
    then show ?thesis by (simp add: q True dict_del_def)
  next
    case False
    with Cons show ?thesis by (auto simp: q dict_ok_def dict_del_def)
  qed
qed simp

lemma dict_del_mem: "(k', w) \<in> set (dict_del k d) \<Longrightarrow> (k', w) \<in> set d"
  by (simp add: dict_del_def)

lemma dict_del_set [simp]: "map_of d k \<noteq> None \<Longrightarrow> dict_del k (dict_set k v d) = dict_del k d"
  by (induction d) (auto simp: dict_del_def)

lemma sum_add_skip: "sum_list (map snd (add_skip r d)) = Suc (sum_list (map snd d))"
proof -
  have "sum_list (map snd (dict_set k (dict_getd d k 0 + 1) d)) = Suc (sum_list (map snd d))"
    for k :: string and d :: "(string, nat) dict"
    by (induction d) (auto simp: dict_getd_def)
  then show ?thesis by (simp add: add_skip_def)
qed

section \<open>The invariant\<close>

definition pos_ok :: "string \<Rightarrow> OpenPosition \<Rightarrow> bool" where
  "pos_ok symbol p \<longleftrightarrow> sig_symbol (op_signal p) = symbol \<and> 1 \<le> op_quantity p
     \<and> 0 < op_entry_price p \<and> 0 \<le> op_buy_commission p \<and> 0 \<le> op_last_close p
     \<and> 0 \<le> op_holding_days p"

definition pf_inv :: "exec_env \<Rightarrow> exec_state \<Rightarrow> bool" where
  "pf_inv env x \<longleftrightarrow> dict_ok (positions_of x)
     \<and> (\<forall>(k, p) \<in> set (positions_of x). pos_ok k p)
     \<and> int (length (positions_of x)) \<le> pf_max_open_positions (en_params env)
     \<and> 0 \<le> ps_cash (ex_state x) \<and> 0 < ps_running_peak (ex_state x)"

definition bar_nonneg :: "DailyBar \<Rightarrow> bool" where
  "bar_nonneg b \<longleftrightarrow> 0 \<le> b_open b \<and> 0 \<le> b_high b \<and> 0 \<le> b_low b \<and> 0 \<le> b_close b"

definition bars_ok :: "bar_table \<Rightarrow> bool" where
  "bars_ok bars \<longleftrightarrow> (\<forall>k b. map_of bars k = Some b \<longrightarrow> bar_nonneg b)"

text \<open>Costs of a sale that leave something of the proceeds.\<close>

definition costs_ok :: "BacktestParameters \<Rightarrow> bool" where
  "costs_ok p \<longleftrightarrow> commission_rate p + sell_tax_rate p \<le> 99 / 100"

definition env_ok :: "exec_env \<Rightarrow> bool" where
  "env_ok env \<longleftrightarrow> valid_portfolio (en_params env) \<and> costs_ok (pf_trading (en_params env))"

lemma env_ok_trading: "env_ok env \<Longrightarrow> valid_parameters (pf_trading (en_params env))"
  by (simp add: env_ok_def valid_portfolio_def)

lemma dround_rel:
  assumes "0 \<le> x"
  shows "dround x \<le> x * (1001 / 1000)"
proof -
  have "\<bar>x\<bar> / 10 ^ 27 \<le> x / 1000" using assms by (simp add: divide_left_mono)
  with dround_error [of x] have "dround x \<le> x + x / 1000" by linarith
  then show ?thesis by (simp add: algebra_simps)
qed

lemma sale_proceeds_nonneg:
  assumes "0 \<le> s" and "valid_parameters p" and "costs_ok p"
  shows "0 \<le> sale_proceeds s p"
proof -
  let ?c = "s * commission_rate p" and ?t = "s * sell_tax_rate p"
  have nn: "0 \<le> ?c" "0 \<le> ?t" using assms by (simp_all add: valid_parameters_def)
  have "?c + ?t = s * (commission_rate p + sell_tax_rate p)" by (simp add: distrib_left)
  also have "\<dots> \<le> s * (99 / 100)"
    using assms(1,3) unfolding costs_ok_def by (rule mult_left_mono [rotated])
  finally have sum: "?c + ?t \<le> s * (99 / 100)" .
  define y where "y = s - dround ?c"
  have "?t * (1001 / 1000) \<le> y"
    using sum dround_rel [OF nn(1)] nn assms(1) unfolding y_def by linarith
  then have "dround ?t \<le> y" using dround_rel [OF nn(2)] by linarith
  then have "dround ?t \<le> dround y" using dround_mono [of "dround ?t" y] by simp
  then show ?thesis unfolding sale_proceeds_def dsub_def dmul_def y_def by (simp add: dround_nonneg)
qed

section \<open>Sizing\<close>

lemma decrement_le: "decrement price rate allowed q \<le> q"
proof (induction price rate allowed q rule: decrement.induct)
  case (1 price rate allowed q)
  then show ?case by (subst decrement.simps) (auto split: if_splits)
qed

lemma decrement_fits:
  "0 < decrement price rate allowed q \<Longrightarrow>
    dmul (dmul price (of_int (decrement price rate allowed q))) (dadd 1 rate) \<le> allowed"
proof (induction price rate allowed q rule: decrement.induct)
  case (1 price rate allowed q)
  then show ?case by (subst (asm) (2) decrement.simps, subst decrement.simps) (auto split: if_splits)
qed

lemma decrement_maximal:
  "decrement price rate allowed q < r \<Longrightarrow> r \<le> q \<Longrightarrow> 0 < r \<Longrightarrow>
    allowed < dmul (dmul price (of_int r)) (dadd 1 rate)"
proof (induction price rate allowed q rule: decrement.induct)
  case (1 price rate allowed q)
  show ?case
  proof (cases "0 < q \<and> allowed < dmul (dmul price (of_int q)) (dadd 1 rate)")
    case True
    with 1 show ?thesis by (cases "r = q") (simp_all add: decrement.simps [of price rate allowed q])
  next
    case False
    then have "decrement price rate allowed q = q"
      by (subst decrement.simps) (simp only: if_False)
    with 1 show ?thesis by simp
  qed
qed

lemma decrement_nonneg: "0 \<le> q \<Longrightarrow> 0 \<le> decrement price rate allowed q"
  by (induction price rate allowed q rule: decrement.induct) (subst decrement.simps, simp)

text \<open>
  C5. Sizing is exact: a quantity is returned without a reason precisely when the price is
  positive, cash remains above the buffer and at least one share fits; it then is the largest
  number of shares, up to the quotient of budget and price, whose cost with commission fits the
  budget. Otherwise the quantity is zero and the reason is exactly the condition that failed, in this
  order: no positive price, no cash above the buffer, a budget below the price of one share, and a
  budget that covers one share but not with the commission.
\<close>

theorem affordable_quantity_spec:
  "case affordable_quantity target cash buffer price rate of
     (q, None) \<Rightarrow> 0 < price \<and> 0 < dsub cash buffer \<and> 1 \<le> q
        \<and> q \<le> round_down (dquot (min target (dsub cash buffer)) price)
        \<and> dmul (dmul price (of_int q)) (dadd 1 rate) \<le> min target (dsub cash buffer)
        \<and> (\<forall>r. q < r \<and> r \<le> round_down (dquot (min target (dsub cash buffer)) price)
             \<longrightarrow> min target (dsub cash buffer) < dmul (dmul price (of_int r)) (dadd 1 rate))
   | (q, Some reason) \<Rightarrow> q = 0 \<and>
        (reason = INVALID_PRICE \<and> price \<le> 0
         \<or> reason = MINIMUM_CASH_BUFFER \<and> 0 < price \<and> dsub cash buffer \<le> 0
         \<or> reason = (if min target (dsub cash buffer) < price then QUANTITY_ZERO else INSUFFICIENT_CASH)
           \<and> 0 < price \<and> 0 < dsub cash buffer
           \<and> (\<forall>r. 1 \<le> r \<and> r \<le> round_down (dquot (min target (dsub cash buffer)) price)
                \<longrightarrow> min target (dsub cash buffer) < dmul (dmul price (of_int r)) (dadd 1 rate)))"
proof -
  let ?a = "min target (dsub cash buffer)"
  let ?n = "round_down (dquot ?a price)"
  let ?q = "decrement price rate ?a ?n"
  note max = decrement_maximal [of price rate ?a ?n] and fits = decrement_fits [of price rate ?a ?n]
  have pos: "?a < dmul (dmul price (of_int r)) (dadd 1 rate)" if "?q \<le> 0" "1 \<le> r" "r \<le> ?n" for r
    using that by (intro max) simp_all
  have le: "?q \<le> ?n" by (rule decrement_le)
  show ?thesis
    unfolding affordable_quantity_def Let_def
    using max fits le pos by auto
qed

lemma affordable_quantity_spec_witness:
  "affordable_quantity 1000 5000 100 50 (1 / 1000) = (19, None)
    \<and> 1000 < dmul (dmul 50 20) (dadd 1 (1 / 1000))"
proof -
  have a: "affordable_quantity 1000 5000 100 50 (1 / 1000) = (19, None)"
    and "min 1000 (dsub 5000 100) = 1000" "round_down (dquot 1000 50) = 20" by code_simp+
  then show ?thesis
    using affordable_quantity_spec [where target = 1000 and cash = 5000 and buffer = 100 and price = 50
        and rate = "1 / 1000"] by (auto dest: spec [of _ 20])
qed

section \<open>Preservation\<close>

lemma positions_set_positions [simp]:
  "positions_of (set_positions d x) = d" "ps_cash (ex_state (set_positions d x)) = ps_cash (ex_state x)"
  "ps_running_peak (ex_state (set_positions d x)) = ps_running_peak (ex_state x)"
  "ex_trades (set_positions d x) = ex_trades x" "ex_skips (set_positions d x) = ex_skips x"
  "ex_snapshots (set_positions d x) = ex_snapshots x"
  by (simp_all add: set_positions_def)

text \<open>What closing a position changes.\<close>

lemma close_position_Inr:
  assumes "close_position env symbol position day raw reason x = Inr x'"
  shows "positions_of x' = dict_del symbol (positions_of x)
    \<and> ps_cash (ex_state x') = dadd (ps_cash (ex_state x)) (sale_proceeds
        (dmul (dmul raw (dsub 1 (slippage_rate (pf_trading (en_params env))))) (of_int (op_quantity position)))
        (pf_trading (en_params env)))
    \<and> ps_running_peak (ex_state x') = ps_running_peak (ex_state x)
    \<and> ex_skips x' = ex_skips x \<and> ex_snapshots x' = ex_snapshots x
    \<and> (\<exists>t. ex_trades x' = ex_trades x @ [t] \<and> t_symbol t = symbol
        \<and> t_run_id t = r_id (en_run env) \<and> t_signal_date t = sig_date (op_signal position)
        \<and> t_entry_date t = op_entry_date position \<and> t_exit_date t = day
        \<and> t_quantity t = op_quantity position \<and> t_holding_days t = op_holding_days position
        \<and> t_exit_reason t = reason)"
  using assms by (auto simp: close_position_def Let_def bindE_eq_Inr)

lemma pf_inv_position: "pf_inv env x \<Longrightarrow> map_of (positions_of x) k = Some p \<Longrightarrow> pos_ok k p"
  unfolding pf_inv_def by (auto dest: map_of_SomeD)

lemma close_position_inv:
  assumes c: "close_position env symbol position day raw reason x = Inr x'"
    and inv: "pf_inv env x" and env: "env_ok env" and raw: "0 \<le> raw" and q: "1 \<le> op_quantity position"
  shows "pf_inv env x'"
proof -
  let ?p = "pf_trading (en_params env)"
  have v: "valid_parameters ?p" using env by (rule env_ok_trading)
  then have "0 \<le> dmul (dmul raw (dsub 1 (slippage_rate ?p))) (of_int (op_quantity position))"
    using raw q by (intro dmul_nonneg dsub_nonneg) (simp_all add: valid_parameters_def)
  then have "0 \<le> dadd (ps_cash (ex_state x)) (sale_proceeds
      (dmul (dmul raw (dsub 1 (slippage_rate ?p))) (of_int (op_quantity position))) ?p)"
    using inv env v by (intro dadd_nonneg sale_proceeds_nonneg) (simp_all add: pf_inv_def env_ok_def)
  moreover have "length (dict_del symbol (positions_of x)) \<le> length (positions_of x)"
    by (simp add: dict_del_def)
  ultimately show ?thesis
    using close_position_Inr [OF c] inv unfolding pf_inv_def
    by (auto dest: dict_del_mem)
qed

lemma exit_terms_raw_nonneg:
  "exit_terms position b p final = Some (reason, raw) \<Longrightarrow> bar_nonneg b \<Longrightarrow> 0 < op_entry_price position
    \<Longrightarrow> valid_parameters p \<Longrightarrow> 0 \<le> raw"
  by (auto simp: exit_terms_def Let_def bar_nonneg_def valid_parameters_def
      intro!: dmul_nonneg dadd_nonneg dsub_nonneg split: if_splits)

lemma holding_update_inv:
  assumes inv: "pf_inv env x" and m: "map_of (positions_of x) symbol = Some position"
  shows "pf_inv env (set_positions (dict_set symbol
    (position\<lparr>op_holding_days := op_holding_days position + 1\<rparr>) (positions_of x)) x)"
proof -
  have "pos_ok symbol (position\<lparr>op_holding_days := op_holding_days position + 1\<rparr>)"
    using pf_inv_position [OF inv m] by (simp add: pos_ok_def)
  then show ?thesis using inv m
    unfolding pf_inv_def by (auto simp: length_dict_set dest: dict_set_mem)
qed

text \<open>The ways an exit step can succeed.\<close>

abbreviation held_longer :: "OpenPosition \<Rightarrow> OpenPosition" where
  "held_longer position \<equiv> position\<lparr>op_holding_days := op_holding_days position + 1\<rparr>"

lemma exit_step_Inr:
  assumes s: "exit_step env day bars final x symbol = Inr x'"
  obtains (carried) position where "map_of (positions_of x) symbol = Some position" "x' = x" "\<not> final"
  | (held) position where "map_of (positions_of x) symbol = Some position" "\<not> final"
      "op_holding_days position + 1 < max_holding_days (pf_trading (en_params env))"
      "x' = set_positions (dict_set symbol (held_longer position) (positions_of x)) x"
  | (closed) position b y raw reason where "map_of (positions_of x) symbol = Some position"
      "map_of bars symbol = Some b \<or> b = flat_bar symbol day (op_last_close position)"
      "exit_terms (held_longer position) b (pf_trading (en_params env)) final = Some (reason, raw)"
      "y = set_positions (dict_set symbol (held_longer position) (positions_of x)) x"
      "close_position env symbol (held_longer position) day raw reason y = Inr x'"
proof -
  obtain position where m: "map_of (positions_of x) symbol = Some position"
    using s by (auto simp: exit_step_def split: option.splits)
  define bar where "bar = (case map_of bars symbol of
    None \<Rightarrow> if final then Some (flat_bar symbol day (op_last_close position)) else None | Some b \<Rightarrow> Some b)"
  define y where "y = set_positions (dict_set symbol (held_longer position) (positions_of x)) x"
  have e: "(case bar of None \<Rightarrow> Inr x | Some b \<Rightarrow>
      (case exit_terms (held_longer position) b (pf_trading (en_params env)) final of None \<Rightarrow> Inr y
        | Some (reason, raw) \<Rightarrow> close_position env symbol (held_longer position) day raw reason y)) = Inr x'"
    using s m unfolding exit_step_def Let_def y_def by (simp add: bar_def [symmetric])
  show thesis
  proof (cases bar)
    case None
    moreover from None have "\<not> final" by (auto simp: bar_def split: option.splits)
    ultimately show thesis using carried m e by simp
  next
    case (Some b)
    have b: "map_of bars symbol = Some b \<or> b = flat_bar symbol day (op_last_close position)"
      using Some by (auto simp: bar_def split: option.splits if_splits)
    show thesis
    proof (cases "exit_terms (held_longer position) b (pf_trading (en_params env)) final")
      case None
      moreover from None have "\<not> final"
        "op_holding_days position + 1 < max_holding_days (pf_trading (en_params env))"
        by (auto simp: exit_terms_def Let_def split: if_splits)
      ultimately show thesis using held m e Some by (simp add: y_def)
    next
      case (Some t)
      with e \<open>bar = Some b\<close> show thesis
        by (cases t) (use closed [OF m b _ y_def] in simp)
    qed
  qed
qed

lemma exit_step_inv:
  assumes "exit_step env day bars final x symbol = Inr x'" and inv: "pf_inv env x"
    and env: "env_ok env" and bars: "bars_ok bars"
  shows "pf_inv env x'"
  using assms(1)
proof (cases rule: exit_step_Inr)
  case (held position)
  then show ?thesis using holding_update_inv [OF inv] by simp
next
  case (closed position b y raw reason)
  have po: "pos_ok symbol position" using inv closed(1) by (rule pf_inv_position)
  have "bar_nonneg b"
    using closed(2) bars po by (auto simp: bars_ok_def flat_bar_def bar_nonneg_def pos_ok_def)
  then have "0 \<le> raw"
    using exit_terms_raw_nonneg [OF closed(3) _ _ env_ok_trading [OF env]] po by (simp add: pos_ok_def)
  moreover have "pf_inv env y" unfolding closed(4) using inv closed(1) by (rule holding_update_inv)
  ultimately show ?thesis using po by (intro close_position_inv [OF closed(5) _ env]) (simp_all add: pos_ok_def)
qed (use inv in simp)

definition tally :: "exec_state \<Rightarrow> nat" where
  "tally x = length (ex_trades x) + length (positions_of x) + sum_list (map snd (ex_skips x))"

lemma close_position_tally:
  assumes "close_position env symbol position day raw reason x = Inr x'"
    and "dict_ok (positions_of x)" and "map_of (positions_of x) symbol \<noteq> None"
  shows "tally x' = tally x"
  using close_position_Inr [OF assms(1)] dict_del_length [OF assms(2,3)]
  by (auto simp: tally_def)

lemma exit_step_tally:
  assumes "exit_step env day bars final x symbol = Inr x'" and "dict_ok (positions_of x)"
  shows "tally x' = tally x"
  using assms(1)
proof (cases rule: exit_step_Inr)
  case (closed position b y raw reason)
  have "tally x' = tally y"
    using assms(2) by (intro close_position_tally [OF closed(5)]) (simp_all add: closed(4))
  also have "\<dots> = tally x" using closed(1) by (simp add: closed(4) tally_def length_dict_set)
  finally show ?thesis .
qed (simp_all add: tally_def length_dict_set)

lemma exit_step_keys:
  assumes "exit_step env day bars True x symbol = Inr x'"
  shows "fst ` set (positions_of x') = fst ` set (positions_of x) - {symbol}"
  using assms
proof (cases rule: exit_step_Inr)
  case (closed position b y raw reason)
  then show ?thesis
    using close_position_Inr [OF closed(5)] by (auto simp: dict_del_keys dict_set_keys)
qed simp_all

lemma liquidate_step_Inr:
  assumes "liquidate_step env day bars x symbol = Inr x'"
  obtains (kept) position where "map_of (positions_of x) symbol = Some position" "x' = x"
      "op_entry_date position \<noteq> day"
  | (closed) position bar where "map_of (positions_of x) symbol = Some position"
      "map_of bars symbol = Some bar" "op_entry_date position = day"
      "close_position env symbol position day (b_close bar) END_OF_PERIOD x = Inr x'"
  using assms by (fastforce simp: liquidate_step_def split: option.splits if_splits)

lemma liquidate_step_inv:
  assumes "liquidate_step env day bars x symbol = Inr x'" and inv: "pf_inv env x"
    and env: "env_ok env" and bars: "bars_ok bars"
  shows "pf_inv env x' \<and> tally x' = tally x"
  using assms(1)
proof (cases rule: liquidate_step_Inr)
  case (closed position bar)
  have "pos_ok symbol position" using inv closed(1) by (rule pf_inv_position)
  then have "pf_inv env x'"
    using bars closed(2) by (intro close_position_inv [OF closed(4) inv env])
      (auto simp: pos_ok_def bars_ok_def bar_nonneg_def)
  moreover have "tally x' = tally x"
    using closed(1) inv by (intro close_position_tally [OF closed(4)]) (simp_all add: pf_inv_def)
  ultimately show ?thesis ..
qed (use inv in simp)

text \<open>Entries: one more signal accounted for, cash never overdrawn, the limit kept.\<close>

lemma affordable_quantity_None:
  "affordable_quantity target cash buffer price rate = (q, None) \<Longrightarrow> 0 < price \<and> 1 \<le> q"
  by (auto simp: affordable_quantity_def Let_def split: if_splits)

lemma entry_step_Inr:
  assumes "entry_step env day bars x signal = Inr x'"
  obtains (skipped) r where "x' = skip_entry r x"
  | (entered) bar q where "map_of bars (sig_symbol signal) = Some bar" "entry_skip env x signal = None"
      "0 < dmul (b_open bar) (dadd 1 (slippage_rate (pf_trading (en_params env))))" "1 \<le> q"
      "let e = dmul (b_open bar) (dadd 1 (slippage_rate (pf_trading (en_params env))));
           c = dmul (dmul e (of_int q)) (commission_rate (pf_trading (en_params env)));
           need = dadd (dmul e (of_int q)) c;
           d = dict_set (sig_symbol signal) (open_position signal day bar e q c) (positions_of x)
       in need \<le> ps_cash (ex_state x) \<and> x' = x\<lparr>ex_state := (ex_state x)\<lparr>ps_cash := dsub (ps_cash (ex_state x)) need,
            ps_positions := d\<rparr>, ex_maximum_open := max (ex_maximum_open x) (length d)\<rparr>"
  using assms
  by (fastforce simp: entry_step_def Let_def dest: affordable_quantity_None
      split: option.splits if_splits prod.splits)

lemma entry_step_inv:
  assumes "entry_step env day bars x signal = Inr x'" and inv: "pf_inv env x" and env: "env_ok env"
  shows "pf_inv env x' \<and> tally x' = Suc (tally x)
    \<and> (\<forall>(k, p) \<in> set (positions_of x'). op_entry_date p = day \<or> (k, p) \<in> set (positions_of x))"
  using assms(1)
proof (cases rule: entry_step_Inr)
  case (skipped r)
  then show ?thesis using inv by (auto simp: skip_entry_def pf_inv_def tally_def sum_add_skip)
next
  case (entered bar q)
  let ?p = "pf_trading (en_params env)"
  define e where "e = dmul (b_open bar) (dadd 1 (slippage_rate ?p))"
  define c where "c = dmul (dmul e (of_int q)) (commission_rate ?p)"
  define d where "d = dict_set (sig_symbol signal) (open_position signal day bar e q c) (positions_of x)"
  have x': "dadd (dmul e (of_int q)) c \<le> ps_cash (ex_state x)"
    "positions_of x' = d" "ps_cash (ex_state x') = dsub (ps_cash (ex_state x)) (dadd (dmul e (of_int q)) c)"
    "ps_running_peak (ex_state x') = ps_running_peak (ex_state x)"
    "ex_trades x' = ex_trades x" "ex_skips x' = ex_skips x"
    using entered(5) by (simp_all add: Let_def e_def c_def d_def)
  have new: "map_of (positions_of x) (sig_symbol signal) = None"
    and room: "int (length (positions_of x)) < pf_max_open_positions (en_params env)"
    using entered(2) by (auto simp: entry_skip_def split: if_splits)
  have "0 < e" using entered(3) by (simp add: e_def)
  then have "0 \<le> c" using entered(4) env_ok_trading [OF env]
    unfolding c_def by (intro dmul_nonneg) (simp_all add: valid_parameters_def)
  then have "pos_ok (sig_symbol signal) (open_position signal day bar e q c)"
    using entered(3,4) by (simp add: pos_ok_def open_position_def e_def)
  then have "pf_inv env x'"
    using inv new room x' unfolding pf_inv_def d_def
    by (auto simp: length_dict_set dsub_nonneg dest: dict_set_mem)
  moreover have "tally x' = Suc (tally x)" using new by (simp add: tally_def x' d_def length_dict_set)
  moreover have "\<forall>(k, p) \<in> set (positions_of x'). op_entry_date p = day \<or> (k, p) \<in> set (positions_of x)"
    unfolding x' d_def by (auto simp: open_position_def dest: dict_set_mem)
  ultimately show ?thesis by blast
qed

section \<open>Dates and holding periods\<close>

definition pos_dated :: "exec_env \<Rightarrow> date \<Rightarrow> OpenPosition \<Rightarrow> bool" where
  "pos_dated env day p \<longleftrightarrow> sig_date (op_signal p) < op_entry_date p \<and> op_entry_date p \<le> day
     \<and> op_holding_days p < max_holding_days (pf_trading (en_params env))"

definition trade_ok :: "exec_env \<Rightarrow> date \<Rightarrow> BacktestTrade \<Rightarrow> bool" where
  "trade_ok env day t \<longleftrightarrow> t_run_id t = r_id (en_run env) \<and> 1 \<le> t_quantity t
     \<and> t_signal_date t < t_entry_date t \<and> t_entry_date t \<le> t_exit_date t \<and> t_exit_date t \<le> day
     \<and> 0 \<le> t_holding_days t \<and> t_holding_days t \<le> max_holding_days (pf_trading (en_params env))"

definition dated_inv :: "exec_env \<Rightarrow> date \<Rightarrow> exec_state \<Rightarrow> bool" where
  "dated_inv env day x \<longleftrightarrow> (\<forall>(k, p) \<in> set (positions_of x). pos_dated env day p)
     \<and> (\<forall>t \<in> set (ex_trades x). trade_ok env day t)"

lemma dated_inv_position: "dated_inv env day x \<Longrightarrow> map_of (positions_of x) k = Some p \<Longrightarrow> pos_dated env day p"
  unfolding dated_inv_def by (auto dest: map_of_SomeD)

lemma dated_inv_mono: "dated_inv env d x \<Longrightarrow> d \<le> d' \<Longrightarrow> dated_inv env d' x"
  unfolding dated_inv_def pos_dated_def trade_ok_def by fastforce

lemma close_position_dated:
  assumes c: "close_position env symbol position day raw reason x = Inr x'"
    and "dated_inv env day x" and "1 \<le> op_quantity position"
    and "sig_date (op_signal position) < op_entry_date position" "op_entry_date position \<le> day"
    and "0 \<le> op_holding_days position"
    and "op_holding_days position \<le> max_holding_days (pf_trading (en_params env))"
  shows "dated_inv env day x'"
  using assms(2-) close_position_Inr [OF c]
  by (auto simp: dated_inv_def trade_ok_def dest: dict_del_mem)

lemma exit_step_dated:
  assumes "exit_step env day bars final x symbol = Inr x'" and inv: "pf_inv env x" "dated_inv env day x"
  shows "dated_inv env day x'"
  using assms(1)
proof (cases rule: exit_step_Inr)
  case (held position)
  then show ?thesis using inv(2) dated_inv_position [OF inv(2) held(1)]
    by (auto simp: dated_inv_def pos_dated_def dest!: dict_set_mem)
next
  case (closed position b y raw reason)
  have po: "pos_ok symbol position" and pd: "pos_dated env day position"
    using pf_inv_position [OF inv(1) closed(1)] dated_inv_position [OF inv(2) closed(1)] .
  have close: "close_position env symbol (held_longer position) day raw reason y = Inr x'" by (rule closed(5))
  define z where "z = set_positions (dict_del symbol (positions_of x)) x"
  have "dated_inv env day z"
    using inv(2) unfolding z_def dated_inv_def by (auto dest: dict_del_mem)
  moreover have "positions_of x' = positions_of z"
    using close_position_Inr [OF close] closed(1) unfolding closed(4) z_def by simp
  ultimately show ?thesis
    using close_position_Inr [OF close] po pd unfolding closed(4) z_def
    by (auto simp: dated_inv_def trade_ok_def pos_ok_def pos_dated_def)
qed (use inv in simp)

lemma entry_step_dated:
  assumes "entry_step env day bars x signal = Inr x'" and inv: "dated_inv env day x"
    and "sig_date signal < day" and env: "env_ok env"
  shows "dated_inv env day x'"
  using assms(1)
proof (cases rule: entry_step_Inr)
  case (entered bar q)
  then show ?thesis
    using inv assms(3) env_ok_trading [OF env] unfolding dated_inv_def
    by (auto simp: Let_def open_position_def pos_dated_def valid_parameters_def dest!: dict_set_mem)
qed (use inv in \<open>simp add: skip_entry_def dated_inv_def\<close>)

lemma liquidate_step_dated:
  assumes "liquidate_step env day bars x symbol = Inr x'" and inv: "pf_inv env x" "dated_inv env day x"
  shows "dated_inv env day x'"
  using assms(1)
proof (cases rule: liquidate_step_Inr)
  case (closed position bar)
  note pos_ok = pf_inv_position [OF inv(1) closed(1)] and pd = dated_inv_position [OF inv(2) closed(1)]
  then show ?thesis using inv(2)
    by (intro close_position_dated [OF closed(4)]) (auto simp: pos_ok_def pos_dated_def)
qed (use inv in simp)

section \<open>The phases of a day\<close>

text \<open>The snapshots are untouched until the end of the day.\<close>

lemma step_snapshots:
  "exit_step env day bars final x symbol = Inr x' \<Longrightarrow>
     ex_snapshots x' = ex_snapshots x \<and> ps_running_peak (ex_state x') = ps_running_peak (ex_state x)"
  "entry_step env day bars x signal = Inr x' \<Longrightarrow>
     ex_snapshots x' = ex_snapshots x \<and> ps_running_peak (ex_state x') = ps_running_peak (ex_state x)"
  "liquidate_step env day bars x symbol = Inr x' \<Longrightarrow>
     ex_snapshots x' = ex_snapshots x \<and> ps_running_peak (ex_state x') = ps_running_peak (ex_state x)"
proof -
  show "exit_step env day bars final x symbol = Inr x' \<Longrightarrow>
     ex_snapshots x' = ex_snapshots x \<and> ps_running_peak (ex_state x') = ps_running_peak (ex_state x)"
    by (erule exit_step_Inr) (auto dest: close_position_Inr)
  show "entry_step env day bars x signal = Inr x' \<Longrightarrow>
     ex_snapshots x' = ex_snapshots x \<and> ps_running_peak (ex_state x') = ps_running_peak (ex_state x)"
    by (erule entry_step_Inr) (auto simp: skip_entry_def Let_def)
  show "liquidate_step env day bars x symbol = Inr x' \<Longrightarrow>
     ex_snapshots x' = ex_snapshots x \<and> ps_running_peak (ex_state x') = ps_running_peak (ex_state x)"
    by (erule liquidate_step_Inr) (auto dest: close_position_Inr)
qed

text \<open>What the phases before the snapshot keep: both invariants, and the snapshots so far.\<close>

definition day_inv :: "exec_env \<Rightarrow> date \<Rightarrow> exec_state \<Rightarrow> exec_state \<Rightarrow> bool" where
  "day_inv env day x0 x \<longleftrightarrow> pf_inv env x \<and> dated_inv env day x
     \<and> ex_snapshots x = ex_snapshots x0 \<and> ps_running_peak (ex_state x) = ps_running_peak (ex_state x0)"

lemma exits_phase:
  assumes "foldE (exit_step env day bars final) x syms = Inr x'" and "day_inv env day x0 x"
    and env: "env_ok env" and bars: "bars_ok bars"
  shows "day_inv env day x0 x' \<and> tally x' = tally x"
proof (rule foldE_invariant [OF assms(1), where P = "\<lambda>y. day_inv env day x0 y \<and> tally y = tally x"])
  fix y symbol y'
  assume "day_inv env day x0 y \<and> tally y = tally x" and s: "exit_step env day bars final y symbol = Inr y'"
  then show "day_inv env day x0 y' \<and> tally y' = tally x"
    using exit_step_inv [OF s _ env bars] exit_step_dated [OF s] exit_step_tally [OF s] step_snapshots(1) [OF s]
    by (simp add: day_inv_def pf_inv_def)
qed (use assms(2) in simp)

lemma exits_final:
  assumes "foldE (exit_step env day bars True) x syms = Inr x'"
  shows "fst ` set (positions_of x') = fst ` set (positions_of x) - set syms"
  using assms
proof (induction syms arbitrary: x)
  case (Cons s syms)
  then obtain y where y: "exit_step env day bars True x s = Inr y"
    "foldE (exit_step env day bars True) y syms = Inr x'"
    by (auto simp: bindE_eq_Inr)
  show ?case unfolding Cons.IH [OF y(2)] exit_step_keys [OF y(1)] by auto
qed simp

lemma entries_phase:
  assumes "foldE (entry_step env day bars) x sigs = Inr x'" and "day_inv env day x0 x"
    and env: "env_ok env" and sigs: "\<And>s. s \<in> set sigs \<Longrightarrow> sig_date s < day"
  shows "day_inv env day x0 x' \<and> tally x' = tally x + length sigs
    \<and> (\<forall>(k, p) \<in> set (positions_of x'). op_entry_date p = day \<or> (k, p) \<in> set (positions_of x))"
  using assms(1,2) sigs
proof (induction sigs arbitrary: x)
  case (Cons s sigs)
  then obtain y where y: "entry_step env day bars x s = Inr y" "foldE (entry_step env day bars) y sigs = Inr x'"
    by (auto simp: bindE_eq_Inr)
  have i: "pf_inv env x" "dated_inv env day x" using Cons.prems(2) by (simp_all add: day_inv_def)
  have "sig_date s < day" using Cons.prems(3) by simp
  note e = entry_step_inv [OF y(1) i(1) env] and d = entry_step_dated [OF y(1) i(2) this env]
    and n = step_snapshots(2) [OF y(1)]
  have "day_inv env day x0 y" using e d n Cons.prems(2) by (simp add: day_inv_def)
  from Cons.IH [OF y(2) this Cons.prems(3)] have IH: "day_inv env day x0 x'"
    "tally x' = tally y + length sigs"
    "\<forall>(k, p) \<in> set (positions_of x'). op_entry_date p = day \<or> (k, p) \<in> set (positions_of y)" by auto
  then show ?case using e by fastforce
qed auto

lemma liquidate_phase:
  assumes "foldE (liquidate_step env day bars) x syms = Inr x'" and "day_inv env day x0 x"
    and env: "env_ok env" and bars: "bars_ok bars"
  shows "day_inv env day x0 x' \<and> tally x' = tally x"
proof (rule foldE_invariant [OF assms(1), where P = "\<lambda>y. day_inv env day x0 y \<and> tally y = tally x"])
  fix y symbol y'
  assume "day_inv env day x0 y \<and> tally y = tally x" and s: "liquidate_step env day bars y symbol = Inr y'"
  then show "day_inv env day x0 y' \<and> tally y' = tally x"
    using liquidate_step_inv [OF s _ env bars] liquidate_step_dated [OF s] step_snapshots(3) [OF s]
    by (simp add: day_inv_def)
qed (use assms(2) in simp)

text \<open>When every position was entered today, the final liquidation leaves none of those it visits.\<close>

lemma liquidate_final:
  assumes "foldE (liquidate_step env day bars) x syms = Inr x'"
    and "\<forall>(k, p) \<in> set (positions_of x). op_entry_date p = day"
  shows "fst ` set (positions_of x') = fst ` set (positions_of x) - set syms"
  using assms
proof (induction syms arbitrary: x)
  case (Cons s syms)
  then obtain y where y: "liquidate_step env day bars x s = Inr y" "foldE (liquidate_step env day bars) y syms = Inr x'"
    by (auto simp: bindE_eq_Inr)
  from y(1) have "positions_of y = dict_del s (positions_of x)"
  proof (cases rule: liquidate_step_Inr)
    case (kept position)
    then show ?thesis using Cons.prems(2) by (auto dest: map_of_SomeD)
  qed (auto dest: close_position_Inr)
  moreover from this have "\<forall>(k, p) \<in> set (positions_of y). op_entry_date p = day"
    using Cons.prems(2) by (auto dest: dict_del_mem)
  ultimately show ?case using Cons.IH [OF y(2)] by (simp add: dict_del_keys) blast
qed simp

section \<open>Marking and the snapshot\<close>

lemma mark_positions_keys: "map fst (positions_of (mark_positions bars x)) = map fst (positions_of x)"
  by (auto simp: mark_positions_def)

lemma mark_positions_simps [simp]:
  "ps_cash (ex_state (mark_positions bars x)) = ps_cash (ex_state x)"
  "ps_running_peak (ex_state (mark_positions bars x)) = ps_running_peak (ex_state x)"
  "ex_trades (mark_positions bars x) = ex_trades x" "ex_skips (mark_positions bars x) = ex_skips x"
  "ex_snapshots (mark_positions bars x) = ex_snapshots x"
  by (simp_all add: mark_positions_def)

lemma mark_positions_mem:
  assumes "bars_ok bars" and "(k, p) \<in> set (positions_of (mark_positions bars x))"
  obtains q c where "(k, q) \<in> set (positions_of x)" "p = q \<or> p = q\<lparr>op_last_close := c\<rparr> \<and> 0 \<le> c"
proof -
  obtain q where q: "(k, q) \<in> set (positions_of x)"
    and p: "p = (case map_of bars k of None \<Rightarrow> q | Some bar \<Rightarrow> q\<lparr>op_last_close := b_close bar\<rparr>)"
    using assms(2) by (auto simp: mark_positions_def)
  show thesis
  proof (cases "map_of bars k")
    case (Some b)
    then have "0 \<le> b_close b" using assms(1) by (auto simp: bars_ok_def bar_nonneg_def)
    with that q p Some show thesis by auto
  qed (use that q p in auto)
qed

lemma mark_positions_day_inv:
  assumes "day_inv env day x0 x" and "bars_ok bars"
  shows "day_inv env day x0 (mark_positions bars x) \<and> tally (mark_positions bars x) = tally x"
proof -
  let ?y = "mark_positions bars x"
  have inv: "pf_inv env x" "dated_inv env day x" using assms(1) by (simp_all add: day_inv_def)
  have ok: "pos_ok k p \<and> pos_dated env day p" if kp: "(k, p) \<in> set (positions_of ?y)" for k p
  proof -
    obtain q c where q: "(k, q) \<in> set (positions_of x)" "p = q \<or> p = q\<lparr>op_last_close := c\<rparr> \<and> 0 \<le> c"
      using mark_positions_mem [OF assms(2) kp] .
    have "pos_ok k q" "pos_dated env day q" using inv q(1) by (auto simp: pf_inv_def dated_inv_def)
    with q(2) show ?thesis by (auto simp: pos_ok_def pos_dated_def)
  qed
  have "dict_ok (positions_of ?y)"
    using inv(1) by (simp add: dict_ok_def mark_positions_keys pf_inv_def)
  moreover have len: "length (positions_of ?y) = length (positions_of x)"
    by (metis mark_positions_keys length_map)
  ultimately have "pf_inv env ?y"
    using inv(1) ok unfolding pf_inv_def by auto
  moreover have "dated_inv env day ?y"
    using inv(2) ok unfolding dated_inv_def by auto
  ultimately show ?thesis
    using assms(1) len by (simp add: day_inv_def tally_def)
qed

definition snap_ok :: "exec_env \<Rightarrow> PortfolioSnapshot \<Rightarrow> bool" where
  "snap_ok env s \<longleftrightarrow> sn_run_id s = r_id (en_run env) \<and> 0 \<le> sn_cash s \<and> 0 \<le> sn_market_value s
     \<and> 0 \<le> sn_total_equity s \<and> sn_total_equity s \<le> sn_running_peak_equity s
     \<and> 0 \<le> sn_drawdown s \<and> 0 \<le> sn_drawdown_pct s
     \<and> int (sn_open_position_count s) \<le> pf_max_open_positions (en_params env)"

definition snaps_inv :: "exec_env \<Rightarrow> exec_state \<Rightarrow> bool" where
  "snaps_inv env x \<longleftrightarrow> sorted (map sn_running_peak_equity (ex_snapshots x))
     \<and> (\<forall>s \<in> set (ex_snapshots x). snap_ok env s
          \<and> (\<exists>pk \<le> ps_running_peak (ex_state x). money pk = Inr (sn_running_peak_equity s)))"

lemma money_mono: "money x = Inr y \<Longrightarrow> money x' = Inr y' \<Longrightarrow> x \<le> x' \<Longrightarrow> y \<le> y'"
  by (simp add: money_ratio ratio_mono)

lemma money_nonneg: "money x = Inr y \<Longrightarrow> 0 \<le> x \<Longrightarrow> 0 \<le> y"
  by (simp add: money_ratio ratio_nonneg)

lemma market_value_nonneg: "pf_inv env x \<Longrightarrow> 0 \<le> market_value (ex_state x)"
  unfolding market_value_def position_value_def pf_inv_def pos_ok_def
  by (intro dsum_nonneg) (fastforce intro!: dmul_nonneg)

lemma snapshot_step_Inr:
  assumes "snapshot_step env day x = Inr x'"
  defines "eq \<equiv> dadd (ps_cash (ex_state x)) (market_value (ex_state x))"
  defines "peak \<equiv> max (ps_running_peak (ex_state x)) eq"
  shows "\<exists>s pct. ex_snapshots x' = ex_snapshots x @ [s] \<and> ex_trades x' = ex_trades x
    \<and> ex_skips x' = ex_skips x \<and> ex_state x' = (ex_state x)\<lparr>ps_running_peak := peak\<rparr>
    \<and> sn_run_id s = r_id (en_run env) \<and> sn_trading_date s = day
    \<and> money (ps_cash (ex_state x)) = Inr (sn_cash s)
    \<and> money (market_value (ex_state x)) = Inr (sn_market_value s)
    \<and> money eq = Inr (sn_total_equity s) \<and> money peak = Inr (sn_running_peak_equity s)
    \<and> money (dsub peak eq) = Inr (sn_drawdown s) \<and> ddiv (dsub peak eq) peak = Inr pct
    \<and> ratio pct = Inr (sn_drawdown_pct s) \<and> sn_open_position_count s = length (positions_of x)"
  using assms(1) unfolding peak_def eq_def by (auto simp: snapshot_step_def Let_def bindE_eq_Inr)

lemma snapshot_step_inv:
  assumes s: "snapshot_step env day x = Inr x'" and inv: "pf_inv env x" "snaps_inv env x"
  shows "pf_inv env x' \<and> snaps_inv env x' \<and> tally x' = tally x \<and> positions_of x' = positions_of x
    \<and> ex_trades x' = ex_trades x
    \<and> map sn_trading_date (ex_snapshots x') = map sn_trading_date (ex_snapshots x) @ [day]"
proof -
  let ?eq = "dadd (ps_cash (ex_state x)) (market_value (ex_state x))"
  let ?peak = "max (ps_running_peak (ex_state x)) ?eq"
  obtain sn pct where x': "ex_snapshots x' = ex_snapshots x @ [sn]" "ex_trades x' = ex_trades x"
      "ex_skips x' = ex_skips x" "ex_state x' = (ex_state x)\<lparr>ps_running_peak := ?peak\<rparr>"
    and run: "sn_run_id sn = r_id (en_run env)" "sn_trading_date sn = day"
      "sn_open_position_count sn = length (positions_of x)"
    and m: "money (ps_cash (ex_state x)) = Inr (sn_cash sn)"
      "money (market_value (ex_state x)) = Inr (sn_market_value sn)"
      "money ?eq = Inr (sn_total_equity sn)" "money ?peak = Inr (sn_running_peak_equity sn)"
      "money (dsub ?peak ?eq) = Inr (sn_drawdown sn)" "ddiv (dsub ?peak ?eq) ?peak = Inr pct"
      "ratio pct = Inr (sn_drawdown_pct sn)"
    using snapshot_step_Inr [OF s] by auto
  have nn: "0 \<le> ps_cash (ex_state x)" "0 \<le> market_value (ex_state x)" "0 < ?peak" "0 \<le> ?eq"
    using inv(1) market_value_nonneg [OF inv(1)] by (auto simp: pf_inv_def dadd_nonneg less_max_iff_disj)
  have dd: "0 \<le> dsub ?peak ?eq" by (rule dsub_nonneg) simp
  have "0 \<le> pct" using m(6) dd nn(3) by (auto simp: ddiv_def intro!: dround_nonneg split: if_splits)
  then have "snap_ok env sn"
    using inv(1) run m nn dd unfolding snap_ok_def
    by (auto simp: pf_inv_def intro: money_nonneg ratio_nonneg money_mono)
  moreover have "\<exists>pk' \<le> ?peak. money pk' = Inr (sn_running_peak_equity s)"
    if "s \<in> set (ex_snapshots x)" for s
    using inv(2) that unfolding snaps_inv_def by (meson max.coboundedI1)
  moreover have "sn_running_peak_equity s \<le> sn_running_peak_equity sn" if "s \<in> set (ex_snapshots x)" for s
    using inv(2) that m(4) unfolding snaps_inv_def by (meson max.coboundedI1 money_mono)
  ultimately have "snaps_inv env x'"
    using inv(2) m(4) unfolding snaps_inv_def x' by (auto simp: sorted_append)
  moreover have "pf_inv env x'" using inv(1) nn(3) by (simp add: pf_inv_def x')
  ultimately show ?thesis using run by (simp add: tally_def x')
qed

section \<open>One day\<close>

lemma day_step_inv:
  assumes s: "day_step env by_date events last_day x day = Inr x'"
    and inv: "pf_inv env x" "snaps_inv env x" "dated_inv env d x" and d: "d \<le> day"
    and env: "env_ok env" and bars: "bars_ok (dict_getd by_date day [])"
    and sigs: "\<And>s. s \<in> set (dict_getd events day []) \<Longrightarrow> sig_date s < day"
  shows "pf_inv env x' \<and> snaps_inv env x' \<and> dated_inv env day x'
    \<and> tally x' = tally x + length (dict_getd events day [])
    \<and> map sn_trading_date (ex_snapshots x') = map sn_trading_date (ex_snapshots x) @ [day]
    \<and> (day = last_day \<longrightarrow> positions_of x' = [])"
proof -
  let ?bars = "dict_getd by_date day []" and ?final = "day = last_day"
  obtain x1 x2 x3 where e:
    "foldE (exit_step env day ?bars ?final) x (sorted_symbols x) = Inr x1"
    "foldE (entry_step env day ?bars) x1 (sort_key signal_key (dict_getd events day [])) = Inr x2"
    "(if ?final then foldE (liquidate_step env day ?bars) x2 (sorted_symbols x2) else Inr x2) = Inr x3"
    "snapshot_step env day (mark_positions ?bars x3) = Inr x'"
    using s by (auto simp: day_step_def Let_def bindE_eq_Inr)
  have "day_inv env day x x" using inv dated_inv_mono [OF inv(3) d] by (simp add: day_inv_def)
  from exits_phase [OF e(1) this env bars] have 1: "day_inv env day x x1" "tally x1 = tally x" by auto
  have 2: "day_inv env day x x2" "tally x2 = tally x1 + length (dict_getd events day [])"
    "\<forall>(k, p) \<in> set (positions_of x2). op_entry_date p = day \<or> (k, p) \<in> set (positions_of x1)"
    using entries_phase [OF e(2) 1(1) env] sigs by auto
  have 3: "day_inv env day x x3" "tally x3 = tally x2"
    using liquidate_phase [OF _ 2(1) env bars] e(3) 2(1) by (auto split: if_splits)
  note 4 = mark_positions_day_inv [OF 3(1) bars]
  then have snaps: "snaps_inv env (mark_positions ?bars x3)"
    "ex_snapshots (mark_positions ?bars x3) = ex_snapshots x"
    using inv(2) by (simp_all add: day_inv_def snaps_inv_def)
  have pf: "pf_inv env (mark_positions ?bars x3)" "dated_inv env day (mark_positions ?bars x3)"
    using 4 by (simp_all add: day_inv_def)
  note 5 = snapshot_step_inv [OF e(4) pf(1) snaps(1)]
  have "positions_of x' = []" if final: ?final
  proof -
    have "fst ` set (positions_of x1) = {}"
      using exits_final [of env day ?bars x "sorted_symbols x" x1] e(1) final
      by (simp add: sorted_symbols_def)
    then have "positions_of x1 = []" by simp
    then have "fst ` set (positions_of x3) = {}"
      using liquidate_final [of env day ?bars x2 "sorted_symbols x2" x3] e(3) final 2(3)
      by (simp add: sorted_symbols_def)
    then have "positions_of x3 = []" by simp
    then have "positions_of (mark_positions ?bars x3) = []" by (simp add: mark_positions_def)
    then show ?thesis using 5 by simp
  qed
  moreover have "dated_inv env day x'" using pf(2) 5 by (simp add: dated_inv_def)
  ultimately show ?thesis using 1 2 3 4 5 snaps by simp
qed

section \<open>All days\<close>

lemma days_inv:
  assumes "foldE (day_step env by_date events last_day) x ds = Inr x'"
    and "pf_inv env x" "snaps_inv env x" "dated_inv env d x" and "sorted (d # ds)"
    and env: "env_ok env" and bars: "\<And>e. bars_ok (dict_getd by_date e [])"
    and sigs: "\<And>e s. s \<in> set (dict_getd events e []) \<Longrightarrow> sig_date s < e"
  shows "pf_inv env x' \<and> snaps_inv env x' \<and> dated_inv env (last (d # ds)) x'
    \<and> tally x' = tally x + (\<Sum>e\<leftarrow>ds. length (dict_getd events e []))
    \<and> map sn_trading_date (ex_snapshots x') = map sn_trading_date (ex_snapshots x) @ ds
    \<and> (ds \<noteq> [] \<and> last ds = last_day \<longrightarrow> positions_of x' = [])"
  using assms(1-5)
proof (induction ds arbitrary: x d)
  case (Cons e ds)
  obtain y where y: "day_step env by_date events last_day x e = Inr y"
    "foldE (day_step env by_date events last_day) y ds = Inr x'"
    using Cons.prems(1) by (auto simp: bindE_eq_Inr)
  have "d \<le> e" "sorted (e # ds)" using Cons.prems(5) by auto
  note step = day_step_inv [OF y(1) Cons.prems(2-4) \<open>d \<le> e\<close> env bars sigs]
  then have "pf_inv env y" "snaps_inv env y" "dated_inv env e y" by auto
  note IH = Cons.IH [OF y(2) this \<open>sorted (e # ds)\<close>]
  have "ds = [] \<Longrightarrow> x' = y" using y(2) by simp
  with IH step show ?case by (cases "ds = []") auto
qed simp

text \<open>The tables: every bar found under a day and a symbol is a row with that date and symbol.\<close>

lemma index_fold:
  assumes "foldE index_step acc rows = Inr acc'"
    and "\<And>d k b. map_of (dict_getd (fst acc) d []) k = Some b \<Longrightarrow> P d k b"
    and "\<And>b. b \<in> set rows \<Longrightarrow> P (b_date b) (b_symbol b) b"
  shows "map_of (dict_getd (fst acc') d []) k = Some b \<Longrightarrow> P d k b"
  using assms
proof (induction rows arbitrary: acc)
  case (Cons r rows)
  obtain by_date seen where acc: "acc = (by_date, seen)" by (cases acc)
  obtain acc1 where a: "index_step acc r = Inr acc1" "foldE index_step acc1 rows = Inr acc'"
    using Cons.prems(2) by (auto simp: bindE_eq_Inr)
  have "fst acc1 = dict_set (b_date r)
      (dict_set (b_symbol r) r (dict_getd by_date (b_date r) [])) by_date"
    using a(1) by (auto simp: index_step_def acc split: if_splits)
  then have "map_of (dict_getd (fst acc1) d []) k = Some b \<Longrightarrow> P d k b" for d k b
    using Cons.prems(3,4) by (auto simp: acc split: if_splits)
  then show ?case using Cons.IH [OF Cons.prems(1) a(2)] Cons.prems(4) by simp
qed simp

lemma index_bars_mem:
  assumes "index_bars rows = Inr by_date" and "map_of (dict_getd by_date d []) k = Some b"
  shows "b \<in> set rows \<and> b_date b = d \<and> b_symbol b = k"
proof -
  obtain acc' where acc: "foldE index_step ([], []) rows = Inr acc'" "by_date = fst acc'"
    using assms(1) by (auto simp: index_bars_def bindE_eq_Inr)
  show ?thesis
    using index_fold [OF acc(1), where P = "\<lambda>d k b. b \<in> set rows \<and> b_date b = d \<and> b_symbol b = k"]
      assms(2) acc(2) by (auto simp: dict_getd_def)
qed

lemma find_entry_Some:
  "find_entry by_date signal ds = Inr (Some day) \<Longrightarrow> day \<in> set ds \<and> sig_date signal < day"
  by (induction ds) (auto split: if_splits option.splits)

lemma sum_list_bump: "distinct ds \<Longrightarrow> day \<in> set ds \<Longrightarrow>
    (\<Sum>d\<leftarrow>ds. if d = day then Suc (f d) else f d) = Suc (\<Sum>d\<leftarrow>ds. f d)"
proof (induction ds)
  case (Cons d ds)
  have "(\<Sum>d\<leftarrow>ds. if d = day then Suc (f d) else f d) = (\<Sum>d\<leftarrow>ds. f d)" if "day \<notin> set ds"
    using that by (intro arg_cong [where f = sum_list] map_cong) auto
  with Cons show ?case by (cases "d = day") auto
qed simp

text \<open>Every signal is scheduled on one calendar day after it, or counted as skipped.\<close>

lemma schedule_inv:
  assumes "foldE (schedule_step by_date dates) acc signals = Inr acc'" and "distinct dates"
    and "\<And>d s. s \<in> set (dict_getd (fst acc) d []) \<Longrightarrow> sig_date s < d"
  shows "(\<Sum>d\<leftarrow>dates. length (dict_getd (fst acc') d [])) + sum_list (map snd (snd acc'))
      = (\<Sum>d\<leftarrow>dates. length (dict_getd (fst acc) d [])) + sum_list (map snd (snd acc)) + length signals
    \<and> (\<forall>d. \<forall>s \<in> set (dict_getd (fst acc') d []). sig_date s < d)"
  using assms
proof (induction signals arbitrary: acc)
  case (Cons s signals)
  obtain events skips where acc: "acc = (events, skips)" by (cases acc)
  obtain acc1 where a: "schedule_step by_date dates acc s = Inr acc1"
    "foldE (schedule_step by_date dates) acc1 signals = Inr acc'"
    using Cons.prems(1) by (auto simp: bindE_eq_Inr)
  obtain r where r: "find_entry by_date s dates = Inr r"
    and acc1: "acc1 = (case r of None \<Rightarrow> (events, add_skip SKIP_NO_ENTRY_BAR skips)
      | Some day \<Rightarrow> (dict_append day s events, skips))"
    using a(1) by (auto simp: schedule_step_def acc bindE_eq_Inr split: option.splits)
  have "(\<Sum>d\<leftarrow>dates. length (dict_getd (fst acc1) d [])) + sum_list (map snd (snd acc1))
      = Suc ((\<Sum>d\<leftarrow>dates. length (dict_getd (fst acc) d [])) + sum_list (map snd (snd acc)))
    \<and> (\<forall>d. \<forall>s \<in> set (dict_getd (fst acc1) d []). sig_date s < d)"
  proof (cases r)
    case None
    then show ?thesis using Cons.prems(3) by (simp add: acc1 acc sum_add_skip)
  next
    case (Some day)
    then have day: "day \<in> set dates" "sig_date s < day" using find_entry_Some r by blast+
    have "(\<lambda>d. length (dict_getd (dict_append day s events) d []))
        = (\<lambda>d. if d = day then Suc (length (dict_getd events d [])) else length (dict_getd events d []))"
      by auto
    then show ?thesis
      using Cons.prems(2,3) day Some by (simp add: acc1 acc sum_list_bump)
  qed
  with Cons.IH [OF a(2) Cons.prems(2)] show ?case by simp
qed simp

lemma calendar_props: "sorted (calendar run rows)" "distinct (calendar run rows)"
  "set (calendar run rows) = {b_date b | b. b \<in> set rows \<and> r_start_date run \<le> b_date b \<and> b_date b \<le> r_end_date run}"
  by (auto simp: calendar_def)

definition rows_ok :: "DailyBar list \<Rightarrow> bool" where
  "rows_ok rows \<longleftrightarrow> (\<forall>b \<in> set rows. bar_nonneg b)"

lemma run_days_inv:
  assumes run: "run_days env signals rows = Inr x" and env: "env_ok env" and rows: "rows_ok rows"
  shows "pf_inv env x \<and> snaps_inv env x \<and> (\<forall>t \<in> set (ex_trades x). trade_ok env (r_end_date (en_run env)) t)
    \<and> map sn_trading_date (ex_snapshots x) = calendar (en_run env) rows \<and> positions_of x = []
    \<and> length (ex_trades x) + sum_list (map snd (ex_skips x)) = length signals"
proof -
  let ?dates = "calendar (en_run env) rows" and ?c = "pf_initial_capital (en_params env)"
  obtain by_date events skips s where e:
    "index_bars (bars_of (en_run env) (signal_symbols signals) rows) = Inr by_date"
    "foldE (schedule_step by_date ?dates) ([], []) signals = Inr (events, skips)"
    "create_state ?c = Inr s"
    "foldE (day_step env by_date events (last ?dates)) (start_exec s skips) ?dates = Inr x"
    using run by (auto simp: run_days_def Let_def bindE_eq_Inr split: prod.splits)
  have bars: "bars_ok (dict_getd by_date d [])" for d
    using index_bars_mem [OF e(1)] rows by (fastforce simp: bars_ok_def rows_ok_def bars_of_def)
  have sched: "(\<Sum>d\<leftarrow>?dates. length (dict_getd events d [])) + sum_list (map snd skips) = length signals"
    "\<And>d s. s \<in> set (dict_getd events d []) \<Longrightarrow> sig_date s < d"
    using schedule_inv [OF e(2) calendar_props(2)] by (auto simp: dict_getd_def)
  have s: "s = \<lparr>ps_initial_capital = ?c, ps_cash = ?c, ps_running_peak = ?c, ps_realized_pnl = 0,
      ps_positions = []\<rparr>" and c: "0 < ?c"
    using e(3) by (auto simp: create_state_def split: if_splits)
  have init: "pf_inv env (start_exec s skips)" "snaps_inv env (start_exec s skips)"
    "dated_inv env d (start_exec s skips)" "positions_of (start_exec s skips) = []"
    "ex_snapshots (start_exec s skips) = []" "tally (start_exec s skips) = sum_list (map snd skips)" for d
    using env c by (simp_all add: s start_exec_def pf_inv_def snaps_inv_def dated_inv_def tally_def
        env_ok_def valid_portfolio_def)
  show ?thesis
  proof (cases "?dates = []")
    case True
    then show ?thesis using e(4) init sched(1) by (auto simp: tally_def start_exec_def)
  next
    case False
    then have hd: "sorted (hd ?dates # ?dates)"
      using calendar_props(1) [of "en_run env" rows] by (cases ?dates) auto
    note inv = days_inv [OF e(4) init(1,2,3) hd env bars sched(2)]
    have "last ?dates \<le> r_end_date (en_run env)"
      using False calendar_props(3) [of "en_run env" rows] last_in_set [OF False] by auto
    then have "\<forall>t \<in> set (ex_trades x). trade_ok env (r_end_date (en_run env)) t"
      using inv False by (auto simp: dated_inv_def trade_ok_def)
    then show ?thesis using inv False init sched(1) by (auto simp: tally_def)
  qed
qed

section \<open>Properties\<close>

text \<open>
  C3. Cash is shared safely: with costs that leave at least a hundredth of a sale's proceeds and
  bars without negative prices, a finished portfolio run has exactly one snapshot for every market
  day of the range, in order; in each the cash, the market value, the equity and the drawdown are
  not negative, the equity does not exceed the running peak, and no more positions are open than
  allowed; and the running peak never falls.
\<close>

theorem portfolio_snapshots_sound:
  assumes "run_days env signals rows = Inr x" and "env_ok env" and "rows_ok rows"
  shows "map sn_trading_date (ex_snapshots x) = calendar (en_run env) rows
    \<and> sorted (map sn_running_peak_equity (ex_snapshots x))
    \<and> (\<forall>s \<in> set (ex_snapshots x). 0 \<le> sn_cash s \<and> 0 \<le> sn_market_value s
        \<and> sn_total_equity s \<le> sn_running_peak_equity s \<and> 0 \<le> sn_drawdown s \<and> 0 \<le> sn_drawdown_pct s
        \<and> int (sn_open_position_count s) \<le> pf_max_open_positions (en_params env))"
  using run_days_inv [OF assms] by (auto simp: snaps_inv_def snap_ok_def)

text \<open>
  C4. A finished portfolio run is flat, and its trades are well formed: each was entered strictly
  after its signal and exited no earlier than it was entered and within the range, for at least
  one share, and was held on at most the configured number of bars.
\<close>

theorem portfolio_trades_sound:
  assumes "run_days env signals rows = Inr x" and "env_ok env" and "rows_ok rows"
  shows "ps_positions (ex_state x) = []
    \<and> (\<forall>t \<in> set (ex_trades x). t_run_id t = r_id (en_run env) \<and> 1 \<le> t_quantity t
        \<and> t_signal_date t < t_entry_date t \<and> t_entry_date t \<le> t_exit_date t
        \<and> t_exit_date t \<le> r_end_date (en_run env)
        \<and> t_holding_days t \<le> max_holding_days (pf_trading (en_params env)))"
  using run_days_inv [OF assms] by (auto simp: trade_ok_def)

text \<open>
  No signal is lost: in the result dictionary of a finished portfolio run the entered trades
  and the skipped signals, the latter broken down by reason, add up to all signals.
\<close>

theorem portfolio_signals_accounted:
  assumes "run_days env signals rows = Inr x" and "env_ok env" and "rows_ok rows"
    and "portfolio_metrics env (length signals) x = Inr d"
  shows "\<exists>entered skipped reasons. map_of d ''total_signals'' = Some (MInt (int (length signals)))
    \<and> map_of d ''entered_trades'' = Some (MInt (int entered))
    \<and> map_of d ''skipped_signals'' = Some (MInt (int skipped))
    \<and> map_of d ''skip_reasons'' = Some (MCounts reasons)
    \<and> skipped = sum_list (map snd reasons) \<and> entered + skipped = length signals"
proof -
  have "length (ex_trades x) + sum_list (map snd (ex_skips x)) = length signals"
    using run_days_inv [OF assms(1-3)] by blast
  then show ?thesis using assms(4) by (auto simp: portfolio_metrics_def Let_def bindE_eq_Inr)
qed

text \<open>The calendar lookup that raises.\<close>

lemma index_fold_keys:
  "foldE index_step acc rows = Inr acc' \<Longrightarrow> map_of (fst acc') d \<noteq> None
    \<Longrightarrow> map_of (fst acc) d \<noteq> None \<or> (\<exists>b \<in> set rows. b_date b = d)"
proof (induction rows arbitrary: acc)
  case (Cons r rows)
  then obtain acc1 where a: "index_step acc r = Inr acc1" "foldE index_step acc1 rows = Inr acc'"
    by (auto simp: bindE_eq_Inr)
  have "map_of (fst acc1) d \<noteq> None \<Longrightarrow> map_of (fst acc) d \<noteq> None \<or> b_date r = d"
    using a(1) by (auto simp: index_step_def split: prod.splits if_splits)
  with Cons.IH [OF a(2) Cons.prems(2)] show ?case by auto
qed simp

lemma set_signal_symbols [simp]: "set (signal_symbols sigs) = sig_symbol ` set sigs"
  by (simp add: signal_symbols_def)

lemma find_entry_missing:
  "sorted ds \<Longrightarrow> day \<in> set ds \<Longrightarrow> sig_date s < day \<Longrightarrow> (\<And>d. d \<in> set ds \<Longrightarrow> sig_date s < d \<Longrightarrow> day \<le> d)
    \<Longrightarrow> map_of by_date day = None \<Longrightarrow> find_entry by_date s ds = Inl (KeyErrorDate day)"
proof (induction ds)
  case (Cons d ds)
  show ?case
  proof (cases "sig_date s < d")
    case True
    then have "day \<le> d" using Cons.prems(4) by simp
    moreover have "d \<le> day" using Cons.prems(1,2) by auto
    ultimately have "d = day" by simp
    then show ?thesis using Cons.prems by simp
  next
    case False
    then show ?thesis using Cons by auto
  qed
qed simp

text \<open>
  The entry-day search trips over the calendar: it is built from all symbols, the bar table
  only from the signalled ones. If on the first market day after the first signal no signalled
  symbol has a bar, the whole run ends in a \<open>KeyError\<close>, whatever the later days hold.
\<close>

theorem portfolio_calendar_gap_raises:
  assumes "index_bars (bars_of (en_run env) (signal_symbols (s # signals)) rows) = Inr by_date"
    and day: "day \<in> set (calendar (en_run env) rows)" "sig_date s < day"
    and first: "\<And>d. d \<in> set (calendar (en_run env) rows) \<Longrightarrow> sig_date s < d \<Longrightarrow> day \<le> d"
    and gap: "\<And>b. b \<in> set rows \<Longrightarrow> b_symbol b \<in> sig_symbol ` set (s # signals) \<Longrightarrow> b_date b \<noteq> day"
  shows "run_days env (s # signals) rows = Inl (KeyErrorDate day)"
proof -
  have "map_of by_date day = None"
  proof (rule ccontr)
    assume "map_of by_date day \<noteq> None"
    then have "\<exists>b \<in> set (bars_of (en_run env) (signal_symbols (s # signals)) rows). b_date b = day"
      using assms(1) index_fold_keys [of "([], [])" "bars_of (en_run env) (signal_symbols (s # signals)) rows" _ day]
      by (auto simp: index_bars_def bindE_eq_Inr)
    with gap show False unfolding bars_of_def by simp
  qed
  then have "find_entry by_date s (calendar (en_run env) rows) = Inl (KeyErrorDate day)"
    using calendar_props(1) day first by (intro find_entry_missing) auto
  then show ?thesis using assms(1) by (simp add: run_days_def Let_def schedule_step_def)
qed

section \<open>Concrete runs\<close>

definition demo_trading :: "decimal \<Rightarrow> BacktestParameters" where
  "demo_trading cost = \<lparr>initial_capital = 1000, position_size = 1000, stop_loss_pct = 1 / 10,
     take_profit_pct = 2 / 10, max_holding_days = 2, commission_rate = cost, sell_tax_rate = cost,
     slippage_rate = 0\<rparr>"

definition demo_env :: "decimal \<Rightarrow> exec_env" where
  "demo_env cost = \<lparr>en_run = demo_run, en_params = \<lparr>pf_initial_capital = 1000, pf_max_open_positions = 1,
     pf_position_size_pct = 1, pf_minimum_cash_buffer_pct = 0,
     pf_position_sizing_mode = ''fixed_fraction'', pf_trading = demo_trading cost\<rparr>,
     en_now = 0, en_uuid = (\<lambda>n. n)\<rparr>"

definition sig_at :: "string \<Rightarrow> date \<Rightarrow> BacktestSignal" where
  "sig_at s d = \<lparr>sig_symbol = s, sig_date = d, sig_type = ENTER_LONG\<rparr>"

definition demo_market :: "DailyBar list" where
  "demo_market = [flat_bar ''A'' 110 10, flat_bar ''A'' 111 10, flat_bar ''B'' 111 20, flat_bar ''A'' 112 16,
     flat_bar ''B'' 112 16]"

definition demo_signals :: "BacktestSignal list" where
  "demo_signals = [sig_at ''A'' 110, sig_at ''B'' 110]"

lemma demo_env_ok: "env_ok (demo_env 0)" "rows_ok demo_market"
  by (simp_all add: env_ok_def demo_env_def demo_trading_def valid_portfolio_def valid_parameters_def
      costs_ok_def rows_ok_def demo_market_def bar_nonneg_def flat_bar_def)

lemma demo_run_days: "\<exists>x. run_days (demo_env 0) demo_signals demo_market = Inr x
    \<and> map sn_cash (ex_snapshots x) = [1000, 0, 1600] \<and> map t_symbol (ex_trades x) = [''A'']
    \<and> (\<exists>d. portfolio_metrics (demo_env 0) (length demo_signals) x = Inr d \<and> map_of d ''skip_reasons'' =
        Some (MCounts [(''max_open_positions'', 1)]))"
proof -
  have "case run_days (demo_env 0) demo_signals demo_market of Inl e \<Rightarrow> False | Inr x \<Rightarrow>
    map sn_cash (ex_snapshots x) = [1000, 0, 1600] \<and> map t_symbol (ex_trades x) = [''A'']
    \<and> (case portfolio_metrics (demo_env 0) (length demo_signals) x of Inl e \<Rightarrow> False | Inr d \<Rightarrow>
        map_of d ''skip_reasons'' = Some (MCounts [(''max_open_positions'', 1)]))"
    by code_simp
  then show ?thesis by (auto split: sum.splits)
qed

lemma portfolio_snapshots_sound_witness:
  "\<exists>x. run_days (demo_env 0) demo_signals demo_market = Inr x
     \<and> map sn_cash (ex_snapshots x) = [1000, 0, 1600] \<and> list_all (\<lambda>s. 0 \<le> sn_drawdown s) (ex_snapshots x)"
proof -
  obtain x where x: "run_days (demo_env 0) demo_signals demo_market = Inr x"
    "map sn_cash (ex_snapshots x) = [1000, 0, 1600]" using demo_run_days by meson
  have "list_all (\<lambda>s. 0 \<le> sn_drawdown s) (ex_snapshots x)"
    using portfolio_snapshots_sound [OF x(1) demo_env_ok] by (simp add: list_all_iff)
  then show ?thesis by (intro exI [of _ x] conjI x)
qed

lemma portfolio_trades_sound_witness:
  "\<exists>x. run_days (demo_env 0) demo_signals demo_market = Inr x \<and> map t_symbol (ex_trades x) = [''A'']
     \<and> list_all (\<lambda>t. t_signal_date t < t_entry_date t) (ex_trades x)"
proof -
  obtain x where x: "run_days (demo_env 0) demo_signals demo_market = Inr x"
    "map t_symbol (ex_trades x) = [''A'']" using demo_run_days by meson
  have "list_all (\<lambda>t. t_signal_date t < t_entry_date t) (ex_trades x)"
    using portfolio_trades_sound [OF x(1) demo_env_ok] by (simp add: list_all_iff)
  then show ?thesis by (intro exI [of _ x] conjI x)
qed

lemma portfolio_signals_accounted_witness:
  "\<exists>x d entered skipped. run_days (demo_env 0) demo_signals demo_market = Inr x
     \<and> portfolio_metrics (demo_env 0) (length demo_signals) x = Inr d
     \<and> map_of d ''entered_trades'' = Some (MInt (int entered))
     \<and> map_of d ''skipped_signals'' = Some (MInt (int skipped))
     \<and> entered + skipped = length demo_signals"
  using demo_run_days portfolio_signals_accounted [OF _ demo_env_ok] by blast

lemma portfolio_calendar_gap_raises_witness:
  "run_days (demo_env 0) [sig_at ''A'' 110] [flat_bar ''B'' 111 20, flat_bar ''A'' 112 10]
    = Inl (KeyErrorDate 111)"
proof (rule portfolio_calendar_gap_raises)
  show "index_bars (bars_of (en_run (demo_env 0)) (signal_symbols [sig_at ''A'' 110])
      [flat_bar ''B'' 111 20, flat_bar ''A'' 112 10]) = Inr [(112, [(''A'', flat_bar ''A'' 112 10)])]"
    by code_simp
  have "calendar (en_run (demo_env 0)) [flat_bar ''B'' 111 20, flat_bar ''A'' 112 10] = [111, 112]"
    by code_simp
  then show "111 \<in> set (calendar (en_run (demo_env 0)) [flat_bar ''B'' 111 20, flat_bar ''A'' 112 10])"
    "d \<in> set (calendar (en_run (demo_env 0)) [flat_bar ''B'' 111 20, flat_bar ''A'' 112 10])
      \<Longrightarrow> sig_date (sig_at ''A'' 110) < d \<Longrightarrow> 111 \<le> d" for d
    by auto
qed (auto simp: flat_bar_def sig_at_def)

text \<open>
  The cost rates are validated one by one only. With a commission and a tax of 60 percent each,
  both accepted by the validation, a sale costs more than it brings and the run ends with negative
  cash: the hypothesis on the costs in the cash theorem is needed.
\<close>

theorem portfolio_cash_negative:
  "valid_portfolio (en_params (demo_env (6 / 10)))
    \<and> (case run_days (demo_env (6 / 10)) [sig_at ''A'' 110] [flat_bar ''A'' 110 10, flat_bar ''A'' 111 10] of
        Inr x \<Rightarrow> map sn_cash (ex_snapshots x) = [1000, - 116] | Inl e \<Rightarrow> False)"
proof
  show "valid_portfolio (en_params (demo_env (6 / 10)))"
    by (simp add: demo_env_def demo_trading_def valid_portfolio_def valid_parameters_def)
  show "case run_days (demo_env (6 / 10)) [sig_at ''A'' 110] [flat_bar ''A'' 110 10, flat_bar ''A'' 111 10] of
      Inr x \<Rightarrow> map sn_cash (ex_snapshots x) = [1000, - 116] | Inl e \<Rightarrow> False"
    by code_simp
qed

end
