(* ===== verification/Backtest_Executor.thy ===== *)
theory Backtest_Executor
  imports Backtest_Store Portfolio_Props
begin

text \<open>
  The two executors over the database: \<open>DatabaseBacktestExecutor.execute\<close> with its dispatch on the
  execution mode (\<open>modules/backtest/executor.py\<close>) and \<open>PortfolioBacktestExecutor.execute\<close>
  (\<open>modules/backtest/portfolio.py\<close>). Each returns the metrics or the exception it raises, together
  with the database it leaves. The strategy is a parameter; \<open>WatchlistEntryStrategy\<close> is an instance.
\<close>

section \<open>The strategy and the surroundings\<close>

record backtest_strategy =
  st_name :: string
  st_version :: string
  st_signals :: "backtest_db \<Rightarrow> BacktestRun \<Rightarrow> BacktestSignal list"

definition watchlist_entry_strategy :: backtest_strategy where
  "watchlist_entry_strategy = \<lparr>st_name = ''watchlist_entry'', st_version = ''1'',
     st_signals = (\<lambda>db run. generate_signals (db_watchlist db) run)\<rparr>"

text \<open>The clock's reading and the UUID supply of one execution.\<close>

record surroundings =
  su_now :: datetime
  su_uuid :: "nat \<Rightarrow> uuid"

section \<open>Independent mode\<close>

definition bars_by_symbol_step :: "(string, DailyBar list) dict \<times> (string \<times> date) list \<Rightarrow> DailyBar
    \<Rightarrow> ((string, DailyBar list) dict \<times> (string \<times> date) list) res" where
  "bars_by_symbol_step acc row = (case acc of (bars, seen) \<Rightarrow>
     if (b_symbol row, b_date row) \<in> set seen
     then Inl (DuplicateDailyBarError (b_symbol row) (b_date row))
     else Inr (dict_append (b_symbol row) row bars, (b_symbol row, b_date row) # seen))"

definition query_bars :: "BacktestRun \<Rightarrow> string list \<Rightarrow> DailyBar list \<Rightarrow> DailyBar list" where
  "query_bars run symbols rows = sort_key (\<lambda>b. (b_symbol b, b_date b))
     (filter (\<lambda>b. b_symbol b \<in> set symbols \<and> r_start_date run \<le> b_date b
        \<and> b_date b \<le> r_end_date run) rows)"

text \<open>
  The comprehension over the signals: the trades of those that traded. The supply is indexed by
  the signal's position.
\<close>

definition simulate_all :: "surroundings \<Rightarrow> BacktestRun \<Rightarrow> BacktestParameters
    \<Rightarrow> (string, DailyBar list) dict \<Rightarrow> BacktestSignal list \<Rightarrow> BacktestTrade list res" where
  "simulate_all su run p bars signals =
    bindE (mapE (\<lambda>(i, signal). simulate_signal (su_uuid su i) (su_now su) run signal
        (dict_getd bars (sig_symbol signal) []) p) (enumerate 0 signals))
      (\<lambda>results. Inr (concat (map (\<lambda>r. case r of Traded t \<Rightarrow> [t] | Untraded _ \<Rightarrow> []) results)))"

definition portfolio_only_keys :: "string list" where
  "portfolio_only_keys = [''max_open_positions'', ''minimum_cash_buffer_pct'',
     ''position_size_pct'', ''position_sizing_mode'']"

definition execute_independent :: "surroundings \<Rightarrow> backtest_strategy \<Rightarrow> BacktestRun \<Rightarrow> backtest_db
    \<Rightarrow> metrics res \<times> backtest_db" where
  "execute_independent su st run db =
    (if \<exists>k \<in> set portfolio_only_keys. map_of (r_parameters run) k \<noteq> None
     then (Inl (InvalidBacktestParameters ''portfolio parameters are incompatible with independent mode''), db)
     else
      (let signals = sort_key signal_key (st_signals st db run);
           symbols = signal_symbols signals;
           rows = (if symbols = [] then [] else query_bars run symbols (db_bars db));
           prepared = bindE (parse_parameters (r_parameters run)) (\<lambda>p.
             bindE (foldE bars_by_symbol_step (map (\<lambda>s. (s, [])) symbols, []) rows) (\<lambda>acc.
             bindE (simulate_all su run p (fst acc) signals) (\<lambda>trades. Inr (p, trades))))
       in case prepared of
         Inl e \<Rightarrow> (Inl e, db)
       | Inr (p, trades) \<Rightarrow>
         (case insert_trades trades db of
           Inl e \<Rightarrow> (Inl e, db)
         | Inr db' \<Rightarrow> (calculate_metrics trades (length signals) p, db'))))"

section \<open>Portfolio mode\<close>

definition execute_portfolio :: "surroundings \<Rightarrow> backtest_strategy \<Rightarrow> BacktestRun \<Rightarrow> backtest_db
    \<Rightarrow> metrics res \<times> backtest_db" where
  "execute_portfolio su st run db =
    (case parse_portfolio (r_parameters run) of
       Inl e \<Rightarrow> (Inl e, db)
     | Inr p \<Rightarrow>
      (let env = \<lparr>en_run = run, en_params = p, en_now = su_now su, en_uuid = su_uuid su\<rparr>;
           signals = sort_key signal_key (st_signals st db run)
       in case run_days env signals (db_bars db) of
         Inl e \<Rightarrow> (Inl e, db)
       | Inr x \<Rightarrow>
         (case bindE (insert_trades (ex_trades x) db) (insert_snapshots (ex_snapshots x)) of
           Inl e \<Rightarrow> (Inl e, db)
         | Inr db' \<Rightarrow> (portfolio_metrics env (length signals) x, db'))))"

section \<open>The dispatch\<close>

definition db_execute :: "surroundings \<Rightarrow> backtest_strategy \<Rightarrow> BacktestRun \<Rightarrow> backtest_db
    \<Rightarrow> metrics res \<times> backtest_db" where
  "db_execute su st run db =
    (case validate_strategy_contract (r_strategy_name run) (r_strategy_version run) of
       Inl e \<Rightarrow> (Inl e, db)
     | Inr (name, version) \<Rightarrow>
       if name \<noteq> st_name st \<or> version \<noteq> st_version st
       then (Inl (UnsupportedBacktestStrategy ''executor strategy does not match the requested strategy''), db)
       else (let mode = (case map_of (r_parameters run) ''execution_mode'' of
                 None \<Rightarrow> VStr ''independent'' | Some v \<Rightarrow> v)
         in if mode = VStr ''portfolio'' then execute_portfolio su st run db
            else if mode \<noteq> VStr ''independent''
            then (Inl (InvalidBacktestParameters ''execution_mode must be independent or portfolio''), db)
            else execute_independent su st run db))"

section \<open>Effects\<close>

text \<open>What an execution may write: trades and snapshots of its own run, appended.\<close>

definition extends_run :: "uuid \<Rightarrow> backtest_db \<Rightarrow> backtest_db \<Rightarrow> bool" where
  "extends_run i db db' \<longleftrightarrow> (\<exists>ts ss. db' = db\<lparr>db_trades := db_trades db @ ts, db_snapshots := db_snapshots db @ ss\<rparr>
     \<and> (\<forall>t \<in> set ts. t_run_id t = i) \<and> (\<forall>s \<in> set ss. sn_run_id s = i)
     \<and> (trades_table_ok (db_trades db) \<longrightarrow> trades_table_ok (db_trades db'))
     \<and> (snapshots_table_ok (db_snapshots db) \<longrightarrow> snapshots_table_ok (db_snapshots db')))"

lemma extends_run_refl [simp]: "extends_run i db db"
  unfolding extends_run_def by (intro exI [of _ "[]"]) simp

lemma extends_run_keeps: "extends_run i db db' \<Longrightarrow> db_runs db' = db_runs db \<and> db_bars db' = db_bars db
    \<and> db_watchlist db' = db_watchlist db"
  by (auto simp: extends_run_def)

lemma simulate_signal_run: "simulate_signal uid now run signal bars p = Inr (Traded t) \<Longrightarrow> t_run_id t = r_id run"
  by (auto simp: simulate_signal_def Let_def bindE_eq_Inr split: list.splits if_splits prod.splits)

lemma mapE_mem: "mapE f xs = Inr ys \<Longrightarrow> y \<in> set ys \<Longrightarrow> \<exists>x \<in> set xs. f x = Inr y"
  by (induction xs arbitrary: ys) (auto simp: bindE_eq_Inr)

lemma simulate_all_run: "simulate_all su run p bars signals = Inr ts \<Longrightarrow> t \<in> set ts \<Longrightarrow> t_run_id t = r_id run"
  by (auto simp: simulate_all_def bindE_eq_Inr dest!: mapE_mem simulate_signal_run split: sim_result.splits)

lemma simulate_all_length: "simulate_all su run p bars signals = Inr ts \<Longrightarrow> length ts \<le> length signals"
proof -
  have "length (concat (map (\<lambda>r. case r of Traded t \<Rightarrow> [t] | Untraded _ \<Rightarrow> []) rs)) \<le> length rs"
    for rs :: "sim_result list"
    by (induction rs) (auto split: sim_result.splits)
  then show "simulate_all su run p bars signals = Inr ts \<Longrightarrow> length ts \<le> length signals"
    by (auto simp: simulate_all_def bindE_eq_Inr dest!: mapE_length) (metis)
qed

lemma insert_trades_extends:
  "insert_trades ts db = Inr db' \<Longrightarrow> (\<And>t. t \<in> set ts \<Longrightarrow> t_run_id t = i) \<Longrightarrow> extends_run i db db'"
  unfolding extends_run_def insert_trades_def
  by (rule exI [of _ ts], rule exI [of _ "[]"]) (auto split: if_splits)

lemma execute_independent_effect: "extends_run (r_id run) db (snd (execute_independent su st run db))"
  by (auto simp: execute_independent_def Let_def bindE_eq_Inr dest: simulate_all_run
      intro!: insert_trades_extends split: sum.splits prod.splits)

text \<open>Portfolio rows carry the run's id, whatever the parameters.\<close>

definition own_rows :: "exec_env \<Rightarrow> exec_state \<Rightarrow> bool" where
  "own_rows env x \<longleftrightarrow> (\<forall>t \<in> set (ex_trades x). t_run_id t = r_id (en_run env))
     \<and> (\<forall>s \<in> set (ex_snapshots x). sn_run_id s = r_id (en_run env))"

lemma close_position_own: "close_position env symbol position day raw reason x = Inr x' \<Longrightarrow> own_rows env x \<Longrightarrow> own_rows env x'"
  by (drule close_position_Inr) (auto simp: own_rows_def)

lemma step_own:
  "exit_step env day bars final x symbol = Inr x' \<Longrightarrow> own_rows env x \<Longrightarrow> own_rows env x'"
  "entry_step env day bars x signal = Inr x' \<Longrightarrow> own_rows env x \<Longrightarrow> own_rows env x'"
  "liquidate_step env day bars x symbol = Inr x' \<Longrightarrow> own_rows env x \<Longrightarrow> own_rows env x'"
proof -
  assume o: "own_rows env x"
  then have set: "own_rows env (set_positions d x)" for d by (simp add: own_rows_def)
  show "exit_step env day bars final x symbol = Inr x' \<Longrightarrow> own_rows env x'"
    by (erule exit_step_Inr) (use o set close_position_own in auto)
  show "liquidate_step env day bars x symbol = Inr x' \<Longrightarrow> own_rows env x'"
    by (erule liquidate_step_Inr) (use o close_position_own in auto)
  show "entry_step env day bars x signal = Inr x' \<Longrightarrow> own_rows env x'"
    by (erule entry_step_Inr) (use o in \<open>auto simp: own_rows_def skip_entry_def Let_def\<close>)
qed

lemma day_step_own:
  assumes "day_step env by_date events last_day x day = Inr x'" and "own_rows env x"
  shows "own_rows env x'"
proof -
  let ?bars = "dict_getd by_date day []"
  obtain x1 x2 x3 where e:
    "foldE (exit_step env day ?bars (day = last_day)) x (sorted_symbols x) = Inr x1"
    "foldE (entry_step env day ?bars) x1 (sort_key signal_key (dict_getd events day [])) = Inr x2"
    "(if day = last_day then foldE (liquidate_step env day ?bars) x2 (sorted_symbols x2) else Inr x2) = Inr x3"
    "snapshot_step env day (mark_positions ?bars x3) = Inr x'"
    using assms(1) by (auto simp: day_step_def Let_def bindE_eq_Inr)
  have "own_rows env x1"
    using e(1) assms(2) by (rule foldE_invariant [where P = "own_rows env"]) (rule step_own(1))
  with e(2) have "own_rows env x2"
    by (rule foldE_invariant [where P = "own_rows env"]) (rule step_own(2))
  then have "own_rows env x3"
    using e(3) foldE_invariant [of "liquidate_step env day ?bars" x2 _ x3 "own_rows env"] step_own(3)
    by (auto split: if_splits)
  then show ?thesis using snapshot_step_Inr [OF e(4)] by (auto simp: own_rows_def)
qed

lemma run_days_own: "run_days env signals rows = Inr x \<Longrightarrow> own_rows env x"
proof -
  assume "run_days env signals rows = Inr x"
  then obtain by_date events skips s where
    "foldE (day_step env by_date events (last (calendar (en_run env) rows))) (start_exec s skips)
      (calendar (en_run env) rows) = Inr x"
    by (auto simp: run_days_def Let_def bindE_eq_Inr split: prod.splits)
  moreover have "own_rows env (start_exec s skips)" by (simp add: own_rows_def start_exec_def)
  ultimately show "own_rows env x"
    by (rule foldE_invariant [where P = "own_rows env"]) (rule day_step_own)
qed

lemma execute_portfolio_effect: "extends_run (r_id run) db (snd (execute_portfolio su st run db))"
proof -
  have ext: "extends_run (r_id (en_run env)) db db'"
    if x: "run_days env signals rows = Inr x"
      and i: "insert_trades (ex_trades x) db = Inr db1" "insert_snapshots (ex_snapshots x) db1 = Inr db'"
    for env signals rows x db1 db'
    unfolding extends_run_def
    by (rule exI [of _ "ex_trades x"], rule exI [of _ "ex_snapshots x"])
      (use run_days_own [OF x] i in \<open>auto simp: own_rows_def insert_trades_def insert_snapshots_def split: if_splits\<close>)
  show ?thesis
    unfolding execute_portfolio_def Let_def
    by (auto simp: bindE_eq_Inr dest!: ext split: sum.splits)
qed

lemma db_execute_effect: "extends_run (r_id run) db (snd (db_execute su st run db))"
  by (auto simp: db_execute_def Let_def execute_independent_effect execute_portfolio_effect
      split: sum.splits prod.splits)

lemma db_execute_keeps: "db_runs (snd (db_execute su st run db)) = db_runs db"
  using extends_run_keeps [OF db_execute_effect] by blast

text \<open>
  An execution only appends: whatever it answers, the runs, bars and watchlist are untouched,
  the rows it adds are trades and snapshots of its own run, and the uniqueness constraints of the
  two tables still hold.
\<close>

theorem db_execute_appends:
  "\<exists>ts ss. snd (db_execute su st run db)
      = db\<lparr>db_trades := db_trades db @ ts, db_snapshots := db_snapshots db @ ss\<rparr>
    \<and> list_all (\<lambda>t. t_run_id t = r_id run) ts \<and> list_all (\<lambda>s. sn_run_id s = r_id run) ss
    \<and> (trades_table_ok (db_trades db) \<longrightarrow> trades_table_ok (db_trades db @ ts))
    \<and> (snapshots_table_ok (db_snapshots db) \<longrightarrow> snapshots_table_ok (db_snapshots db @ ss))"
proof -
  obtain ts ss where "snd (db_execute su st run db)
      = db\<lparr>db_trades := db_trades db @ ts, db_snapshots := db_snapshots db @ ss\<rparr>"
    "\<forall>t \<in> set ts. t_run_id t = r_id run" "\<forall>s \<in> set ss. sn_run_id s = r_id run"
    "trades_table_ok (db_trades db) \<longrightarrow> trades_table_ok (db_trades (snd (db_execute su st run db)))"
    "snapshots_table_ok (db_snapshots db) \<longrightarrow> snapshots_table_ok (db_snapshots (snd (db_execute su st run db)))"
    using db_execute_effect [of run db su st] unfolding extends_run_def by blast
  then show ?thesis
    by (intro exI [of _ ts] exI [of _ ss]) (simp add: list_all_iff)
qed

text \<open>
  What the dispatch refuses, and that it then writes nothing: an unsupported strategy, an
  execution mode other than the two, and in independent mode any of the portfolio-only parameters.
\<close>

theorem db_execute_refuses:
  assumes st: "st_name st = ''watchlist_entry''" "st_version st = ''1''"
  shows "(strip (r_strategy_name run) \<noteq> ''watchlist_entry''
        \<or> (\<exists>v. r_strategy_version run = Some v \<and> strip v \<noteq> ''1'')
        \<longrightarrow> (\<exists>m. db_execute su st run db = (Inl (UnsupportedBacktestStrategy m), db)))
    \<and> (strip (r_strategy_name run) = ''watchlist_entry'' \<and> r_strategy_version run = Some ''1''
        \<and> (\<exists>mode. map_of (r_parameters run) ''execution_mode'' = Some mode
            \<and> mode \<noteq> VStr ''independent'' \<and> mode \<noteq> VStr ''portfolio'')
        \<longrightarrow> (\<exists>m. db_execute su st run db = (Inl (InvalidBacktestParameters m), db)))
    \<and> (strip (r_strategy_name run) = ''watchlist_entry'' \<and> r_strategy_version run = Some ''1''
        \<and> map_of (r_parameters run) ''execution_mode'' = None
        \<and> (\<exists>k \<in> {''max_open_positions'', ''position_sizing_mode'', ''position_size_pct'',
              ''minimum_cash_buffer_pct''}. map_of (r_parameters run) k \<noteq> None)
        \<longrightarrow> (\<exists>m. db_execute su st run db = (Inl (InvalidBacktestParameters m), db)))"
  using st by (auto simp: db_execute_def validate_strategy_contract_def Let_def strip_def is_space_def
      execute_independent_def portfolio_only_keys_def)

definition demo_db :: backtest_db where
  "demo_db = \<lparr>db_runs = [demo_run], db_trades = [], db_snapshots = [], db_bars = demo_bars,
     db_watchlist = [(''005930'', 110)]\<rparr>"

definition demo_su :: surroundings where
  "demo_su = \<lparr>su_now = 0, su_uuid = (\<lambda>n. n + 1)\<rparr>"

lemma db_execute_appends_witness:
  "trades_table_ok (db_trades (snd (db_execute demo_su watchlist_entry_strategy demo_run demo_db)))"
  using db_execute_appends [of demo_su watchlist_entry_strategy demo_run demo_db]
  by (auto simp: demo_db_def trades_table_ok_def)

lemma db_execute_refuses_witness:
  "\<exists>m. db_execute demo_su watchlist_entry_strategy (demo_run\<lparr>r_strategy_name := ''other''\<rparr>) demo_db
     = (Inl (UnsupportedBacktestStrategy m), demo_db)"
  using db_execute_refuses [of watchlist_entry_strategy "demo_run\<lparr>r_strategy_name := ''other''\<rparr>" demo_su demo_db]
  by (simp add: watchlist_entry_strategy_def strip_def is_space_def)

end
