(* ===== verification/Backtest_Service.thy ===== *)
theory Backtest_Service
  imports Backtest_Executor
begin

text \<open>
  \<open>BacktestService\<close> (\<open>modules/backtest/service.py\<close>) over the repository and an executor. The
  executor is an interface: a locale states what the service needs of it, and it is interpreted on
  the database executor.
\<close>

section \<open>Operations\<close>

text \<open>The \<open>failure_code\<close> of an execution error; other exceptions get the general code.\<close>

fun failure_code :: "py_exc \<Rightarrow> string" where
  "failure_code (UnsupportedBacktestStrategy m) = ''UNSUPPORTED_STRATEGY''"
| "failure_code (InvalidBacktestParameters m) = ''INVALID_PARAMETERS''"
| "failure_code (DuplicateDailyBarError s d) = ''DUPLICATE_DAILY_BAR''"
| "failure_code e = ''EXECUTION_FAILED''"

text \<open>
  \<open>create\<close>: the run is created, saved, started, saved, executed, and saved as completed or failed.
  \<open>message\<close> is \<open>str\<close> of an exception; the three instants are what the clock shows at creation, start
  and end.
\<close>

record service_inputs =
  si_id :: uuid
  si_created :: datetime
  si_started :: datetime
  si_ended :: datetime

definition finish_execution :: "(py_exc \<Rightarrow> string) \<Rightarrow> datetime \<Rightarrow> BacktestRun \<Rightarrow> metrics res
    \<Rightarrow> BacktestRun res" where
  "finish_execution message now running result = (case result of
      Inl e \<Rightarrow> fail_run now None (message e) (Some (failure_code e)) running
    | Inr m \<Rightarrow> complete_run now None m running)"

definition save_result :: "BacktestRun res \<Rightarrow> backtest_db \<Rightarrow> BacktestRun res \<times> backtest_db" where
  "save_result r db = (case r of Inl e \<Rightarrow> (Inl e, db)
    | Inr run \<Rightarrow> (case save_run run db of Inl e \<Rightarrow> (Inl e, db) | Inr db' \<Rightarrow> (Inr run, db')))"

definition prepare_run :: "service_inputs \<Rightarrow> int \<Rightarrow> string \<Rightarrow> date \<Rightarrow> date \<Rightarrow> string option
    \<Rightarrow> (string, pyval) dict \<Rightarrow> (datetime \<times> bool) option \<Rightarrow> BacktestRun res" where
  "prepare_run si max_range_days name start_date end_date version parameters data_as_of =
    bindE (validate_strategy_contract name version) (\<lambda>(strategy_name, strategy_version).
    bindE (assertE (end_date - start_date \<le> max_range_days) (BacktestRangeError max_range_days)) (\<lambda>_.
    create_run (si_id si) (si_created si) strategy_name start_date end_date (Some strategy_version)
      parameters data_as_of))"

definition service_create :: "(BacktestRun \<Rightarrow> backtest_db \<Rightarrow> metrics res \<times> backtest_db)
    \<Rightarrow> (py_exc \<Rightarrow> string) \<Rightarrow> service_inputs \<Rightarrow> int \<Rightarrow> string \<Rightarrow> date \<Rightarrow> date \<Rightarrow> string option
    \<Rightarrow> (string, pyval) dict \<Rightarrow> (datetime \<times> bool) option \<Rightarrow> backtest_db
    \<Rightarrow> BacktestRun res \<times> backtest_db" where
  "service_create execute message si max_range_days name start_date end_date version parameters data_as_of db =
    (case prepare_run si max_range_days name start_date end_date version parameters data_as_of of
       Inl e \<Rightarrow> (Inl e, db)
     | Inr run \<Rightarrow>
       (case save_run run db of
          Inl e \<Rightarrow> (Inl e, db)
        | Inr db1 \<Rightarrow>
          (case start_run (si_started si) None run of
             Inl e \<Rightarrow> (Inl e, db1)
           | Inr running \<Rightarrow>
             (case save_run running db1 of
                Inl e \<Rightarrow> (Inl e, db1)
              | Inr db2 \<Rightarrow>
                (let (result, db3) = execute running db2
                 in save_result (finish_execution message (si_ended si) running result) db3)))))"

definition service_get :: "uuid \<Rightarrow> backtest_db \<Rightarrow> BacktestRun res" where
  "service_get run_id db = (case get_run run_id db of None \<Rightarrow> Inl BacktestNotFoundError | Some r \<Rightarrow> Inr r)"

definition service_list_trades :: "uuid \<Rightarrow> nat \<Rightarrow> nat \<Rightarrow> string option \<Rightarrow> BacktestExitReason option
    \<Rightarrow> backtest_db \<Rightarrow> BacktestTrade list res" where
  "service_list_trades run_id limit offset symbol exit_reason db =
    bindE (service_get run_id db) (\<lambda>_. Inr (list_trades run_id limit offset symbol exit_reason db))"

definition service_analyze :: "uuid \<Rightarrow> backtest_db \<Rightarrow> BacktestAnalysis res" where
  "service_analyze run_id db = bindE (service_get run_id db) (\<lambda>run.
     bindE (assertE (r_status run = COMPLETED) (BacktestAnalysisUnavailableError
       ''Backtest analysis is available only for completed runs'')) (\<lambda>_.
     Inr (analyze_trades run_id (list_all_trades run_id db))))"

definition portfolio_result_keys :: "string list" where
  "portfolio_result_keys = [''initial_capital'', ''final_equity'', ''final_cash'', ''net_profit'',
     ''total_return'', ''max_drawdown'', ''max_drawdown_pct'', ''maximum_open_positions_used'',
     ''average_capital_utilization'']"

definition service_portfolio :: "uuid \<Rightarrow> backtest_db \<Rightarrow> (BacktestRun \<times> PortfolioSnapshot list) res" where
  "service_portfolio run_id db = bindE (service_get run_id db) (\<lambda>run.
     bindE (assertE (r_status run = COMPLETED) (PortfolioUnavailableError
       ''Portfolio data is available only for completed runs'')) (\<lambda>_.
     bindE (execution_mode run) (\<lambda>mode.
     bindE (assertE (mode = PORTFOLIO) (PortfolioUnavailableError
       ''Portfolio data is unavailable for independent runs'')) (\<lambda>_.
     bindE (assertE (case r_result run of None \<Rightarrow> False
         | Some m \<Rightarrow> list_all (\<lambda>k. map_of m k \<noteq> None) portfolio_result_keys)
       (PortfolioUnavailableError ''Portfolio result is incomplete'')) (\<lambda>_.
     Inr (run, list_snapshots run_id db))))))"

section \<open>Preparing and finishing\<close>

lemma prepared_run:
  "prepare_run si m name s e v ps asof = Inr run \<Longrightarrow> run_wf run \<and> r_status run = PENDING
    \<and> r_id run = si_id si \<and> e - s \<le> m"
proof -
  assume "prepare_run si m name s e v ps asof = Inr run"
  then obtain nm vv where c: "create_run (si_id si) (si_created si) nm s e (Some vv) ps asof = Inr run"
    and "e - s \<le> m"
    by (auto simp: prepare_run_def bindE_eq_Inr split: prod.splits)
  moreover have "r_status run = PENDING \<and> r_id run = si_id si"
    using c by (auto simp: create_run_def Let_def split: if_splits option.splits)
  ultimately show ?thesis using create_run_wf [OF c] by blast
qed

text \<open>How a finished run relates to the executor's answer.\<close>

definition finished :: "(py_exc \<Rightarrow> string) \<Rightarrow> datetime \<Rightarrow> BacktestRun \<Rightarrow> metrics res
    \<Rightarrow> BacktestRun \<Rightarrow> bool" where
  "finished msg ended running result final \<longleftrightarrow> run_wf final \<and> r_id final = r_id running
     \<and> r_parameters final = r_parameters running \<and> r_started_at final = r_started_at running
     \<and> r_completed_at final = Some ended
     \<and> (case result of
          Inr res \<Rightarrow> r_status final = COMPLETED \<and> r_result final = Some res
        | Inl exc \<Rightarrow> r_status final = FAILED \<and> r_failure_code final = Some (failure_code exc)
            \<and> r_failure_message final = Some (msg exc))"

lemma finish_execution_final:
  assumes "run_wf running" and "r_status running = RUNNING"
  shows "\<exists>final. finish_execution msg ended running result = Inr final \<and> finished msg ended running result final"
  using assms by (cases result) (auto simp: finish_execution_def finished_def fail_run_iff complete_run_iff)

section \<open>The executor interface\<close>

lemma put_run_again: "r_id r = r_id q \<Longrightarrow> put_run r (put_run q rows) = put_run r rows"
  by (induction rows) auto

lemma put_run_rows: "distinct (map r_id rows) \<Longrightarrow> distinct (map r_id (put_run r rows))
    \<and> set (put_run r rows) = insert r {q \<in> set rows. r_id q \<noteq> r_id r}"
  by (induction rows) (auto, metis image_eqI)

text \<open>All the service needs of an executor: it leaves the table of runs alone.\<close>

locale backtest_executor =
  fixes execute :: "BacktestRun \<Rightarrow> backtest_db \<Rightarrow> metrics res \<times> backtest_db"
  assumes execute_runs: "db_runs (snd (execute run db)) = db_runs db"
begin

lemma create_refused:
  "prepare_run si m name s e v ps asof = Inl exc \<Longrightarrow>
    service_create execute msg si m name s e v ps asof db = (Inl exc, db)"
  by (simp add: service_create_def)

text \<open>Once prepared, the run always reaches a final status, and is stored in it.\<close>

lemma create_finishes:
  assumes "prepare_run si m name s e v ps asof = Inr run"
  shows "\<exists>final db' running db2. service_create execute msg si m name s e v ps asof db = (Inr final, db')
    \<and> db_runs db' = put_run final (db_runs db)
    \<and> (\<forall>i. get_run i db' = (if i = r_id run then Some final else get_run i db))
    \<and> running = run\<lparr>r_status := RUNNING, r_started_at := Some (si_started si)\<rparr>
    \<and> finished msg (si_ended si) running (fst (execute running db2)) final"
proof -
  have wf: "run_wf run" and pending: "r_status run = PENDING" using prepared_run [OF assms] by auto
  define db1 where "db1 = db\<lparr>db_runs := put_run run (db_runs db)\<rparr>"
  define running where "running = run\<lparr>r_status := RUNNING, r_started_at := Some (si_started si)\<rparr>"
  have st: "start_run (si_started si) None run = Inr running"
    using pending by (simp add: start_run_iff running_def)
  have rwf: "run_wf running" using run_step_wf [OF rs_start [OF st] wf] .
  define db2 where "db2 = db1\<lparr>db_runs := put_run running (db_runs db1)\<rparr>"
  obtain result db3 where ex: "execute running db2 = (result, db3)" by fastforce
  have runs3: "db_runs db3 = db_runs db2" using execute_runs [of running db2] by (simp add: ex)
  obtain final where fin: "finish_execution msg (si_ended si) running result = Inr final"
    and finished: "finished msg (si_ended si) running result final"
    using finish_execution_final [OF rwf, of msg "si_ended si" result] by (auto simp: running_def)
  have fid: "r_id final = r_id run" using finished by (simp add: finished_def running_def)
  have ok: "run_row_ok run" "run_row_ok running" "run_row_ok final"
    using wf rwf finished by (simp_all add: run_row_ok_def finished_def)
  define db4 where "db4 = db3\<lparr>db_runs := put_run final (db_runs db3)\<rparr>"
  have "service_create execute msg si m name s e v ps asof db = (Inr final, db4)"
    using assms ok by (simp add: service_create_def save_run_def st ex fin save_result_def db4_def
        flip: db1_def db2_def)
  moreover have "db_runs db4 = put_run final (db_runs db)"
    using fid by (simp add: db4_def runs3 db2_def db1_def running_def put_run_again)
  moreover have "get_run i db4 = (if i = r_id run then Some final else get_run i db)" for i
    by (simp add: db4_def get_run_def find_put_run runs3 db2_def db1_def fid) (simp add: running_def)
  moreover have "finished msg (si_ended si) running (fst (execute running db2)) final"
    using finished ex by simp
  ultimately show ?thesis using running_def by blast
qed

end

interpretation database_executor: backtest_executor "db_execute su st" for su st
  by unfold_locales (rule db_execute_keeps)

section \<open>Properties\<close>

text \<open>
  Creating a backtest is refused without any write exactly when the strategy contract, the range
  limit or the run's own validation fails; otherwise it always answers a stored run in a final
  status: completed with the executor's metrics, or failed with the exception's code and message.
  The stored runs under other ids are untouched.
\<close>

theorem service_create_final:
  "case prepare_run si m name s e v ps asof of
     Inl exc \<Rightarrow> service_create (db_execute su st) msg si m name s e v ps asof db = (Inl exc, db)
   | Inr run \<Rightarrow> \<exists>final db' running db2.
       service_create (db_execute su st) msg si m name s e v ps asof db = (Inr final, db')
       \<and> (\<forall>i. get_run i db' = (if i = si_id si then Some final else get_run i db))
       \<and> r_status final \<in> {COMPLETED, FAILED} \<and> run_wf final
       \<and> r_started_at final = Some (si_started si) \<and> r_completed_at final = Some (si_ended si)
       \<and> (case fst (db_execute su st running db2) of
            Inr res \<Rightarrow> r_status final = COMPLETED \<and> r_result final = Some res
          | Inl exc \<Rightarrow> r_status final = FAILED \<and> r_failure_code final = Some (failure_code exc)
              \<and> r_failure_message final = Some (msg exc))"
proof (cases "prepare_run si m name s e v ps asof")
  case (Inl exc)
  then show ?thesis by (simp add: database_executor.create_refused)
next
  case (Inr run)
  from database_executor.create_finishes [OF Inr, of su st msg db]
  obtain final db' running db2 where f:
    "service_create (db_execute su st) msg si m name s e v ps asof db = (Inr final, db')"
    "\<forall>i. get_run i db' = (if i = r_id run then Some final else get_run i db)"
    "running = run\<lparr>r_status := RUNNING, r_started_at := Some (si_started si)\<rparr>"
    "finished msg (si_ended si) running (fst (db_execute su st running db2)) final"
    by blast
  have started: "r_started_at running = Some (si_started si)" using f(3) by simp
  have id: "r_id run = si_id si" using prepared_run [OF Inr] by blast
  have "r_status final \<in> {COMPLETED, FAILED}"
    using f(4) by (auto simp: finished_def split: sum.splits)
  then show ?thesis unfolding Inr sum.case
    by (intro exI [of _ final] exI [of _ db'] exI [of _ running] exI [of _ db2])
      (use started f(4) in \<open>simp only: f(1) f(2) [unfolded id] finished_def simp_thms\<close>)
qed

text \<open>
  A range longer than the limit, a foreign strategy or reversed dates are refused with their
  own exceptions before anything is stored.
\<close>

theorem service_create_refusals:
  "(strip name \<noteq> ''watchlist_entry''
      \<longrightarrow> (\<exists>m'. service_create exec msg si m name s e v ps asof db = (Inl (UnsupportedBacktestStrategy m'), db)))
   \<and> (strip name = ''watchlist_entry'' \<and> v = None \<and> m < e - s
      \<longrightarrow> service_create exec msg si m name s e v ps asof db = (Inl (BacktestRangeError m), db))
   \<and> (strip name = ''watchlist_entry'' \<and> v = None \<and> e - s \<le> m \<and> e < s
      \<longrightarrow> (\<exists>m'. service_create exec msg si m name s e v ps asof db = (Inl (ValueError m'), db)))"
  by (auto simp: service_create_def prepare_run_def validate_strategy_contract_def create_run_def
      Let_def strip_def is_space_def)

text \<open>
  Analysis is answered exactly for completed runs, from all of the run's trades; an unknown run
  and an unfinished one are told apart by their exceptions. Portfolio data needs in addition the
  portfolio mode and a complete result.
\<close>

theorem service_reads:
  "(get_run i db = None \<longrightarrow> service_analyze i db = Inl BacktestNotFoundError
      \<and> service_portfolio i db = Inl BacktestNotFoundError
      \<and> service_list_trades i l off symb reason db = Inl BacktestNotFoundError)
   \<and> (\<forall>run. get_run i db = Some run \<longrightarrow>
       (r_status run = COMPLETED \<and> trades_table_ok (db_trades db) \<longrightarrow> service_analyze i db
          = Inr (analyze_trades i (filter (\<lambda>t. t_run_id t = i) (db_trades db))))
       \<and> (r_status run \<noteq> COMPLETED \<longrightarrow> (\<exists>msg. service_analyze i db = Inl (BacktestAnalysisUnavailableError msg))
            \<and> (\<exists>msg. service_portfolio i db = Inl (PortfolioUnavailableError msg)))
       \<and> (\<forall>res. service_portfolio i db = Inr res \<longrightarrow> fst res = run \<and> r_status run = COMPLETED
            \<and> execution_mode run = Inr PORTFOLIO \<and> snd res = list_snapshots i db))"
proof -
  have an: "analyze_trades i (list_all_trades i db) = analyze_trades i (filter (\<lambda>t. t_run_id t = i) (db_trades db))"
    if "trades_table_ok (db_trades db)"
  proof -
    let ?ts = "filter (\<lambda>t. t_run_id t = i) (db_trades db)"
    have "distinct (map t_id ?ts)" using that by (simp add: trades_table_ok_def distinct_map_filter)
    then have "sort_key analysis_key (sort_key analysis_key ?ts) = sort_key analysis_key ?ts"
      by (intro analysis_order.sort_mset) (simp_all add: distinct_map)
    then show ?thesis by (simp add: analyze_trades_def list_all_trades_def)
  qed
  then show ?thesis
    by (auto simp: service_analyze_def service_portfolio_def service_list_trades_def service_get_def bindE_eq_Inr)
qed

definition demo_inputs :: service_inputs where
  "demo_inputs = \<lparr>si_id = 9, si_created = 1, si_started = 2, si_ended = 3\<rparr>"

lemma service_create_refusals_witness:
  "service_create (db_execute demo_su watchlist_entry_strategy) (\<lambda>_. []) demo_inputs 30
     '' watchlist_entry '' 100 200 None [] None demo_db = (Inl (BacktestRangeError 30), demo_db)"
  using service_create_refusals [of "'' watchlist_entry ''" "db_execute demo_su watchlist_entry_strategy"
      "\<lambda>_. []" demo_inputs 30 100 200 None "[]" None demo_db]
  by (simp add: strip_def is_space_def)

lemma service_reads_witness:
  "service_analyze 8 demo_db = Inl BacktestNotFoundError
    \<and> (\<exists>msg. service_analyze 7 demo_db = Inl (BacktestAnalysisUnavailableError msg))"
  using service_reads [of 8 demo_db] service_reads [of 7 demo_db]
  by (simp add: get_run_def demo_db_def demo_run_def)

end
