(* ===== verification/Analysis_Props.thy ===== *)
theory Analysis_Props
  imports Analysis
begin

text \<open>
  What the analysis promises: it depends on the trades only, not on their order; the curve ends at
  the net profit and its drawdowns are the distances to the peak; the breakdowns partition the
  trades; streaks are the longest runs, broken by a break-even trade.
\<close>

section \<open>The curve\<close>

lemma curve_points_length: "length (cs_points (foldl curve_step s ts)) = length (cs_points s) + length ts"
  by (induction ts arbitrary: s) (simp_all add: curve_step_def Let_def)

definition point_ok :: "CumulativePoint \<Rightarrow> bool" where
  "point_ok c \<longleftrightarrow> 0 \<le> cp_running_peak c \<and> cp_cumulative_net_pnl c \<le> cp_running_peak c
     \<and> cp_realized_drawdown c = dsub (cp_running_peak c) (cp_cumulative_net_pnl c)
     \<and> 0 \<le> cp_realized_drawdown c"

definition curve_inv :: "curve_state \<Rightarrow> bool" where
  "curve_inv s \<longleftrightarrow> 0 \<le> cs_peak s \<and> 0 \<le> cs_max_drawdown s \<and> list_all point_ok (cs_points s)
     \<and> sorted (map cp_running_peak (cs_points s))
     \<and> (\<forall>c \<in> set (cs_points s). cp_running_peak c \<le> cs_peak s \<and> cp_realized_drawdown c \<le> cs_max_drawdown s)
     \<and> (cs_max_drawdown s = 0 \<or> cs_max_drawdown s \<in> cp_realized_drawdown ` set (cs_points s))
     \<and> map cp_sequence (cs_points s) = [1..<length (cs_points s) + 1]"

lemma curve_step_fields:
  "cs_cumulative (curve_step s t) = dadd (cs_cumulative s) (t_net_pnl t)"
  "cs_peak (curve_step s t) = max (cs_peak s) (dadd (cs_cumulative s) (t_net_pnl t))"
  "cs_max_drawdown (curve_step s t) = max (cs_max_drawdown s) (dsub
     (max (cs_peak s) (dadd (cs_cumulative s) (t_net_pnl t))) (dadd (cs_cumulative s) (t_net_pnl t)))"
  by (simp_all add: curve_step_def Let_def)

lemma curve_step_points: "\<exists>c. cs_points (curve_step s t) = cs_points s @ [c]
    \<and> cp_sequence c = length (cs_points s) + 1 \<and> cp_trade_id c = t_id t \<and> cp_net_pnl c = t_net_pnl t
    \<and> cp_cumulative_net_pnl c = cs_cumulative (curve_step s t)
    \<and> cp_running_peak c = cs_peak (curve_step s t)
    \<and> cp_realized_drawdown c = dsub (cs_peak (curve_step s t)) (cs_cumulative (curve_step s t))"
  by (simp add: curve_step_def Let_def)

lemma curve_step_inv:
  assumes inv: "curve_inv s"
  shows "curve_inv (curve_step s t)"
proof -
  let ?s = "curve_step s t"
  obtain c where c: "cs_points ?s = cs_points s @ [c]" "cp_sequence c = length (cs_points s) + 1"
    "cp_cumulative_net_pnl c = cs_cumulative ?s" "cp_running_peak c = cs_peak ?s"
    "cp_realized_drawdown c = dsub (cs_peak ?s) (cs_cumulative ?s)"
    using curve_step_points [of s t] by blast
  have p: "cs_peak s \<le> cs_peak ?s" "cs_cumulative ?s \<le> cs_peak ?s" by (simp_all add: curve_step_fields)
  have dd: "0 \<le> dsub (cs_peak ?s) (cs_cumulative ?s)" using p(2) by (rule dsub_nonneg)
  have md: "cs_max_drawdown ?s = max (cs_max_drawdown s) (cp_realized_drawdown c)"
    unfolding c(5) by (simp add: curve_step_fields)
  have ok: "point_ok c" using inv p dd unfolding point_ok_def curve_inv_def c by auto
  have "list_all point_ok (cs_points ?s)" using inv ok by (simp add: curve_inv_def c(1))
  moreover have "sorted (map cp_running_peak (cs_points ?s))"
    using inv p(1) by (auto simp: curve_inv_def c(1,4) sorted_append)
  moreover have "map cp_sequence (cs_points ?s) = [1..<length (cs_points ?s) + 1]"
    using inv by (simp add: curve_inv_def c(1,2))
  moreover have "\<forall>d \<in> set (cs_points ?s). cp_running_peak d \<le> cs_peak ?s \<and> cp_realized_drawdown d \<le> cs_max_drawdown ?s"
    using inv p(1) unfolding c(1) md curve_inv_def by (auto simp: c(4) le_max_iff_disj)
  moreover have "cs_max_drawdown ?s = 0 \<or> cs_max_drawdown ?s \<in> cp_realized_drawdown ` set (cs_points ?s)"
    using inv unfolding c(1) md curve_inv_def by (auto simp: max_def)
  moreover have "0 \<le> cs_peak ?s" "0 \<le> cs_max_drawdown ?s"
    using inv p(1) unfolding curve_inv_def md by (auto simp: le_max_iff_disj)
  ultimately show ?thesis by (simp add: curve_inv_def)
qed

lemma curve_inv_fold: "curve_inv (foldl curve_step curve_start ts)"
  by (induction ts rule: rev_induct)
    (simp_all add: curve_step_inv, simp add: curve_inv_def curve_start_def)

lemma curve_cumulative: "cs_cumulative (foldl curve_step s ts) = foldl dadd (cs_cumulative s) (map t_net_pnl ts)"
  by (induction ts arbitrary: s) (simp_all add: curve_step_fields)

lemma curve_ids: "map cp_trade_id (cs_points (foldl curve_step s ts)) = map cp_trade_id (cs_points s) @ map t_id ts"
proof (induction ts arbitrary: s)
  case (Cons t ts)
  obtain c where "cs_points (curve_step s t) = cs_points s @ [c]" "cp_trade_id c = t_id t"
    using curve_step_points [of s t] by blast
  with Cons show ?case by simp
qed simp

lemma curve_last: "ts \<noteq> [] \<Longrightarrow> cp_cumulative_net_pnl (last (cs_points (foldl curve_step s ts)))
    = cs_cumulative (foldl curve_step s ts)"
proof (induction ts rule: rev_induct)
  case (snoc t ts)
  obtain c where "cs_points (curve_step (foldl curve_step s ts) t) = cs_points (foldl curve_step s ts) @ [c]"
    "cp_cumulative_net_pnl c = cs_cumulative (curve_step (foldl curve_step s ts) t)"
    using curve_step_points [of "foldl curve_step s ts" t] by blast
  then show ?case by simp
qed simp

lemma curve_streaks:
  "let s = foldl curve_step curve_start ts in
     cs_wins s = run_end (\<lambda>x. 0 < x) (pnls ts) \<and> cs_losses s = run_end (\<lambda>x. x < 0) (pnls ts)
     \<and> cs_max_wins s = longest (\<lambda>x. 0 < x) (pnls ts) \<and> cs_max_losses s = longest (\<lambda>x. x < 0) (pnls ts)"
proof (induction ts rule: rev_induct)
  case Nil
  show ?case by (simp add: curve_start_def pnls_def)
next
  case (snoc t ts)
  consider "0 < t_net_pnl t" | "t_net_pnl t < 0" | "t_net_pnl t = 0" by linarith
  then show ?case using snoc
    by cases (simp_all add: Let_def pnls_def curve_step_def run_end_snoc longest_snoc)
qed

section \<open>Breakdowns\<close>

lemma sum_list_sort_key: "(\<Sum>x\<leftarrow>sort_key k xs. f x :: nat) = (\<Sum>x\<leftarrow>xs. f x)"
  by (metis mset_map mset_sort sum_mset_sum_list)

lemma extended_stats [simp]:
  "ts_trade_count (TradeStats.extend (trade_stats g) m) = length g"
  "ts_net_profit (TradeStats.extend (trade_stats g) m) = pnl_sum g"
  by (simp_all add: trade_stats_def TradeStats.defs Let_def pnl_sum_def)

lemma extended_symbol [simp]: "sy_symbol (TradeStats.extend s (SymbolAnalysis.fields x)) = x"
  by (simp add: TradeStats.defs SymbolAnalysis.defs)

lemma extended_month [simp]: "mo_month (TradeStats.extend s (MonthAnalysis.fields x)) = x"
  by (simp add: TradeStats.defs MonthAnalysis.defs)

lemma symbol_rows_mem:
  "row \<in> set (symbol_rows ts) \<Longrightarrow> \<exists>g. g = filter (\<lambda>t. t_symbol t = sy_symbol row) ts \<and> g \<noteq> []
     \<and> row = TradeStats.extend (trade_stats g) (SymbolAnalysis.fields (sy_symbol row))"
  by (auto simp: symbol_rows_def filter_empty_conv dest!: groups_mem)

lemma symbol_rows_symbols: "set (map sy_symbol (symbol_rows ts)) = t_symbol ` set ts"
proof -
  have "set (map sy_symbol (symbol_rows ts)) = fst ` set (groups t_symbol ts)"
    by (force simp: symbol_rows_def)
  then show ?thesis by (simp add: groups_keys)
qed

lemma symbol_rows_total: "(\<Sum>row\<leftarrow>symbol_rows ts. ts_trade_count row) = length ts"
  using groups_total [of t_symbol ts]
  by (simp add: symbol_rows_def sum_list_sort_key comp_def case_prod_beta)

lemma symbol_rows_sorted: "sorted (map (\<lambda>r. - ts_net_profit r) (symbol_rows ts))"
  by (simp add: symbol_rows_def)

lemma month_rows_total: "(\<Sum>row\<leftarrow>month_rows ts. ts_trade_count row) = length ts"
  using groups_total [of "\<lambda>t. month_of (t_exit_date t)" ts]
  by (simp add: month_rows_def sum_list_sort_key comp_def case_prod_beta)

lemma month_rows_sorted: "sorted (map mo_month (month_rows ts))"
  by (simp add: month_rows_def)

lemma all_exit_reasons_complete: "set all_exit_reasons = UNIV" "distinct all_exit_reasons"
proof -
  have "r \<in> set all_exit_reasons" for r by (cases r) (simp_all add: all_exit_reasons_def)
  then show "set all_exit_reasons = UNIV" by blast
qed (simp add: all_exit_reasons_def)

lemma sum_filter_keys: "distinct ks \<Longrightarrow>
    (\<Sum>k\<leftarrow>ks. length (filter (\<lambda>x. key x = k) xs)) = length (filter (\<lambda>x. key x \<in> set ks) xs)"
proof (induction xs)
  case (Cons x xs)
  have "(\<Sum>k\<leftarrow>ks. length (filter (\<lambda>y. key y = k) (x # xs)))
      = (\<Sum>k\<leftarrow>ks. length (filter (\<lambda>y. key y = k) xs)) + (\<Sum>k\<leftarrow>ks. if key x = k then 1 else 0)"
    by (subst sum_list_addf [symmetric]) (intro arg_cong [where f = sum_list] map_cong, auto)
  moreover have "(\<Sum>k\<leftarrow>ks. if key x = k then 1 else (0 :: nat)) = (if key x \<in> set ks then 1 else 0)"
    using Cons.prems by (induction ks) auto
  ultimately show ?case using Cons by simp
qed simp

lemma sum_list_concat_map: "(\<Sum>x\<leftarrow>concat (map g rs). f x :: nat) = (\<Sum>r\<leftarrow>rs. \<Sum>x\<leftarrow>g r. f x)"
  by (induction rs) simp_all

lemma reason_rows_total: "(\<Sum>row\<leftarrow>reason_rows ts. er_trade_count row) = length ts"
proof -
  have one: "(\<Sum>row\<leftarrow>(case map_of (groups t_exit_reason ts) r of None \<Rightarrow> []
       | Some g \<Rightarrow> if g = [] then [] else [reason_row n r g]). er_trade_count row)
      = length (filter (\<lambda>t. t_exit_reason t = r) ts)" for r n
    by (auto simp: groups_map_of reason_row_def trade_stats_def Let_def filter_empty_conv)
  have "(\<Sum>row\<leftarrow>reason_rows ts. er_trade_count row)
      = (\<Sum>r\<leftarrow>all_exit_reasons. length (filter (\<lambda>t. t_exit_reason t = r) ts))"
    unfolding reason_rows_def sum_list_concat_map one ..
  then show ?thesis
    using sum_filter_keys [OF all_exit_reasons_complete(2), of t_exit_reason ts]
    by (simp add: all_exit_reasons_complete(1))
qed

section \<open>Properties\<close>

text \<open>
  The analysis is a function of the set of trades: with distinct trade ids, the order in which
  the rows are read does not matter.
\<close>

theorem analysis_order_independent:
  assumes "mset trades = mset trades'" and "distinct (map t_id trades)"
  shows "analyze_trades run_id trades = analyze_trades run_id trades'"
  using analysis_order.sort_mset [OF assms] by (simp add: analyze_trades_def)

text \<open>
  The cumulative curve has one point per trade, in canonical order and numbered from 1; each
  drawdown is the distance of the cumulative result from a peak that is never negative and never
  falls; the largest drawdown is that of a point (or zero), no point exceeds it, and the last
  point's cumulative result is the summary's net profit.
\<close>

theorem analysis_curve_sound:
  "let a = analyze_trades run_id trades; points = ba_cumulative_realized_pnl a;
       worst = as_max_realized_pnl_drawdown (ba_summary a) in
     map cp_trade_id points = map t_id (sort_key analysis_key trades)
     \<and> map cp_sequence points = [1..<length trades + 1]
     \<and> sorted (map cp_running_peak points)
     \<and> (\<forall>c \<in> set points. 0 \<le> cp_running_peak c \<and> cp_cumulative_net_pnl c \<le> cp_running_peak c
          \<and> cp_realized_drawdown c = dsub (cp_running_peak c) (cp_cumulative_net_pnl c)
          \<and> 0 \<le> cp_realized_drawdown c \<and> cp_realized_drawdown c \<le> worst)
     \<and> (worst = 0 \<or> worst \<in> cp_realized_drawdown ` set points)
     \<and> (trades \<noteq> [] \<longrightarrow> cp_cumulative_net_pnl (last points) = ts_net_profit (ba_summary a))"
proof -
  let ?ts = "sort_key analysis_key trades"
  let ?c = "foldl curve_step curve_start ?ts"
  have len: "length (cs_points ?c) = length trades"
    by (simp add: curve_points_length) (simp add: curve_start_def)
  have ids: "map cp_trade_id (cs_points ?c) = map t_id ?ts"
    unfolding curve_ids by (simp add: curve_start_def)
  have worst: "as_max_realized_pnl_drawdown (ba_summary (analyze_trades run_id trades)) = cs_max_drawdown ?c"
    and net: "ts_net_profit (ba_summary (analyze_trades run_id trades)) = dsum (map t_net_pnl ?ts)"
    by (simp_all add: analyze_trades_def Let_def summarize_def TradeStats.defs AnalysisSummary.defs trade_stats_def)
  have points: "ba_cumulative_realized_pnl (analyze_trades run_id trades) = cs_points ?c"
    by (simp add: analyze_trades_def Let_def)
  have "cp_cumulative_net_pnl (last (cs_points ?c)) = dsum (map t_net_pnl ?ts)" if "trades \<noteq> []"
  proof -
    have "?ts \<noteq> []" using that by (metis set_empty set_sort)
    then show ?thesis by (simp add: curve_last curve_cumulative dsum_def) (simp add: curve_start_def)
  qed
  then show ?thesis
    using curve_inv_fold [of ?ts] unfolding Let_def worst net points
    by (auto simp: curve_inv_def ids len list_all_iff point_ok_def)
qed

text \<open>
  The three breakdowns partition the trades: the counts by symbol, by exit reason and by month
  each add up to the number of trades; the symbols are those that traded, ordered by net profit
  from best to worst, and the months ascend.
\<close>

theorem analysis_breakdowns_partition:
  "let a = analyze_trades run_id trades in
     (\<Sum>row\<leftarrow>ba_by_symbol a. ts_trade_count row) = ba_trade_count a
     \<and> (\<Sum>row\<leftarrow>ba_by_exit_reason a. er_trade_count row) = ba_trade_count a
     \<and> (\<Sum>row\<leftarrow>ba_by_month a. ts_trade_count row) = ba_trade_count a
     \<and> ba_trade_count a = length trades
     \<and> set (map sy_symbol (ba_by_symbol a)) = t_symbol ` set trades
     \<and> sorted_wrt (\<ge>) (map ts_net_profit (ba_by_symbol a))
     \<and> sorted (map mo_month (ba_by_month a))"
proof -
  have "sorted_wrt (\<ge>) (map ts_net_profit (symbol_rows ts))" for ts
    using symbol_rows_sorted [of ts] by (simp add: sorted_wrt_map)
  moreover have "ts_trade_count (trade_stats ts) = length ts" for ts
    by (simp add: trade_stats_def Let_def)
  ultimately show ?thesis
    using symbol_rows_symbols [of "sort_key analysis_key trades"]
    by (simp add: analyze_trades_def Let_def symbol_rows_total reason_rows_total month_rows_total
        month_rows_sorted)
qed

text \<open>
  The analysis counts the longest runs of winning and of losing trades in canonical order, a
  break-even trade ending either run.
\<close>

theorem analysis_streaks:
  "as_max_consecutive_wins (ba_summary (analyze_trades run_id trades))
      = longest (\<lambda>x. 0 < x) (pnls (sort_key analysis_key trades))
    \<and> as_max_consecutive_losses (ba_summary (analyze_trades run_id trades))
      = longest (\<lambda>x. x < 0) (pnls (sort_key analysis_key trades))"
  using curve_streaks [of "sort_key analysis_key trades"]
  by (simp add: analyze_trades_def Let_def summarize_def TradeStats.defs AnalysisSummary.defs trade_stats_def)

text \<open>
  The run's own metrics and the analysis count streaks differently: on one and the same list of
  trades, two wins around a break-even trade, the metrics report a streak of two, the analysis one
  of one.
\<close>

theorem streak_definitions_differ:
  "ms_max_wins (metric_fold 5000000 demo_closed) = 2
    \<and> as_max_consecutive_wins (ba_summary (analyze_trades 7 demo_closed)) = 1"
proof
  show "ms_max_wins (metric_fold 5000000 demo_closed) = 2" by code_simp
  have "cs_max_wins (foldl curve_step curve_start (sort_key analysis_key demo_closed)) = 1" by code_simp
  then show "as_max_consecutive_wins (ba_summary (analyze_trades 7 demo_closed)) = 1"
    by (simp add: analyze_trades_def Let_def summarize_def TradeStats.defs AnalysisSummary.defs trade_stats_def)
qed

lemma analysis_order_independent_witness:
  "analyze_trades 7 (rev demo_closed) = analyze_trades 7 demo_closed"
  by (rule analysis_order_independent) (simp_all add: demo_closed_def)

lemma analysis_curve_sound_witness:
  "cp_cumulative_net_pnl (last (ba_cumulative_realized_pnl (analyze_trades 7 demo_closed)))
    = ts_net_profit (ba_summary (analyze_trades 7 demo_closed))"
  using analysis_curve_sound [of 7 demo_closed] by (simp add: Let_def demo_closed_def)

end
