(* ===== verification/Market_Domain.thy ===== *)
theory Market_Domain
  imports Decimal
begin

text \<open>
  Market value types with their validators, \<open>modules/market/domain.py\<close>: daily and minute bars,
  quotes, provider states and provider errors. A validator is the construction of the value: the
  field constraints first, then the model validator, each raising a \<open>ValueError\<close>.
\<close>

datatype ProviderState = UNCONFIGURED | AVAILABLE | DEGRADED | UNAVAILABLE

record MarketBar =
  mk_symbol :: string
  mk_date :: date
  mk_open :: decimal
  mk_high :: decimal
  mk_low :: decimal
  mk_close :: decimal
  mk_volume :: int
  mk_source :: string
  mk_as_of :: datetime

record MinuteBar =
  mn_symbol :: string
  mn_timestamp :: datetime
  mn_timestamp_aware :: bool
  mn_open :: decimal
  mn_high :: decimal
  mn_low :: decimal
  mn_close :: decimal
  mn_volume :: int
  mn_currency :: string
  mn_source :: string
  mn_as_of :: datetime
  mn_as_of_aware :: bool

record QuoteSnapshot =
  q_symbol :: string
  q_price :: decimal
  q_currency :: string
  q_source :: string
  q_as_of :: datetime
  q_delayed :: "bool option"

record ProviderStatus =
  ps_provider :: string
  ps_configured :: bool
  ps_state :: ProviderState
  ps_as_of :: datetime
  ps_api_base_host :: "string option"
  ps_api_version :: "string option"
  ps_message :: "string option"
  ps_last_successful_request_at :: "datetime option"

record InstrumentSnapshot =
  in_symbol :: string
  in_name :: string
  in_market :: string
  in_country :: "string option"
  in_currency :: string
  in_security_type :: "string option"
  in_listing_status :: "string option"
  in_exchange :: "string option"
  in_is_common_share :: "bool option"
  in_status :: "string option"
  in_list_date :: "date option"
  in_delist_date :: "date option"
  in_korean_market_detail :: "string option"
  in_source :: string
  in_as_of :: datetime

record StockWarning =
  w_symbol :: string
  w_warning_type :: string
  w_active :: bool
  w_description :: "string option"
  w_exchange :: "string option"
  w_start_date :: "date option"
  w_end_date :: "date option"
  w_source :: string
  w_as_of :: datetime

definition max3 :: "decimal \<Rightarrow> decimal \<Rightarrow> decimal \<Rightarrow> decimal" where
  "max3 a b c = max (max a b) c"

definition min3 :: "decimal \<Rightarrow> decimal \<Rightarrow> decimal \<Rightarrow> decimal" where
  "min3 a b c = min (min a b) c"

definition check_ohlc :: "decimal \<Rightarrow> decimal \<Rightarrow> decimal \<Rightarrow> decimal \<Rightarrow> unit res" where
  "check_ohlc op hi lo cl =
    bindE (assertE (\<not> hi < max3 op cl lo) (ValueError ''high is inconsistent with OHLC values'')) (\<lambda>_.
    assertE (\<not> min3 op cl hi < lo) (ValueError ''low is inconsistent with OHLC values''))"

definition check_fields :: "decimal \<Rightarrow> decimal \<Rightarrow> decimal \<Rightarrow> decimal \<Rightarrow> int \<Rightarrow> unit res" where
  "check_fields op hi lo cl vol =
    assertE (0 \<le> op \<and> 0 \<le> hi \<and> 0 \<le> lo \<and> 0 \<le> cl \<and> 0 \<le> vol)
      (ValueError ''Input should be greater than or equal to 0'')"

definition validate_bar :: "MarketBar \<Rightarrow> MarketBar res" where
  "validate_bar b =
    bindE (check_fields (mk_open b) (mk_high b) (mk_low b) (mk_close b) (mk_volume b)) (\<lambda>_.
    bindE (check_ohlc (mk_open b) (mk_high b) (mk_low b) (mk_close b)) (\<lambda>_. Inr b))"

definition validate_minute_bar :: "MinuteBar \<Rightarrow> MinuteBar res" where
  "validate_minute_bar b =
    bindE (check_fields (mn_open b) (mn_high b) (mn_low b) (mn_close b) (mn_volume b)) (\<lambda>_.
    bindE (assertE (mn_timestamp_aware b \<and> mn_as_of_aware b)
      (ValueError ''minute bar timestamps must be timezone-aware'')) (\<lambda>_.
    bindE (check_ohlc (mn_open b) (mn_high b) (mn_low b) (mn_close b)) (\<lambda>_. Inr b)))"

definition validate_quote :: "QuoteSnapshot \<Rightarrow> QuoteSnapshot res" where
  "validate_quote q = bindE (assertE (0 \<le> q_price q)
     (ValueError ''Input should be greater than or equal to 0'')) (\<lambda>_. Inr q)"

text \<open>What a validated bar satisfies.\<close>

definition ohlc_ok :: "decimal \<Rightarrow> decimal \<Rightarrow> decimal \<Rightarrow> decimal \<Rightarrow> bool" where
  "ohlc_ok op hi lo cl \<longleftrightarrow> 0 \<le> lo \<and> lo \<le> op \<and> lo \<le> cl \<and> op \<le> hi \<and> cl \<le> hi"

definition bar_ok :: "MarketBar \<Rightarrow> bool" where
  "bar_ok b \<longleftrightarrow> ohlc_ok (mk_open b) (mk_high b) (mk_low b) (mk_close b) \<and> 0 \<le> mk_volume b"

lemma check_ohlc_iff:
  "0 \<le> lo \<Longrightarrow> check_ohlc op hi lo cl = Inr () \<longleftrightarrow> ohlc_ok op hi lo cl"
  by (auto simp: check_ohlc_def bindE_eq_Inr ohlc_ok_def max3_def min3_def)

lemma validate_bar_Inr: "validate_bar b = Inr b' \<longleftrightarrow> b' = b \<and> bar_ok b"
  unfolding validate_bar_def check_fields_def bindE_eq_Inr bar_ok_def
  by (auto simp: check_ohlc_iff) (auto simp: ohlc_ok_def check_ohlc_iff)

definition minute_ok :: "MinuteBar \<Rightarrow> bool" where
  "minute_ok m \<longleftrightarrow> 0 \<le> mn_volume m \<and> mn_timestamp_aware m \<and> mn_as_of_aware m
     \<and> ohlc_ok (mn_open m) (mn_high m) (mn_low m) (mn_close m)"

lemma validate_minute_bar_Inr: "validate_minute_bar m = Inr m' \<longleftrightarrow> m' = m \<and> minute_ok m"
  unfolding validate_minute_bar_def check_fields_def bindE_eq_Inr minute_ok_def
  by (auto simp: check_ohlc_iff) (auto simp: ohlc_ok_def check_ohlc_iff)

text \<open>
  C9. Validation is exactly the bar invariant: prices from zero up with the low lowest and the high
  highest, a volume from zero up; a bar that satisfies it is returned unchanged, any other raises.
  The same holds for minute bars with the additional demand for aware timestamps.
\<close>

theorem validate_bar_iff:
  "(validate_bar b = Inr b' \<longleftrightarrow> b' = b \<and> bar_ok b)
    \<and> (validate_minute_bar m = Inr m' \<longleftrightarrow> m' = m \<and> 0 \<le> mn_volume m \<and> mn_timestamp_aware m
        \<and> mn_as_of_aware m \<and> ohlc_ok (mn_open m) (mn_high m) (mn_low m) (mn_close m))"
  using validate_bar_Inr [of b b'] validate_minute_bar_Inr [of m m'] by (simp add: minute_ok_def)

text \<open>The columns \<open>Numeric(20, 6)\<close>: at most 14 integer and 6 fractional digits.\<close>

definition numeric_20_6 :: "decimal \<Rightarrow> bool" where
  "numeric_20_6 x \<longleftrightarrow> on_grid 6 x \<and> \<bar>x\<bar> < 10 ^ 14"

lemma numeric_20_6_representable: "numeric_20_6 x \<Longrightarrow> dround x = x"
proof -
  assume x: "numeric_20_6 x"
  then have "\<bar>x\<bar> * 10 ^ 6 < 10 ^ 14 * 10 ^ 6"
    by (intro mult_strict_right_mono) (simp_all add: numeric_20_6_def)
  then show "dround x = x" using x by (intro dround_grid [of 6]) (simp_all add: numeric_20_6_def)
qed

end
