(* ===== verification/Indicators.thy ===== *)
theory Indicators
  imports Market_Domain
begin

text \<open>
  Technical indicators, \<open>modules/market/indicators/\<close>: the calculations, the snapshot of eleven
  indicators and the service that insists on ascending dates. \<open>None\<close> stands for a window that the
  history does not fill.
\<close>

section \<open>Calculations\<close>

definition check_period :: "int \<Rightarrow> unit res" where
  "check_period period = assertE (0 < period) (ValueError ''period must be positive'')"

definition simple_moving_average :: "decimal list \<Rightarrow> int \<Rightarrow> decimal option res" where
  "simple_moving_average values period = bindE (check_period period) (\<lambda>_.
     if length values < nat period then Inr None
     else Inr (Some (dquot (dsum (last_n (nat period) values)) (of_int period))))"

definition exponential_moving_average :: "decimal list \<Rightarrow> int \<Rightarrow> decimal option res" where
  "exponential_moving_average values period = bindE (check_period period) (\<lambda>_.
     if length values < nat period then Inr None
     else (let multiplier = dquot 2 (of_int (period + 1))
       in Inr (Some (foldl (\<lambda>ema value. dadd (dmul (dsub value ema) multiplier) ema)
            (dquot (dsum (take (nat period) values)) (of_int period)) (drop (nat period) values)))))"

definition true_range :: "MarketBar \<Rightarrow> MarketBar \<Rightarrow> decimal" where
  "true_range previous bar = max3 (dsub (mk_high bar) (mk_low bar))
     (dabs (dsub (mk_high bar) (mk_close previous))) (dabs (dsub (mk_low bar) (mk_close previous)))"

fun true_ranges_from :: "MarketBar \<Rightarrow> MarketBar list \<Rightarrow> decimal list" where
  "true_ranges_from previous [] = []"
| "true_ranges_from previous (bar # bars) = true_range previous bar # true_ranges_from bar bars"

definition all_true_ranges :: "MarketBar list \<Rightarrow> decimal list" where
  "all_true_ranges bars = (case bars of [] \<Rightarrow> []
     | bar # rest \<Rightarrow> dsub (mk_high bar) (mk_low bar) # true_ranges_from bar rest)"

definition average_true_range :: "MarketBar list \<Rightarrow> int \<Rightarrow> decimal option res" where
  "average_true_range bars period = bindE (check_period period) (\<lambda>_.
     if length bars < nat period then Inr None
     else simple_moving_average (all_true_ranges bars) period)"

definition average_volume :: "MarketBar list \<Rightarrow> int \<Rightarrow> decimal option res" where
  "average_volume bars period = simple_moving_average (map (\<lambda>b. of_int (mk_volume b)) bars) period"

definition max_of :: "decimal list \<Rightarrow> decimal" where
  "max_of xs = foldl max (hd xs) (tl xs)"

definition min_of :: "decimal list \<Rightarrow> decimal" where
  "min_of xs = foldl min (hd xs) (tl xs)"

definition highest_high :: "MarketBar list \<Rightarrow> int \<Rightarrow> decimal option res" where
  "highest_high bars period = bindE (check_period period) (\<lambda>_.
     if length bars < nat period then Inr None
     else Inr (Some (max_of (map mk_high (last_n (nat period) bars)))))"

definition lowest_low :: "MarketBar list \<Rightarrow> int \<Rightarrow> decimal option res" where
  "lowest_low bars period = bindE (check_period period) (\<lambda>_.
     if length bars < nat period then Inr None
     else Inr (Some (min_of (map mk_low (last_n (nat period) bars)))))"

section \<open>The service\<close>

record IndicatorSnapshot =
  sma5 :: "decimal option"
  sma20 :: "decimal option"
  sma60 :: "decimal option"
  sma120 :: "decimal option"
  ema20 :: "decimal option"
  atr14 :: "decimal option"
  avg_volume20 :: "decimal option"
  highest20 :: "decimal option"
  lowest20 :: "decimal option"
  highest60 :: "decimal option"
  lowest60 :: "decimal option"

fun ascending :: "MarketBar list \<Rightarrow> bool" where
  "ascending (a # b # bars) = (mk_date a < mk_date b \<and> ascending (b # bars))"
| "ascending bars = True"

definition calculate :: "MarketBar list \<Rightarrow> IndicatorSnapshot res" where
  "calculate bars =
    bindE (assertE (ascending bars)
      (ValueError ''bars must be ordered by unique ascending trading date'')) (\<lambda>_.
    let closes = map mk_close bars in
    bindE (simple_moving_average closes 5) (\<lambda>s5.
    bindE (simple_moving_average closes 20) (\<lambda>s20.
    bindE (simple_moving_average closes 60) (\<lambda>s60.
    bindE (simple_moving_average closes 120) (\<lambda>s120.
    bindE (exponential_moving_average closes 20) (\<lambda>e20.
    bindE (average_true_range bars 14) (\<lambda>a14.
    bindE (average_volume bars 20) (\<lambda>v20.
    bindE (highest_high bars 20) (\<lambda>h20.
    bindE (lowest_low bars 20) (\<lambda>l20.
    bindE (highest_high bars 60) (\<lambda>h60.
    bindE (lowest_low bars 60) (\<lambda>l60.
    Inr \<lparr>sma5 = s5, sma20 = s20, sma60 = s60, sma120 = s120, ema20 = e20, atr14 = a14,
      avg_volume20 = v20, highest20 = h20, lowest20 = l20, highest60 = h60, lowest60 = l60\<rparr>))))))))))))"

section \<open>Extremes\<close>

lemma foldl_max_ge: "x \<in> set xs \<or> x = (a :: decimal) \<Longrightarrow> x \<le> foldl max a xs"
proof (induction xs arbitrary: a x)
  case (Cons y ys)
  then show ?case
    using Cons.IH [of y "max a y"] Cons.IH [of "max a y" "max a y"] Cons.IH [of x "max a y"]
    by (auto intro: order_trans)
qed simp

lemma foldl_max_in: "foldl max (a :: decimal) xs \<in> insert a (set xs)"
proof (induction xs arbitrary: a)
  case (Cons y ys)
  then show ?case using Cons [of "max a y"] by (auto simp: max_def)
qed simp

lemma foldl_min_le: "x \<in> set xs \<or> x = (a :: decimal) \<Longrightarrow> foldl min a xs \<le> x"
proof (induction xs arbitrary: a x)
  case (Cons y ys)
  then show ?case
    using Cons.IH [of y "min a y"] Cons.IH [of "min a y" "min a y"] Cons.IH [of x "min a y"]
    by (auto intro: order_trans)
qed simp

lemma foldl_min_in: "foldl min (a :: decimal) xs \<in> insert a (set xs)"
proof (induction xs arbitrary: a)
  case (Cons y ys)
  then show ?case using Cons [of "min a y"] by (auto simp: min_def)
qed simp

lemma max_of_ge: "x \<in> set xs \<Longrightarrow> x \<le> max_of xs"
  unfolding max_of_def by (rule foldl_max_ge) (cases xs; auto)

lemma max_of_in: "xs \<noteq> [] \<Longrightarrow> max_of xs \<in> set xs"
  using foldl_max_in [of "hd xs" "tl xs"] by (cases xs) (auto simp: max_of_def)

lemma max_of_le_iff: "xs \<noteq> [] \<Longrightarrow> max_of xs \<le> x \<longleftrightarrow> (\<forall>y \<in> set xs. y \<le> x)"
  by (meson max_of_ge max_of_in order_trans)

lemma min_of_le: "x \<in> set xs \<Longrightarrow> min_of xs \<le> x"
  unfolding min_of_def by (rule foldl_min_le) (cases xs; auto)

lemma min_of_in: "xs \<noteq> [] \<Longrightarrow> min_of xs \<in> set xs"
  using foldl_min_in [of "hd xs" "tl xs"] by (cases xs) (auto simp: min_of_def)

section \<open>Averages\<close>

lemma simple_moving_average_Some:
  assumes "simple_moving_average xs p = Inr (Some m)"
  shows "0 < p" "nat p \<le> length xs" "m = dquot (dsum (last_n (nat p) xs)) (of_int p)"
    "last_n (nat p) xs \<noteq> []" "length (last_n (nat p) xs) = nat p"
  using assms by (auto simp: simple_moving_average_def check_period_def bindE_eq_Inr last_n_def split: if_splits)

lemma sum_list_bounds:
  "(\<And>x. x \<in> set xs \<Longrightarrow> l \<le> x \<and> x \<le> (u :: rat)) \<Longrightarrow>
     of_nat (length xs) * l \<le> sum_list xs \<and> sum_list xs \<le> of_nat (length xs) * u"
  by (induction xs) (auto simp: algebra_simps add_mono)

text \<open>
  The average of values with six decimals lies between any representable bounds of its window: the
  sum is exact, and rounding the quotient respects representable bounds.
\<close>

lemma sma_bounds:
  assumes m: "simple_moving_average xs p = Inr (Some m)" and p: "p \<le> 10 ^ 6"
    and xs: "\<And>x. x \<in> set (last_n (nat p) xs) \<Longrightarrow> numeric_20_6 x \<and> 0 \<le> x \<and> l \<le> x \<and> x \<le> u"
    and lu: "representable l" "representable u"
  shows "l \<le> m \<and> m \<le> u"
proof -
  let ?w = "last_n (nat p) xs"
  note w = simple_moving_average_Some [OF m]
  have pp: "of_int p = (of_nat (length ?w) :: rat)" using w(1,5) by simp
  have p6: "(of_int p :: rat) \<le> 10 ^ 6"
    using of_int_le_iff [of p "10 ^ 6", where 'a = rat] p by simp
  have s0: "0 \<le> sum_list ?w" using xs by (intro sum_list_nonneg) auto
  have "sum_list ?w \<le> of_nat (length ?w) * 10 ^ 14"
    using sum_list_bounds [of ?w 0 "10 ^ 14"] xs by (force simp: numeric_20_6_def)
  also have "\<dots> \<le> 10 ^ 6 * 10 ^ 14"
    using p6 unfolding pp [symmetric] by (intro mult_right_mono) simp_all
  finally have "sum_list ?w * 10 ^ 6 \<le> 10 ^ 26" by simp
  then have sum: "dsum ?w = sum_list ?w"
    using xs by (intro dsum_exact [of _ 6]) (auto simp: numeric_20_6_def)
  have "of_int p * l \<le> sum_list ?w" "sum_list ?w \<le> of_int p * u"
    using sum_list_bounds [of ?w l u] xs unfolding pp [symmetric] by blast+
  then have "l \<le> sum_list ?w / of_int p" "sum_list ?w / of_int p \<le> u"
    using w(1) by (simp_all add: pos_le_divide_eq pos_divide_le_eq mult.commute)
  then show ?thesis
    unfolding w(3) dquot_def sum using lu by (simp add: dround_ge dround_le)
qed

lemma dquot_dsum_nonneg: "(\<And>x. x \<in> set xs \<Longrightarrow> 0 \<le> x) \<Longrightarrow> 0 \<le> n \<Longrightarrow> 0 \<le> dquot (dsum xs) n"
  by (intro dquot_nonneg dsum_nonneg) auto

lemma sma_nonneg:
  assumes "simple_moving_average xs p = Inr (Some m)" and "\<And>x. x \<in> set xs \<Longrightarrow> 0 \<le> x"
  shows "0 \<le> m"
proof -
  note m = simple_moving_average_Some [OF assms(1)]
  show ?thesis unfolding m(3)
    using m(1) assms(2) set_last_n [of "nat p" xs] by (intro dquot_dsum_nonneg) auto
qed

lemma true_range_nonneg: "0 \<le> true_range a b"
  by (simp add: true_range_def max3_def dabs_def le_max_iff_disj dround_nonneg)

lemma all_true_ranges_nonneg: "(\<And>b. b \<in> set bars \<Longrightarrow> bar_ok b) \<Longrightarrow> x \<in> set (all_true_ranges bars) \<Longrightarrow> 0 \<le> x"
proof -
  have "x \<in> set (true_ranges_from a bs) \<Longrightarrow> 0 \<le> x" for a bs
    by (induction a bs rule: true_ranges_from.induct) (auto simp: true_range_nonneg)
  then show "(\<And>b. b \<in> set bars \<Longrightarrow> bar_ok b) \<Longrightarrow> x \<in> set (all_true_ranges bars) \<Longrightarrow> 0 \<le> x"
    by (cases bars) (force simp: all_true_ranges_def bar_ok_def ohlc_ok_def intro!: dsub_nonneg)+
qed

lemma length_all_true_ranges [simp]: "length (all_true_ranges bars) = length bars"
proof -
  have "length (true_ranges_from a bs) = length bs" for a bs
    by (induction a bs rule: true_ranges_from.induct) auto
  then show ?thesis by (cases bars) (auto simp: all_true_ranges_def)
qed

section \<open>Properties\<close>

lemma last_n_append: "n \<le> length ys \<Longrightarrow> last_n n (xs @ ys) = last_n n ys"
  by (simp add: last_n_def)

lemma last_n_map: "last_n n (map f xs) = map f (last_n n xs)"
  by (simp add: last_n_def drop_map)

text \<open>
  The windowed indicators look at their window only: with a history that fills the window,
  whatever came before it is irrelevant.
\<close>

theorem indicators_window_local:
  assumes "nat p \<le> length ys"
  shows "simple_moving_average (map mk_close (xs @ ys)) p = simple_moving_average (map mk_close ys) p
    \<and> average_volume (xs @ ys) p = average_volume ys p
    \<and> highest_high (xs @ ys) p = highest_high ys p \<and> lowest_low (xs @ ys) p = lowest_low ys p"
  using assms
  by (auto simp: simple_moving_average_def average_volume_def highest_high_def lowest_low_def
      last_n_append last_n_map simp flip: map_append)

lemma ascending_sorted: "ascending bars \<longleftrightarrow> sorted_wrt (<) (map mk_date bars)"
  by (induction bars rule: ascending.induct) (auto intro: less_trans)

lemma sma_None: "simple_moving_average xs p = Inr r \<Longrightarrow> r = None \<longleftrightarrow> length xs < nat p"
  by (auto simp: simple_moving_average_def check_period_def bindE_eq_Inr split: if_splits)

lemma calculate_iff: "(\<exists>s. calculate bars = Inr s) \<longleftrightarrow> ascending bars"
  by (auto simp: calculate_def Let_def simple_moving_average_def exponential_moving_average_def
      average_true_range_def average_volume_def highest_high_def lowest_low_def check_period_def bindE_eq_Inr
      split: if_splits)

lemma highest_high_Some:
  "highest_high bars p = Inr (Some h) \<Longrightarrow> b \<in> set (last_n (nat p) bars) \<Longrightarrow> mk_high b \<le> h"
  by (auto simp: highest_high_def check_period_def bindE_eq_Inr intro!: max_of_ge split: if_splits)

lemma lowest_low_Some:
  "lowest_low bars p = Inr (Some l) \<Longrightarrow> b \<in> set (last_n (nat p) bars) \<Longrightarrow> l \<le> mk_low b"
  by (auto simp: lowest_low_def check_period_def bindE_eq_Inr intro!: min_of_le split: if_splits)

lemma highest_high_in:
  "highest_high bars p = Inr (Some h) \<Longrightarrow> h \<in> mk_high ` set (last_n (nat p) bars)"
proof -
  assume h: "highest_high bars p = Inr (Some h)"
  then have "h = max_of (map mk_high (last_n (nat p) bars))" "0 < p" "nat p \<le> length bars"
    by (auto simp: highest_high_def check_period_def bindE_eq_Inr split: if_splits)
  then have "h = max_of (map mk_high (last_n (nat p) bars))" "map mk_high (last_n (nat p) bars) \<noteq> []"
    by (simp_all add: last_n_def)
  then show ?thesis using max_of_in [of "map mk_high (last_n (nat p) bars)"] by simp
qed

lemma lowest_low_in:
  "lowest_low bars p = Inr (Some h) \<Longrightarrow> h \<in> mk_low ` set (last_n (nat p) bars)"
proof -
  assume h: "lowest_low bars p = Inr (Some h)"
  then have "h = min_of (map mk_low (last_n (nat p) bars))" "0 < p" "nat p \<le> length bars"
    by (auto simp: lowest_low_def check_period_def bindE_eq_Inr split: if_splits)
  then have "h = min_of (map mk_low (last_n (nat p) bars))" "map mk_low (last_n (nat p) bars) \<noteq> []"
    by (simp_all add: last_n_def)
  then show ?thesis using min_of_in [of "map mk_low (last_n (nat p) bars)"] by simp
qed

definition stored_bar :: "MarketBar \<Rightarrow> bool" where
  "stored_bar b \<longleftrightarrow> bar_ok b \<and> numeric_20_6 (mk_open b) \<and> numeric_20_6 (mk_high b)
     \<and> numeric_20_6 (mk_low b) \<and> numeric_20_6 (mk_close b)"

lemma band:
  assumes bars: "\<And>b. b \<in> set bars \<Longrightarrow> stored_bar b" and p: "p \<le> 10 ^ 6"
    and m: "simple_moving_average (map mk_close bars) p = Inr (Some m)"
    and h: "highest_high bars p = Inr (Some h)" and l: "lowest_low bars p = Inr (Some l)"
  shows "l \<le> m \<and> m \<le> h"
proof (rule sma_bounds [OF m p])
  have sub: "b \<in> set bars" if "b \<in> set (last_n (nat p) bars)" for b
    using that set_last_n [of "nat p" bars] by auto
  fix x assume "x \<in> set (last_n (nat p) (map mk_close bars))"
  then obtain b where b: "b \<in> set (last_n (nat p) bars)" "x = mk_close b" by (auto simp: last_n_map)
  then have "stored_bar b" using sub bars by blast
  then show "numeric_20_6 x \<and> 0 \<le> x \<and> l \<le> x \<and> x \<le> h"
    using highest_high_Some [OF h b(1)] lowest_low_Some [OF l b(1)]
    by (auto simp: b(2) stored_bar_def bar_ok_def ohlc_ok_def)
next
  have sub: "b \<in> set bars" if "b \<in> set (last_n (nat p) bars)" for b
    using that set_last_n [of "nat p" bars] by auto
  show "representable l" "representable h"
    using lowest_low_in [OF l] highest_high_in [OF h] sub bars
    by (auto simp: representable_def stored_bar_def intro!: numeric_20_6_representable)
qed

text \<open>
  The snapshot exists exactly for strictly ascending dates, and is coherent on stored bars: every
  average of closes lies between the lowest low and the highest high of the same window, the
  volatility and the volume are not negative, and an indicator is missing exactly when the history
  is shorter than its window.
\<close>

theorem indicator_snapshot_sound:
  assumes bars: "list_all stored_bar bars"
  shows "((\<exists>s. calculate bars = Inr s) \<longleftrightarrow> sorted_wrt (<) (map mk_date bars))
    \<and> (\<forall>s. calculate bars = Inr s \<longrightarrow>
        (sma20 s = None \<longleftrightarrow> length bars < 20) \<and> (sma60 s = None \<longleftrightarrow> length bars < 60)
        \<and> (atr14 s = None \<longleftrightarrow> length bars < 14)
        \<and> (\<forall>m h l. sma20 s = Some m \<and> highest20 s = Some h \<and> lowest20 s = Some l \<longrightarrow> l \<le> m \<and> m \<le> h)
        \<and> (\<forall>m h l. sma60 s = Some m \<and> highest60 s = Some h \<and> lowest60 s = Some l \<longrightarrow> l \<le> m \<and> m \<le> h)
        \<and> (\<forall>a. atr14 s = Some a \<longrightarrow> 0 \<le> a) \<and> (\<forall>v. avg_volume20 s = Some v \<longrightarrow> 0 \<le> v))"
proof (intro conjI allI impI)
  have bar: "b \<in> set bars \<Longrightarrow> stored_bar b" for b using bars by (simp add: list_all_iff)
  show "(\<exists>s. calculate bars = Inr s) \<longleftrightarrow> sorted_wrt (<) (map mk_date bars)"
    by (simp add: calculate_iff ascending_sorted)
  fix s assume s: "calculate bars = Inr s"
  have f: "simple_moving_average (map mk_close bars) 20 = Inr (sma20 s)"
    "simple_moving_average (map mk_close bars) 60 = Inr (sma60 s)"
    "average_true_range bars 14 = Inr (atr14 s)" "average_volume bars 20 = Inr (avg_volume20 s)"
    "highest_high bars 20 = Inr (highest20 s)" "lowest_low bars 20 = Inr (lowest20 s)"
    "highest_high bars 60 = Inr (highest60 s)" "lowest_low bars 60 = Inr (lowest60 s)"
    using s by (auto simp: calculate_def Let_def bindE_eq_Inr)
  show "sma20 s = None \<longleftrightarrow> length bars < 20" "sma60 s = None \<longleftrightarrow> length bars < 60"
    using f(1,2) [THEN sma_None] by simp_all
  show "atr14 s = None \<longleftrightarrow> length bars < 14"
    using f(3) sma_None [of "all_true_ranges bars" 14 "atr14 s"]
    by (auto simp: average_true_range_def bindE_eq_Inr split: if_splits)
  show "l \<le> m" "m \<le> h" if "sma20 s = Some m \<and> highest20 s = Some h \<and> lowest20 s = Some l" for m h l
    using band [OF bar _ f(1) [unfolded that [THEN conjunct1]], of h l] that f(5,6) by simp_all
  show "l \<le> m" "m \<le> h" if "sma60 s = Some m \<and> highest60 s = Some h \<and> lowest60 s = Some l" for m h l
    using band [OF bar _ f(2) [unfolded that [THEN conjunct1]], of h l] that f(7,8) by simp_all
  show "0 \<le> a" if "atr14 s = Some a" for a
  proof (rule sma_nonneg)
    show "simple_moving_average (all_true_ranges bars) 14 = Inr (Some a)"
      using f(3) that by (auto simp: average_true_range_def bindE_eq_Inr split: if_splits)
    show "0 \<le> x" if "x \<in> set (all_true_ranges bars)" for x
      using all_true_ranges_nonneg [of bars x] bar that by (auto simp: stored_bar_def)
  qed
  show "0 \<le> v" if "avg_volume20 s = Some v" for v
    using f(4) that bar by (auto simp: average_volume_def stored_bar_def bar_ok_def
        intro!: sma_nonneg [of "map (\<lambda>b. of_int (mk_volume b)) bars" 20 v])
qed

definition plain_bar :: "date \<Rightarrow> int \<Rightarrow> MarketBar" where
  "plain_bar d c = \<lparr>mk_symbol = ''A'', mk_date = d, mk_open = of_int c, mk_high = of_int c + 1,
     mk_low = of_int c - 1, mk_close = of_int c, mk_volume = 10, mk_source = ''t'', mk_as_of = 0\<rparr>"

lemma indicators_window_local_witness:
  "simple_moving_average (map mk_close ([plain_bar 1 90] @ map (\<lambda>d. plain_bar d 10) [2, 3])) 2
    = simple_moving_average (map mk_close (map (\<lambda>d. plain_bar d 10) [2, 3])) 2"
  using indicators_window_local [of 2 "map (\<lambda>d. plain_bar d 10) [2, 3]" "[plain_bar 1 90]"] by simp

lemma indicator_snapshot_sound_witness:
  "\<exists>s. calculate (map (\<lambda>d. plain_bar d (10 + d)) [1, 2, 3]) = Inr s \<and> sma20 s = None"
proof -
  have "list_all stored_bar (map (\<lambda>d. plain_bar d (10 + d)) [1, 2, 3])"
    by (simp add: stored_bar_def bar_ok_def ohlc_ok_def plain_bar_def numeric_20_6_def on_grid_def)
  from indicator_snapshot_sound [OF this] show ?thesis by (auto simp: plain_bar_def)
qed

end
