(* ===== verification/Scoring.thy ===== *)
theory Scoring
  imports Decimal
begin

text \<open>
  The bounded scores of \<open>modules/market/screening/swing.py\<close> and \<open>ranking/ranker.py\<close>: clamping to
  0..100, rounding half up to two decimals, and the rising, falling and triangular scales built on
  them.
\<close>

definition clamp_score :: "decimal \<Rightarrow> decimal" where
  "clamp_score value = min 100 (max 0 value)"

text \<open>
  \<open>quantize(Decimal("0.01"), ROUND_HALF_UP)\<close> of a clamped value; it cannot raise, see
  \<open>quantize_score_total\<close>.
\<close>

definition quantize_score :: "decimal \<Rightarrow> decimal" where
  "quantize_score value = of_int (half_up (clamp_score value / (1 / 100))) * (1 / 100)"

definition high_is_good :: "decimal \<Rightarrow> decimal \<Rightarrow> decimal \<Rightarrow> decimal res" where
  "high_is_good value minimum maximum =
    (if maximum \<le> minimum then Inl (ValueError ''maximum must exceed minimum'')
     else Inr (quantize_score (dmul (dquot (dsub value minimum) (dsub maximum minimum)) 100)))"

definition low_is_good :: "decimal \<Rightarrow> decimal \<Rightarrow> decimal \<Rightarrow> decimal res" where
  "low_is_good value best worst =
    (if worst \<le> best then Inl (ValueError ''worst must exceed best'')
     else Inr (quantize_score (dmul (dquot (dsub worst value) (dsub worst best)) 100)))"

definition triangular_score :: "decimal \<Rightarrow> decimal \<Rightarrow> decimal \<Rightarrow> decimal \<Rightarrow> decimal res" where
  "triangular_score value minimum ideal maximum =
    (if \<not> (minimum < ideal \<and> ideal < maximum)
     then Inl (ValueError ''minimum < ideal < maximum is required'')
     else if value \<le> ideal then high_is_good value minimum ideal
     else low_is_good value ideal maximum)"

text \<open>\<open>CandidateRanker._linear_score\<close>\<close>

definition linear_score :: "decimal \<Rightarrow> decimal \<Rightarrow> decimal \<Rightarrow> decimal" where
  "linear_score value minimum maximum =
    (if value \<le> minimum then quantize_score 0
     else if maximum \<le> value then quantize_score 100
     else quantize_score (dmul (dquot (dsub value minimum) (dsub maximum minimum)) 100))"

section \<open>Bounds and monotonicity\<close>

definition score_ok :: "decimal \<Rightarrow> bool" where
  "score_ok x \<longleftrightarrow> 0 \<le> x \<and> x \<le> 100 \<and> on_grid 2 x"

lemma clamp_bounds: "0 \<le> clamp_score x" "clamp_score x \<le> 100"
  by (simp_all add: clamp_score_def)

lemma clamp_mono: "x \<le> y \<Longrightarrow> clamp_score x \<le> clamp_score y"
  by (auto simp: clamp_score_def min_def max_def)

lemma half_up_100: "half_up (0 / (1 / 100)) = 0" "half_up (100 / (1 / 100)) = 10000"
  using half_up_of_int [of 0] half_up_of_int [of 10000] by simp_all

lemma quantize_score_fixed: "quantize_score 0 = 0" "quantize_score 100 = 100"
proof -
  have c: "clamp_score 0 = 0" "clamp_score 100 = 100" by (simp_all add: clamp_score_def)
  show "quantize_score 0 = 0" unfolding quantize_score_def c half_up_100 by simp
  show "quantize_score 100 = 100" unfolding quantize_score_def c half_up_100 by simp
qed

lemma quantize_score_mono: "x \<le> y \<Longrightarrow> quantize_score x \<le> quantize_score y"
  unfolding quantize_score_def by (rule cents.vr_mono) (rule clamp_mono)

lemma quantize_score_low: "x \<le> 0 \<Longrightarrow> quantize_score x = 0"
proof -
  assume "x \<le> 0"
  then have "clamp_score x = clamp_score 0" by (simp add: clamp_score_def)
  then have "quantize_score x = quantize_score 0" by (simp add: quantize_score_def)
  then show ?thesis by (simp add: quantize_score_fixed)
qed

lemma quantize_score_high: "100 \<le> x \<Longrightarrow> quantize_score x = 100"
proof -
  assume "100 \<le> x"
  then have "clamp_score x = clamp_score 100" by (simp add: clamp_score_def)
  then have "quantize_score x = quantize_score 100" by (simp add: quantize_score_def)
  then show ?thesis by (simp add: quantize_score_fixed)
qed

lemma quantize_score_ok [simp]: "score_ok (quantize_score x)"
proof -
  have "quantize_score 0 \<le> quantize_score (clamp_score x)" "quantize_score (clamp_score x) \<le> quantize_score 100"
    by (intro quantize_score_mono clamp_bounds)+
  moreover have "quantize_score (clamp_score x) = quantize_score x"
    by (simp add: quantize_score_def clamp_score_def)
  moreover have "on_grid 2 (quantize_score x)"
    unfolding on_grid_iff quantize_score_def by (rule exI [of _ "half_up (clamp_score x / (1 / 100))"]) simp
  ultimately show ?thesis by (simp add: score_ok_def quantize_score_fixed)
qed

lemma quantize_score_total: "dquantize half_up (1 / 100) (clamp_score x) = Inr (quantize_score x)"
proof -
  have "half_up (0 / (1 / 100)) \<le> half_up (clamp_score x / (1 / 100))"
    "half_up (clamp_score x / (1 / 100)) \<le> half_up (100 / (1 / 100))"
    using clamp_bounds [of x] by (intro half_up_mono divide_right_mono; simp)+
  then show ?thesis unfolding half_up_100 by (simp add: dquantize_def quantize_score_def)
qed

lemma score_ok_bounds: "score_ok x \<Longrightarrow> 0 \<le> x" "score_ok x \<Longrightarrow> x \<le> 100"
  by (simp_all add: score_ok_def)

lemma scale_mono: "v \<le> v' \<Longrightarrow> 0 \<le> d \<Longrightarrow> dmul (dquot v d) 100 \<le> dmul (dquot v' d) 100"
  unfolding dmul_def dquot_def
  by (intro dround_mono mult_right_mono divide_right_mono) simp_all

lemma high_is_good_Inr: "high_is_good v lo hi = Inr s \<Longrightarrow> lo < hi
    \<and> s = quantize_score (dmul (dquot (dsub v lo) (dsub hi lo)) 100)"
  by (auto simp: high_is_good_def split: if_splits)

lemma low_is_good_Inr: "low_is_good v best worst = Inr s \<Longrightarrow> best < worst
    \<and> s = quantize_score (dmul (dquot (dsub worst v) (dsub worst best)) 100)"
  by (auto simp: low_is_good_def split: if_splits)

lemma scores_ok:
  "high_is_good v lo hi = Inr s \<Longrightarrow> score_ok s" "low_is_good v lo hi = Inr s \<Longrightarrow> score_ok s"
  "triangular_score v lo ideal hi = Inr s \<Longrightarrow> score_ok s" "score_ok (linear_score v lo hi)"
  by (auto simp: triangular_score_def linear_score_def dest!: high_is_good_Inr low_is_good_Inr split: if_splits)

lemma dquot_self: "x \<noteq> 0 \<Longrightarrow> dquot x x = 1"
  using dround_powi [of 0] by (simp add: dquot_def)

lemma dmul_1_100: "dmul 1 100 = 100"
  by (simp add: dmul_def) (rule dround_eval; simp)

lemma dsub_pos: "b < a \<Longrightarrow> 0 < dsub a b"
  by (simp add: dsub_def dround_pos)

lemma dsub_mono: "a \<le> a' \<Longrightarrow> b' \<le> b \<Longrightarrow> dsub a b \<le> dsub a' b'"
  by (simp add: dsub_def dround_mono)

section \<open>Properties\<close>

lemma high_is_good_mono:
  "high_is_good v lo hi = Inr s \<Longrightarrow> high_is_good v' lo hi = Inr s' \<Longrightarrow> v \<le> v' \<Longrightarrow> s \<le> s'"
  using dsub_pos [of lo hi]
  by (auto dest!: high_is_good_Inr intro!: quantize_score_mono scale_mono dsub_mono)

lemma low_is_good_antimono:
  "low_is_good v best worst = Inr s \<Longrightarrow> low_is_good v' best worst = Inr s' \<Longrightarrow> v \<le> v' \<Longrightarrow> s' \<le> s"
  using dsub_pos [of best worst]
  by (auto dest!: low_is_good_Inr intro!: quantize_score_mono scale_mono dsub_mono)

lemma scale_end: "x \<noteq> 0 \<Longrightarrow> dmul (dquot x x) 100 = 100"
  by (simp add: dquot_self dmul_1_100)

lemma high_is_good_ends:
  assumes "lo < hi"
  shows "v \<le> lo \<Longrightarrow> high_is_good v lo hi = Inr 0" "hi \<le> v \<Longrightarrow> high_is_good v lo hi = Inr 100"
proof -
  have d: "0 < dsub hi lo" using assms by (rule dsub_pos)
  assume "v \<le> lo"
  then have "dsub v lo \<le> 0" by (metis diff_le_0_iff_le dround_0 dround_mono dsub_def)
  then have "dmul (dquot (dsub v lo) (dsub hi lo)) 100 \<le> dmul (dquot 0 (dsub hi lo)) 100"
    using d by (intro scale_mono) simp_all
  then have "dmul (dquot (dsub v lo) (dsub hi lo)) 100 \<le> 0" by (simp add: dquot_def dmul_def)
  with assms show "high_is_good v lo hi = Inr 0" by (simp add: high_is_good_def quantize_score_low)
next
  have d: "0 < dsub hi lo" using assms by (rule dsub_pos)
  assume "hi \<le> v"
  then have "dmul (dquot (dsub hi lo) (dsub hi lo)) 100 \<le> dmul (dquot (dsub v lo) (dsub hi lo)) 100"
    using d by (intro scale_mono dsub_mono) simp_all
  then have "100 \<le> dmul (dquot (dsub v lo) (dsub hi lo)) 100" using d by (simp add: scale_end)
  with assms show "high_is_good v lo hi = Inr 100" by (simp add: high_is_good_def quantize_score_high)
qed

lemma low_is_good_ends:
  assumes "best < worst"
  shows "worst \<le> v \<Longrightarrow> low_is_good v best worst = Inr 0" "v \<le> best \<Longrightarrow> low_is_good v best worst = Inr 100"
proof -
  have d: "0 < dsub worst best" using assms by (rule dsub_pos)
  assume "worst \<le> v"
  then have "dsub worst v \<le> 0" by (metis diff_le_0_iff_le dround_0 dround_mono dsub_def)
  then have "dmul (dquot (dsub worst v) (dsub worst best)) 100 \<le> dmul (dquot 0 (dsub worst best)) 100"
    using d by (intro scale_mono) simp_all
  then have "dmul (dquot (dsub worst v) (dsub worst best)) 100 \<le> 0" by (simp add: dquot_def dmul_def)
  with assms show "low_is_good v best worst = Inr 0" by (simp add: low_is_good_def quantize_score_low)
next
  have d: "0 < dsub worst best" using assms by (rule dsub_pos)
  assume "v \<le> best"
  then have "dmul (dquot (dsub worst best) (dsub worst best)) 100 \<le> dmul (dquot (dsub worst v) (dsub worst best)) 100"
    using d by (intro scale_mono dsub_mono) simp_all
  then have "100 \<le> dmul (dquot (dsub worst v) (dsub worst best)) 100" using d by (simp add: scale_end)
  with assms show "low_is_good v best worst = Inr 100" by (simp add: low_is_good_def quantize_score_high)
qed

text \<open>
  The triangular scale is a score: it raises exactly when the three marks are not strictly
  increasing; otherwise the score has two decimals and lies between 0 and 100, is 100 at the ideal
  mark and 0 at and beyond the outer marks, and grows towards the ideal mark from either side.
\<close>

theorem triangular_score_shape:
  "(\<not> (lo < ideal \<and> ideal < hi) \<longleftrightarrow> (\<exists>m. triangular_score v lo ideal hi = Inl (ValueError m)))
   \<and> (lo < ideal \<and> ideal < hi \<longrightarrow> triangular_score ideal lo ideal hi = Inr 100
        \<and> (v \<le> lo \<or> hi \<le> v \<longrightarrow> triangular_score v lo ideal hi = Inr 0)
        \<and> (\<exists>s. triangular_score v lo ideal hi = Inr s \<and> 0 \<le> s \<and> s \<le> 100 \<and> on_grid 2 s)
        \<and> (\<forall>w s s'. triangular_score v lo ideal hi = Inr s \<and> triangular_score w lo ideal hi = Inr s'
             \<and> (v \<le> w \<and> w \<le> ideal \<or> ideal \<le> w \<and> w \<le> v) \<longrightarrow> s \<le> s'))"
proof (cases "lo < ideal \<and> ideal < hi")
  case True
  have at_ideal: "triangular_score ideal lo ideal hi = Inr 100"
    using True by (simp add: triangular_score_def high_is_good_ends)
  have outer: "triangular_score v lo ideal hi = Inr 0" if "v \<le> lo \<or> hi \<le> v"
    using True that by (auto simp: triangular_score_def high_is_good_ends low_is_good_ends)
  have total: "\<exists>s. triangular_score v lo ideal hi = Inr s" for v
    using True by (auto simp: triangular_score_def high_is_good_def low_is_good_def)
  have mono: "s \<le> s'" if t: "triangular_score v lo ideal hi = Inr s" "triangular_score w lo ideal hi = Inr s'"
    and w: "v \<le> w \<and> w \<le> ideal \<or> ideal \<le> w \<and> w \<le> v" for w s s'
  proof (cases "w = ideal")
    case True
    with t at_ideal scores_ok(3) [OF t(1)] show ?thesis by (simp add: score_ok_def)
  next
    case False
    with t w True show ?thesis
      by (auto simp: triangular_score_def split: if_splits intro: high_is_good_mono low_is_good_antimono)
  qed
  from total obtain s where s: "triangular_score v lo ideal hi = Inr s" by blast
  then have "0 \<le> s \<and> s \<le> 100 \<and> on_grid 2 s" using scores_ok(3) by (simp add: score_ok_def)
  then have s_ok: "\<exists>s. triangular_score v lo ideal hi = Inr s \<and> 0 \<le> s \<and> s \<le> 100 \<and> on_grid 2 s"
    using s by (intro exI [of _ s] conjI; simp)
  have "\<not> (\<exists>m. triangular_score v lo ideal hi = Inl (ValueError m))" using s by simp
  then show ?thesis using True at_ideal outer s_ok mono by meson
next
  case False
  then show ?thesis by (auto simp: triangular_score_def)
qed

lemma triangular_score_shape_witness:
  "triangular_score (6 / 100) (3 / 100) (6 / 100) (12 / 100) = Inr 100"
  using triangular_score_shape [of "3 / 100" "6 / 100" "12 / 100" "6 / 100"] by simp

text \<open>
  The linear scale of the ranker: 0 up to the minimum, 100 from the maximum on, two decimals
  between 0 and 100, and rising with the value.
\<close>

theorem linear_score_shape:
  assumes "lo < hi"
  shows "0 \<le> linear_score v lo hi \<and> linear_score v lo hi \<le> 100 \<and> on_grid 2 (linear_score v lo hi)
    \<and> (v \<le> lo \<longrightarrow> linear_score v lo hi = 0) \<and> (hi \<le> v \<longrightarrow> linear_score v lo hi = 100)
    \<and> (v \<le> w \<longrightarrow> linear_score v lo hi \<le> linear_score w lo hi)"
proof -
  have ends: "v \<le> lo \<Longrightarrow> linear_score v lo hi = 0" "hi \<le> v \<Longrightarrow> linear_score v lo hi = 100" for v
    using assms by (simp_all add: linear_score_def quantize_score_fixed)
  have ok: "score_ok (linear_score v lo hi)" for v by (rule scores_ok(4))
  have "linear_score v lo hi \<le> linear_score w lo hi" if vw: "v \<le> w"
  proof -
    consider "v \<le> lo" | "hi \<le> w" | "lo < v" "w < hi" by linarith
    then show ?thesis
    proof cases
      case 3
      then show ?thesis using vw dsub_pos [OF assms]
        by (auto simp: linear_score_def intro!: quantize_score_mono scale_mono dsub_mono)
    qed (use ends ok score_ok_bounds in auto)
  qed
  then show ?thesis using ends ok by (auto simp: score_ok_def)
qed

lemma linear_score_shape_witness: "linear_score (1 / 2) 0 (1 / 5) = 100 \<and> linear_score (- 1) 0 (1 / 5) = 0"
  using linear_score_shape [of 0 "1 / 5" "1 / 2"] linear_score_shape [of 0 "1 / 5" "- 1"] by simp

section \<open>Weighted scores\<close>

definition weight_ok :: "decimal \<times> decimal \<Rightarrow> bool" where
  "weight_ok sw \<longleftrightarrow> 0 \<le> fst sw \<and> fst sw \<le> 100 \<and> on_grid 2 (fst sw) \<and> 0 \<le> snd sw \<and> snd sw \<le> 1 \<and> on_grid 2 (snd sw)"

lemma on_grid_mult: "on_grid j x \<Longrightarrow> on_grid k y \<Longrightarrow> on_grid (j + k) (x * y)"
  unfolding on_grid_iff by (metis of_int_mult power_add times_divide_times_eq)

lemma weight_ok_product:
  assumes "weight_ok (s, w)"
  shows "dmul s w = s * w" "0 \<le> s * w" "s * w \<le> 100" "on_grid 4 (s * w)"
proof -
  show g: "on_grid 4 (s * w)" using on_grid_mult [of 2 s 2 w] assms by (simp add: weight_ok_def)
  show n: "0 \<le> s * w" using assms by (simp add: weight_ok_def)
  have "s * w \<le> 100 * 1" using assms by (intro mult_mono) (simp_all add: weight_ok_def)
  then show b: "s * w \<le> 100" by simp
  show "dmul s w = s * w" unfolding dmul_def using g n b by (intro dround_grid [of 4]) simp_all
qed

text \<open>The four-term weighted sum of the setups and the rankers is exact.\<close>

definition weighted :: "(decimal \<times> decimal) list \<Rightarrow> decimal" where
  "weighted sw = (case map (\<lambda>(s, w). dmul s w) sw of [] \<Rightarrow> 0 | x # xs \<Rightarrow> foldl dadd x xs)"

lemma weighted_exact:
  assumes "list_all weight_ok sw" and "length sw \<le> 100"
  shows "weighted sw = (\<Sum>(s, w) \<leftarrow> sw. s * w)"
proof (cases sw)
  case (Cons p rest)
  have ok: "weight_ok q" if "q \<in> set sw" for q using assms(1) that by (simp add: list_all_iff)
  have ex: "map (\<lambda>(s, w). dmul s w) sw = map (\<lambda>(s, w). s * w) sw"
    using ok weight_ok_product(1) by (auto intro!: map_cong)
  have le: "(\<Sum>q \<leftarrow> qs. fst q * snd q) \<le> 100 * of_nat (length qs)" if "set qs \<subseteq> set sw" for qs
    using that
  proof (induction qs)
    case (Cons q qs)
    then have "fst q * snd q \<le> 100" using weight_ok_product(3) [of "fst q" "snd q"] ok by simp
    with Cons show ?case by simp
  qed simp
  have "fst p * snd p + sum_list (map (\<lambda>q. fst q * snd q) rest) \<le> 100 * of_nat (length sw)"
    using le [of sw] Cons by simp
  also have "\<dots> \<le> 100 * of_nat 100" using assms(2) by (intro mult_left_mono of_nat_mono) simp_all
  finally have b: "(fst p * snd p + sum_list (map (\<lambda>q. fst q * snd q) rest)) * 10 ^ 4 < 10 ^ 28" by simp
  have "foldl dadd (fst p * snd p) (map (\<lambda>q. fst q * snd q) rest)
      = fst p * snd p + sum_list (map (\<lambda>q. fst q * snd q) rest)"
  proof (rule dsum_exact_aux [where k = 4])
    show "(fst p * snd p + sum_list (map (\<lambda>q. fst q * snd q) rest)) * 10 ^ 4 < 10 ^ 28" by (rule b)
  qed (use ok weight_ok_product [of "fst p" "snd p"] weight_ok_product Cons in auto)
  then show ?thesis unfolding weighted_def ex using Cons by (simp add: case_prod_unfold)
qed (simp add: weighted_def)

text \<open>A weighted mean lies between the bounds of its scores, rounding included.\<close>

lemma quantize_score_idem: "score_ok s \<Longrightarrow> quantize_score s = s"
proof -
  assume s: "score_ok s"
  then have c: "clamp_score s = s" by (simp add: clamp_score_def score_ok_def)
  obtain n where n: "s = of_int n / 10 ^ 2" using s by (auto simp: score_ok_def on_grid_iff)
  have "quantize_score s = of_int (half_up (of_int n)) * (1 / 100)"
    unfolding quantize_score_def c by (simp add: n)
  then show ?thesis by (simp add: n)
qed

lemma weighted_mean:
  assumes "list_all weight_ok sw" and "length sw \<le> 100" and "sum_list (map snd sw) = 1"
    and "score_ok lo" and "score_ok hi" and "\<And>s w. (s, w) \<in> set sw \<Longrightarrow> lo \<le> s \<and> s \<le> hi"
  shows "lo \<le> quantize_score (weighted sw) \<and> quantize_score (weighted sw) \<le> hi"
proof -
  have "lo * sum_list (map snd qs) \<le> (\<Sum>(s, w) \<leftarrow> qs. s * w)
      \<and> (\<Sum>(s, w) \<leftarrow> qs. s * w) \<le> hi * sum_list (map snd qs)" if "set qs \<subseteq> set sw" for qs
    using that
  proof (induction qs)
    case (Cons q qs)
    obtain s w where q: "q = (s, w)" by fastforce
    with Cons have "lo \<le> s" "s \<le> hi" "0 \<le> w"
      using assms(6) [of s w] assms(1) by (auto simp: list_all_iff weight_ok_def)
    then have "lo * w \<le> s * w" "s * w \<le> hi * w" by (simp_all add: mult_right_mono)
    with Cons q show ?case by (simp add: algebra_simps)
  qed simp
  from this [of sw] have "lo \<le> weighted sw" "weighted sw \<le> hi"
    using assms(1-3) by (simp_all add: weighted_exact)
  then show ?thesis
    using quantize_score_mono quantize_score_idem [OF assms(4)] quantize_score_idem [OF assms(5)] by metis
qed

end
