(* ===== verification/Swing.thy ===== *)
theory Swing
  imports Indicators Scoring
begin

text \<open>
  The swing screener, \<open>modules/market/screening/swing.py\<close>: its configuration with the safety checks
  of \<open>__post_init__\<close>, the common rules, the three setups, and the evaluation that combines them.
  The result type is that of \<open>indicators/models.py\<close>.
\<close>

section \<open>Screening results\<close>

text \<open>
  A reason is a text, or a compared pair of values whose text the code prints; the values of a
  configuration snapshot are texts, integers, or decimals standing for their text.
\<close>

datatype reason = Text string | Compared bool string decimal decimal

datatype cfg_value = CText string | CInt int | CDec decimal

type_synonym metric_dict = "(string, decimal) dict"

record ScreeningResult =
  sr_symbol :: string
  sr_passed :: bool
  sr_reasons :: "reason list"
  sr_warnings :: "string list"
  sr_metrics :: metric_dict
  sr_matched_setups :: "string list"
  sr_primary_setup :: "string option"
  sr_setup_scores :: metric_dict
  sr_setup_metrics :: "(string, metric_dict) dict"
  sr_rule_evaluations :: "(string, bool) dict"
  sr_screener_name :: "string option"
  sr_screener_version :: "string option"
  sr_configuration_snapshot :: "(string, cfg_value) dict"

section \<open>Configuration\<close>

record SwingConfig =
  screener_name :: string
  screener_version :: string
  minimum_history_bars :: int
  minimum_close :: decimal
  minimum_average_trading_value_20 :: decimal
  maximum_atr_pct :: decimal
  minimum_candidate_score :: decimal
  maximum_candidates :: int
  box_lookback :: int
  maximum_box_width_pct :: decimal
  minimum_breakout_volume_ratio :: decimal
  maximum_scored_breakout_pct :: decimal
  maximum_scored_volume_ratio :: decimal
  pullback_lookback :: int
  pullback_volume_lookback :: int
  minimum_pullback_depth_pct :: decimal
  ideal_pullback_depth_pct :: decimal
  maximum_pullback_depth_pct :: decimal
  maximum_ema20_distance_pct :: decimal
  maximum_prior_short_volume_ratio :: decimal
  best_prior_short_volume_ratio :: decimal
  maximum_scored_rebound_body_pct :: decimal
  contraction_range_lookback :: int
  contraction_short_lookback :: int
  contraction_long_lookback :: int
  maximum_contraction_range_pct :: decimal
  maximum_true_range_contraction_ratio :: decimal
  best_true_range_contraction_ratio :: decimal
  contraction_maximum_prior_short_volume_ratio :: decimal
  contraction_best_prior_short_volume_ratio :: decimal
  maximum_scored_breakout_volume_ratio :: decimal

definition default_config :: SwingConfig where
  "default_config = \<lparr>screener_name = ''multi_setup_swing'', screener_version = ''1'',
     minimum_history_bars = 61, minimum_close = 1000,
     minimum_average_trading_value_20 = 1000000000, maximum_atr_pct = 12 / 100,
     minimum_candidate_score = 80, maximum_candidates = 5, box_lookback = 20,
     maximum_box_width_pct = 15 / 100, minimum_breakout_volume_ratio = 120 / 100,
     maximum_scored_breakout_pct = 5 / 100, maximum_scored_volume_ratio = 3,
     pullback_lookback = 20, pullback_volume_lookback = 5, minimum_pullback_depth_pct = 3 / 100,
     ideal_pullback_depth_pct = 6 / 100, maximum_pullback_depth_pct = 12 / 100,
     maximum_ema20_distance_pct = 4 / 100, maximum_prior_short_volume_ratio = 90 / 100,
     best_prior_short_volume_ratio = 50 / 100, maximum_scored_rebound_body_pct = 3 / 100,
     contraction_range_lookback = 10, contraction_short_lookback = 5,
     contraction_long_lookback = 20, maximum_contraction_range_pct = 8 / 100,
     maximum_true_range_contraction_ratio = 70 / 100, best_true_range_contraction_ratio = 40 / 100,
     contraction_maximum_prior_short_volume_ratio = 80 / 100,
     contraction_best_prior_short_volume_ratio = 50 / 100, maximum_scored_breakout_volume_ratio = 3\<rparr>"

definition required_history :: "SwingConfig \<Rightarrow> int" where
  "required_history c = foldl max 20 [box_lookback c + 1, pullback_lookback c + 1,
     pullback_volume_lookback c + 1, contraction_range_lookback c + 1, contraction_long_lookback c + 2]"

definition validate_config :: "SwingConfig \<Rightarrow> SwingConfig res" where
  "validate_config c =
    bindE (assertE (list_all (\<lambda>v. 0 < v) [box_lookback c, pullback_lookback c,
      pullback_volume_lookback c, contraction_range_lookback c, contraction_short_lookback c,
      contraction_long_lookback c]) (ValueError ''lookbacks must be positive'')) (\<lambda>_.
    bindE (assertE (pullback_volume_lookback c \<le> pullback_lookback c)
      (ValueError ''invalid pullback lookback'')) (\<lambda>_.
    bindE (assertE (contraction_short_lookback c \<le> contraction_long_lookback c)
      (ValueError ''invalid contraction lookback'')) (\<lambda>_.
    bindE (assertE (required_history c \<le> minimum_history_bars c)
      (ValueError ''minimum_history_bars is unsafe'')) (\<lambda>_.
    bindE (assertE (0 \<le> minimum_candidate_score c \<and> minimum_candidate_score c \<le> 100)
      (ValueError ''minimum_candidate_score must be between 0 and 100'')) (\<lambda>_.
    bindE (assertE (0 < maximum_candidates c)
      (ValueError ''maximum_candidates must be positive'')) (\<lambda>_. Inr c))))))"

definition config_snapshot :: "SwingConfig \<Rightarrow> (string, cfg_value) dict" where
  "config_snapshot c =
    [(''screener_name'', CText (screener_name c)), (''screener_version'', CText (screener_version c)),
     (''minimum_history_bars'', CInt (minimum_history_bars c)), (''minimum_close'', CDec (minimum_close c)),
     (''minimum_average_trading_value_20'', CDec (minimum_average_trading_value_20 c)),
     (''maximum_atr_pct'', CDec (maximum_atr_pct c)),
     (''minimum_candidate_score'', CDec (minimum_candidate_score c)),
     (''maximum_candidates'', CInt (maximum_candidates c)), (''box_lookback'', CInt (box_lookback c)),
     (''maximum_box_width_pct'', CDec (maximum_box_width_pct c)),
     (''minimum_breakout_volume_ratio'', CDec (minimum_breakout_volume_ratio c)),
     (''maximum_scored_breakout_pct'', CDec (maximum_scored_breakout_pct c)),
     (''maximum_scored_volume_ratio'', CDec (maximum_scored_volume_ratio c)),
     (''pullback_lookback'', CInt (pullback_lookback c)),
     (''pullback_volume_lookback'', CInt (pullback_volume_lookback c)),
     (''minimum_pullback_depth_pct'', CDec (minimum_pullback_depth_pct c)),
     (''ideal_pullback_depth_pct'', CDec (ideal_pullback_depth_pct c)),
     (''maximum_pullback_depth_pct'', CDec (maximum_pullback_depth_pct c)),
     (''maximum_ema20_distance_pct'', CDec (maximum_ema20_distance_pct c)),
     (''maximum_prior_short_volume_ratio'', CDec (maximum_prior_short_volume_ratio c)),
     (''best_prior_short_volume_ratio'', CDec (best_prior_short_volume_ratio c)),
     (''maximum_scored_rebound_body_pct'', CDec (maximum_scored_rebound_body_pct c)),
     (''contraction_range_lookback'', CInt (contraction_range_lookback c)),
     (''contraction_short_lookback'', CInt (contraction_short_lookback c)),
     (''contraction_long_lookback'', CInt (contraction_long_lookback c)),
     (''maximum_contraction_range_pct'', CDec (maximum_contraction_range_pct c)),
     (''maximum_true_range_contraction_ratio'', CDec (maximum_true_range_contraction_ratio c)),
     (''best_true_range_contraction_ratio'', CDec (best_true_range_contraction_ratio c)),
     (''contraction_maximum_prior_short_volume_ratio'', CDec (contraction_maximum_prior_short_volume_ratio c)),
     (''contraction_best_prior_short_volume_ratio'', CDec (contraction_best_prior_short_volume_ratio c)),
     (''maximum_scored_breakout_volume_ratio'', CDec (maximum_scored_breakout_volume_ratio c))]"

section \<open>Common rules\<close>

definition volumes :: "MarketBar list \<Rightarrow> decimal list" where
  "volumes bars = map (\<lambda>b. of_int (mk_volume b)) bars"

definition mean :: "decimal list \<Rightarrow> nat \<Rightarrow> decimal" where
  "mean xs n = dquot (dsum xs) (of_nat n)"

text \<open>\<open>x / y if y else ZERO\<close>\<close>

definition safe_ratio :: "decimal \<Rightarrow> decimal \<Rightarrow> decimal" where
  "safe_ratio x y = (if y \<noteq> 0 then dquot x y else 0)"

type_synonym common = "bool \<times> string list \<times> metric_dict"
type_synonym evaluation = "bool \<times> metric_dict \<times> (string, bool) dict"

definition optional_metrics :: "IndicatorSnapshot \<Rightarrow> metric_dict" where
  "optional_metrics i = concat (map (\<lambda>(k, v). case v of None \<Rightarrow> [] | Some x \<Rightarrow> [(k, x)])
     [(''sma20'', sma20 i), (''sma60'', sma60 i), (''ema20'', ema20 i), (''atr14'', atr14 i)])"

definition swing_common :: "SwingConfig \<Rightarrow> MarketBar list \<Rightarrow> IndicatorSnapshot \<Rightarrow> common" where
  "swing_common c bars i =
    (if bars = [] then (False, [''missing_target_bar''], [])
     else let latest = last bars;
         avg = (if 20 \<le> length bars
           then mean (map (\<lambda>b. dmul (mk_close b) (of_int (mk_volume b))) (last_n 20 bars)) 20 else 0);
         atr_pct = (case atr14 i of None \<Rightarrow> 0
           | Some a \<Rightarrow> if 0 < mk_close latest then dquot a (mk_close latest) else 0);
         rules = [(''insufficient_history'', minimum_history_bars c \<le> int (length bars)),
           (''invalid_price'', minimum_close c \<le> mk_close latest),
           (''zero_volume'', 0 < mk_volume latest),
           (''missing_indicator'', sma20 i \<noteq> None \<and> sma60 i \<noteq> None \<and> atr14 i \<noteq> None),
           (''insufficient_liquidity'', minimum_average_trading_value_20 c \<le> avg),
           (''excessive_volatility'', atr_pct \<le> maximum_atr_pct c)]
       in (list_all snd rules, map fst (filter (\<lambda>r. \<not> snd r) rules),
           [(''close'', mk_close latest), (''latest_close'', mk_close latest),
            (''average_trading_value_20'', avg), (''atr_pct'', atr_pct)] @ optional_metrics i))"

section \<open>The setups\<close>

definition uptrend :: "IndicatorSnapshot \<Rightarrow> bool" where
  "uptrend i = (case (sma20 i, sma60 i) of (Some a, Some b) \<Rightarrow> b < a | _ \<Rightarrow> False)"

definition above :: "decimal \<Rightarrow> decimal option \<Rightarrow> bool" where
  "above x m = (case m of None \<Rightarrow> False | Some y \<Rightarrow> y < x)"

definition no_evaluation :: evaluation where
  "no_evaluation = (False, [(''setup_score'', 0)], [])"

definition swing_box :: "SwingConfig \<Rightarrow> MarketBar list \<Rightarrow> IndicatorSnapshot \<Rightarrow> evaluation res" where
  "swing_box c bars i =
    (let prior = prior_n (nat (box_lookback c)) bars in
     if bars = [] \<or> int (length prior) < box_lookback c then Inr no_evaluation
     else let latest = last bars; hi = max_of (map mk_high prior); lo = min_of (map mk_low prior);
         av = mean (volumes prior) (length prior);
         width = safe_ratio (dsub hi lo) hi;
         breakout = safe_ratio (dsub (mk_close latest) hi) hi;
         vr = safe_ratio (of_int (mk_volume latest)) av;
         rules = [(''trend'', uptrend i), (''above_sma20'', above (mk_close latest) (sma20 i)),
           (''box_width'', 0 < hi \<and> width \<le> maximum_box_width_pct c),
           (''breakout'', hi \<le> mk_close latest), (''volume'', minimum_breakout_volume_ratio c \<le> vr),
           (''bullish'', mk_open latest \<le> mk_close latest)]
       in bindE (low_is_good width (5 / 100) (maximum_box_width_pct c)) (\<lambda>s1.
          bindE (high_is_good breakout 0 (maximum_scored_breakout_pct c)) (\<lambda>s2.
          bindE (high_is_good vr (minimum_breakout_volume_ratio c) (maximum_scored_volume_ratio c)) (\<lambda>s3.
          Inr (list_all snd rules,
            [(''previous_box_high'', hi), (''previous_box_low'', lo), (''box_width_pct'', width),
             (''breakout_pct'', breakout), (''previous_average_volume'', av), (''volume_ratio'', vr),
             (''setup_score'', quantize_score (weighted [(s1, 35 / 100), (s2, 30 / 100), (s3, 35 / 100)]))],
            rules)))))"

definition swing_pullback :: "SwingConfig \<Rightarrow> MarketBar list \<Rightarrow> IndicatorSnapshot \<Rightarrow> evaluation res" where
  "swing_pullback c bars i =
    (let prior = prior_n (nat (pullback_lookback c)) bars in
     if bars = [] \<or> int (length prior) < pullback_lookback c then Inr no_evaluation
     else let latest = last bars; peak = max_of (map mk_close prior);
         depth = safe_ratio (dsub peak (mk_close latest)) peak;
         ema = (case ema20 i of None \<Rightarrow> 0 | Some e \<Rightarrow> e);
         dist = (if 0 < ema then dquot (dabs (dsub (mk_close latest) ema)) ema else 0);
         av = mean (volumes prior) (length prior);
         short = mean (volumes (last_n (nat (pullback_volume_lookback c)) prior)) (nat (pullback_volume_lookback c));
         vr = safe_ratio short av;
         body = safe_ratio (dsub (mk_close latest) (mk_open latest)) (mk_open latest);
         rules = [(''trend'', uptrend i), (''above_sma60'', above (mk_close latest) (sma60 i)),
           (''ema20'', 0 < ema),
           (''depth'', minimum_pullback_depth_pct c \<le> depth \<and> depth \<le> maximum_pullback_depth_pct c),
           (''ema_distance'', dist \<le> maximum_ema20_distance_pct c),
           (''sma20_band'', case sma20 i of None \<Rightarrow> False | Some s \<Rightarrow> dmul s (98 / 100) \<le> mk_close latest),
           (''rebound'', mk_close (last prior) < mk_close latest),
           (''bullish'', mk_open latest \<le> mk_close latest),
           (''volume'', vr \<le> maximum_prior_short_volume_ratio c)]
       in bindE (triangular_score depth (minimum_pullback_depth_pct c) (ideal_pullback_depth_pct c)
            (maximum_pullback_depth_pct c)) (\<lambda>s1.
          bindE (low_is_good dist 0 (maximum_ema20_distance_pct c)) (\<lambda>s2.
          bindE (low_is_good vr (best_prior_short_volume_ratio c) (maximum_prior_short_volume_ratio c)) (\<lambda>s3.
          bindE (high_is_good body 0 (maximum_scored_rebound_body_pct c)) (\<lambda>s4.
          Inr (list_all snd rules,
            [(''previous_peak_close'', peak), (''pullback_depth_pct'', depth), (''ema20_distance_pct'', dist),
             (''prior_short_average_volume'', short), (''previous_average_volume'', av),
             (''prior_short_volume_ratio'', vr), (''rebound_body_pct'', body),
             (''setup_score'', quantize_score
               (weighted [(s1, 35 / 100), (s2, 30 / 100), (s3, 20 / 100), (s4, 15 / 100)]))],
            rules))))))"


definition swing_contraction :: "SwingConfig \<Rightarrow> MarketBar list \<Rightarrow> IndicatorSnapshot \<Rightarrow> evaluation res" where
  "swing_contraction c bars i =
    (let prior = prior_n (nat (contraction_long_lookback c)) bars in
     if bars = [] \<or> int (length prior) < contraction_long_lookback c
        \<or> int (length bars) < contraction_long_lookback c + 2 then Inr no_evaluation
     else let latest = last bars; rng = last_n (nat (contraction_range_lookback c)) prior;
         hi = max_of (map mk_high rng); lo = min_of (map mk_low rng);
         rp = safe_ratio (dsub hi lo) hi;
         sequence = prior_n (nat (contraction_long_lookback c + 1)) bars;
         trs = true_ranges_from (hd sequence) (tl sequence);
         short_n = nat (contraction_short_lookback c);
         longtr = mean trs (length trs); shorttr = mean (last_n short_n trs) short_n;
         trr = safe_ratio shorttr longtr;
         lv = mean (volumes prior) (length prior); sv = mean (volumes (last_n short_n prior)) short_n;
         svr = safe_ratio sv lv; bvr = safe_ratio (of_int (mk_volume latest)) lv;
         rules = [(''trend'', uptrend i), (''above_sma20'', above (mk_close latest) (sma20 i)),
           (''range'', 0 < hi \<and> rp \<le> maximum_contraction_range_pct c),
           (''true_range'', 0 < longtr \<and> trr \<le> maximum_true_range_contraction_ratio c),
           (''volume_contraction'', 0 < lv \<and> svr \<le> contraction_maximum_prior_short_volume_ratio c),
           (''breakout'', hi \<le> mk_close latest),
           (''breakout_volume'', minimum_breakout_volume_ratio c \<le> bvr),
           (''bullish'', mk_open latest \<le> mk_close latest)]
       in bindE (low_is_good rp (3 / 100) (maximum_contraction_range_pct c)) (\<lambda>s1.
          bindE (low_is_good trr (best_true_range_contraction_ratio c)
            (maximum_true_range_contraction_ratio c)) (\<lambda>s2.
          bindE (low_is_good svr (contraction_best_prior_short_volume_ratio c)
            (contraction_maximum_prior_short_volume_ratio c)) (\<lambda>s3.
          bindE (high_is_good bvr (minimum_breakout_volume_ratio c)
            (maximum_scored_breakout_volume_ratio c)) (\<lambda>s4.
          Inr (list_all snd rules,
            [(''previous_range_high'', hi), (''previous_range_low'', lo), (''contraction_range_pct'', rp),
             (''prior_long_average_true_range'', longtr), (''prior_short_average_true_range'', shorttr),
             (''true_range_contraction_ratio'', trr), (''prior_long_average_volume'', lv),
             (''prior_short_average_volume'', sv), (''prior_short_volume_ratio'', svr),
             (''breakout_volume_ratio'', bvr),
             (''setup_score'', quantize_score
               (weighted [(s1, 30 / 100), (s2, 25 / 100), (s3, 20 / 100), (s4, 25 / 100)]))],
            rules))))))"

section \<open>Evaluation\<close>

definition SETUP_ORDER :: "string list" where
  "SETUP_ORDER = [''volatility_contraction_breakout'', ''box_breakout'', ''trend_pullback'']"

text \<open>\<open>min(matched, key=lambda name: (-scores[name], SETUP_ORDER.index(name)))\<close>: the first least key.\<close>

definition min_key :: "('a \<Rightarrow> 'k :: linorder) \<Rightarrow> 'a list \<Rightarrow> 'a option" where
  "min_key f xs = (case xs of [] \<Rightarrow> None
     | x # xs \<Rightarrow> Some (foldl (\<lambda>m y. if f y < f m then y else m) x xs))"

fun index_of :: "'a \<Rightarrow> 'a list \<Rightarrow> nat" where
  "index_of x [] = 0"
| "index_of x (y # ys) = (if x = y then 0 else Suc (index_of x ys))"

definition primary_setup :: "string list \<Rightarrow> metric_dict \<Rightarrow> string option" where
  "primary_setup matched scores =
    min_key (\<lambda>name. (- dict_getd scores name 0, index_of name SETUP_ORDER)) matched"

definition swing_methods :: "SwingConfig \<Rightarrow> (string \<times> (MarketBar list \<Rightarrow> IndicatorSnapshot \<Rightarrow> evaluation res)) list" where
  "swing_methods c = [(''box_breakout'', swing_box c), (''trend_pullback'', swing_pullback c),
     (''volatility_contraction_breakout'', swing_contraction c)]"

definition swing_evaluate :: "SwingConfig \<Rightarrow> MarketBar list \<Rightarrow> IndicatorSnapshot \<Rightarrow> ScreeningResult res" where
  "swing_evaluate c bars i =
    (let common = swing_common c bars i in
     bindE (mapE (\<lambda>(name, method). bindE (method bars i) (\<lambda>e. Inr (name, e))) (swing_methods c)) (\<lambda>evaluations.
     let passed = (\<lambda>name. case map_of evaluations name of None \<Rightarrow> False | Some e \<Rightarrow> fst e);
         evaluated = (\<lambda>name. case map_of evaluations name of None \<Rightarrow> 0
           | Some e \<Rightarrow> dict_getd (fst (snd e)) ''setup_score'' 0);
         matched = filter (\<lambda>name. passed name \<and> fst common) SETUP_ORDER;
         scores = map (\<lambda>name. (name, evaluated name)) matched
     in Inr \<lparr>sr_symbol = (if bars = [] then '''' else mk_symbol (last bars)),
          sr_passed = (matched \<noteq> []), sr_reasons = map Text (fst (snd common)), sr_warnings = [],
          sr_metrics = snd (snd common), sr_matched_setups = matched,
          sr_primary_setup = primary_setup matched scores, sr_setup_scores = scores,
          sr_setup_metrics = map (\<lambda>(name, e). (name, dict_del ''setup_score'' (fst (snd e)))) evaluations,
          sr_rule_evaluations = concat (map (\<lambda>(name, e). map (\<lambda>(k, v). (name @ '':'' @ k, v)) (snd (snd e))) evaluations),
          sr_screener_name = Some (screener_name c), sr_screener_version = Some (screener_version c),
          sr_configuration_snapshot = config_snapshot c\<rparr>))"

end
