(* ===== verification/Swing_Props.thy ===== *)
theory Swing_Props
  imports Swing
begin

text \<open>
  The swing screener's contract: with a validated configuration the windows of the three setups are
  filled, older history is irrelevant, the evaluation raises exactly for scoring marks in the wrong
  order, and its result combines the rules, scores and setups as the names say.
\<close>

section \<open>Windows\<close>

lemma prior_n_append: "n < length ys \<Longrightarrow> prior_n n (xs @ ys) = prior_n n ys"
  by (cases "ys = []") (simp_all add: prior_n_def butlast_append last_n_append)

lemma min_history:
  assumes "validate_config c = Inr c'"
  shows "c' = c" "0 < box_lookback c" "0 < pullback_lookback c" "0 < pullback_volume_lookback c"
    "0 < contraction_range_lookback c" "0 < contraction_short_lookback c" "0 < contraction_long_lookback c"
    "pullback_volume_lookback c \<le> pullback_lookback c" "contraction_short_lookback c \<le> contraction_long_lookback c"
    "20 \<le> minimum_history_bars c" "box_lookback c + 1 \<le> minimum_history_bars c"
    "pullback_lookback c + 1 \<le> minimum_history_bars c"
    "contraction_long_lookback c + 2 \<le> minimum_history_bars c"
    "0 \<le> minimum_candidate_score c" "minimum_candidate_score c \<le> 100" "0 < maximum_candidates c"
  using assms by (auto simp: validate_config_def bindE_eq_Inr required_history_def)

text \<open>The scoring marks that make every score of the three setups computable.\<close>

definition box_marks :: "SwingConfig \<Rightarrow> bool" where
  "box_marks c \<longleftrightarrow> 5 / 100 < maximum_box_width_pct c \<and> 0 < maximum_scored_breakout_pct c
     \<and> minimum_breakout_volume_ratio c < maximum_scored_volume_ratio c"

definition pullback_marks :: "SwingConfig \<Rightarrow> bool" where
  "pullback_marks c \<longleftrightarrow> minimum_pullback_depth_pct c < ideal_pullback_depth_pct c
     \<and> ideal_pullback_depth_pct c < maximum_pullback_depth_pct c \<and> 0 < maximum_ema20_distance_pct c
     \<and> best_prior_short_volume_ratio c < maximum_prior_short_volume_ratio c
     \<and> 0 < maximum_scored_rebound_body_pct c"

definition contraction_marks :: "SwingConfig \<Rightarrow> bool" where
  "contraction_marks c \<longleftrightarrow> 3 / 100 < maximum_contraction_range_pct c
     \<and> best_true_range_contraction_ratio c < maximum_true_range_contraction_ratio c
     \<and> contraction_best_prior_short_volume_ratio c < contraction_maximum_prior_short_volume_ratio c
     \<and> minimum_breakout_volume_ratio c < maximum_scored_breakout_volume_ratio c"

lemma score_returns:
  "returns (high_is_good v lo hi) \<longleftrightarrow> lo < hi" "returns (low_is_good v lo hi) \<longleftrightarrow> lo < hi"
  "returns (triangular_score v lo ideal hi) \<longleftrightarrow> lo < ideal \<and> ideal < hi"
  by (auto simp: triangular_score_def high_is_good_def low_is_good_def)

lemma swing_box_returns:
  assumes "0 < box_lookback c" and "box_lookback c < int (length bars)"
  shows "returns (swing_box c bars i) \<longleftrightarrow> box_marks c"
proof -
  have "bars \<noteq> []" "\<not> int (length (prior_n (nat (box_lookback c)) bars)) < box_lookback c"
    using assms by auto
  then show ?thesis unfolding swing_box_def Let_def box_marks_def
    by (simp only: if_False de_Morgan_disj simp_thms) (simp only: returns_bindE score_returns returns_simps simp_thms conj_assoc)
qed

lemma swing_pullback_returns:
  assumes "0 < pullback_lookback c" and "pullback_lookback c < int (length bars)"
  shows "returns (swing_pullback c bars i) \<longleftrightarrow> pullback_marks c"
proof -
  have "bars \<noteq> []" "\<not> int (length (prior_n (nat (pullback_lookback c)) bars)) < pullback_lookback c"
    using assms by auto
  then show ?thesis unfolding swing_pullback_def Let_def pullback_marks_def
    by (simp only: if_False de_Morgan_disj simp_thms) (simp only: returns_bindE score_returns returns_simps simp_thms conj_assoc)
qed

lemma swing_contraction_returns:
  assumes "0 < contraction_long_lookback c" and "contraction_long_lookback c + 1 < int (length bars)"
  shows "returns (swing_contraction c bars i) \<longleftrightarrow> contraction_marks c"
proof -
  have "bars \<noteq> []" "\<not> int (length (prior_n (nat (contraction_long_lookback c)) bars)) < contraction_long_lookback c"
    "\<not> int (length bars) < contraction_long_lookback c + 2"
    using assms by auto
  then show ?thesis unfolding swing_contraction_def Let_def contraction_marks_def
    by (simp only: if_False de_Morgan_disj simp_thms) (simp only: returns_bindE score_returns returns_simps simp_thms conj_assoc)
qed

section \<open>The shape of an evaluation\<close>

definition evaluation_ok :: "evaluation \<Rightarrow> bool" where
  "evaluation_ok e \<longleftrightarrow> (fst e \<longleftrightarrow> snd (snd e) \<noteq> [] \<and> list_all snd (snd (snd e)))
     \<and> score_ok (dict_getd (fst (snd e)) ''setup_score'' 0)"

lemma score_ok_0: "score_ok 0"
  by (simp add: score_ok_def)

lemma no_evaluation_ok: "evaluation_ok no_evaluation"
  by (simp add: evaluation_ok_def no_evaluation_def dict_getd_def score_ok_0)

lemma evaluation_okI: "rules \<noteq> [] \<Longrightarrow> map_of ms ''setup_score'' = Some (quantize_score s)
    \<Longrightarrow> evaluation_ok (list_all snd rules, ms, rules)"
  by (simp add: evaluation_ok_def dict_getd_def)

lemma swing_box_ok: "swing_box c bars i = Inr e \<Longrightarrow> evaluation_ok e"
  unfolding swing_box_def Let_def
  by (split if_splits) (auto simp only: bindE_eq_Inr sum.inject no_evaluation_ok
    intro!: no_evaluation_ok evaluation_okI, (simp; fail)+)

lemma swing_pullback_ok: "swing_pullback c bars i = Inr e \<Longrightarrow> evaluation_ok e"
  unfolding swing_pullback_def Let_def
  by (split if_splits) (auto simp only: bindE_eq_Inr sum.inject
    intro!: no_evaluation_ok evaluation_okI, (simp; fail)+)

lemma swing_contraction_ok: "swing_contraction c bars i = Inr e \<Longrightarrow> evaluation_ok e"
  unfolding swing_contraction_def Let_def
  by (split if_splits) (auto simp only: bindE_eq_Inr sum.inject
    intro!: no_evaluation_ok evaluation_okI, (simp; fail)+)

lemma common_reasons: "fst (swing_common c bars i) \<longleftrightarrow> fst (snd (swing_common c bars i)) = []"
  unfolding swing_common_def Let_def
  by (simp only: split: if_split) (simp add: filter_empty_conv list_all_iff)

section \<open>The evaluation\<close>

lemma foldl_least:
  fixes f :: "'a \<Rightarrow> 'k :: linorder"
  defines "step \<equiv> \<lambda>m y. if f y < f m then y else m"
  shows "foldl step a ys \<in> insert a (set ys) \<and> (\<forall>x \<in> insert a (set ys). f (foldl step a ys) \<le> f x)"
proof (induction ys arbitrary: a)
  case (Cons y ys)
  have "f (step a y) \<le> f a" "f (step a y) \<le> f y" "step a y \<in> {a, y}" by (auto simp: step_def)
  moreover have "f (foldl step (step a y) ys) \<le> f (step a y)" using Cons by blast
  ultimately have "f (foldl step (step a y) ys) \<le> f a" "f (foldl step (step a y) ys) \<le> f y"
    "step a y \<in> {a, y}" by auto
  then show ?case using Cons [of "step a y"] by auto
qed simp

lemma min_key_least: "min_key f xs = Some m \<Longrightarrow> m \<in> set xs \<and> (\<forall>x \<in> set xs. f m \<le> f x)"
  using foldl_least [of f "hd xs" "tl xs"] by (cases xs) (auto simp: min_key_def)

lemma min_key_None: "min_key f xs = None \<longleftrightarrow> xs = []"
  by (simp add: min_key_def split: list.splits)

lemma swing_evaluate_returns: "returns (swing_evaluate c bars i) \<longleftrightarrow>
    returns (swing_box c bars i) \<and> returns (swing_pullback c bars i) \<and> returns (swing_contraction c bars i)"
  unfolding swing_evaluate_def Let_def swing_methods_def
  by (cases "swing_box c bars i"; cases "swing_pullback c bars i"; cases "swing_contraction c bars i") simp_all

definition setup_entries :: "evaluation \<Rightarrow> evaluation \<Rightarrow> evaluation \<Rightarrow> (string, evaluation) dict" where
  "setup_entries b p v = [(''box_breakout'', b), (''trend_pullback'', p), (''volatility_contraction_breakout'', v)]"

definition entry_of :: "(string, evaluation) dict \<Rightarrow> string \<Rightarrow> evaluation" where
  "entry_of d name = (case map_of d name of None \<Rightarrow> no_evaluation | Some e \<Rightarrow> e)"

lemma swing_evaluate_Inr:
  assumes "swing_evaluate c bars i = Inr r"
  shows "\<exists>b p v. swing_box c bars i = Inr b \<and> swing_pullback c bars i = Inr p
    \<and> swing_contraction c bars i = Inr v
    \<and> sr_matched_setups r = filter (\<lambda>n. fst (entry_of (setup_entries b p v) n) \<and> fst (swing_common c bars i)) SETUP_ORDER
    \<and> sr_passed r = (sr_matched_setups r \<noteq> []) \<and> sr_reasons r = map Text (fst (snd (swing_common c bars i)))
    \<and> sr_setup_scores r = map (\<lambda>n. (n, dict_getd (fst (snd (entry_of (setup_entries b p v) n))) ''setup_score'' 0)) (sr_matched_setups r)
    \<and> sr_primary_setup r = primary_setup (sr_matched_setups r) (sr_setup_scores r)
    \<and> sr_rule_evaluations r = concat (map (\<lambda>(n, e). map (\<lambda>(k, v). (n @ '':'' @ k, v)) (snd (snd e))) (setup_entries b p v))
    \<and> sr_metrics r = snd (snd (swing_common c bars i)) \<and> sr_warnings r = []"
proof -
  from assms obtain b p v where bpv: "swing_box c bars i = Inr b" "swing_pullback c bars i = Inr p"
    "swing_contraction c bars i = Inr v"
    using swing_evaluate_returns [of c bars i] by (auto simp: returns_iff)
  then have r: "Inr r = swing_evaluate c bars i" using assms by simp
  show ?thesis
    by (intro exI [of _ b] exI [of _ p] exI [of _ v] conjI bpv;
      insert r; simp add: swing_evaluate_def swing_methods_def bpv setup_entries_def entry_of_def SETUP_ORDER_def
        no_evaluation_def Let_def cong: filter_cong)
qed

lemma entries_keys: "dict_ok (setup_entries b p v)" "fst ` set (setup_entries b p v) = set SETUP_ORDER"
  by (simp_all add: setup_entries_def dict_ok_def SETUP_ORDER_def insert_commute)

lemma entry_of_eq: "(n, e) \<in> set (setup_entries b p v) \<Longrightarrow> entry_of (setup_entries b p v) n = e"
  using entries_keys(1) [of b p v] by (simp add: entry_of_def dict_ok_def)

lemma entry_ok:
  assumes "swing_box c bars i = Inr b" "swing_pullback c bars i = Inr p" "swing_contraction c bars i = Inr v"
  shows "evaluation_ok (entry_of (setup_entries b p v) n)"
proof (cases "map_of (setup_entries b p v) n")
  case (Some e)
  have "e \<in> {b, p, v}" using map_of_SomeD [OF Some] by (auto simp: setup_entries_def)
  moreover have "evaluation_ok b" "evaluation_ok p" "evaluation_ok v"
    using swing_box_ok [OF assms(1)] swing_pullback_ok [OF assms(2)] swing_contraction_ok [OF assms(3)] .
  ultimately show ?thesis using Some by (auto simp: entry_of_def)
qed (simp add: entry_of_def no_evaluation_ok)

lemma setup_order_distinct: "distinct SETUP_ORDER"
  by (simp add: SETUP_ORDER_def)

lemma setup_order_sorted: "sorted (map (\<lambda>n. index_of n SETUP_ORDER) SETUP_ORDER)"
  by (simp add: SETUP_ORDER_def)

lemma setup_names:
  assumes "n \<in> set SETUP_ORDER" "m \<in> set SETUP_ORDER" "n @ xs = m @ ys"
  shows "n = m \<and> xs = ys"
proof -
  have "n \<noteq> []" "m \<noteq> []" using assms(1,2) by (auto simp: SETUP_ORDER_def)
  then have "hd n = hd m" using arg_cong [OF assms(3), of hd] by simp
  then have "n = m" using assms(1,2) by (auto simp: SETUP_ORDER_def)
  with assms(3) show ?thesis by simp
qed

lemma rule_entries:
  assumes "n \<in> set SETUP_ORDER"
  shows "(n @ '':'' @ k, x) \<in> set (concat (map (\<lambda>(n, e). map (\<lambda>(k, v). (n @ '':'' @ k, v)) (snd (snd e)))
    (setup_entries b p v))) \<longleftrightarrow> (k, x) \<in> set (snd (snd (entry_of (setup_entries b p v) n)))"
    (is "?l \<longleftrightarrow> ?r")
proof
  assume ?l
  then obtain m e k' where e: "(m, e) \<in> set (setup_entries b p v)" "(k', x) \<in> set (snd (snd e))"
    "n @ '':'' @ k = m @ '':'' @ k'" by auto
  have "m \<in> set SETUP_ORDER" using e(1) entries_keys(2) [of b p v] by force
  then have "n = m" "k = k'" using setup_names [OF assms _ e(3)] by auto
  with e show ?r by (simp add: entry_of_eq)
next
  assume r: ?r
  obtain e where e: "(n, e) \<in> set (setup_entries b p v)"
    using assms unfolding entries_keys(2) [of b p v, symmetric] by auto
  with r have "(k, x) \<in> set (snd (snd e))" by (simp add: entry_of_eq)
  then show ?l using imageI [of "(k, x)" "set (snd (snd e))" "\<lambda>(k, v). (n @ '':'' @ k, v)"]
    unfolding set_concat set_map by (intro UN_I [OF imageI [OF e]]) simp
qed

lemma rules_hold: "rs \<noteq> [] \<and> list_all snd rs \<longleftrightarrow> (\<exists>k x. (k, x) \<in> set rs) \<and> (\<forall>k x. (k, x) \<in> set rs \<longrightarrow> x)"
proof -
  have "list_all snd rs \<longleftrightarrow> (\<forall>r \<in> set rs. snd r)" by (simp add: list_all_iff)
  also have "\<dots> \<longleftrightarrow> (\<forall>k x. (k, x) \<in> set rs \<longrightarrow> x)" by (simp add: Ball_def)
  finally show ?thesis by (cases rs) (auto simp: ex_in_conv)
qed

text \<open>
  C6. What a screening result says. It is passed exactly when a setup matched; a setup matches exactly
  when no common rule failed (the reasons are empty), it was evaluated, and each of its rules holds;
  the matched setups come in the fixed order, each with a score of two decimals between 0 and 100;
  the primary setup is a matched one of greatest score, the first in the order among equals.
\<close>

theorem swing_evaluate_sound:
  assumes "swing_evaluate c bars i = Inr r"
  shows "(sr_passed r \<longleftrightarrow> sr_matched_setups r \<noteq> [])
    \<and> (\<forall>n. n \<in> set (sr_matched_setups r) \<longleftrightarrow> n \<in> set SETUP_ORDER \<and> sr_reasons r = []
         \<and> (\<exists>k x. (n @ '':'' @ k, x) \<in> set (sr_rule_evaluations r))
         \<and> (\<forall>k x. (n @ '':'' @ k, x) \<in> set (sr_rule_evaluations r) \<longrightarrow> x))
    \<and> distinct (sr_matched_setups r) \<and> sorted (map (\<lambda>n. index_of n SETUP_ORDER) (sr_matched_setups r))
    \<and> map fst (sr_setup_scores r) = sr_matched_setups r \<and> list_all (\<lambda>(n, s). score_ok s) (sr_setup_scores r)
    \<and> (sr_primary_setup r = None \<longleftrightarrow> \<not> sr_passed r)
    \<and> (\<forall>p. sr_primary_setup r = Some p \<longrightarrow> p \<in> set (sr_matched_setups r)
         \<and> (\<forall>n \<in> set (sr_matched_setups r). dict_getd (sr_setup_scores r) n 0 \<le> dict_getd (sr_setup_scores r) p 0
              \<and> (dict_getd (sr_setup_scores r) n 0 = dict_getd (sr_setup_scores r) p 0
                  \<longrightarrow> index_of p SETUP_ORDER \<le> index_of n SETUP_ORDER)))"
proof -
  obtain b p v where bpv: "swing_box c bars i = Inr b" "swing_pullback c bars i = Inr p"
      "swing_contraction c bars i = Inr v"
    and matched: "sr_matched_setups r = filter (\<lambda>n. fst (entry_of (setup_entries b p v) n)
        \<and> fst (swing_common c bars i)) SETUP_ORDER"
    and passed: "sr_passed r = (sr_matched_setups r \<noteq> [])"
    and reasons: "sr_reasons r = map Text (fst (snd (swing_common c bars i)))"
    and scores: "sr_setup_scores r = map (\<lambda>n. (n, dict_getd (fst (snd (entry_of (setup_entries b p v) n)))
        ''setup_score'' 0)) (sr_matched_setups r)"
    and primary: "sr_primary_setup r = primary_setup (sr_matched_setups r) (sr_setup_scores r)"
    and rules: "sr_rule_evaluations r = concat (map (\<lambda>(n, e). map (\<lambda>(k, v). (n @ '':'' @ k, v))
        (snd (snd e))) (setup_entries b p v))"
    using swing_evaluate_Inr [OF assms] by blast
  let ?e = "entry_of (setup_entries b p v)"
  have ok: "evaluation_ok (?e n)" for n using bpv by (rule entry_ok)
  have all: "fst (?e n) \<longleftrightarrow> (\<exists>k x. (k, x) \<in> set (snd (snd (?e n))))
      \<and> (\<forall>k x. (k, x) \<in> set (snd (snd (?e n))) \<longrightarrow> x)" for n
    using ok [of n] rules_hold [of "snd (snd (?e n))"] unfolding evaluation_ok_def by meson
  have m: "n \<in> set (sr_matched_setups r) \<longleftrightarrow> n \<in> set SETUP_ORDER \<and> sr_reasons r = []
      \<and> (\<exists>k x. (n @ '':'' @ k, x) \<in> set (sr_rule_evaluations r))
      \<and> (\<forall>k x. (n @ '':'' @ k, x) \<in> set (sr_rule_evaluations r) \<longrightarrow> x)" for n
  proof (cases "n \<in> set SETUP_ORDER")
    case True
    have "(n @ '':'' @ k, x) \<in> set (sr_rule_evaluations r) \<longleftrightarrow> (k, x) \<in> set (snd (snd (?e n)))" for k x
      unfolding rules by (rule rule_entries [OF True])
    then show ?thesis using True all [of n] common_reasons [of c bars i] by (simp add: matched reasons) blast
  qed (simp add: matched)
  have ord: "distinct (sr_matched_setups r)" "sorted (map (\<lambda>n. index_of n SETUP_ORDER) (sr_matched_setups r))"
    unfolding matched by (auto simp: setup_order_distinct setup_order_sorted intro: sorted_filter)
  have sc: "map fst (sr_setup_scores r) = sr_matched_setups r" "list_all (\<lambda>(n, s). score_ok s) (sr_setup_scores r)"
    using ok by (auto simp: scores o_def list_all_iff evaluation_ok_def)
  have none: "sr_primary_setup r = None \<longleftrightarrow> \<not> sr_passed r"
    by (simp add: primary primary_setup_def min_key_None passed)
  have least: "q \<in> set (sr_matched_setups r) \<and> (\<forall>n \<in> set (sr_matched_setups r).
      dict_getd (sr_setup_scores r) n 0 \<le> dict_getd (sr_setup_scores r) q 0
      \<and> (dict_getd (sr_setup_scores r) n 0 = dict_getd (sr_setup_scores r) q 0
          \<longrightarrow> index_of q SETUP_ORDER \<le> index_of n SETUP_ORDER))" if "sr_primary_setup r = Some q" for q
    using min_key_least [OF that [unfolded primary primary_setup_def]] by (auto simp: less_eq_prod_def)
  show ?thesis using passed m ord sc none least by (intro conjI allI impI; (simp; fail)?) blast+
qed

text \<open>A flat history with a breakout on its last day, for the witnesses.\<close>

definition flat_bar :: "date \<Rightarrow> int \<Rightarrow> MarketBar" where
  "flat_bar d vol = \<lparr>mk_symbol = ''005930'', mk_date = d, mk_open = 10000, mk_high = 10000, mk_low = 9500,
     mk_close = 10000, mk_volume = vol, mk_source = ''TOSS'', mk_as_of = 0\<rparr>"

definition breakout_bars :: "MarketBar list" where
  "breakout_bars = map (\<lambda>k. flat_bar (int k) (if k < 55 then 700000 else 300000)) [0..<60]
     @ [(flat_bar 60 1260000)\<lparr>mk_high := 10600, mk_close := 10600\<rparr>]"

definition breakout_indicators :: IndicatorSnapshot where
  "breakout_indicators = \<lparr>sma5 = None, sma20 = Some 10005, sma60 = Some 9900, sma120 = None,
     ema20 = Some 10000, atr14 = Some 212, avg_volume20 = None, highest20 = None, lowest20 = None,
     highest60 = None, lowest60 = None\<rparr>"


lemma breakout_example: "\<exists>r. swing_evaluate default_config breakout_bars breakout_indicators = Inr r
    \<and> sr_matched_setups r = [''box_breakout'']"
proof -
  have "(case swing_evaluate default_config breakout_bars breakout_indicators of Inl _ \<Rightarrow> False
      | Inr r \<Rightarrow> sr_matched_setups r = [''box_breakout''])" by code_simp
  then show ?thesis by (simp split: sum.splits)
qed

lemma swing_evaluate_sound_witness:
  "\<exists>r. swing_evaluate default_config breakout_bars breakout_indicators = Inr r
    \<and> sr_matched_setups r = [''box_breakout''] \<and> sr_passed r \<and> sr_primary_setup r = Some ''box_breakout''"
proof -
  obtain r where r: "swing_evaluate default_config breakout_bars breakout_indicators = Inr r"
    "sr_matched_setups r = [''box_breakout'']" using breakout_example by blast
  have p: "sr_passed r" "sr_primary_setup r = None \<longleftrightarrow> \<not> sr_passed r"
      "\<And>q. sr_primary_setup r = Some q \<Longrightarrow> q \<in> set (sr_matched_setups r)"
    using swing_evaluate_sound [OF r(1)] r(2) by simp_all
  then have "sr_primary_setup r = Some ''box_breakout''" using r(2) by (cases "sr_primary_setup r") auto
  with p r show ?thesis by blast
qed

section \<open>Totality, history, and what a breakout is\<close>

lemma score_Inl: "high_is_good v lo hi = Inl e \<Longrightarrow> \<exists>m. e = ValueError m"
  "low_is_good v lo hi = Inl e \<Longrightarrow> \<exists>m. e = ValueError m"
  "triangular_score v lo ideal hi = Inl e \<Longrightarrow> \<exists>m. e = ValueError m"
  by (auto simp: triangular_score_def high_is_good_def low_is_good_def split: if_splits)

definition value_error :: "py_exc \<Rightarrow> bool" where
  "value_error e = (case e of ValueError _ \<Rightarrow> True | _ \<Rightarrow> False)"

lemma value_error_score: "high_is_good v lo hi = Inl e \<Longrightarrow> value_error e"
  "low_is_good v lo hi = Inl e \<Longrightarrow> value_error e" "triangular_score v lo ideal hi = Inl e \<Longrightarrow> value_error e"
  by (auto simp: value_error_def dest!: score_Inl)

lemma swing_setup_Inl:
  "swing_box c bars i = Inl e \<Longrightarrow> value_error e" "swing_pullback c bars i = Inl e \<Longrightarrow> value_error e"
  "swing_contraction c bars i = Inl e \<Longrightarrow> value_error e"
  unfolding swing_box_def swing_pullback_def swing_contraction_def Let_def
  by (split if_splits; auto simp only: bindE_eq_Inl sum.distinct intro: value_error_score; fail)+

lemma swing_evaluate_Inl: "swing_evaluate c bars i = Inl e \<Longrightarrow> value_error e"
  unfolding swing_evaluate_def Let_def swing_methods_def
  by (auto simp: bindE_eq_Inl dest: swing_setup_Inl)

text \<open>
  With a validated configuration and the history it demands, the evaluation returns exactly when
  the scoring marks of the three setups are in order; the configuration check does not look at
  those marks, and an evaluation under marks out of order raises a \<open>ValueError\<close>.
\<close>

theorem swing_evaluate_total:
  assumes "validate_config c = Inr c'" and "minimum_history_bars c \<le> int (length bars)"
  shows "(returns (swing_evaluate c bars i) \<longleftrightarrow> box_marks c \<and> pullback_marks c \<and> contraction_marks c)
    \<and> (\<forall>e. swing_evaluate c bars i = Inl e \<longrightarrow> value_error e)"
  using min_history [OF assms(1)] assms(2) swing_evaluate_Inl [of c bars i]
  by (simp add: swing_evaluate_returns swing_box_returns swing_pullback_returns swing_contraction_returns)

lemma swing_evaluate_total_witness: "returns (swing_evaluate default_config breakout_bars breakout_indicators)"
proof -
  have "validate_config default_config = Inr default_config" by code_simp
  moreover have "minimum_history_bars default_config \<le> int (length breakout_bars)"
    by (simp add: default_config_def breakout_bars_def)
  ultimately show ?thesis
    using swing_evaluate_total [of default_config default_config breakout_bars breakout_indicators]
    by (simp add: box_marks_def pullback_marks_def contraction_marks_def default_config_def)
qed

text \<open>
  Once the demanded history is there, bars before it change nothing: the same setups, scores,
  metrics and rules come out.
\<close>

theorem swing_evaluate_history:
  assumes "validate_config c = Inr c'" and "minimum_history_bars c \<le> int (length bars)"
  shows "swing_evaluate c (older @ bars) i = swing_evaluate c bars i"
proof -
  note h = min_history [OF assms(1)]
  have ne: "bars \<noteq> []" using h(10) assms(2) by auto
  have w: "prior_n (nat n) (older @ bars) = prior_n (nat n) bars" if "n < int (length bars)" "0 < n" for n
    using that by (intro prior_n_append) simp
  have l20: "last_n 20 (older @ bars) = last_n 20 bars" "20 \<le> length bars"
    using h(10) assms(2) by (simp_all add: last_n_append)
  have la: "last (older @ bars) = last bars" using ne by simp
  have len: "length (older @ bars) = length older + length bars" by simp
  have "swing_common c (older @ bars) i = swing_common c bars i"
    using ne l20 assms(2) by (simp add: swing_common_def Let_def)
  moreover have "swing_box c (older @ bars) i = swing_box c bars i"
    using ne h w [of "box_lookback c"] assms(2) by (simp add: swing_box_def Let_def)
  moreover have "swing_pullback c (older @ bars) i = swing_pullback c bars i"
    using ne h w [of "pullback_lookback c"] assms(2) by (simp add: swing_pullback_def Let_def)
  moreover have "swing_contraction c (older @ bars) i = swing_contraction c bars i"
  proof -
    have "\<not> int (length older + length bars) < contraction_long_lookback c + 2"
      "\<not> int (length bars) < contraction_long_lookback c + 2" using h assms(2) by linarith+
    then show ?thesis
      using ne h w [of "contraction_long_lookback c"] w [of "contraction_long_lookback c + 1"] assms(2)
      by (simp add: swing_contraction_def Let_def)
  qed
  ultimately show ?thesis using ne by (simp add: swing_evaluate_def swing_methods_def)
qed

lemma swing_evaluate_history_witness:
  "swing_evaluate default_config (flat_bar (- 1) 5 # breakout_bars) breakout_indicators
    = swing_evaluate default_config breakout_bars breakout_indicators"
proof -
  have "validate_config default_config = Inr default_config" by code_simp
  moreover have "minimum_history_bars default_config \<le> int (length breakout_bars)"
    by (simp add: default_config_def breakout_bars_def)
  ultimately show ?thesis
    using swing_evaluate_history [of default_config default_config breakout_bars "[flat_bar (- 1) 5]"] by simp
qed

lemma swing_common_rules:
  assumes "fst (swing_common c bars i)"
  shows "bars \<noteq> []" "minimum_history_bars c \<le> int (length bars)" "minimum_close c \<le> mk_close (last bars)"
    "0 < mk_volume (last bars)"
  using assms by (simp_all add: swing_common_def Let_def split: if_splits)

lemma uptrend_above: "uptrend i \<Longrightarrow> above x (sma20 i)
    \<Longrightarrow> \<exists>a b. sma20 i = Some a \<and> sma60 i = Some b \<and> b < a \<and> a < x"
  by (auto simp: uptrend_def above_def split: option.splits)

lemma swing_box_rules:
  assumes "swing_box c bars i = Inr e" "fst e"
  shows "uptrend i" "above (mk_close (last bars)) (sma20 i)"
    "b \<in> set (prior_n (nat (box_lookback c)) bars) \<Longrightarrow> mk_high b \<le> mk_close (last bars)"
    "mk_open (last bars) \<le> mk_close (last bars)" "box_lookback c < int (length bars)"
proof -
  have ne: "bars \<noteq> [] \<and> \<not> int (length (prior_n (nat (box_lookback c)) bars)) < box_lookback c"
  proof (rule ccontr)
    assume "\<not> ?thesis"
    then have "swing_box c bars i = Inr no_evaluation"
      unfolding swing_box_def Let_def by (subst if_P) blast+
    with assms show False by (auto simp: no_evaluation_def)
  qed
  then show "box_lookback c < int (length bars)" by (cases bars) auto
  have all: "uptrend i \<and> above (mk_close (last bars)) (sma20 i)
      \<and> max_of (map mk_high (prior_n (nat (box_lookback c)) bars)) \<le> mk_close (last bars)
      \<and> mk_open (last bars) \<le> mk_close (last bars)"
    using assms ne unfolding swing_box_def Let_def
    by (simp only: if_False de_Morgan_disj simp_thms) (auto simp only: bindE_eq_Inr sum.inject fst_conv list.pred_inject snd_conv)
  then show "uptrend i" "above (mk_close (last bars)) (sma20 i)" "mk_open (last bars) \<le> mk_close (last bars)"
    by simp_all
  show "mk_high b \<le> mk_close (last bars)" if "b \<in> set (prior_n (nat (box_lookback c)) bars)"
    using max_of_ge [of "mk_high b" "map mk_high (prior_n (nat (box_lookback c)) bars)"] that all by auto
qed

lemma swing_contraction_rules:
  assumes "swing_contraction c bars i = Inr e" "fst e"
  shows "uptrend i" "above (mk_close (last bars)) (sma20 i)"
    "b \<in> set (last_n (nat (contraction_range_lookback c)) (prior_n (nat (contraction_long_lookback c)) bars))
      \<Longrightarrow> mk_high b \<le> mk_close (last bars)"
    "mk_open (last bars) \<le> mk_close (last bars)" "contraction_long_lookback c + 2 \<le> int (length bars)"
proof -
  have ne: "bars \<noteq> [] \<and> \<not> int (length (prior_n (nat (contraction_long_lookback c)) bars)) < contraction_long_lookback c
      \<and> \<not> int (length bars) < contraction_long_lookback c + 2"
  proof (rule ccontr)
    assume "\<not> ?thesis"
    then have "swing_contraction c bars i = Inr no_evaluation"
      unfolding swing_contraction_def Let_def by (subst if_P) blast+
    with assms show False by (auto simp: no_evaluation_def)
  qed
  then show "contraction_long_lookback c + 2 \<le> int (length bars)" by simp
  have all: "uptrend i \<and> above (mk_close (last bars)) (sma20 i)
      \<and> max_of (map mk_high (last_n (nat (contraction_range_lookback c))
          (prior_n (nat (contraction_long_lookback c)) bars))) \<le> mk_close (last bars)
      \<and> mk_open (last bars) \<le> mk_close (last bars)"
    using assms ne unfolding swing_contraction_def Let_def
    by (simp only: if_False de_Morgan_disj simp_thms) (auto simp only: bindE_eq_Inr sum.inject fst_conv list.pred_inject snd_conv)
  then show "uptrend i" "above (mk_close (last bars)) (sma20 i)" "mk_open (last bars) \<le> mk_close (last bars)"
    by simp_all
  show "mk_high b \<le> mk_close (last bars)"
    if "b \<in> set (last_n (nat (contraction_range_lookback c)) (prior_n (nat (contraction_long_lookback c)) bars))"
    using max_of_ge [of "mk_high b" "map mk_high (last_n (nat (contraction_range_lookback c))
          (prior_n (nat (contraction_long_lookback c)) bars))"] that all by auto
qed

text \<open>
  C7. A candidate of a breakout setup is a breakout: enough history, a price above the minimum,
  traded volume, closing at or above its opening, above the 20-day average, which is above the 60-day
  average, and at or above every high of the preceding box (or contraction range).
\<close>

theorem swing_breakout_means:
  assumes "swing_evaluate c bars i = Inr r"
    and "n \<in> set (sr_matched_setups r)" and "n \<noteq> ''trend_pullback''"
  shows "bars \<noteq> [] \<and> minimum_history_bars c \<le> int (length bars) \<and> minimum_close c \<le> mk_close (last bars)
    \<and> 0 < mk_volume (last bars) \<and> mk_open (last bars) \<le> mk_close (last bars)
    \<and> (\<exists>a b. sma20 i = Some a \<and> sma60 i = Some b \<and> b < a \<and> a < mk_close (last bars))
    \<and> (let box = prior_n (nat (box_lookback c)) bars;
           range = last_n (nat (contraction_range_lookback c)) (prior_n (nat (contraction_long_lookback c)) bars)
       in list_all (\<lambda>b. mk_high b \<le> mk_close (last bars)) (if n = ''box_breakout'' then box else range))"
proof -
  obtain b p v where bpv: "swing_box c bars i = Inr b" "swing_contraction c bars i = Inr v"
    and matched: "sr_matched_setups r = filter (\<lambda>n. fst (entry_of (setup_entries b p v) n)
        \<and> fst (swing_common c bars i)) SETUP_ORDER"
    using swing_evaluate_Inr [OF assms(1)] by blast
  from assms(2) matched have com: "fst (swing_common c bars i)"
    and e: "fst (entry_of (setup_entries b p v) n)" and n: "n \<in> set SETUP_ORDER" by simp_all
  from n assms(3) consider "n = ''box_breakout''" | "n = ''volatility_contraction_breakout''"
    by (auto simp: SETUP_ORDER_def)
  then show ?thesis
  proof cases
    case 1
    then have "fst b" using e by (simp add: entry_of_def setup_entries_def)
    note rules = swing_box_rules [OF bpv(1) this]
    show ?thesis using swing_common_rules [OF com] rules(3,4) uptrend_above [OF rules(1,2)] 1
      by (simp add: list_all_iff Let_def)
  next
    case 2
    then have "fst v" using e by (simp add: entry_of_def setup_entries_def)
    note rules = swing_contraction_rules [OF bpv(2) this]
    show ?thesis using swing_common_rules [OF com] rules(3,4) uptrend_above [OF rules(1,2)] 2
      by (simp add: list_all_iff Let_def)
  qed
qed

lemma swing_breakout_means_witness:
  "10000 \<le> mk_close (last breakout_bars) \<and> (\<exists>r. swing_evaluate default_config breakout_bars breakout_indicators = Inr r)"
proof -
  obtain r where r: "swing_evaluate default_config breakout_bars breakout_indicators = Inr r"
    "''box_breakout'' \<in> set (sr_matched_setups r)" using breakout_example by force
  have "mk_open (last breakout_bars) \<le> mk_close (last breakout_bars)"
    using swing_breakout_means [OF r] by simp
  moreover have "mk_open (last breakout_bars) = 10000" by (simp add: breakout_bars_def flat_bar_def)
  ultimately show ?thesis using r(1) by simp
qed

end
