(* ===== verification/Scanning.thy ===== *)
theory Scanning
  imports Swing
begin

text \<open>
  The breakout strategy (\<open>screening/strategies/breakout.py\<close>), the screening engine
  (\<open>screening/engine.py\<close>) and the candidate scanner (\<open>scanning/scanner.py\<close>). The contract the
  engine and the scanner rely on (\<open>screening/strategy.py\<close>) is a locale, interpreted for both
  strategies.
\<close>

section \<open>Breakout strategy\<close>

definition compare_rule :: "string \<Rightarrow> decimal option \<Rightarrow> decimal option \<Rightarrow> (decimal \<Rightarrow> decimal \<Rightarrow> bool)
    \<Rightarrow> bool \<times> reason" where
  "compare_rule rule left right comparison = (case (left, right) of
     (Some l, Some r) \<Rightarrow> (comparison l r, Compared (comparison l r) rule l r)
   | _ \<Rightarrow> (False, Text (''FAILED: '' @ rule @ '' (insufficient history)'')))"

definition some_metrics :: "(string \<times> decimal option) list \<Rightarrow> metric_dict" where
  "some_metrics kvs = concat (map (\<lambda>(k, v). case v of None \<Rightarrow> [] | Some x \<Rightarrow> [(k, x)]) kvs)"

definition breakout_metrics :: "MarketBar option \<Rightarrow> IndicatorSnapshot \<Rightarrow> decimal option \<Rightarrow> metric_dict" where
  "breakout_metrics latest i previous_high20 =
    some_metrics [(''close'', map_option mk_close latest), (''volume'', map_option (of_int \<circ> mk_volume) latest),
      (''previous_high20'', previous_high20), (''sma20'', sma20 i), (''sma60'', sma60 i),
      (''avg_volume20'', avg_volume20 i), (''atr14'', atr14 i)]"

definition breakout_evaluate :: "MarketBar list \<Rightarrow> IndicatorSnapshot \<Rightarrow> ScreeningResult res" where
  "breakout_evaluate bars i =
    (let latest = (if bars = [] then None else Some (last bars));
         previous_high20 = (if 21 \<le> length bars then Some (max_of (map mk_high (prior_n 20 bars))) else None);
         outcomes = [
           compare_rule ''SMA20 > SMA60'' (sma20 i) (sma60 i) (>),
           compare_rule ''latest close > SMA20'' (map_option mk_close latest) (sma20 i) (>),
           compare_rule ''latest close >= previous High20'' (map_option mk_close latest) previous_high20 (\<ge>),
           compare_rule ''latest volume > AverageVolume20'' (map_option (of_int \<circ> mk_volume) latest) (avg_volume20 i) (>)]
     in Inr \<lparr>sr_symbol = (case latest of None \<Rightarrow> '''' | Some b \<Rightarrow> mk_symbol b),
          sr_passed = list_all fst outcomes, sr_reasons = map snd outcomes,
          sr_warnings = (if latest = None then [''No bars supplied.''] else []),
          sr_metrics = breakout_metrics latest i previous_high20,
          sr_matched_setups = [], sr_primary_setup = None, sr_setup_scores = [], sr_setup_metrics = [],
          sr_rule_evaluations = [], sr_screener_name = None, sr_screener_version = None,
          sr_configuration_snapshot = []\<rparr>)"

section \<open>Engine and scanner\<close>

type_synonym strategy = "MarketBar list \<Rightarrow> IndicatorSnapshot \<Rightarrow> ScreeningResult res"

record ScanInput =
  si_symbol :: string
  si_bars :: "MarketBar list"
  si_indicators :: IndicatorSnapshot

definition engine_evaluate :: "strategy \<Rightarrow> strategy" where
  "engine_evaluate strategy bars i = strategy bars i"

text \<open>\<open>', '.join(xs)\<close>\<close>

fun join_comma :: "string list \<Rightarrow> string" where
  "join_comma [] = ''''"
| "join_comma [x] = x"
| "join_comma (x # xs) = x @ '', '' @ join_comma xs"

definition validate_input :: "ScanInput \<Rightarrow> unit res" where
  "validate_input x = (let s = si_symbol x; bar_symbols = remdups (map mk_symbol (si_bars x)) in
    bindE (assertE (strip s \<noteq> '''') (ValueError ''Scan input symbol must not be blank'')) (\<lambda>_.
    bindE (assertE (\<not> 1 < length bar_symbols) (ValueError (''Bars for '' @ s
      @ '' contain multiple symbols: '' @ join_comma (sort bar_symbols)))) (\<lambda>_.
    assertE (\<not> (bar_symbols \<noteq> [] \<and> s \<notin> set bar_symbols)) (ValueError (''Bar symbol '' @ hd bar_symbols
      @ '' does not match scan input symbol '' @ s)))))"

primrec validate_request :: "string list \<Rightarrow> ScanInput list \<Rightarrow> unit res" where
  "validate_request seen [] = Inr ()"
| "validate_request seen (x # xs) =
    bindE (validate_input x) (\<lambda>_.
    bindE (assertE (si_symbol x \<notin> set seen) (ValueError (''Duplicate scan input symbol: '' @ si_symbol x))) (\<lambda>_.
    validate_request (si_symbol x # seen) xs))"

definition scan_evaluate :: "strategy \<Rightarrow> ScanInput \<Rightarrow> ScreeningResult res" where
  "scan_evaluate strategy x =
    bindE (engine_evaluate strategy (si_bars x) (si_indicators x)) (\<lambda>result.
    bindE (assertE (\<not> (sr_symbol result \<noteq> '''' \<and> sr_symbol result \<noteq> si_symbol x))
      (ValueError (''Screening result symbol '' @ sr_symbol result
        @ '' does not match scan input symbol '' @ si_symbol x))) (\<lambda>_.
    Inr (if sr_symbol result = '''' then result\<lparr>sr_symbol := si_symbol x\<rparr> else result)))"

definition scan :: "strategy \<Rightarrow> ScanInput list \<Rightarrow> ScreeningResult list res" where
  "scan strategy inputs =
    bindE (validate_request [] inputs) (\<lambda>_.
    foldE (\<lambda>candidates x. bindE (scan_evaluate strategy x) (\<lambda>result.
      Inr (if sr_passed result then candidates @ [result] else candidates))) [] inputs)"

section \<open>Validation\<close>

text \<open>What the scanner demands of one input.\<close>

definition input_ok :: "ScanInput \<Rightarrow> bool" where
  "input_ok x \<longleftrightarrow> strip (si_symbol x) \<noteq> '''' \<and> list_all (\<lambda>b. mk_symbol b = si_symbol x) (si_bars x)"

lemma length_remdups_le_1: "length (remdups ys) \<le> 1 \<and> (remdups ys \<noteq> [] \<longrightarrow> s \<in> set ys) \<longleftrightarrow> list_all (\<lambda>y. y = s) ys"
proof
  assume l: "length (remdups ys) \<le> 1 \<and> (remdups ys \<noteq> [] \<longrightarrow> s \<in> set ys)"
  show "list_all (\<lambda>y. y = s) ys"
  proof (cases "remdups ys")
    case (Cons z zs)
    with l have "zs = []" by simp
    with Cons have "set ys = {z}" using set_remdups [of ys] by simp
    moreover from this l Cons have "s = z" by simp
    ultimately have "set ys = {s}" by simp
    then show ?thesis by (simp add: list_all_iff)
  qed simp
next
  assume "list_all (\<lambda>y. y = s) ys"
  then have "set ys \<subseteq> {s}" by (auto simp: list_all_iff)
  then have "card (set ys) \<le> 1" using card_mono [of "{s}" "set ys"] by simp
  with \<open>set ys \<subseteq> {s}\<close> show "length (remdups ys) \<le> 1 \<and> (remdups ys \<noteq> [] \<longrightarrow> s \<in> set ys)"
    unfolding length_remdups_card_conv by (cases ys) auto
qed

lemma validate_input_iff: "validate_input x = Inr u \<longleftrightarrow> input_ok x"
  using length_remdups_le_1 [of "map mk_symbol (si_bars x)" "si_symbol x"]
  unfolding validate_input_def Let_def input_ok_def
  by (simp add: bindE_eq_Inr list.pred_map o_def not_less) blast

lemma validate_request_iff: "validate_request seen xs = Inr u \<longleftrightarrow>
    list_all input_ok xs \<and> distinct (map si_symbol xs) \<and> set (map si_symbol xs) \<inter> set seen = {}"
  by (induction xs arbitrary: seen) (auto simp: bindE_eq_Inr validate_input_iff)

lemma scan_loop:
  "foldE (\<lambda>cs x. bindE (f x) (\<lambda>r. Inr (if p r then cs @ [r] else cs))) acc xs
    = bindE (mapE f xs) (\<lambda>rs. Inr (acc @ filter p rs))"
proof (induction xs arbitrary: acc)
  case (Cons x xs)
  show ?case by (cases "f x"; cases "mapE f xs") (simp_all add: Cons)
qed simp

lemma scan_eq: "scan strategy inputs = bindE (validate_request [] inputs) (\<lambda>_.
    bindE (mapE (scan_evaluate strategy) inputs) (\<lambda>rs. Inr (filter sr_passed rs)))"
  unfolding scan_def scan_loop by simp

section \<open>The contract of a strategy\<close>

text \<open>
  A strategy names its result after the last bar, or not at all without bars. Under this contract
  the scanner's symbol check never fires, so that a scan returns exactly for a well-formed request
  whose evaluations return, and lists the passing results under the input's symbols, in input order.
\<close>

locale screening_strategy =
  fixes evaluate :: strategy
  assumes evaluate_symbol: "evaluate bars i = Inr r \<Longrightarrow> sr_symbol r = (if bars = [] then '''' else mk_symbol (last bars))"
begin

lemma scan_evaluate_returns: "input_ok x \<Longrightarrow> returns (scan_evaluate evaluate x) \<longleftrightarrow> returns (evaluate (si_bars x) (si_indicators x))"
proof -
  assume ok: "input_ok x"
  have "sr_symbol r = '''' \<or> sr_symbol r = si_symbol x" if "evaluate (si_bars x) (si_indicators x) = Inr r" for r
    using evaluate_symbol [OF that] ok by (auto simp: input_ok_def list_all_iff)
  then show ?thesis
    by (cases "evaluate (si_bars x) (si_indicators x)") (auto simp: scan_evaluate_def engine_evaluate_def)
qed

lemma scan_evaluate_symbol: "scan_evaluate evaluate x = Inr r \<Longrightarrow> sr_symbol r = si_symbol x"
  by (auto simp: scan_evaluate_def bindE_eq_Inr)

lemma scan_returns: "returns (scan evaluate inputs) \<longleftrightarrow>
    list_all input_ok inputs \<and> distinct (map si_symbol inputs)
    \<and> list_all (\<lambda>x. returns (evaluate (si_bars x) (si_indicators x))) inputs"
proof (cases "list_all input_ok inputs \<and> distinct (map si_symbol inputs)")
  case True
  then have "validate_request [] inputs = Inr ()" by (simp add: validate_request_iff)
  then have "returns (scan evaluate inputs) \<longleftrightarrow> list_all (\<lambda>x. returns (scan_evaluate evaluate x)) inputs"
    by (simp add: scan_eq returns_bindE_dep mapE_returns [symmetric] ex_Inr_returns)
  also have "\<dots> \<longleftrightarrow> list_all (\<lambda>x. returns (evaluate (si_bars x) (si_indicators x))) inputs"
    using True by (auto simp: list_all_iff scan_evaluate_returns)
  finally show ?thesis using True by simp
next
  case False
  then have "\<not> returns (validate_request [] inputs)" by (auto simp: returns_iff validate_request_iff)
  then show ?thesis using False by (auto simp: scan_eq returns_iff bindE_eq_Inr)
qed

lemma mapE_symbols: "mapE (scan_evaluate evaluate) xs = Inr rs \<Longrightarrow> map sr_symbol rs = map si_symbol xs"
  by (induction xs arbitrary: rs) (auto simp: bindE_eq_Inr scan_evaluate_symbol)

lemma scan_results: "scan evaluate inputs = Inr candidates \<Longrightarrow>
    \<exists>rs. mapE (scan_evaluate evaluate) inputs = Inr rs \<and> candidates = filter sr_passed rs
      \<and> map sr_symbol rs = map si_symbol inputs \<and> distinct (map sr_symbol candidates)"
proof -
  assume "scan evaluate inputs = Inr candidates"
  then obtain rs where rs: "mapE (scan_evaluate evaluate) inputs = Inr rs" "candidates = filter sr_passed rs"
    and d: "distinct (map si_symbol inputs)"
    by (auto simp: scan_eq bindE_eq_Inr validate_request_iff)
  moreover have "distinct (map sr_symbol (filter sr_passed rs))"
    using d mapE_symbols [OF rs(1)] by (simp add: distinct_map_filter)
  ultimately show ?thesis using mapE_symbols by blast
qed

end

lemma swing_symbol: "swing_evaluate c bars i = Inr r \<Longrightarrow> sr_symbol r = (if bars = [] then '''' else mk_symbol (last bars))"
  unfolding swing_evaluate_def Let_def by (elim bindE_eq_Inr [THEN iffD1, elim_format] exE conjE) auto

interpretation swing: screening_strategy "swing_evaluate c" for c
  by unfold_locales (rule swing_symbol)

interpretation breakout: screening_strategy breakout_evaluate
  by unfold_locales (auto simp: breakout_evaluate_def Let_def)

section \<open>Properties\<close>

text \<open>
  A scan with the swing strategy returns exactly when every symbol is nonblank and unique, every
  bar carries its input's symbol, and every evaluation returns; its candidates are the passing
  results, in the order of the inputs and under their symbols.
\<close>

theorem scan_swing:
  "(returns (scan (swing_evaluate c) inputs) \<longleftrightarrow> list_all input_ok inputs \<and> distinct (map si_symbol inputs)
      \<and> list_all (\<lambda>x. returns (swing_evaluate c (si_bars x) (si_indicators x))) inputs)
   \<and> (\<forall>candidates. scan (swing_evaluate c) inputs = Inr candidates \<longrightarrow>
      (\<exists>rs. mapE (scan_evaluate (swing_evaluate c)) inputs = Inr rs \<and> candidates = filter sr_passed rs
        \<and> map sr_symbol rs = map si_symbol inputs \<and> distinct (map sr_symbol candidates)))"
  using swing.scan_returns [of c inputs] swing.scan_results [of c inputs] by blast

definition empty_snapshot :: IndicatorSnapshot where
  "empty_snapshot = \<lparr>sma5 = None, sma20 = None, sma60 = None, sma120 = None, ema20 = None, atr14 = None,
     avg_volume20 = None, highest20 = None, lowest20 = None, highest60 = None, lowest60 = None\<rparr>"

lemma scan_swing_witness:
  "returns (scan (swing_evaluate default_config)
    [\<lparr>si_symbol = ''005930'', si_bars = [], si_indicators = empty_snapshot\<rparr>])"
proof -
  have "returns (swing_evaluate default_config [] empty_snapshot)"
    and "strip ''005930'' \<noteq> ''''" by code_simp+
  then show ?thesis
    using scan_swing [of default_config "[\<lparr>si_symbol = ''005930'', si_bars = [], si_indicators = empty_snapshot\<rparr>]"]
    by (simp add: input_ok_def)
qed

lemma compare_rule_fst: "fst (compare_rule rule l r f) \<longleftrightarrow> (\<exists>x y. l = Some x \<and> r = Some y \<and> f x y)"
  by (auto simp: compare_rule_def split: option.splits)

text \<open>
  The breakout strategy always returns. It passes a symbol exactly when there are at least 21
  bars, the latest close is at or above every high of the 20 bars before it and above the 20-day
  average, that average is above the 60-day one, and the latest volume is above its 20-day average;
  each of the four rules leaves one reason.
\<close>

theorem breakout_passes_iff:
  "\<exists>r. breakout_evaluate bars i = Inr r \<and> length (sr_reasons r) = 4
    \<and> (sr_passed r \<longleftrightarrow> 21 \<le> length bars
        \<and> list_all (\<lambda>b. mk_high b \<le> mk_close (last bars)) (prior_n 20 bars)
        \<and> (\<exists>s20 s60 v20. sma20 i = Some s20 \<and> sma60 i = Some s60 \<and> avg_volume20 i = Some v20
             \<and> s60 < s20 \<and> s20 < mk_close (last bars) \<and> v20 < of_int (mk_volume (last bars))))"
proof -
  have top: "max_of (map mk_high (prior_n 20 bars)) \<le> x
      \<longleftrightarrow> list_all (\<lambda>b. mk_high b \<le> x) (prior_n 20 bars)" if "21 \<le> length bars" for x
  proof -
    have "length (prior_n 20 bars) = 20" using that by simp
    then have "map mk_high (prior_n 20 bars) \<noteq> []" by (metis length_map list.size(3) zero_neq_numeral)
    then show ?thesis by (simp add: max_of_le_iff list_all_iff del: map_is_Nil_conv)
  qed
  obtain r where r: "breakout_evaluate bars i = Inr r" by (simp add: breakout_evaluate_def Let_def)
  have "length (sr_reasons r) = 4" using r by (auto simp: breakout_evaluate_def Let_def)
  moreover have "sr_passed r \<longleftrightarrow> 21 \<le> length bars
        \<and> list_all (\<lambda>b. mk_high b \<le> mk_close (last bars)) (prior_n 20 bars)
        \<and> (\<exists>s20 s60 v20. sma20 i = Some s20 \<and> sma60 i = Some s60 \<and> avg_volume20 i = Some v20
             \<and> s60 < s20 \<and> s20 < mk_close (last bars) \<and> v20 < of_int (mk_volume (last bars)))"
  proof (cases "21 \<le> length bars")
    case True
    then have "bars \<noteq> []" by auto
    then have "sr_passed r \<longleftrightarrow> (\<exists>s20 s60. sma20 i = Some s20 \<and> sma60 i = Some s60 \<and> s60 < s20)
        \<and> (\<exists>s20. sma20 i = Some s20 \<and> s20 < mk_close (last bars))
        \<and> list_all (\<lambda>b. mk_high b \<le> mk_close (last bars)) (prior_n 20 bars)
        \<and> (\<exists>v20. avg_volume20 i = Some v20 \<and> v20 < of_int (mk_volume (last bars)))"
      using r True unfolding top [OF True, symmetric]
      by (simp only: breakout_evaluate_def Let_def sum.inject if_False if_True)
        (drule sym, simp add: compare_rule_fst)
    then show ?thesis using True by (auto simp del: length_prior_n)
  next
    case False
    then show ?thesis using r by (auto simp: breakout_evaluate_def Let_def compare_rule_fst)
  qed
  ultimately show ?thesis using r by blast
qed

end
