(* ===== verification/Ranking.thy ===== *)
theory Ranking
  imports Scanning Canonical_Order
begin

text \<open>
  Candidate ranking, \<open>ranking/models.py\<close> and \<open>ranking/ranker.py\<close>: the ranked candidate with its
  validator, the ranker of the breakout strategy with its four explained components, and the swing
  ranker with its total order. What both rankers share is a locale over the scoring function and the
  sort key, interpreted for each of them.
\<close>

section \<open>Ranked candidates\<close>

record RankedCandidate =
  rc_symbol :: string
  rc_rank :: nat
  rc_total_score :: decimal
  rc_component_scores :: metric_dict
  rc_source_result :: ScreeningResult
  rc_warnings :: "string list"

text \<open>\<open>repr\<close> of a string without quotes or escapes in it.\<close>

definition quoted :: "string \<Rightarrow> string" where
  "quoted s = CHR 0x27 # s @ [CHR 0x27]"

definition validate_components :: "metric_dict \<Rightarrow> unit res" where
  "validate_components cs = (case filter (\<lambda>(k, s). \<not> (0 \<le> s \<and> s \<le> 100)) cs of
     [] \<Rightarrow> Inr ()
   | (k, s) # _ \<Rightarrow> Inl (ValueError (''component score '' @ quoted k @ '' must be between 0 and 100'')))"

definition validate_ranked :: "RankedCandidate \<Rightarrow> RankedCandidate res" where
  "validate_ranked c =
    bindE (assertE (1 \<le> rc_rank c) (ValueError ''rank should be greater than or equal to 1'')) (\<lambda>_.
    bindE (assertE (0 \<le> rc_total_score c \<and> rc_total_score c \<le> 100) (ValueError ''total_score out of bounds'')) (\<lambda>_.
    bindE (validate_components (rc_component_scores c)) (\<lambda>_. Inr c)))"

primrec validate_results :: "string list \<Rightarrow> ScreeningResult list \<Rightarrow> unit res" where
  "validate_results seen [] = Inr ()"
| "validate_results seen (r # rs) =
    bindE (assertE (sr_passed r) (ValueError (''screening result for '' @ quoted (sr_symbol r) @ '' did not pass''))) (\<lambda>_.
    bindE (assertE (strip (sr_symbol r) \<noteq> '''') (ValueError ''screening result symbol must not be blank'')) (\<lambda>_.
    bindE (assertE (sr_symbol r \<notin> set seen) (ValueError (''duplicate symbol: '' @ sr_symbol r))) (\<lambda>_.
    validate_results (sr_symbol r # seen) rs)))"

text \<open>\<open>[candidate.model_copy(update={"rank": rank}) for rank, candidate in enumerate(scored, 1)]\<close>\<close>

definition assign_ranks :: "RankedCandidate list \<Rightarrow> RankedCandidate list" where
  "assign_ranks cs = map (\<lambda>(k, c). c\<lparr>rc_rank := k\<rparr>) (zip [1..<length cs + 1] cs)"

section \<open>The breakout ranker\<close>

type_synonym explained = "decimal \<times> string list"

definition warn :: "string list \<Rightarrow> string \<Rightarrow> string list" where
  "warn ws w = (if w \<in> set ws then ws else ws @ [w])"

definition rank_metric :: "metric_dict \<Rightarrow> string \<Rightarrow> string \<Rightarrow> string list \<Rightarrow> decimal option \<times> string list" where
  "rank_metric ms name component ws = (case map_of ms name of
     None \<Rightarrow> (None, warn ws (component @ '' score unavailable: missing '' @ name))
   | Some v \<Rightarrow> (Some v, ws))"

definition score_trend :: "metric_dict \<Rightarrow> string list \<Rightarrow> explained" where
  "score_trend ms ws = (let (a, ws) = rank_metric ms ''sma20'' ''trend'' ws;
       (b, ws) = rank_metric ms ''sma60'' ''trend'' ws in
     case (a, b) of
       (Some s20, Some s60) \<Rightarrow>
         if s60 \<le> 0 then (quantize_score 0, warn ws ''trend score unavailable: sma60 must be greater than zero'')
         else (linear_score (dquot (dsub s20 s60) s60) 0 (20 / 100), ws)
     | _ \<Rightarrow> (quantize_score 0, ws))"

definition score_breakout :: "metric_dict \<Rightarrow> string list \<Rightarrow> explained" where
  "score_breakout ms ws = (let (a, ws) = rank_metric ms ''close'' ''breakout'' ws;
       (b, ws) = rank_metric ms ''previous_high20'' ''breakout'' ws in
     case (a, b) of
       (Some close, Some hi) \<Rightarrow>
         if hi \<le> 0 then (quantize_score 0, warn ws ''breakout score unavailable: previous_high20 must be greater than zero'')
         else (linear_score (dquot (dsub close hi) hi) 0 (10 / 100), ws)
     | _ \<Rightarrow> (quantize_score 0, ws))"

definition score_volume :: "metric_dict \<Rightarrow> string list \<Rightarrow> explained" where
  "score_volume ms ws = (let (a, ws) = rank_metric ms ''volume'' ''volume'' ws;
       (b, ws) = rank_metric ms ''avg_volume20'' ''volume'' ws in
     case (a, b) of
       (Some volume, Some average) \<Rightarrow>
         if volume < 0 then (quantize_score 0, warn ws ''volume score unavailable: volume must be non-negative'')
         else if average \<le> 0 then (quantize_score 0, warn ws ''volume score unavailable: avg_volume20 must be greater than zero'')
         else (linear_score (dquot volume average) 1 3, ws)
     | _ \<Rightarrow> (quantize_score 0, ws))"

definition volatility_score :: "decimal \<Rightarrow> decimal" where
  "volatility_score ratio =
    (if ratio \<le> 1 / 100 \<or> 12 / 100 \<le> ratio then quantize_score 0
     else if ratio < 3 / 100 then linear_score ratio (1 / 100) (3 / 100)
     else if ratio \<le> 6 / 100 then quantize_score 100
     else quantize_score (dmul (dquot (dsub (12 / 100) ratio) (dsub (12 / 100) (6 / 100))) 100))"

definition score_volatility :: "metric_dict \<Rightarrow> string list \<Rightarrow> explained" where
  "score_volatility ms ws = (let (a, ws) = rank_metric ms ''atr14'' ''volatility'' ws;
       (b, ws) = rank_metric ms ''close'' ''volatility'' ws in
     case (a, b) of
       (Some atr, Some close) \<Rightarrow>
         if close \<le> 0 then (quantize_score 0, warn ws ''volatility score unavailable: close must be greater than zero'')
         else if atr < 0 then (quantize_score 0, warn ws ''volatility score unavailable: atr14 must be non-negative'')
         else (volatility_score (dquot atr close), ws)
     | _ \<Rightarrow> (quantize_score 0, ws))"

definition score_candidate :: "ScreeningResult \<Rightarrow> RankedCandidate res" where
  "score_candidate r = (let ms = sr_metrics r;
       (t, ws) = score_trend ms []; (b, ws) = score_breakout ms ws;
       (v, ws) = score_volume ms ws; (l, ws) = score_volatility ms ws
     in validate_ranked \<lparr>rc_symbol = sr_symbol r, rc_rank = 1,
          rc_total_score = quantize_score (weighted [(t, 30 / 100), (b, 30 / 100), (v, 25 / 100), (l, 15 / 100)]),
          rc_component_scores = [(''trend'', t), (''breakout'', b), (''volume'', v), (''volatility'', l)],
          rc_source_result = r, rc_warnings = ws\<rparr>)"

text \<open>\<open>scored.sort(key=total_score, reverse=True)\<close>, a stable sort by falling score.\<close>

definition rank_candidates :: "ScreeningResult list \<Rightarrow> RankedCandidate list res" where
  "rank_candidates results = bindE (validate_results [] results) (\<lambda>_.
     bindE (mapE score_candidate results) (\<lambda>scored.
     Inr (assign_ranks (sort_key (\<lambda>c. - rc_total_score c) scored))))"

section \<open>The swing ranker\<close>

definition setup_scores_of :: "ScreeningResult \<Rightarrow> decimal list res" where
  "setup_scores_of r = mapE (\<lambda>name. case map_of (sr_setup_scores r) name of
     None \<Rightarrow> Inl (KeyError name) | Some s \<Rightarrow> Inr s) (sr_matched_setups r)"

definition swing_volatility :: "decimal \<Rightarrow> decimal" where
  "swing_volatility atr =
    (if atr \<le> 1 / 100 \<or> 12 / 100 \<le> atr then 0
     else if atr < 3 / 100 then linear_score atr (1 / 100) (3 / 100)
     else if atr \<le> 6 / 100 then 100
     else quantize_score (dmul (dquot (dsub (12 / 100) atr) (6 / 100)) 100))"

definition score_swing :: "SwingConfig \<Rightarrow> ScreeningResult \<Rightarrow> RankedCandidate res" where
  "score_swing c r = (let ms = sr_metrics r; s20 = dict_getd ms ''sma20'' 0; s60 = dict_getd ms ''sma60'' 0;
       trend = linear_score (if 0 < s60 then dquot (dsub s20 s60) s60 else 0) 0 (20 / 100)
     in bindE (setup_scores_of r) (\<lambda>ss.
     let setup = (if ss = [] then 0 else max_of ss);
         traded = dict_getd ms ''average_trading_value_20'' 0;
         threshold = minimum_average_trading_value_20 c;
         liquidity = linear_score (if 0 < threshold then dquot traded threshold else 0) 1 5;
         volatility = swing_volatility (dict_getd ms ''atr_pct'' 0)
     in validate_ranked \<lparr>rc_symbol = sr_symbol r, rc_rank = 1,
          rc_total_score = quantize_score
            (weighted [(trend, 25 / 100), (setup, 45 / 100), (liquidity, 15 / 100), (volatility, 15 / 100)]),
          rc_component_scores = [(''trend'', trend), (''setup'', setup), (''liquidity'', liquidity),
            (''volatility'', volatility)],
          rc_source_result = r, rc_warnings = sr_warnings r\<rparr>))"

text \<open>\<open>candidate.source_result.primary_setup or SETUP_ORDER[-1]\<close>\<close>

definition primary_of :: "RankedCandidate \<Rightarrow> string" where
  "primary_of c = (case sr_primary_setup (rc_source_result c) of
     None \<Rightarrow> last SETUP_ORDER | Some p \<Rightarrow> if p = '''' then last SETUP_ORDER else p)"

definition swing_key :: "RankedCandidate \<Rightarrow> decimal \<times> decimal \<times> nat \<times> string" where
  "swing_key c = (- rc_total_score c, - dict_getd (rc_component_scores c) ''setup'' 0,
     index_of (primary_of c) SETUP_ORDER, rc_symbol c)"

text \<open>\<open>SETUP_ORDER.index\<close> raises for a name that is not there, while the keys are computed.\<close>

definition check_primary :: "RankedCandidate \<Rightarrow> unit res" where
  "check_primary c = assertE (primary_of c \<in> set SETUP_ORDER) (ValueError ''tuple.index(x): x not in tuple'')"

definition rank_swing :: "SwingConfig \<Rightarrow> ScreeningResult list \<Rightarrow> RankedCandidate list res" where
  "rank_swing c results = bindE (validate_results [] results) (\<lambda>_.
     bindE (mapE (score_swing c) results) (\<lambda>scored.
     bindE (mapE check_primary scored) (\<lambda>_.
     Inr (assign_ranks (sort_key swing_key scored)))))"

end
