(* ===== verification/Ranking_Props.thy ===== *)
theory Ranking_Props
  imports Ranking
begin

text \<open>
  What the two rankers promise: the contract they share as a locale, interpreted for both, and the
  properties of each: explained scores within bounds, ranks one to n, stability of the breakout
  ranker and independence of the input order of the swing ranker.
\<close>

section \<open>Candidates\<close>

definition candidate_ok :: "RankedCandidate \<Rightarrow> bool" where
  "candidate_ok c \<longleftrightarrow> rc_symbol c = sr_symbol (rc_source_result c) \<and> score_ok (rc_total_score c)
     \<and> list_all (\<lambda>(k, s). 0 \<le> s \<and> s \<le> 100) (rc_component_scores c)"

lemma validate_components_iff: "validate_components cs = Inr u \<longleftrightarrow> list_all (\<lambda>(k, s). 0 \<le> s \<and> s \<le> 100) cs"
  by (induction cs) (auto simp: validate_components_def split: if_splits)

lemma validate_ranked_iff: "validate_ranked c = Inr c' \<longleftrightarrow> c' = c \<and> 1 \<le> rc_rank c \<and> 0 \<le> rc_total_score c
    \<and> rc_total_score c \<le> 100 \<and> list_all (\<lambda>(k, s). 0 \<le> s \<and> s \<le> 100) (rc_component_scores c)"
  by (auto simp: validate_ranked_def bindE_eq_Inr validate_components_iff)

lemma validate_results_iff: "validate_results seen rs = Inr u \<longleftrightarrow>
    list_all (\<lambda>r. sr_passed r \<and> strip (sr_symbol r) \<noteq> '''') rs \<and> distinct (map sr_symbol rs)
    \<and> set (map sr_symbol rs) \<inter> set seen = {}"
  by (induction rs arbitrary: seen) (auto simp: bindE_eq_Inr)

lemma assign_ranks_simps:
  "length (assign_ranks cs) = length cs" "map rc_rank (assign_ranks cs) = [1..<length cs + 1]"
  "k < length cs \<Longrightarrow> assign_ranks cs ! k = (cs ! k)\<lparr>rc_rank := k + 1\<rparr>"
  by (auto simp: assign_ranks_def intro!: nth_equalityI simp del: upt_Suc)

lemma map_assign_ranks:
  assumes "\<And>c k. f (c\<lparr>rc_rank := k\<rparr>) = f c"
  shows "map f (assign_ranks cs) = map f cs"
  by (rule nth_equalityI) (simp_all add: assign_ranks_simps assms)

section \<open>The contract of a ranker\<close>

locale ranker =
  fixes score :: "ScreeningResult \<Rightarrow> RankedCandidate res" and key :: "RankedCandidate \<Rightarrow> 'k :: linorder"
  assumes score_ok: "score r = Inr c \<Longrightarrow> candidate_ok c \<and> rc_source_result c = r"
    and key_total: "key a \<le> key b \<Longrightarrow> rc_total_score b \<le> rc_total_score a"
begin

lemma scored:
  assumes "mapE score results = Inr cs"
  shows "map rc_source_result cs = results" "list_all candidate_ok cs"
  using assms by (induction results arbitrary: cs) (auto simp: bindE_eq_Inr score_ok)

lemma ranked:
  assumes "mapE score results = Inr cs" and "out = assign_ranks (sort_key key cs)"
  shows "map rc_rank out = [1..<length results + 1]" "mset (map rc_source_result out) = mset results"
    "list_all candidate_ok out" "sorted_wrt (\<lambda>a b. rc_total_score b \<le> rc_total_score a) out"
proof -
  note s = scored [OF assms(1)]
  have l: "length cs = length results" using mapE_length [OF assms(1)] .
  show "map rc_rank out = [1..<length results + 1]" by (simp add: assms(2) assign_ranks_simps l del: upt_Suc)
  have "map rc_source_result out = map rc_source_result (sort_key key cs)"
    unfolding assms(2) by (rule map_assign_ranks) simp
  then have "mset (map rc_source_result out) = mset (map rc_source_result cs)" by simp
  then show "mset (map rc_source_result out) = mset results" using s(1) by simp
  show "list_all candidate_ok out"
    unfolding list_all_length
  proof (intro allI impI)
    fix k
    assume k: "k < length out"
    then have "sort_key key cs ! k \<in> set cs" by (metis assms(2) assign_ranks_simps(1) nth_mem set_sort)
    then have "candidate_ok (sort_key key cs ! k)" using s(2) by (simp add: list_all_iff)
    then show "candidate_ok (out ! k)"
      using k by (simp add: assms(2) assign_ranks_simps candidate_ok_def)
  qed
  have "sorted_wrt (\<lambda>a b. key a \<le> key b) (sort_key key cs)"
    using sorted_sort_key [of key cs] by (simp add: sorted_map)
  then have "sorted_wrt (\<lambda>a b. rc_total_score b \<le> rc_total_score a) (sort_key key cs)"
    by (rule sorted_wrt_mono_rel [rotated]) (simp add: key_total)
  then show "sorted_wrt (\<lambda>a b. rc_total_score b \<le> rc_total_score a) out"
    by (simp add: sorted_wrt_iff_nth_less assms(2) assign_ranks_simps)
qed

end

section \<open>Scores\<close>

lemma score_ok_100: "score_ok 100"
  using scores_ok(4) [of 200 0 100] by (simp add: linear_score_def quantize_score_fixed)

lemma score_ok_zero: "score_ok 0"
  by (simp add: score_ok_def)

lemma explained_ok:
  "score_ok (fst (score_trend ms ws))" "score_ok (fst (score_breakout ms ws))"
  "score_ok (fst (score_volume ms ws))" "score_ok (fst (score_volatility ms ws))"
  by (simp_all add: score_trend_def score_breakout_def score_volume_def score_volatility_def
    volatility_score_def scores_ok(4) split: prod.split option.split)

lemma swing_volatility_ok: "score_ok (swing_volatility x)"
  by (simp add: swing_volatility_def score_ok_zero score_ok_100 scores_ok(4))

text \<open>The scored candidate of each ranker, spelled out.\<close>

lemma score_candidate_eq: "\<exists>c t b v l. score_candidate r = Inr c \<and> candidate_ok c \<and> rc_source_result c = r
    \<and> score_ok t \<and> score_ok b \<and> score_ok v \<and> score_ok l
    \<and> rc_component_scores c = [(''trend'', t), (''breakout'', b), (''volume'', v), (''volatility'', l)]
    \<and> rc_total_score c = quantize_score (weighted [(t, 30 / 100), (b, 30 / 100), (v, 25 / 100), (l, 15 / 100)])"
proof -
  obtain t w1 where 1: "score_trend (sr_metrics r) [] = (t, w1)" by fastforce
  obtain b w2 where 2: "score_breakout (sr_metrics r) w1 = (b, w2)" by fastforce
  obtain v w3 where 3: "score_volume (sr_metrics r) w2 = (v, w3)" by fastforce
  obtain l w4 where 4: "score_volatility (sr_metrics r) w3 = (l, w4)" by fastforce
  have ok: "score_ok t" "score_ok b" "score_ok v" "score_ok l"
    using explained_ok(1) [of "sr_metrics r" "[]"] explained_ok(2) [of "sr_metrics r" w1]
      explained_ok(3) [of "sr_metrics r" w2] explained_ok(4) [of "sr_metrics r" w3] 1 2 3 4 by simp_all
  define c where "c = \<lparr>rc_symbol = sr_symbol r, rc_rank = 1,
    rc_total_score = quantize_score (weighted [(t, 30 / 100), (b, 30 / 100), (v, 25 / 100), (l, 15 / 100)]),
    rc_component_scores = [(''trend'', t), (''breakout'', b), (''volume'', v), (''volatility'', l)],
    rc_source_result = r, rc_warnings = w4\<rparr>"
  have fields: "rc_symbol c = sr_symbol r" "rc_rank c = 1" "rc_source_result c = r"
    "rc_component_scores c = [(''trend'', t), (''breakout'', b), (''volume'', v), (''volatility'', l)]"
    "rc_total_score c = quantize_score (weighted [(t, 30 / 100), (b, 30 / 100), (v, 25 / 100), (l, 15 / 100)])"
    by (simp_all only: c_def RankedCandidate.simps)
  have "score_candidate r = validate_ranked c"
    by (simp only: score_candidate_def Let_def 1 2 3 4 prod.case c_def)
  moreover have tok: "score_ok (rc_total_score c)" unfolding fields by (rule quantize_score_ok)
  moreover have comps: "list_all (\<lambda>(k, s). 0 \<le> s \<and> s \<le> 100) (rc_component_scores c)"
    unfolding fields using ok by (simp add: score_ok_bounds)
  ultimately have "score_candidate r = Inr c"
    using score_ok_bounds [OF tok] by (simp add: validate_ranked_iff fields(2))
  moreover have "candidate_ok c" using tok comps by (simp add: candidate_ok_def fields(1,3))
  ultimately show ?thesis using ok fields(3-5) by blast
qed

lemma score_swing_Inr:
  assumes "score_swing cfg r = Inr c"
  shows "\<exists>t s q l ss. setup_scores_of r = Inr ss \<and> candidate_ok c \<and> rc_source_result c = r
    \<and> score_ok t \<and> s = (if ss = [] then 0 else max_of ss) \<and> 0 \<le> s \<and> s \<le> 100 \<and> score_ok q \<and> score_ok l
    \<and> rc_component_scores c = [(''trend'', t), (''setup'', s), (''liquidity'', q), (''volatility'', l)]
    \<and> rc_total_score c = quantize_score (weighted [(t, 25 / 100), (s, 45 / 100), (q, 15 / 100), (l, 15 / 100)])"
proof -
  obtain ss where ss: "setup_scores_of r = Inr ss"
    using assms by (auto simp: score_swing_def Let_def bindE_eq_Inr)
  define s where "s = (if ss = [] then 0 else max_of ss)"
  from assms ss obtain t q where t: "score_ok t" "score_ok q" and v: "validate_ranked \<lparr>rc_symbol = sr_symbol r,
      rc_rank = 1, rc_total_score = quantize_score (weighted [(t, 25 / 100), (s, 45 / 100), (q, 15 / 100),
        (swing_volatility (dict_getd (sr_metrics r) ''atr_pct'' 0), 15 / 100)]),
      rc_component_scores = [(''trend'', t), (''setup'', s), (''liquidity'', q),
        (''volatility'', swing_volatility (dict_getd (sr_metrics r) ''atr_pct'' 0))],
      rc_source_result = r, rc_warnings = sr_warnings r\<rparr> = Inr c"
    unfolding score_swing_def Let_def s_def [symmetric] by (auto simp: s_def intro: scores_ok(4) that)
  let ?l = "swing_volatility (dict_getd (sr_metrics r) ''atr_pct'' 0)"
  from v have "0 \<le> s" "s \<le> 100" "candidate_ok c" "rc_source_result c = r"
      "rc_component_scores c = [(''trend'', t), (''setup'', s), (''liquidity'', q), (''volatility'', ?l)]"
      "rc_total_score c = quantize_score (weighted [(t, 25 / 100), (s, 45 / 100), (q, 15 / 100), (?l, 15 / 100)])"
    by (auto simp: validate_ranked_iff candidate_ok_def)
  then show ?thesis using ss t s_def swing_volatility_ok by blast
qed

interpretation breakout_ranker: ranker score_candidate "\<lambda>c. - rc_total_score c"
proof
  fix r c
  assume "score_candidate r = Inr c"
  then show "candidate_ok c \<and> rc_source_result c = r" using score_candidate_eq [of r] by auto
qed simp

interpretation swing_ranker: ranker "score_swing cfg" swing_key for cfg
proof
  fix r c
  assume "score_swing cfg r = Inr c"
  then show "candidate_ok c \<and> rc_source_result c = r" using score_swing_Inr by blast
next
  fix a b
  assume "swing_key a \<le> swing_key b"
  then show "rc_total_score b \<le> rc_total_score a" by (auto simp: swing_key_def less_eq_prod_def)
qed

interpretation swing_order: canonical_order swing_key rc_symbol
  by unfold_locales (simp add: swing_key_def)

section \<open>Properties\<close>

lemma map_filter_assign_ranks:
  assumes "\<And>c k. f (c\<lparr>rc_rank := k\<rparr>) = f c" and "\<And>c k. P (c\<lparr>rc_rank := k\<rparr>) = P c"
  shows "map f (filter P (assign_ranks cs)) = map f (filter P cs)"
proof -
  have "map f (filter P (map (\<lambda>(k, c). c\<lparr>rc_rank := k\<rparr>) (zip ks cs))) = map f (filter P cs)"
    if "length ks = length cs" for ks
    using that by (induction ks cs rule: list_induct2) (simp_all add: assms)
  then show ?thesis by (simp add: assign_ranks_def del: upt_Suc)
qed

lemma filter_of_mapE:
  assumes "mapE f xs = Inr ys" and "\<And>x y. f x = Inr y \<Longrightarrow> g y = x"
  shows "map g (filter P ys) = filter (\<lambda>x. \<exists>y. f x = Inr y \<and> P y) xs"
  using assms(1) by (induction xs arbitrary: ys) (auto simp: bindE_eq_Inr assms(2))

lemma score_candidate_returns: "returns (score_candidate r)"
  using score_candidate_eq [of r] by (auto simp: returns_iff)

text \<open>
  The breakout ranker returns exactly for passing results under distinct nonblank symbols. Its
  output has the ranks one to n, is a permutation of the input by falling total score, with bounded
  scores, and candidates of equal score keep the order of the input.
\<close>

theorem rank_candidates_correct:
  "(returns (rank_candidates results) \<longleftrightarrow>
      list_all (\<lambda>r. sr_passed r \<and> strip (sr_symbol r) \<noteq> '''') results \<and> distinct (map sr_symbol results))
   \<and> (\<forall>cs. rank_candidates results = Inr cs \<longrightarrow>
        map rc_rank cs = [1..<length results + 1] \<and> mset (map rc_source_result cs) = mset results
        \<and> list_all candidate_ok cs \<and> sorted_wrt (\<lambda>a b. rc_total_score b \<le> rc_total_score a) cs
        \<and> (\<forall>t. map rc_source_result (filter (\<lambda>c. rc_total_score c = t) cs)
             = filter (\<lambda>r. \<exists>c. score_candidate r = Inr c \<and> rc_total_score c = t) results))"
proof (intro conjI allI impI)
  have "returns (mapE score_candidate results)"
    by (simp add: mapE_returns list_all_iff score_candidate_returns)
  then have m: "returns (mapE score_candidate results) = True" by simp
  have "returns (rank_candidates results) \<longleftrightarrow> returns (validate_results [] results)"
    unfolding rank_candidates_def by (simp only: returns_bindE returns_simps m simp_thms)
  then show "returns (rank_candidates results) \<longleftrightarrow>
      list_all (\<lambda>r. sr_passed r \<and> strip (sr_symbol r) \<noteq> '''') results \<and> distinct (map sr_symbol results)"
    by (simp add: returns_iff [of "validate_results [] results"] validate_results_iff)
next
  fix cs
  assume "rank_candidates results = Inr cs"
  then obtain scored where s: "mapE score_candidate results = Inr scored"
    and cs: "cs = assign_ranks (sort_key (\<lambda>c. - rc_total_score c) scored)"
    by (auto simp: rank_candidates_def bindE_eq_Inr)
  note r = breakout_ranker.ranked [OF s cs]
  show "map rc_rank cs = [1..<length results + 1]" "mset (map rc_source_result cs) = mset results"
    "list_all candidate_ok cs" "sorted_wrt (\<lambda>a b. rc_total_score b \<le> rc_total_score a) cs"
    by (fact r)+
  show "map rc_source_result (filter (\<lambda>c. rc_total_score c = t) cs)
      = filter (\<lambda>r. \<exists>c. score_candidate r = Inr c \<and> rc_total_score c = t) results" for t
  proof -
    have "map rc_source_result (filter (\<lambda>c. rc_total_score c = t) cs)
        = map rc_source_result (filter (\<lambda>c. - rc_total_score c = - t) (sort_key (\<lambda>c. - rc_total_score c) scored))"
      unfolding cs by (simp add: map_filter_assign_ranks)
    also have "\<dots> = map rc_source_result (filter (\<lambda>c. - rc_total_score c = - t) scored)"
      by (simp only: sort_key_stable)
    also have "\<dots> = filter (\<lambda>r. \<exists>c. score_candidate r = Inr c \<and> - rc_total_score c = - t) results"
      using breakout_ranker.score_ok by (intro filter_of_mapE [OF s]) blast
    finally show ?thesis by simp
  qed
qed

definition passing :: "string \<Rightarrow> metric_dict \<Rightarrow> ScreeningResult" where
  "passing s ms = \<lparr>sr_symbol = s, sr_passed = True, sr_reasons = [], sr_warnings = [], sr_metrics = ms,
     sr_matched_setups = [''box_breakout''], sr_primary_setup = Some ''box_breakout'',
     sr_setup_scores = [(''box_breakout'', 80)], sr_setup_metrics = [], sr_rule_evaluations = [],
     sr_screener_name = None, sr_screener_version = None, sr_configuration_snapshot = []\<rparr>"

lemma rank_candidates_correct_witness:
  "returns (rank_candidates [passing ''B'' [], passing ''A'' []])
    \<and> map rc_rank (value_of (rank_candidates [passing ''B'' [], passing ''A'' []])) = [1, 2]"
proof -
  let ?rs = "[passing ''B'' [], passing ''A'' []]"
  have s: "strip ''A'' \<noteq> ''''" "strip ''B'' \<noteq> ''''" by code_simp+
  then have "returns (rank_candidates ?rs)"
    using rank_candidates_correct [of ?rs] by (simp add: passing_def)
  moreover from this obtain cs where cs: "rank_candidates ?rs = Inr cs" by (auto simp: returns_iff)
  then have "map rc_rank cs = [1..<length ?rs + 1]" using rank_candidates_correct [of ?rs] by blast
  then have "map rc_rank cs = [1, 2]" by (simp add: upt_rec)
  ultimately show ?thesis using cs by (simp add: value_of_def)
qed

lemma mapE_mset:
  assumes "mapE f xs = Inr ys" and "mset xs' = mset xs"
  shows "\<exists>ys'. mapE f xs' = Inr ys' \<and> mset ys' = mset ys"
proof -
  have "set xs' = set xs" using assms(2) by (rule mset_eq_setD)
  then have "mapE f xs' = Inr (map (\<lambda>x. value_of (f x)) xs')"
    using assms(1) by (simp add: mapE_iff list_all_iff)
  moreover have "ys = map (\<lambda>x. value_of (f x)) xs" using assms(1) by (simp add: mapE_iff)
  ultimately show ?thesis using assms(2) by simp
qed

text \<open>
  C8. The swing ranker does not depend on the order of its input: a permutation of the screening
  results yields the same candidates under the same ranks.
\<close>

theorem rank_swing_canonical:
  assumes "rank_swing cfg results = Inr cs" and "mset results' = mset results"
  shows "rank_swing cfg results' = Inr cs"
proof -
  from assms(1) obtain scored us where v: "validate_results [] results = Inr ()"
    and s: "mapE (score_swing cfg) results = Inr scored" and p: "mapE check_primary scored = Inr us"
    and cs: "cs = assign_ranks (sort_key swing_key scored)"
    by (auto simp: rank_swing_def bindE_eq_Inr)
  have st: "set results' = set results" using assms(2) by (rule mset_eq_setD)
  have "mset (map sr_symbol results') = mset (map sr_symbol results)" using assms(2) by simp
  then have "distinct (map sr_symbol results') \<longleftrightarrow> distinct (map sr_symbol results)"
    by (rule mset_eq_imp_distinct_iff)
  then have v': "validate_results [] results' = Inr ()"
    using v st by (simp add: validate_results_iff list_all_iff)
  obtain scored' where s': "mapE (score_swing cfg) results' = Inr scored'" "mset scored' = mset scored"
    using mapE_mset [OF s assms(2)] by blast
  obtain us' where p': "mapE check_primary scored' = Inr us'" using mapE_mset [OF p s'(2)] by blast
  have "map rc_symbol scored = map sr_symbol results"
    using swing_ranker.scored [OF s] by (auto simp: list_all_iff candidate_ok_def intro: map_cong)
  then have "distinct (map rc_symbol scored)" using v by (simp add: validate_results_iff)
  then have "sort_key swing_key scored = sort_key swing_key scored'"
    using s'(2) by (intro swing_order.sort_mset) simp_all
  then show ?thesis by (simp add: rank_swing_def v' s'(1) p' cs)
qed

lemma swing_example: "\<exists>cs. rank_swing default_config [passing ''B'' [], passing ''A'' []] = Inr cs"
proof -
  have "returns (rank_swing default_config [passing ''B'' [], passing ''A'' []])" by code_simp
  then show ?thesis by (simp add: returns_iff)
qed

lemma rank_swing_canonical_witness:
  "returns (rank_swing default_config [passing ''B'' [], passing ''A'' []])
    \<and> rank_swing default_config [passing ''A'' [], passing ''B'' []]
      = rank_swing default_config [passing ''B'' [], passing ''A'' []]"
proof -
  obtain cs where cs: "rank_swing default_config [passing ''B'' [], passing ''A'' []] = Inr cs"
    using swing_example by blast
  have "rank_swing default_config [passing ''A'' [], passing ''B'' []] = Inr cs"
    by (rule rank_swing_canonical [OF cs]) simp
  then show ?thesis using cs by simp
qed

text \<open>
  A successful swing ranking has the ranks one to n, contains each result once, and is strictly
  sorted: by falling total score, then falling best setup score, then the order of the setups, then
  the symbol.
\<close>

theorem rank_swing_sorted:
  assumes "rank_swing cfg results = Inr cs"
  shows "map rc_rank cs = [1..<length results + 1] \<and> mset (map rc_source_result cs) = mset results
    \<and> list_all candidate_ok cs \<and> sorted_wrt (\<lambda>a b. swing_key a < swing_key b) cs"
proof -
  from assms obtain scored where v: "validate_results [] results = Inr ()"
    and s: "mapE (score_swing cfg) results = Inr scored" and cs: "cs = assign_ranks (sort_key swing_key scored)"
    by (auto simp: rank_swing_def bindE_eq_Inr)
  have "map rc_symbol scored = map sr_symbol results"
    using swing_ranker.scored [OF s] by (auto simp: list_all_iff candidate_ok_def intro: map_cong)
  then have "sorted_wrt (\<lambda>a b. swing_key a < swing_key b) (sort_key swing_key scored)"
    using v by (intro swing_order.sort_strict) (simp add: validate_results_iff)
  then have "sorted_wrt (\<lambda>a b. swing_key a < swing_key b) cs"
    by (simp add: sorted_wrt_iff_nth_less cs assign_ranks_simps swing_key_def primary_of_def)
  then show ?thesis using swing_ranker.ranked [OF s cs] by simp
qed

lemma rank_swing_sorted_witness:
  "\<exists>cs. rank_swing default_config [passing ''B'' [], passing ''A'' []] = Inr cs \<and> map rc_rank cs = [1, 2]"
proof -
  obtain cs where cs: "rank_swing default_config [passing ''B'' [], passing ''A'' []] = Inr cs"
    using swing_example by blast
  have "map rc_rank cs = [1..<length [passing ''B'' [], passing ''A'' []] + 1]"
    using rank_swing_sorted [OF cs] by blast
  then show ?thesis using cs by (simp add: upt_rec)
qed

text \<open>
  The total score of the breakout ranker is a mean of its four components: every screening result
  is scored, and the rounded total lies between the least and the greatest component.
\<close>

theorem score_candidate_mean:
  "\<exists>c. score_candidate r = Inr c \<and> map fst (rc_component_scores c) = [''trend'', ''breakout'', ''volume'', ''volatility'']
    \<and> list_all (\<lambda>(k, s). score_ok s) (rc_component_scores c)
    \<and> min_of (map snd (rc_component_scores c)) \<le> rc_total_score c
    \<and> rc_total_score c \<le> max_of (map snd (rc_component_scores c))"
proof -
  obtain c t b v l where c: "score_candidate r = Inr c" and ok: "score_ok t" "score_ok b" "score_ok v" "score_ok l"
    and comps: "rc_component_scores c = [(''trend'', t), (''breakout'', b), (''volume'', v), (''volatility'', l)]"
    and tot: "rc_total_score c = quantize_score (weighted [(t, 30 / 100), (b, 30 / 100), (v, 25 / 100), (l, 15 / 100)])"
    using score_candidate_eq [of r] by blast
  let ?xs = "[t, b, v, l]"
  have w: "on_grid 2 (30 / 100)" "on_grid 2 (25 / 100)" "on_grid 2 (15 / 100)"
    by (simp_all add: on_grid_def)
  have "min_of ?xs \<le> quantize_score (weighted [(t, 30 / 100), (b, 30 / 100), (v, 25 / 100), (l, 15 / 100)])
    \<and> quantize_score (weighted [(t, 30 / 100), (b, 30 / 100), (v, 25 / 100), (l, 15 / 100)]) \<le> max_of ?xs"
  proof (rule weighted_mean)
    show "list_all weight_ok [(t, 30 / 100), (b, 30 / 100), (v, 25 / 100), (l, 15 / 100)]"
      using ok w by (simp add: weight_ok_def score_ok_def)
    show "score_ok (min_of ?xs)" using min_of_in [of ?xs] ok by auto
    show "score_ok (max_of ?xs)" using max_of_in [of ?xs] ok by auto
  qed (auto intro: min_of_le max_of_ge)
  then show ?thesis using c ok by (auto simp: comps tot)
qed

end
