(* ===== verification/Market_Store.thy ===== *)
theory Market_Store
  imports Market_Domain
begin

text \<open>
  The market tables of \<open>infrastructure/models.py\<close> and the repositories of
  \<open>infrastructure/repositories.py\<close>: stocks, daily bars and synchronization jobs. A table is the list
  of its rows, at most one row per key; \<open>INSERT ... ON CONFLICT DO UPDATE\<close> replaces the row of the key
  or appends one (both callers pass rows of distinct keys, as the statement demands). A price column \<open>Numeric(20, 6)\<close> rounds what it is given to six digits; its capacity
  (14 integer digits) is not modelled, nor are the server-side creation and update times. The
  milliseconds of a duration are computed in floating point by the code and are given by a function.
\<close>

section \<open>Keyed tables\<close>

text \<open>The upsert of one row.\<close>

fun put_row :: "('r \<Rightarrow> 'k) \<Rightarrow> 'r \<Rightarrow> 'r list \<Rightarrow> 'r list" where
  "put_row key r [] = [r]"
| "put_row key r (q # qs) = (if key q = key r then r # qs else q # put_row key r qs)"

definition find_row :: "('r \<Rightarrow> 'k) \<Rightarrow> 'k \<Rightarrow> 'r list \<Rightarrow> 'r option" where
  "find_row key k rows = find (\<lambda>r. key r = k) rows"

definition put_rows :: "('r \<Rightarrow> 'k) \<Rightarrow> 'r list \<Rightarrow> 'r list \<Rightarrow> 'r list" where
  "put_rows key rs table = fold (put_row key) rs table"

section \<open>Rows\<close>

record Stock =
  st_symbol :: string
  st_name :: string
  st_market :: string
  st_exchange :: "string option"
  st_currency :: string
  st_country :: string
  st_security_type :: "string option"
  st_listing_status :: "string option"
  st_is_active :: bool

record BarRow =
  br_symbol :: string
  br_date :: date
  br_open :: decimal
  br_high :: decimal
  br_low :: decimal
  br_close :: decimal
  br_volume :: int
  br_source :: string
  br_provider_timestamp :: "datetime option"

record SyncJob =
  job_name :: string
  job_enabled :: bool
  job_last_success_at :: "datetime option"
  job_last_failure_at :: "datetime option"
  job_last_cursor :: "string option"

record SyncJobRun =
  run_id :: nat
  run_job :: string
  run_started_at :: datetime
  run_finished_at :: "datetime option"
  run_duration_ms :: "int option"
  run_status :: string
  run_inserted :: nat
  run_updated :: nat
  run_skipped :: nat
  run_error :: "string option"

record UpsertResult =
  up_inserted :: nat
  up_updated :: nat
  up_skipped :: nat

record market_db =
  mdb_stocks :: "Stock list"
  mdb_bars :: "BarRow list"
  mdb_jobs :: "SyncJob list"
  mdb_runs :: "SyncJobRun list"

definition no_rows :: UpsertResult where
  "no_rows = \<lparr>up_inserted = 0, up_updated = 0, up_skipped = 0\<rparr>"

section \<open>Classification of an upsert\<close>

text \<open>
  The loop of both upserts: the rows are compared with the rows the table had before, counted, and
  kept unless they are unchanged.
\<close>

definition classify_row :: "('r \<Rightarrow> 'r option) \<Rightarrow> ('r \<Rightarrow> 'r \<Rightarrow> bool) \<Rightarrow> UpsertResult \<times> 'r list \<Rightarrow> 'r
    \<Rightarrow> UpsertResult \<times> 'r list" where
  "classify_row old same acc r = (case acc of (u, rows) \<Rightarrow> (case old r of
     None \<Rightarrow> (u\<lparr>up_inserted := up_inserted u + 1\<rparr>, rows @ [r])
   | Some q \<Rightarrow> if \<not> same q r then (u\<lparr>up_updated := up_updated u + 1\<rparr>, rows @ [r])
       else (u\<lparr>up_skipped := up_skipped u + 1\<rparr>, rows)))"

definition classify_rows :: "('r \<Rightarrow> 'r option) \<Rightarrow> ('r \<Rightarrow> 'r \<Rightarrow> bool) \<Rightarrow> 'r list \<Rightarrow> UpsertResult \<times> 'r list" where
  "classify_rows old same rs = foldl (classify_row old same) (no_rows, []) rs"

section \<open>Stocks\<close>

definition stock_row :: "InstrumentSnapshot \<Rightarrow> Stock" where
  "stock_row x = \<lparr>st_symbol = in_symbol x, st_name = in_name x, st_market = in_market x,
     st_exchange = in_exchange x, st_currency = in_currency x,
     st_country = (case in_country x of None \<Rightarrow> ''KR'' | Some s \<Rightarrow> if s = '''' then ''KR'' else s),
     st_security_type = in_security_type x, st_listing_status = in_listing_status x,
     st_is_active = (in_listing_status x \<notin> {Some ''delisted'', Some ''inactive''})\<rparr>"

definition active_stocks :: "Stock list \<Rightarrow> Stock list" where
  "active_stocks stocks = sort_key st_symbol (filter st_is_active stocks)"

definition upsert_stocks :: "InstrumentSnapshot list \<Rightarrow> Stock list \<Rightarrow> Stock list \<times> UpsertResult" where
  "upsert_stocks items stocks =
    (if items = [] then (stocks, no_rows)
     else let (u, rows) = classify_rows (\<lambda>r. find_row st_symbol (st_symbol r) stocks) (=) (map stock_row items)
       in (put_rows st_symbol rows stocks, u))"

section \<open>Daily bars\<close>

definition bar_key :: "BarRow \<Rightarrow> string \<times> date" where
  "bar_key r = (br_symbol r, br_date r)"

definition bar_row :: "MarketBar \<Rightarrow> BarRow" where
  "bar_row b = \<lparr>br_symbol = mk_symbol b, br_date = mk_date b, br_open = mk_open b, br_high = mk_high b,
     br_low = mk_low b, br_close = mk_close b, br_volume = mk_volume b, br_source = mk_source b,
     br_provider_timestamp = Some (mk_as_of b)\<rparr>"

text \<open>What the price columns keep of a row.\<close>

definition to_numeric6 :: "decimal \<Rightarrow> decimal" where
  "to_numeric6 x = of_int (half_up (x / (1 / 10 ^ 6))) * (1 / 10 ^ 6)"

definition stored_row :: "BarRow \<Rightarrow> BarRow" where
  "stored_row r = r\<lparr>br_open := to_numeric6 (br_open r), br_high := to_numeric6 (br_high r),
     br_low := to_numeric6 (br_low r), br_close := to_numeric6 (br_close r)\<rparr>"

definition latest_dates :: "string list \<Rightarrow> BarRow list \<Rightarrow> (string, date) dict" where
  "latest_dates symbols bars = concat (map (\<lambda>s. case filter (\<lambda>r. br_symbol r = s) bars of
     [] \<Rightarrow> [] | r # rs \<Rightarrow> [(s, foldl max (br_date r) (map br_date rs))]) (remdups symbols))"

definition upsert_bars :: "MarketBar list \<Rightarrow> Stock list \<Rightarrow> BarRow list \<Rightarrow> (BarRow list \<times> UpsertResult) res" where
  "upsert_bars items stocks bars =
    (if \<not> distinct (map (\<lambda>b. (mk_symbol b, mk_date b)) items) then Inl (ValueError ''duplicate trading dates in batch'')
     else if items = [] then Inr (bars, no_rows)
     else let (u, rows) = classify_rows (\<lambda>r. find_row bar_key (bar_key r) bars) (=) (map bar_row items) in
       if list_all (\<lambda>r. br_symbol r \<in> st_symbol ` set stocks) rows
       then Inr (put_rows bar_key (map stored_row rows) bars, u)
       else Inl (IntegrityError ''fk_daily_bars_symbol_stocks''))"

section \<open>Synchronization jobs\<close>

definition job_start :: "string \<Rightarrow> datetime \<Rightarrow> market_db \<Rightarrow> market_db \<times> SyncJobRun" where
  "job_start name now db =
    (let jobs = (case find_row job_name name (mdb_jobs db) of
           None \<Rightarrow> mdb_jobs db @ [\<lparr>job_name = name, job_enabled = True, job_last_success_at = None,
             job_last_failure_at = None, job_last_cursor = None\<rparr>]
         | Some _ \<Rightarrow> mdb_jobs db);
         run = \<lparr>run_id = foldl max 0 (map run_id (mdb_runs db)) + 1, run_job = name, run_started_at = now,
           run_finished_at = None, run_duration_ms = None, run_status = ''running'', run_inserted = 0,
           run_updated = 0, run_skipped = 0, run_error = None\<rparr>
     in (db\<lparr>mdb_jobs := jobs, mdb_runs := mdb_runs db @ [run]\<rparr>, run))"

text \<open>
  \<open>finish\<close>: an empty error text counts as no error; a missing job fails the assertion.
\<close>

definition is_error :: "string option \<Rightarrow> bool" where
  "is_error e = (e \<noteq> None \<and> e \<noteq> Some '''')"

definition finish_run :: "(int \<Rightarrow> int) \<Rightarrow> datetime \<Rightarrow> UpsertResult \<Rightarrow> string option \<Rightarrow> SyncJobRun \<Rightarrow> SyncJobRun" where
  "finish_run to_ms now u e r = r\<lparr>run_finished_at := Some now,
     run_duration_ms := Some (to_ms (now - run_started_at r)),
     run_status := (if is_error e then ''failed'' else ''succeeded''), run_error := e,
     run_inserted := up_inserted u, run_updated := up_updated u, run_skipped := up_skipped u\<rparr>"

definition finish_job :: "datetime \<Rightarrow> string option \<Rightarrow> SyncJob \<Rightarrow> SyncJob" where
  "finish_job now e j = (if is_error e then j\<lparr>job_last_failure_at := Some now\<rparr>
     else j\<lparr>job_last_success_at := Some now\<rparr>)"

definition job_finish :: "(int \<Rightarrow> int) \<Rightarrow> SyncJobRun \<Rightarrow> datetime \<Rightarrow> UpsertResult \<Rightarrow> string option \<Rightarrow> market_db \<Rightarrow> market_db res" where
  "job_finish to_ms r now u e db = (case find_row job_name (run_job r) (mdb_jobs db) of
     None \<Rightarrow> Inl (RuntimeError ''AssertionError'')
   | Some j \<Rightarrow> Inr (db\<lparr>mdb_runs := put_row run_id (finish_run to_ms now u e r) (mdb_runs db),
       mdb_jobs := put_row job_name (finish_job now e j) (mdb_jobs db)\<rparr>))"

definition job_status :: "market_db \<Rightarrow> SyncJob list" where
  "job_status db = sort_key job_name (mdb_jobs db)"

definition job_history :: "nat \<Rightarrow> market_db \<Rightarrow> SyncJobRun list" where
  "job_history limit db = take limit (sort_key (\<lambda>r. - run_started_at r) (mdb_runs db))"

end
