(* ===== verification/Market_Store_Props.thy ===== *)
theory Market_Store_Props
  imports Market_Store
begin

text \<open>
  The upserts refine the update of a map: a keyed table stands for the map from its keys to its rows.
  The laws are stated for a key and a storage function in a locale, interpreted for the stock and the
  bar table.
\<close>

section \<open>Classification\<close>

definition changed :: "('r \<Rightarrow> 'r option) \<Rightarrow> 'r \<Rightarrow> bool" where
  "changed old r = (case old r of None \<Rightarrow> True | Some q \<Rightarrow> q \<noteq> r)"

lemma classify_rows_eq: "classify_rows old (=) rs = (u, rows) \<Longrightarrow> rows = filter (changed old) rs
    \<and> up_inserted u = length (filter (\<lambda>r. old r = None) rs)
    \<and> up_inserted u + up_updated u + up_skipped u = length rs
    \<and> up_skipped u = length (filter (\<lambda>r. \<not> changed old r) rs)"
  unfolding classify_rows_def
proof (induction rs arbitrary: u rows rule: rev_induct)
  case Nil
  then show ?case by (auto simp: no_rows_def)
next
  case (snoc r rs)
  obtain u' rows' where p: "foldl (classify_row old (=)) (no_rows, []) rs = (u', rows')" by fastforce
  with snoc.IH have ih: "rows' = filter (changed old) rs \<and> up_inserted u' = length (filter (\<lambda>r. old r = None) rs)
    \<and> up_inserted u' + up_updated u' + up_skipped u' = length rs
    \<and> up_skipped u' = length (filter (\<lambda>r. \<not> changed old r) rs)" by simp
  have "classify_row old (=) (u', rows') r = (u, rows)" using snoc.prems p by simp
  then show ?case using ih unfolding classify_row_def changed_def
    by (cases "old r") (auto split: if_splits)
qed

section \<open>Keyed tables\<close>

locale keyed_table =
  fixes key :: "'r \<Rightarrow> 'k" and stored :: "'r \<Rightarrow> 'r"
  assumes key_stored: "key (stored r) = key r"
begin

lemma find_row_Cons: "find_row key k (r # rs) = (if key r = k then Some r else find_row key k rs)"
  by (simp add: find_row_def)

lemma find_row_Some: "find_row key k rs = Some r \<Longrightarrow> r \<in> set rs \<and> key r = k"
  by (induction rs) (auto simp: find_row_def split: if_splits)

lemma find_row_None: "find_row key k rs = None \<longleftrightarrow> k \<notin> key ` set rs"
  by (induction rs) (auto simp: find_row_def)

lemma find_row_distinct: "distinct (map key rs) \<Longrightarrow> r \<in> set rs \<Longrightarrow> find_row key (key r) rs = Some r"
  by (induction rs) (auto simp: find_row_def image_iff)

lemma find_put_row: "find_row key k (put_row key r t) = (if k = key r then Some r else find_row key k t)"
  by (induction t) (auto simp: find_row_def)

lemma put_row_keys: "map key (put_row key r t) = (if key r \<in> key ` set t then map key t else map key t @ [key r])"
  by (induction t) auto

lemma put_row_distinct: "distinct (map key t) \<Longrightarrow> distinct (map key (put_row key r t))"
  by (simp add: put_row_keys image_iff)

lemma put_rows_distinct: "distinct (map key t) \<Longrightarrow> distinct (map key (put_rows key rs t))"
  by (induction rs arbitrary: t) (simp_all add: put_rows_def put_row_distinct)

lemma find_put_rows: "distinct (map key rs) \<Longrightarrow> find_row key k (put_rows key rs t)
    = (case find_row key k rs of None \<Rightarrow> find_row key k t | Some r \<Rightarrow> Some r)"
proof (induction rs arbitrary: t)
  case (Cons r rs)
  then have "find_row key (key r) rs = None" by (simp add: find_row_None)
  with Cons show ?case by (cases "k = key r") (auto simp: put_rows_def find_put_row find_row_Cons split: option.split)
qed (simp add: put_rows_def find_row_def)

lemma length_put_rows: "distinct (map key rs) \<Longrightarrow>
    length (put_rows key rs t) = length t + length (filter (\<lambda>r. find_row key (key r) t = None) rs)"
proof (induction rs arbitrary: t)
  case (Cons r rs)
  have "length (put_row key r t) = length t + (if find_row key (key r) t = None then 1 else 0)"
    using arg_cong [OF put_row_keys [of r t], of length] by (simp add: find_row_None)
  moreover have "filter (\<lambda>q. find_row key (key q) (put_row key r t) = None) rs
      = filter (\<lambda>q. find_row key (key q) t = None) rs"
  proof (rule filter_cong)
    fix q assume "q \<in> set rs"
    then have "key q \<noteq> key r" using Cons.prems by (auto simp: image_iff)
    then show "(find_row key (key q) (put_row key r t) = None) = (find_row key (key q) t = None)"
      by (simp add: find_put_row)
  qed simp
  ultimately show ?case using Cons by (simp add: put_rows_def)
qed (simp add: put_rows_def)

text \<open>The upsert of distinct rows that the storage keeps as they are.\<close>

lemma upsert_refines:
  assumes d: "distinct (map key rs)" and s: "list_all (\<lambda>r. stored r = r) rs"
    and c: "classify_rows (\<lambda>r. find_row key (key r) t) (=) rs = (u, rows)" and t': "t' = put_rows key (map stored rows) t"
  shows "find_row key k t' = (case find_row key k rs of None \<Rightarrow> find_row key k t | Some r \<Rightarrow> Some r)"
    "up_inserted u + up_updated u + up_skipped u = length rs" "length t' = length t + up_inserted u"
    "classify_rows (\<lambda>r. find_row key (key r) t') (=) rs = (\<lparr>up_inserted = 0, up_updated = 0, up_skipped = length rs\<rparr>, [])"
proof -
  note cl = classify_rows_eq [OF c]
  have rows: "map stored rows = rows" using cl s by (auto simp: list_all_iff intro: map_idI)
  have dr: "distinct (map key rows)" using cl d by (simp add: distinct_map_filter)
  show find: "find_row key k t' = (case find_row key k rs of None \<Rightarrow> find_row key k t | Some r \<Rightarrow> Some r)" for k
  proof (cases "find_row key k rs")
    case None
    then have "find_row key k rows = None" using cl by (auto simp: find_row_None)
    with None show ?thesis by (simp add: t' rows find_put_rows [OF dr])
  next
    case (Some r)
    note r = find_row_Some [OF Some]
    show ?thesis
    proof (cases "changed (\<lambda>r. find_row key (key r) t) r")
      case True
      then have "r \<in> set rows" using cl r by simp
      then have "find_row key k rows = Some r" using find_row_distinct [OF dr] r by blast
      with Some show ?thesis by (simp add: t' rows find_put_rows [OF dr])
    next
      case False
      then have old: "find_row key k t = Some r" using r by (auto simp: changed_def split: option.splits)
      have "q = r" if "q \<in> set rows" "key q = k" for q
        using find_row_distinct [OF d, of q] that cl Some by auto
      then have "find_row key k rows = None" using False cl by (auto simp: find_row_None)
      with Some old show ?thesis by (simp add: t' rows find_put_rows [OF dr])
    qed
  qed
  show "up_inserted u + up_updated u + up_skipped u = length rs" using cl by blast
  have "filter (\<lambda>r. find_row key (key r) t = None) rows = filter (\<lambda>r. find_row key (key r) t = None) rs"
    using cl by (auto simp: changed_def intro: filter_cong)
  then show "length t' = length t + up_inserted u" using cl unfolding t' rows length_put_rows [OF dr] by simp
  obtain u' rows' where c': "classify_rows (\<lambda>r. find_row key (key r) t') (=) rs = (u', rows')" by fastforce
  have "find_row key (key r) t' = Some r" if "r \<in> set rs" for r
    using find [of "key r"] find_row_distinct [OF d that] by simp
  then have no: "filter (changed (\<lambda>r. find_row key (key r) t')) rs = []"
    "filter (\<lambda>r. \<not> changed (\<lambda>r. find_row key (key r) t') r) rs = rs"
    by (auto simp: changed_def filter_empty_conv filter_id_conv)
  show "classify_rows (\<lambda>r. find_row key (key r) t') (=) rs = (\<lparr>up_inserted = 0, up_updated = 0, up_skipped = length rs\<rparr>, [])"
    using classify_rows_eq [OF c'] c' no by (cases u') simp
qed

end

lemma stored_row_key: "bar_key (stored_row r) = bar_key r"
  by (simp add: bar_key_def stored_row_def)

interpretation bar_table: keyed_table bar_key stored_row
  by unfold_locales (rule stored_row_key)

interpretation stock_table: keyed_table st_symbol "\<lambda>r. r"
  by unfold_locales simp

interpretation job_table: keyed_table job_name "\<lambda>r. r"
  by unfold_locales simp

interpretation run_table: keyed_table run_id "\<lambda>r. r"
  by unfold_locales simp

section \<open>Properties\<close>

text \<open>The map a keyed table stands for.\<close>

definition table_map :: "('r \<Rightarrow> 'k) \<Rightarrow> 'r list \<Rightarrow> 'k \<rightharpoonup> 'r" where
  "table_map key rows = (\<lambda>k. find_row key k rows)"

definition bar_numeric :: "MarketBar \<Rightarrow> bool" where
  "bar_numeric b \<longleftrightarrow> numeric_20_6 (mk_open b) \<and> numeric_20_6 (mk_high b) \<and> numeric_20_6 (mk_low b) \<and> numeric_20_6 (mk_close b)"

lemma to_numeric6_grid: "numeric_20_6 x \<Longrightarrow> to_numeric6 x = x"
proof -
  assume "numeric_20_6 x"
  then obtain n where n: "x = of_int n / 10 ^ 6" by (auto simp: numeric_20_6_def on_grid_iff)
  have "x / (1 / 10 ^ 6) = of_int n" by (simp add: n)
  then show ?thesis unfolding to_numeric6_def by (simp only: half_up_of_int) (simp add: n)
qed

lemma stored_bar_row: "bar_numeric b \<Longrightarrow> stored_row (bar_row b) = bar_row b"
  by (simp add: stored_row_def bar_row_def bar_numeric_def to_numeric6_grid)

lemma bar_row_key: "bar_key (bar_row b) = (mk_symbol b, mk_date b)"
  by (simp add: bar_key_def bar_row_def)

lemma find_row_map_of: "(\<And>x. key (f x) = g x) \<Longrightarrow> find_row key k (map f xs) = map_of (map (\<lambda>x. (g x, f x)) xs) k"
  by (induction xs) (auto simp: find_row_def)

text \<open>
  C17. The bar upsert refines the update of a map. The table stands for a map from symbol and date to
  rows; after an upsert of bars with storable prices it stands for the old map overridden by the
  given bars, the counts add up to the number of bars, the inserted ones are the table's growth, and
  upserting the same bars once more skips all of them and leaves the table as it is.
\<close>

theorem upsert_bars_refines:
  assumes "upsert_bars items stocks bars = Inr (bars', u)" and "list_all bar_numeric items"
  shows "table_map bar_key bars' = table_map bar_key bars
      ++ map_of (map (\<lambda>b. ((mk_symbol b, mk_date b), bar_row b)) items)
    \<and> up_inserted u + up_updated u + up_skipped u = length items \<and> length bars' = length bars + up_inserted u
    \<and> upsert_bars items stocks bars' = Inr (bars', \<lparr>up_inserted = 0, up_updated = 0, up_skipped = length items\<rparr>)"
proof (cases "items = []")
  case True
  with assms(1) show ?thesis by (auto simp: upsert_bars_def no_rows_def table_map_def)
next
  case False
  obtain u' rows where c: "classify_rows (\<lambda>r. find_row bar_key (bar_key r) bars) (=) (map bar_row items) = (u', rows)"
    by fastforce
  with assms(1) False have d0: "distinct (map (\<lambda>b. (mk_symbol b, mk_date b)) items)" and u: "u' = u"
    and b: "bars' = put_rows bar_key (map stored_row rows) bars"
    by (auto simp: upsert_bars_def Let_def split: if_splits)
  have d: "distinct (map bar_key (map bar_row items))" using d0 by (simp add: bar_row_key o_def)
  have s: "list_all (\<lambda>r. stored_row r = r) (map bar_row items)"
    using assms(2) stored_bar_row by (auto simp: list_all_iff)
  note up = bar_table.upsert_refines [OF d s c b]
  have "table_map bar_key bars' = table_map bar_key bars
      ++ map_of (map (\<lambda>b. ((mk_symbol b, mk_date b), bar_row b)) items)"
  proof (rule ext)
    fix k
    have "find_row bar_key k (map bar_row items) = map_of (map (\<lambda>b. ((mk_symbol b, mk_date b), bar_row b)) items) k"
      by (rule find_row_map_of) (rule bar_row_key)
    then show "table_map bar_key bars' k = (table_map bar_key bars
        ++ map_of (map (\<lambda>b. ((mk_symbol b, mk_date b), bar_row b)) items)) k"
      unfolding table_map_def map_add_def up(1) by simp
  qed
  moreover have "upsert_bars items stocks bars' = Inr (bars', \<lparr>up_inserted = 0, up_updated = 0, up_skipped = length items\<rparr>)"
    using up(4) d0 False by (simp add: upsert_bars_def put_rows_def)
  ultimately show ?thesis using up(2,3) u by simp
qed

text \<open>
  The stock upsert refines the update of a map from symbols to stocks in the same way.
\<close>

theorem upsert_stocks_refines:
  assumes "upsert_stocks items stocks = (stocks', u)" and "distinct (map in_symbol items)"
  shows "table_map st_symbol stocks' = table_map st_symbol stocks ++ map_of (map (\<lambda>x. (in_symbol x, stock_row x)) items)
    \<and> up_inserted u + up_updated u + up_skipped u = length items \<and> length stocks' = length stocks + up_inserted u
    \<and> upsert_stocks items stocks' = (stocks', \<lparr>up_inserted = 0, up_updated = 0, up_skipped = length items\<rparr>)"
proof (cases "items = []")
  case True
  with assms(1) show ?thesis by (auto simp: upsert_stocks_def no_rows_def table_map_def)
next
  case False
  obtain u' rows where c: "classify_rows (\<lambda>r. find_row st_symbol (st_symbol r) stocks) (=) (map stock_row items) = (u', rows)"
    by fastforce
  with assms(1) False have u: "u' = u" and b: "stocks' = put_rows st_symbol (map (\<lambda>r. r) rows) stocks"
    by (auto simp: upsert_stocks_def)
  have key: "st_symbol (stock_row x) = in_symbol x" for x by (simp add: stock_row_def)
  have d: "distinct (map st_symbol (map stock_row items))" using assms(2) by (simp add: key o_def)
  have s: "list_all (\<lambda>r. r = r) (map stock_row items)" by (simp add: list_all_iff)
  note up = stock_table.upsert_refines [OF d s c b]
  have "table_map st_symbol stocks' = table_map st_symbol stocks ++ map_of (map (\<lambda>x. (in_symbol x, stock_row x)) items)"
    by (rule ext) (simp add: table_map_def up(1) map_add_def key find_row_map_of [where g = in_symbol])
  moreover have "upsert_stocks items stocks' = (stocks', \<lparr>up_inserted = 0, up_updated = 0, up_skipped = length items\<rparr>)"
    using up(4) False by (simp add: upsert_stocks_def put_rows_def)
  ultimately show ?thesis using up(2,3) u by simp
qed

definition samsung :: InstrumentSnapshot where
  "samsung = \<lparr>in_symbol = ''005930'', in_name = ''Samsung'', in_market = ''KOSPI'', in_country = None,
     in_currency = ''KRW'', in_security_type = Some ''common_stock'', in_listing_status = Some ''listed'',
     in_exchange = None, in_is_common_share = Some True, in_status = Some ''ACTIVE'', in_list_date = None,
     in_delist_date = None, in_korean_market_detail = None, in_source = ''toss'', in_as_of = 0\<rparr>"

definition samsung_bar :: MarketBar where
  "samsung_bar = \<lparr>mk_symbol = ''005930'', mk_date = 700000, mk_open = 100, mk_high = 110, mk_low = 90,
     mk_close = 105, mk_volume = 10, mk_source = ''toss'', mk_as_of = 0\<rparr>"

lemma upsert_stocks_refines_witness:
  "st_country (stock_row samsung) = ''KR''
    \<and> upsert_stocks [samsung] [stock_row samsung] = ([stock_row samsung], \<lparr>up_inserted = 0, up_updated = 0, up_skipped = 1\<rparr>)"
proof -
  have "upsert_stocks [samsung] [] = ([stock_row samsung], \<lparr>up_inserted = 1, up_updated = 0, up_skipped = 0\<rparr>)"
    by (simp add: upsert_stocks_def classify_rows_def classify_row_def find_row_def put_rows_def no_rows_def)
  from upsert_stocks_refines [OF this] show ?thesis by (simp add: stock_row_def samsung_def)
qed

lemma upsert_bars_refines_witness:
  "upsert_bars [samsung_bar] [stock_row samsung] [bar_row samsung_bar]
    = Inr ([bar_row samsung_bar], \<lparr>up_inserted = 0, up_updated = 0, up_skipped = 1\<rparr>)"
proof -
  have n: "list_all bar_numeric [samsung_bar]"
    by (simp add: bar_numeric_def samsung_bar_def numeric_20_6_def on_grid_def)
  then have "upsert_bars [samsung_bar] [stock_row samsung] []
      = Inr ([bar_row samsung_bar], \<lparr>up_inserted = 1, up_updated = 0, up_skipped = 0\<rparr>)"
    by (simp add: upsert_bars_def classify_rows_def classify_row_def find_row_def put_rows_def no_rows_def
      stored_bar_row) (simp add: bar_row_def samsung_bar_def stock_row_def samsung_def)
  from upsert_bars_refines [OF this n] show ?thesis by simp
qed

end
