(* ===== verification/Sync.thy ===== *)
theory Sync
  imports Market_Store_Props
begin

text \<open>
  Market synchronization, \<open>modules/market/sync.py\<close>: the job runner with its bookkeeping, the stock and
  the daily bar synchronization, and the coordinator. The provider, the clock and the text of an
  exception are parameters. A body answers with the state to commit when it succeeds and with the
  last committed state when it raises, which is what the rollback leaves.
\<close>

section \<open>Provider and results\<close>

record provider =
  pv_stock_master :: "string \<Rightarrow> InstrumentSnapshot list res"
  pv_daily_bars :: "string \<Rightarrow> date \<Rightarrow> date \<Rightarrow> MarketBar list res"

record sync_clock =
  sc_started :: datetime
  sc_finished :: datetime
  sc_today :: date

record SyncResult =
  sy_job_name :: string
  sy_status :: string
  sy_inserted :: nat
  sy_updated :: nat
  sy_skipped :: nat
  sy_duration_ms :: int

section \<open>The runner\<close>

definition record_failure :: "(py_exc \<Rightarrow> string) \<Rightarrow> (int \<Rightarrow> int) \<Rightarrow> sync_clock \<Rightarrow> nat \<Rightarrow> py_exc \<Rightarrow> market_db
    \<Rightarrow> market_db \<times> SyncResult res" where
  "record_failure message to_ms clk i e db = (case find_row run_id i (mdb_runs db) of
     None \<Rightarrow> (db, Inl e)
   | Some r \<Rightarrow> (case job_finish to_ms r (sc_finished clk) no_rows (Some (take 2000 (message e))) db of
       Inl e' \<Rightarrow> (db, Inl e')
     | Inr db' \<Rightarrow> (db', Inl e)))"

definition run_locked :: "(py_exc \<Rightarrow> string) \<Rightarrow> (int \<Rightarrow> int) \<Rightarrow> sync_clock \<Rightarrow> string
    \<Rightarrow> (market_db \<Rightarrow> market_db \<times> UpsertResult res) \<Rightarrow> market_db \<Rightarrow> market_db \<times> SyncResult res" where
  "run_locked message to_ms clk name body db =
    (let (db1, run) = job_start name (sc_started clk) db in
     case body db1 of
       (db2, Inl e) \<Rightarrow> record_failure message to_ms clk (run_id run) e db2
     | (db2, Inr u) \<Rightarrow> (case job_finish to_ms run (sc_finished clk) u None db2 of
           Inl e \<Rightarrow> record_failure message to_ms clk (run_id run) e db2
         | Inr db3 \<Rightarrow> (db3, Inr \<lparr>sy_job_name = name, sy_status = ''succeeded'', sy_inserted = up_inserted u,
             sy_updated = up_updated u, sy_skipped = up_skipped u,
             sy_duration_ms = to_ms (sc_finished clk - sc_started clk)\<rparr>)))"

text \<open>\<open>run\<close>: a runner whose lock is taken raises before it touches the database.\<close>

definition runner_run :: "(py_exc \<Rightarrow> string) \<Rightarrow> (int \<Rightarrow> int) \<Rightarrow> sync_clock \<Rightarrow> bool \<Rightarrow> string
    \<Rightarrow> (market_db \<Rightarrow> market_db \<times> UpsertResult res) \<Rightarrow> market_db \<Rightarrow> market_db \<times> SyncResult res" where
  "runner_run message to_ms clk locked name body db =
    (if locked then (db, Inl (SyncAlreadyRunningError name)) else run_locked message to_ms clk name body db)"

section \<open>Stocks\<close>

definition stock_sync :: "provider \<Rightarrow> market_db \<Rightarrow> market_db \<times> UpsertResult res" where
  "stock_sync provider db = (case pv_stock_master provider ''KOSPI'' of
     Inl e \<Rightarrow> (db, Inl e)
   | Inr snapshots \<Rightarrow>
       if \<not> distinct (map in_symbol snapshots) then (db, Inl (ValueError ''duplicate symbols in stock master''))
       else let (stocks, u) = upsert_stocks snapshots (mdb_stocks db) in (db\<lparr>mdb_stocks := stocks\<rparr>, Inr u))"

section \<open>Daily bars\<close>

definition add_results :: "UpsertResult \<Rightarrow> UpsertResult \<Rightarrow> UpsertResult" where
  "add_results a b = \<lparr>up_inserted = up_inserted a + up_inserted b, up_updated = up_updated a + up_updated b,
     up_skipped = up_skipped a + up_skipped b\<rparr>"

definition sync_start :: "int \<Rightarrow> date \<Rightarrow> (string, date) dict \<Rightarrow> string \<Rightarrow> date" where
  "sync_start history_years today latest symbol = (case map_of latest symbol of
     Some d \<Rightarrow> d + 1 | None \<Rightarrow> today - 365 * history_years)"

definition sync_symbol :: "provider \<Rightarrow> int \<Rightarrow> date \<Rightarrow> (string, date) dict \<Rightarrow> market_db \<times> UpsertResult \<Rightarrow> string
    \<Rightarrow> (market_db \<times> UpsertResult) res" where
  "sync_symbol provider history_years today latest s symbol =
    (let (db, u) = s; start = sync_start history_years today latest symbol in
     if today < start then Inr (db, u)
     else bindE (pv_daily_bars provider symbol start today) (\<lambda>bars.
       bindE (assertE (\<not> list_ex (\<lambda>b. today < mk_date b) bars) (ValueError ''future trading date'')) (\<lambda>_.
       bindE (upsert_bars bars (mdb_stocks db) (mdb_bars db)) (\<lambda>(rows, value).
       Inr (db\<lparr>mdb_bars := rows\<rparr>, add_results u value)))))"

fun sync_batches :: "('s \<Rightarrow> 'a \<Rightarrow> 's res) \<Rightarrow> 'a list list \<Rightarrow> 's \<Rightarrow> 's \<times> unit res" where
  "sync_batches f [] s = (s, Inr ())"
| "sync_batches f (b # bs) s = (case foldE f s b of Inl e \<Rightarrow> (s, Inl e) | Inr s' \<Rightarrow> sync_batches f bs s')"

definition bar_sync :: "provider \<Rightarrow> int \<Rightarrow> nat \<Rightarrow> date \<Rightarrow> market_db \<Rightarrow> market_db \<times> UpsertResult res" where
  "bar_sync provider history_years batch_size today db =
    (let symbols = map st_symbol (active_stocks (mdb_stocks db)); latest = latest_dates symbols (mdb_bars db) in
     if batch_size = 0 then (db, Inl (ValueError ''range() arg 3 must not be zero''))
     else case sync_batches (sync_symbol provider history_years today latest) (batches batch_size symbols) (db, no_rows) of
       ((db', u), Inr _) \<Rightarrow> (db', Inr u)
     | ((db', u), Inl e) \<Rightarrow> (db', Inl e))"

section \<open>The coordinator\<close>

definition sync_all :: "(py_exc \<Rightarrow> string) \<Rightarrow> (int \<Rightarrow> int) \<Rightarrow> provider \<Rightarrow> int \<Rightarrow> nat \<Rightarrow> sync_clock \<Rightarrow> sync_clock
    \<Rightarrow> bool \<Rightarrow> bool \<Rightarrow> market_db \<Rightarrow> market_db \<times> SyncResult list res" where
  "sync_all message to_ms provider history_years batch_size clk1 clk2 stocks_locked bars_locked db =
    (case runner_run message to_ms clk1 stocks_locked ''stock_master'' (stock_sync provider) db of
       (db1, Inl e) \<Rightarrow> (db1, Inl e)
     | (db1, Inr r1) \<Rightarrow>
         (case runner_run message to_ms clk2 bars_locked ''daily_bars''
             (bar_sync provider history_years batch_size (sc_today clk2)) db1 of
           (db2, Inl e) \<Rightarrow> (db2, Inl e)
         | (db2, Inr r2) \<Rightarrow> (db2, Inr [r1, r2])))"

section \<open>Batches\<close>

text \<open>What a batched loop leaves: everything, or the batches before the first that fails.\<close>

lemma sync_batches_stop: "sync_batches f bs s = (s', r) \<Longrightarrow> \<exists>k. foldE f s (concat (take k bs)) = Inr s'
    \<and> (case r of Inr _ \<Rightarrow> length bs \<le> k | Inl e \<Rightarrow> foldE f s (concat (take (Suc k) bs)) = Inl e)"
proof (induction bs arbitrary: s)
  case Nil
  then show ?case by (intro exI [of _ 0]) auto
next
  case (Cons b bs)
  show ?case
  proof (cases "foldE f s b")
    case (Inl e)
    with Cons.prems show ?thesis by (intro exI [of _ 0]) (auto simp: foldE_append)
  next
    case (Inr t)
    with Cons obtain k where "foldE f t (concat (take k bs)) = Inr s'"
        "case r of Inr _ \<Rightarrow> length bs \<le> k | Inl e \<Rightarrow> foldE f t (concat (take (Suc k) bs)) = Inl e" by fastforce
    with Inr show ?thesis by (intro exI [of _ "Suc k"]) (simp add: foldE_append split: sum.splits)
  qed
qed

end
