(* ===== verification/Executions.thy ===== *)
theory Executions
  imports Decimal
begin

text \<open>
  Executions of the watchlist pipeline, \<open>modules/market/pipeline/models.py\<close> and
  \<open>pipeline/repository.py\<close>: the stages as a linear order, the execution rows, and the operations of
  the repository on the table. The table is the list of its rows in insertion order; a query ordered
  by \<open>started_at\<close> alone leaves the order of equal instants to the database and is modelled by the
  insertion order there. The advisory lock makes one \<open>acquire\<close> for a date one step.
\<close>

section \<open>Models\<close>

datatype PipelineStage = RESOLVING_TRADING_DATE | DUPLICATE_CHECK | MARKET_SYNC | INDICATOR_CALCULATION
  | SCREENING | CANDIDATE_SCANNING | CANDIDATE_RANKING | WATCHLIST_PERSISTENCE | STAGE_COMPLETED

datatype ExecutionStatus = RUNNING | SUCCEEDED | FAILED | SKIPPED

datatype TriggerType = SCHEDULED | MANUAL | MANUAL_REANALYSIS

datatype ExecutionAcquireStatus = ACQUIRED | ALREADY_RUNNING | ALREADY_COMPLETED | PRIOR_SUCCESS_REQUIRED

text \<open>The order in which the pipeline passes the stages.\<close>

fun stage_index :: "PipelineStage \<Rightarrow> nat" where
  "stage_index RESOLVING_TRADING_DATE = 0"
| "stage_index DUPLICATE_CHECK = 1"
| "stage_index MARKET_SYNC = 2"
| "stage_index INDICATOR_CALCULATION = 3"
| "stage_index SCREENING = 4"
| "stage_index CANDIDATE_SCANNING = 5"
| "stage_index CANDIDATE_RANKING = 6"
| "stage_index WATCHLIST_PERSISTENCE = 7"
| "stage_index STAGE_COMPLETED = 8"

lemma stage_index_inject: "stage_index a = stage_index b \<longleftrightarrow> a = b"
  by (cases a; cases b) simp_all

instantiation PipelineStage :: linorder
begin

definition less_eq_PipelineStage :: "PipelineStage \<Rightarrow> PipelineStage \<Rightarrow> bool" where
  "less_eq_PipelineStage a b \<longleftrightarrow> stage_index a \<le> stage_index b"

definition less_PipelineStage :: "PipelineStage \<Rightarrow> PipelineStage \<Rightarrow> bool" where
  "less_PipelineStage a b \<longleftrightarrow> stage_index a < stage_index b"

instance
  by standard (auto simp: less_eq_PipelineStage_def less_PipelineStage_def stage_index_inject)

end

fun stage_value :: "PipelineStage \<Rightarrow> string" where
  "stage_value RESOLVING_TRADING_DATE = ''resolving_trading_date''"
| "stage_value DUPLICATE_CHECK = ''duplicate_check''"
| "stage_value MARKET_SYNC = ''market_sync''"
| "stage_value INDICATOR_CALCULATION = ''indicator_calculation''"
| "stage_value SCREENING = ''screening''"
| "stage_value CANDIDATE_SCANNING = ''candidate_scanning''"
| "stage_value CANDIDATE_RANKING = ''candidate_ranking''"
| "stage_value WATCHLIST_PERSISTENCE = ''watchlist_persistence''"
| "stage_value STAGE_COMPLETED = ''completed''"

fun acquire_value :: "ExecutionAcquireStatus \<Rightarrow> string" where
  "acquire_value ACQUIRED = ''acquired''"
| "acquire_value ALREADY_RUNNING = ''already_running''"
| "acquire_value ALREADY_COMPLETED = ''already_completed''"
| "acquire_value PRIOR_SUCCESS_REQUIRED = ''prior_success_required''"

record Execution =
  ex_id :: uuid
  ex_trading_date :: date
  ex_trigger :: TriggerType
  ex_status :: ExecutionStatus
  ex_stage :: PipelineStage
  ex_started_at :: datetime
  ex_finished_at :: "datetime option"
  ex_screened_count :: "nat option"
  ex_candidate_count :: "nat option"
  ex_qualified_count :: "nat option"
  ex_score_threshold :: "decimal option"
  ex_persisted_count :: "nat option"
  ex_skipped_reason :: "string option"
  ex_error_code :: "string option"
  ex_error_detail :: "string option"

record ExecutionAcquireResult =
  aq_status :: ExecutionAcquireStatus
  aq_execution :: "Execution option"
  aq_recovered :: "uuid option"

record PipelineResult =
  pr_execution_id :: "uuid option"
  pr_trading_date :: date
  pr_status :: ExecutionStatus
  pr_started_at :: datetime
  pr_finished_at :: "datetime option"
  pr_stage :: PipelineStage
  pr_screened_count :: "nat option"
  pr_candidate_count :: "nat option"
  pr_qualified_count :: "nat option"
  pr_score_threshold :: "decimal option"
  pr_persisted_count :: "nat option"
  pr_skipped_reason :: "string option"
  pr_error_code :: "string option"
  pr_trigger_type :: "TriggerType option"

type_synonym executions = "Execution list"

section \<open>Queries\<close>

text \<open>\<open>ORDER BY started_at DESC\<close>\<close>

definition newest_first :: "executions \<Rightarrow> executions" where
  "newest_first es = sort_key (\<lambda>e. - ex_started_at e) es"

definition first_of :: "'a list \<Rightarrow> 'a option" where
  "first_of xs = (case xs of [] \<Rightarrow> None | x # _ \<Rightarrow> Some x)"

definition newest_with :: "ExecutionStatus \<Rightarrow> date \<Rightarrow> executions \<Rightarrow> Execution option" where
  "newest_with s d es = first_of (newest_first (filter (\<lambda>e. ex_trading_date e = d \<and> ex_status e = s) es))"

definition get_execution :: "executions \<Rightarrow> uuid \<Rightarrow> Execution option" where
  "get_execution es i = find (\<lambda>e. ex_id e = i) es"

definition list_executions :: "executions \<Rightarrow> nat \<Rightarrow> executions" where
  "list_executions es limit = take limit (newest_first es)"

definition latest_succeeded :: "executions \<Rightarrow> date \<Rightarrow> Execution option" where
  "latest_succeeded es d = newest_with SUCCEEDED d es"

text \<open>Writing one row, found by its primary key.\<close>

definition update_execution :: "uuid \<Rightarrow> (Execution \<Rightarrow> Execution) \<Rightarrow> executions \<Rightarrow> executions" where
  "update_execution i f es = map (\<lambda>e. if ex_id e = i then f e else e) es"

section \<open>Acquisition\<close>

definition new_execution :: "uuid \<Rightarrow> date \<Rightarrow> TriggerType \<Rightarrow> datetime \<Rightarrow> Execution" where
  "new_execution i d trigger now = \<lparr>ex_id = i, ex_trading_date = d, ex_trigger = trigger,
     ex_status = RUNNING, ex_stage = DUPLICATE_CHECK, ex_started_at = now, ex_finished_at = None,
     ex_screened_count = None, ex_candidate_count = None, ex_qualified_count = None,
     ex_score_threshold = None, ex_persisted_count = None, ex_skipped_reason = None,
     ex_error_code = None, ex_error_detail = None\<rparr>"

definition recover_stale :: "datetime \<Rightarrow> Execution \<Rightarrow> Execution" where
  "recover_stale now e = e\<lparr>ex_status := FAILED, ex_finished_at := Some now,
     ex_error_code := Some ''stale_execution_recovered'',
     ex_error_detail := Some ''Execution exceeded stale timeout''\<rparr>"

definition stale_before :: "datetime \<Rightarrow> int \<Rightarrow> datetime" where
  "stale_before now stale_after_seconds = now - stale_after_seconds * 1000000"

text \<open>
  \<open>PipelineExecutionRepository.acquire\<close>: the new table and the answer; the identifier of a new row and
  the clock are inputs.
\<close>

definition acquire_execution :: "executions \<Rightarrow> uuid \<Rightarrow> datetime \<Rightarrow> date \<Rightarrow> TriggerType \<Rightarrow> int \<Rightarrow> bool
    \<Rightarrow> (executions \<times> ExecutionAcquireResult) res" where
  "acquire_execution es i now d trigger stale_after_seconds force_reanalysis =
    (if stale_after_seconds \<le> 0 then Inl (ValueError ''stale_after_seconds must be positive'')
     else let running = newest_with RUNNING d es; succeeded = newest_with SUCCEEDED d es;
         run = new_execution i d trigger now in
       case running of
         None \<Rightarrow>
           if succeeded \<noteq> None \<and> \<not> force_reanalysis
           then Inr (es, \<lparr>aq_status = ALREADY_COMPLETED, aq_execution = succeeded, aq_recovered = None\<rparr>)
           else if succeeded = None \<and> force_reanalysis
           then Inr (es, \<lparr>aq_status = PRIOR_SUCCESS_REQUIRED, aq_execution = None, aq_recovered = None\<rparr>)
           else Inr (es @ [run], \<lparr>aq_status = ACQUIRED, aq_execution = Some run, aq_recovered = None\<rparr>)
       | Some r \<Rightarrow>
           if stale_before now stale_after_seconds \<le> ex_started_at r
           then Inr (es, \<lparr>aq_status = ALREADY_RUNNING, aq_execution = Some r, aq_recovered = None\<rparr>)
           else let es' = update_execution (ex_id r) (recover_stale now) es in
             if force_reanalysis \<and> succeeded = None
             then Inr (es', \<lparr>aq_status = PRIOR_SUCCESS_REQUIRED, aq_execution = None, aq_recovered = Some (ex_id r)\<rparr>)
             else if \<not> force_reanalysis \<and> succeeded \<noteq> None
             then Inr (es', \<lparr>aq_status = ALREADY_COMPLETED, aq_execution = succeeded, aq_recovered = Some (ex_id r)\<rparr>)
             else Inr (es' @ [run], \<lparr>aq_status = ACQUIRED, aq_execution = Some run, aq_recovered = Some (ex_id r)\<rparr>))"

section \<open>Progress and completion\<close>

definition set_stage :: "executions \<Rightarrow> uuid \<Rightarrow> PipelineStage \<Rightarrow> executions res" where
  "set_stage es i stage = (case get_execution es i of
     None \<Rightarrow> Inl (LookupError ''pipeline execution disappeared'')
   | Some _ \<Rightarrow> Inr (update_execution i (\<lambda>e. e\<lparr>ex_stage := stage\<rparr>) es))"

text \<open>The fields \<open>finish\<close> writes; every count not given is cleared.\<close>

record Outcome =
  oc_status :: ExecutionStatus
  oc_stage :: PipelineStage
  oc_screened_count :: "nat option"
  oc_candidate_count :: "nat option"
  oc_qualified_count :: "nat option"
  oc_score_threshold :: "decimal option"
  oc_persisted_count :: "nat option"
  oc_skipped_reason :: "string option"
  oc_error_code :: "string option"
  oc_error_detail :: "string option"

definition finish_row :: "datetime \<Rightarrow> Outcome \<Rightarrow> Execution \<Rightarrow> Execution" where
  "finish_row now oc e = e\<lparr>ex_status := oc_status oc, ex_stage := oc_stage oc, ex_finished_at := Some now,
     ex_screened_count := oc_screened_count oc, ex_candidate_count := oc_candidate_count oc,
     ex_qualified_count := oc_qualified_count oc, ex_score_threshold := oc_score_threshold oc,
     ex_persisted_count := oc_persisted_count oc, ex_skipped_reason := oc_skipped_reason oc,
     ex_error_code := oc_error_code oc, ex_error_detail := oc_error_detail oc\<rparr>"

definition finish_execution_row :: "executions \<Rightarrow> uuid \<Rightarrow> datetime \<Rightarrow> Outcome \<Rightarrow> (executions \<times> Execution) res" where
  "finish_execution_row es i now oc = (case get_execution es i of
     None \<Rightarrow> Inl (LookupError ''pipeline execution disappeared'')
   | Some e \<Rightarrow> Inr (update_execution i (finish_row now oc) es, finish_row now oc e))"

definition pipeline_result :: "Execution \<Rightarrow> PipelineResult" where
  "pipeline_result e = \<lparr>pr_execution_id = Some (ex_id e), pr_trading_date = ex_trading_date e,
     pr_status = ex_status e, pr_started_at = ex_started_at e, pr_finished_at = ex_finished_at e,
     pr_stage = ex_stage e, pr_screened_count = ex_screened_count e,
     pr_candidate_count = ex_candidate_count e, pr_qualified_count = ex_qualified_count e,
     pr_score_threshold = ex_score_threshold e, pr_persisted_count = ex_persisted_count e,
     pr_skipped_reason = ex_skipped_reason e, pr_error_code = ex_error_code e,
     pr_trigger_type = Some (ex_trigger e)\<rparr>"

end
