(* ===== verification/Watchlist.thy ===== *)
theory Watchlist
  imports Executions Ranking_Props Backtest_Params
begin

text \<open>
  Ranked watchlists, \<open>watchlist/models.py\<close> and \<open>watchlist/repository.py\<close>. The table is the list of its
  rows. The score column holds the text of a decimal with two fractional digits, which is what the
  rankers produce; the three JSON columns are written and read by pydantic's adapters, which are a
  parameter of the model (a \<open>codec\<close> over a type of texts), as are the identifiers of new rows.
\<close>

section \<open>Texts of scores\<close>

function digits_of :: "nat \<Rightarrow> string" where
  "digits_of n = (if n < 10 then [char_of (48 + n)] else digits_of (n div 10) @ [char_of (48 + n mod 10)])"
  by auto
termination by (relation "measure id") auto

declare digits_of.simps [simp del]

text \<open>\<open>str\<close> of a non-negative decimal with two fractional digits.\<close>

definition score_text :: "decimal \<Rightarrow> string" where
  "score_text x = (let n = nat \<lfloor>x * 100\<rfloor> in
     digits_of (n div 100) @ ''.'' @ [char_of (48 + n div 10 mod 10), char_of (48 + n mod 10)])"

section \<open>Rows and entries\<close>

record 't codec =
  dump_components :: "metric_dict \<Rightarrow> 't"
  load_components :: "'t \<Rightarrow> metric_dict"
  dump_warnings :: "string list \<Rightarrow> 't"
  load_warnings :: "'t \<Rightarrow> string list"
  dump_snapshot :: "ScreeningResult \<Rightarrow> 't"
  load_snapshot :: "'t \<Rightarrow> ScreeningResult"

text \<open>What pydantic documents of its JSON mode: validating what was dumped gives the value back.\<close>

definition codec_ok :: "'t codec \<Rightarrow> bool" where
  "codec_ok c \<longleftrightarrow> (\<forall>x. load_components c (dump_components c x) = x)
     \<and> (\<forall>x. load_warnings c (dump_warnings c x) = x) \<and> (\<forall>x. load_snapshot c (dump_snapshot c x) = x)"

record 't EntryRow =
  er_id :: uuid
  er_trading_date :: date
  er_symbol :: string
  er_rank :: nat
  er_total_score :: string
  er_component_scores :: 't
  er_warnings :: 't
  er_snapshot :: 't

record WatchlistEntry =
  we_id :: uuid
  we_trading_date :: date
  we_symbol :: string
  we_rank :: nat
  we_total_score :: decimal
  we_component_scores :: metric_dict
  we_warnings :: "string list"
  we_snapshot :: ScreeningResult

definition entry_row :: "'t codec \<Rightarrow> uuid \<Rightarrow> date \<Rightarrow> RankedCandidate \<Rightarrow> 't EntryRow" where
  "entry_row c i d k = \<lparr>er_id = i, er_trading_date = d, er_symbol = rc_symbol k, er_rank = rc_rank k,
     er_total_score = score_text (rc_total_score k), er_component_scores = dump_components c (rc_component_scores k),
     er_warnings = dump_warnings c (rc_warnings k), er_snapshot = dump_snapshot c (rc_source_result k)\<rparr>"

definition row_entry :: "'t codec \<Rightarrow> 't EntryRow \<Rightarrow> WatchlistEntry res" where
  "row_entry c r = (case decimal_of_string (er_total_score r) of
     Some (Fin x) \<Rightarrow> Inr \<lparr>we_id = er_id r, we_trading_date = er_trading_date r, we_symbol = er_symbol r,
       we_rank = er_rank r, we_total_score = x, we_component_scores = load_components c (er_component_scores r),
       we_warnings = load_warnings c (er_warnings r), we_snapshot = load_snapshot c (er_snapshot r)\<rparr>
   | Some _ \<Rightarrow> Inl (ValueError ''total_score'')
   | None \<Rightarrow> Inl InvalidOperation)"

section \<open>Saving\<close>

primrec validate_candidates :: "string list \<Rightarrow> nat list \<Rightarrow> RankedCandidate list \<Rightarrow> unit res" where
  "validate_candidates symbols ranks [] = Inr ()"
| "validate_candidates symbols ranks (k # ks) =
    bindE (assertE (strip (rc_symbol k) \<noteq> '''') (ValueError ''candidate symbol must not be blank'')) (\<lambda>_.
    bindE (assertE (rc_symbol k \<notin> set symbols) (ValueError (''duplicate symbol: '' @ rc_symbol k))) (\<lambda>_.
    bindE (assertE (rc_rank k \<notin> set ranks) (ValueError (''duplicate rank: '' @ digits_of (rc_rank k)))) (\<lambda>_.
    validate_candidates (rc_symbol k # symbols) (rc_rank k # ranks) ks)))"

text \<open>The constraints of the table: the primary key, one row per date and symbol, one per date and rank.\<close>

definition entries_ok :: "'t EntryRow list \<Rightarrow> bool" where
  "entries_ok es \<longleftrightarrow> distinct (map er_id es) \<and> distinct (map (\<lambda>e. (er_trading_date e, er_symbol e)) es)
     \<and> distinct (map (\<lambda>e. (er_trading_date e, er_rank e)) es)"

definition delete_date :: "date \<Rightarrow> 't EntryRow list \<Rightarrow> 't EntryRow list" where
  "delete_date d es = filter (\<lambda>e. er_trading_date e \<noteq> d) es"

definition save_watchlist :: "'t codec \<Rightarrow> uuid list \<Rightarrow> date \<Rightarrow> RankedCandidate list \<Rightarrow> 't EntryRow list
    \<Rightarrow> 't EntryRow list res" where
  "save_watchlist c ids d ks es =
    bindE (validate_candidates [] [] ks) (\<lambda>_.
    let es' = delete_date d es @ map2 (\<lambda>i k. entry_row c i d k) ids ks
    in if entries_ok es' then Inr es' else Inl (IntegrityError ''watchlist_entries''))"

section \<open>Reading\<close>

definition list_watchlist :: "'t codec \<Rightarrow> date \<Rightarrow> 't EntryRow list \<Rightarrow> WatchlistEntry list res" where
  "list_watchlist c d es = mapE (row_entry c) (sort_key er_rank (filter (\<lambda>e. er_trading_date e = d) es))"

definition max_date :: "date list \<Rightarrow> date option" where
  "max_date ds = (case ds of [] \<Rightarrow> None | d # ds \<Rightarrow> Some (foldl max d ds))"

definition succeeded_dates :: "executions \<Rightarrow> date list" where
  "succeeded_dates xs = map ex_trading_date (filter (\<lambda>x. ex_status x = SUCCEEDED) xs)"

definition latest_date :: "executions \<Rightarrow> 't EntryRow list \<Rightarrow> date option" where
  "latest_date xs es = (case max_date (succeeded_dates xs) of
     Some d \<Rightarrow> Some d
   | None \<Rightarrow> if xs = [] then max_date (map er_trading_date es) else None)"

definition latest_watchlist :: "'t codec \<Rightarrow> executions \<Rightarrow> 't EntryRow list \<Rightarrow> WatchlistEntry list res" where
  "latest_watchlist c xs es = (case latest_date xs es of None \<Rightarrow> Inr [] | Some d \<Rightarrow> list_watchlist c d es)"

text \<open>\<open>SELECT DISTINCT ... ORDER BY ... DESC\<close>\<close>

definition dates_desc :: "date list \<Rightarrow> date list" where
  "dates_desc ds = rev (sort (remdups ds))"

definition watchlist_history :: "executions \<Rightarrow> 't EntryRow list \<Rightarrow> date list" where
  "watchlist_history xs es = (let values = dates_desc (succeeded_dates xs) in
     if values = [] \<and> xs = [] then dates_desc (map er_trading_date es) else values)"

definition get_entry :: "'t codec \<Rightarrow> date \<Rightarrow> string \<Rightarrow> 't EntryRow list \<Rightarrow> WatchlistEntry option res" where
  "get_entry c d s es = (case find (\<lambda>e. er_trading_date e = d \<and> er_symbol e = s) es of
     None \<Rightarrow> Inr None | Some r \<Rightarrow> bindE (row_entry c r) (\<lambda>e. Inr (Some e)))"

definition watchlist_exists :: "date \<Rightarrow> executions \<Rightarrow> 't EntryRow list \<Rightarrow> bool" where
  "watchlist_exists d xs es =
    (if list_ex (\<lambda>x. ex_trading_date x = d \<and> ex_status x = SUCCEEDED) xs then True
     else if xs \<noteq> [] then False
     else list_ex (\<lambda>e. er_trading_date e = d) es)"

end
