(* ===== verification/Pipeline.thy ===== *)
theory Pipeline
  imports Sync Watchlist
begin

text \<open>
  The daily watchlist pipeline, \<open>modules/market/pipeline/service.py\<close>: the screening inputs read from
  the tables, the stages in a monad over the database and the current stage, and the whole run with
  its acquisition, its final transaction and its failure record. A run is one process; what other
  processes do to the execution table between two of its steps is the subject of the executions'
  step relation. Clocks, new identifiers, the provider and the class name of an exception are inputs.
\<close>

section \<open>State and environment\<close>

record 't pipeline_db =
  pd_market :: market_db
  pd_executions :: executions
  pd_entries :: "'t EntryRow list"

record 't pipeline_env =
  pe_config :: SwingConfig
  pe_codec :: "'t codec"
  pe_stale_after :: int
  pe_message :: "py_exc \<Rightarrow> string"
  pe_class_name :: "py_exc \<Rightarrow> string"
  pe_to_ms :: "int \<Rightarrow> int"
  pe_provider :: provider
  pe_history_years :: int
  pe_batch_size :: nat
  pe_stock_clock :: sync_clock
  pe_bar_clock :: sync_clock
  pe_stocks_locked :: bool
  pe_bars_locked :: bool
  pe_today :: date
  pe_started :: datetime
  pe_skipped :: datetime
  pe_acquired :: datetime
  pe_read_at :: "BarRow \<Rightarrow> datetime"
  pe_finished :: datetime
  pe_failed :: datetime
  pe_id :: uuid
  pe_entry_ids :: "uuid list"

section \<open>Screening inputs\<close>

definition screened_stock :: "Stock \<Rightarrow> bool" where
  "screened_stock s = (st_is_active s \<and> st_market s = ''KOSPI'' \<and> st_listing_status s = Some ''listed''
     \<and> st_security_type s = Some ''common_stock'')"

text \<open>The join of the bars up to the date with the screened stocks.\<close>

definition screened_rows :: "date \<Rightarrow> market_db \<Rightarrow> BarRow list" where
  "screened_rows target db = filter (\<lambda>r. br_date r \<le> target
     \<and> list_ex (\<lambda>s. st_symbol s = br_symbol r \<and> screened_stock s) (mdb_stocks db)) (mdb_bars db)"

text \<open>\<open>ROW_NUMBER() OVER (PARTITION BY symbol ORDER BY trading_date DESC)\<close>\<close>

definition recent_rank :: "BarRow list \<Rightarrow> BarRow \<Rightarrow> int" where
  "recent_rank rows r = int (length (filter (\<lambda>q. br_symbol q = br_symbol r \<and> br_date r < br_date q) rows)) + 1"

definition recent_rows :: "int \<Rightarrow> date \<Rightarrow> market_db \<Rightarrow> BarRow list" where
  "recent_rows n target db = (let rows = screened_rows target db in
     sort_key bar_key (filter (\<lambda>r. recent_rank rows r \<le> n) rows))"

definition daily_bar :: "(BarRow \<Rightarrow> datetime) \<Rightarrow> BarRow \<Rightarrow> MarketBar" where
  "daily_bar read_at r = \<lparr>mk_symbol = br_symbol r, mk_date = br_date r, mk_open = br_open r,
     mk_high = br_high r, mk_low = br_low r, mk_close = br_close r, mk_volume = br_volume r,
     mk_source = br_source r,
     mk_as_of = (case br_provider_timestamp r of None \<Rightarrow> read_at r | Some t \<Rightarrow> t)\<rparr>"

definition row_bar :: "(BarRow \<Rightarrow> datetime) \<Rightarrow> BarRow \<Rightarrow> MarketBar res" where
  "row_bar read_at r = validate_bar (daily_bar read_at r)"

definition group_step :: "(BarRow \<Rightarrow> datetime) \<Rightarrow> (string, MarketBar list) dict \<Rightarrow> BarRow
    \<Rightarrow> (string, MarketBar list) dict res" where
  "group_step read_at grouped r = bindE (row_bar read_at r) (\<lambda>b. Inr (dict_append (br_symbol r) b grouped))"

definition scan_input :: "string \<times> MarketBar list \<Rightarrow> ScanInput res" where
  "scan_input p = bindE (calculate (snd p)) (\<lambda>i.
     Inr \<lparr>si_symbol = fst p, si_bars = snd p, si_indicators = i\<rparr>)"

definition pipeline_inputs :: "'t pipeline_env \<Rightarrow> date \<Rightarrow> market_db \<Rightarrow> ScanInput list res" where
  "pipeline_inputs env target db =
    bindE (foldE (group_step (pe_read_at env)) [] (recent_rows (minimum_history_bars (pe_config env)) target db)) (\<lambda>grouped.
    mapE scan_input (filter (\<lambda>(s, bars). bars \<noteq> [] \<and> mk_date (last bars) = target) grouped))"

section \<open>Stages\<close>

text \<open>
  The body of the \<open>try\<close> block: an action works on the database and on the local variable \<open>stage\<close>, and
  answers or raises; what it did before it raised stays done.
\<close>

type_synonym 't run_state = "'t pipeline_db \<times> PipelineStage"
type_synonym ('t, 'a) action = "('t run_state, 'a) io"

definition attempt :: "('t pipeline_db \<Rightarrow> 'a res) \<Rightarrow> ('t, 'a) action" where
  "attempt f s = (s, f (fst s))"

definition enter :: "uuid \<Rightarrow> PipelineStage \<Rightarrow> ('t, unit) action" where
  "enter i st s = (let (db, _) = s in case set_stage (pd_executions db) i st of
     Inl e \<Rightarrow> ((db, st), Inl e)
   | Inr es \<Rightarrow> ((db\<lparr>pd_executions := es\<rparr>, st), Inr ()))"

definition sync_market :: "'t pipeline_env \<Rightarrow> ('t, SyncResult list) action" where
  "sync_market env s = (let (db, st) = s;
     (market, r) = sync_all (pe_message env) (pe_to_ms env) (pe_provider env) (pe_history_years env)
       (pe_batch_size env) (pe_stock_clock env) (pe_bar_clock env) (pe_stocks_locked env) (pe_bars_locked env)
       (pd_market db)
   in ((db\<lparr>pd_market := market\<rparr>, st), r))"

text \<open>\<open>xs[:n]\<close>\<close>

definition first_n :: "int \<Rightarrow> 'a list \<Rightarrow> 'a list" where
  "first_n n xs = (if 0 \<le> n then take (nat n) xs else take (length xs - nat (- n)) xs)"

definition qualified_candidates :: "SwingConfig \<Rightarrow> RankedCandidate list \<Rightarrow> RankedCandidate list" where
  "qualified_candidates c scored = filter (\<lambda>k. minimum_candidate_score c \<le> rc_total_score k) scored"

text \<open>The transaction that completes the execution and replaces the watchlist, or does neither.\<close>

definition persist_result :: "'t pipeline_env \<Rightarrow> uuid \<Rightarrow> date \<Rightarrow> nat \<Rightarrow> nat \<Rightarrow> nat \<Rightarrow> RankedCandidate list
    \<Rightarrow> ('t, Execution) action" where
  "persist_result env i target screened candidates qualified ranked s = (let (db, st) = s;
     oc = \<lparr>oc_status = SUCCEEDED, oc_stage = STAGE_COMPLETED, oc_screened_count = Some screened,
       oc_candidate_count = Some candidates, oc_qualified_count = Some qualified,
       oc_score_threshold = Some (minimum_candidate_score (pe_config env)),
       oc_persisted_count = Some (length ranked), oc_skipped_reason = None, oc_error_code = None,
       oc_error_detail = None\<rparr>
   in case finish_execution_row (pd_executions db) i (pe_finished env) oc of
       Inl e \<Rightarrow> (s, Inl e)
     | Inr (es, row) \<Rightarrow> (case save_watchlist (pe_codec env) (take (length ranked) (pe_entry_ids env)) target ranked (pd_entries db) of
         Inl e \<Rightarrow> (s, Inl e)
       | Inr rows \<Rightarrow> ((db\<lparr>pd_executions := es, pd_entries := rows\<rparr>, st), Inr row)))"

definition pipeline_body :: "'t pipeline_env \<Rightarrow> uuid \<Rightarrow> date \<Rightarrow> bool \<Rightarrow> ('t, Execution) action" where
  "pipeline_body env i target force_reanalysis =
    and_then (if force_reanalysis then attempt (\<lambda>db. Inr []) else and_then (enter i MARKET_SYNC) (\<lambda>_. sync_market env)) (\<lambda>_.
    and_then (enter i INDICATOR_CALCULATION) (\<lambda>_.
    and_then (attempt (\<lambda>db. pipeline_inputs env target (pd_market db))) (\<lambda>inputs.
    and_then (enter i SCREENING) (\<lambda>_.
    and_then (enter i CANDIDATE_SCANNING) (\<lambda>_.
    and_then (attempt (\<lambda>db. scan (swing_evaluate (pe_config env)) inputs)) (\<lambda>candidates.
    and_then (enter i CANDIDATE_RANKING) (\<lambda>_.
    and_then (attempt (\<lambda>db. rank_swing (pe_config env) candidates)) (\<lambda>scored.
    let qualified = qualified_candidates (pe_config env) scored;
        ranked = first_n (maximum_candidates (pe_config env)) qualified in
    and_then (enter i WATCHLIST_PERSISTENCE) (\<lambda>_.
    persist_result env i target (length inputs) (length candidates) (length qualified) ranked)))))))))"

section \<open>The run\<close>

text \<open>\<open>date.weekday()\<close>: Monday is 0, and the ordinal 1 is a Monday.\<close>

definition weekday :: "date \<Rightarrow> int" where
  "weekday d = (d + 6) mod 7"

definition skipped_result :: "'t pipeline_env \<Rightarrow> date \<Rightarrow> PipelineStage \<Rightarrow> string \<Rightarrow> PipelineResult" where
  "skipped_result env target stage reason = \<lparr>pr_execution_id = None, pr_trading_date = target,
     pr_status = SKIPPED, pr_started_at = pe_started env, pr_finished_at = Some (pe_skipped env),
     pr_stage = stage, pr_screened_count = None, pr_candidate_count = None, pr_qualified_count = None,
     pr_score_threshold = None, pr_persisted_count = None, pr_skipped_reason = Some reason,
     pr_error_code = None, pr_trigger_type = None\<rparr>"

definition failed_outcome :: "'t pipeline_env \<Rightarrow> PipelineStage \<Rightarrow> py_exc \<Rightarrow> Outcome" where
  "failed_outcome env stage e = \<lparr>oc_status = ExecutionStatus.FAILED, oc_stage = stage, oc_screened_count = None,
     oc_candidate_count = None, oc_qualified_count = None, oc_score_threshold = None,
     oc_persisted_count = None, oc_skipped_reason = None, oc_error_code = Some (stage_value stage @ ''_failed''),
     oc_error_detail = Some (take 200 (pe_class_name env e))\<rparr>"

definition run_acquired :: "'t pipeline_env \<Rightarrow> uuid \<Rightarrow> date \<Rightarrow> bool \<Rightarrow> 't pipeline_db \<Rightarrow> 't pipeline_db \<times> PipelineResult res" where
  "run_acquired env i target force_reanalysis db =
    (case pipeline_body env i target force_reanalysis
        (db, if force_reanalysis then INDICATOR_CALCULATION else MARKET_SYNC) of
       ((db', st), Inr row) \<Rightarrow> (db', Inr (pipeline_result row))
     | ((db', st), Inl e) \<Rightarrow>
         (case finish_execution_row (pd_executions db') i (pe_failed env) (failed_outcome env st e) of
           Inl e' \<Rightarrow> (db', Inl e')
         | Inr (es, row) \<Rightarrow> (db'\<lparr>pd_executions := es\<rparr>, Inr (pipeline_result row))))"

definition pipeline_run :: "'t pipeline_env \<Rightarrow> date option \<Rightarrow> TriggerType \<Rightarrow> bool \<Rightarrow> 't pipeline_db
    \<Rightarrow> 't pipeline_db \<times> PipelineResult res" where
  "pipeline_run env trading_date trigger force_reanalysis db =
    (let target = (case trading_date of Some d \<Rightarrow> d | None \<Rightarrow> pe_today env) in
     if 5 \<le> weekday target then (db, Inr (skipped_result env target RESOLVING_TRADING_DATE ''weekend''))
     else case acquire_execution (pd_executions db) (pe_id env) (pe_acquired env) target trigger
         (pe_stale_after env) force_reanalysis of
       Inl e \<Rightarrow> (db, Inl e)
     | Inr (es, aq) \<Rightarrow> (let db1 = db\<lparr>pd_executions := es\<rparr> in
         if aq_status aq \<noteq> ACQUIRED
         then (db1, Inr (skipped_result env target DUPLICATE_CHECK (acquire_value (aq_status aq))))
         else case aq_execution aq of
           None \<Rightarrow> (db1, Inl (RuntimeError ''acquired execution is missing''))
         | Some run \<Rightarrow> run_acquired env (ex_id run) target force_reanalysis db1))"

end
