(* ===== verification/Watchlist_Props.thy ===== *)
theory Watchlist_Props
  imports Watchlist
begin

text \<open>
  The watchlist store: the text of a score reads back as the score, saving a date and listing it gives
  the candidates back in rank order while the other dates keep their rows, and the newest watchlist
  is that of the newest successful execution.
\<close>

section \<open>Texts of scores read back\<close>

lemma is_digit_digit: "(n :: nat) < 10 \<Longrightarrow> is_digit (char_of (48 + n))"
  by (simp add: is_digit_def)

lemma digits_of_digits: "list_all is_digit (digits_of n)"
proof (induction n rule: digits_of.induct)
  case (1 n)
  then show ?case by (subst digits_of.simps) (auto simp: is_digit_digit)
qed

lemma digits_of_nonempty: "digits_of n \<noteq> []"
  by (subst digits_of.simps) simp

lemma digits_value_append: "digits_value (s @ [c]) = 10 * digits_value s + (int (of_char c) - 48)"
  by (simp add: digits_value_def)

lemma digits_value_digit: "(n :: nat) < 10 \<Longrightarrow> digits_value (s @ [char_of (48 + n)]) = 10 * digits_value s + int n"
  by (simp add: digits_value_append)

lemma digits_value_digits: "digits_value (digits_of n) = int n"
proof (induction n rule: digits_of.induct)
  case (1 n)
  show ?case
  proof (cases "n < 10")
    case True
    then show ?thesis by (subst digits_of.simps) (simp add: digits_value_def)
  next
    case False
    then have "digits_value (digits_of n) = 10 * int (n div 10) + int (n mod 10)"
      using 1 by (subst digits_of.simps) (simp add: digits_value_digit)
    then show ?thesis by presburger
  qed
qed

definition score_char :: "char \<Rightarrow> bool" where
  "score_char c \<longleftrightarrow> is_digit c \<or> c = CHR ''.''"

lemma digit_not: "is_digit c \<Longrightarrow> \<not> is_space c \<and> c \<noteq> CHR ''_'' \<and> c \<noteq> CHR ''-'' \<and> c \<noteq> CHR ''+'' \<and> c \<noteq> CHR ''.''"
  by (auto simp: is_digit_def is_space_def)

lemma dropWhile_none: "list_all (\<lambda>c. \<not> P c) s \<Longrightarrow> dropWhile P s = s"
  by (cases s) auto

lemma strip_none: "list_all (\<lambda>c. \<not> is_space c) s \<Longrightarrow> strip s = s"
  by (simp add: strip_def dropWhile_none)

lemma takeWhile_digits: "list_all P s \<Longrightarrow> \<not> P c \<Longrightarrow> takeWhile P (s @ c # t) = s \<and> dropWhile P (s @ c # t) = c # t"
  by (induction s) auto

lemma parse_fixed:
  assumes "list_all is_digit s" and "is_digit a" and "is_digit b"
  shows "parse_number (s @ ''.'' @ [a, b]) = Some (of_int (digits_value (s @ [a, b])) / 100)"
proof -
  have "\<not> is_digit (CHR ''.'')" by (simp add: is_digit_def)
  with assms show ?thesis
    by (simp add: parse_number_def Let_def takeWhile_digits parse_exponent_def power_int_minus)
qed

lemma decimal_of_digits:
  assumes "list_all is_digit s" and "s \<noteq> []" and "is_digit a" and "is_digit b"
  shows "decimal_of_string (s @ ''.'' @ [a, b]) = Some (Fin (of_int (digits_value (s @ [a, b])) / 100))"
proof -
  let ?t = "s @ ''.'' @ [a, b]"
  have no: "list_all (\<lambda>c. \<not> is_space c \<and> c \<noteq> CHR ''_'' \<and> c \<noteq> CHR ''-'' \<and> c \<noteq> CHR ''+'') ?t"
    using assms digit_not by (auto simp: list_all_iff is_space_def)
  then have "strip ?t = ?t" by (intro strip_none) (auto simp: list_all_iff)
  moreover have "filter (\<lambda>c. c \<noteq> CHR ''_'') ?t = ?t" using no by (intro filter_True) (auto simp: list_all_iff)
  moreover have "drop_sign ?t = (False, ?t)"
    using no assms(2) by (cases s) (auto simp: drop_sign_def)
  ultimately show ?thesis using parse_fixed [OF assms(1,3,4)] by (simp add: decimal_of_string_def Let_def)
qed

lemma two_digits: "10 * (10 * (n div 100) + n div 10 mod 10) + n mod 10 = (n :: nat)"
proof -
  have "n div 100 = n div 10 div 10" by (simp add: div_mult2_eq [symmetric])
  then show ?thesis by simp
qed

lemma score_text_reads_back:
  assumes "0 \<le> x" and "x * 100 \<in> \<int>"
  shows "decimal_of_string (score_text x) = Some (Fin x)"
proof -
  from assms(2) obtain k where k: "x * 100 = of_int k" by (elim Ints_cases)
  with assms(1) have "0 \<le> k" by (metis mult_nonneg_nonneg of_int_0_le_iff zero_le_numeral)
  define n where "n = nat k"
  have n: "nat \<lfloor>x * 100\<rfloor> = n" "x = of_int (int n) / 100" using k \<open>0 \<le> k\<close> by (auto simp: n_def field_simps)
  define a b :: char where ab: "a = char_of (48 + n div 10 mod 10)" "b = char_of (48 + n mod 10)"
  have d: "is_digit a" "is_digit b" by (simp_all add: ab is_digit_digit)
  have "n div 10 mod 10 < 10" "n mod 10 < 10" by simp_all
  note this [THEN digits_value_digit, folded ab]
  then have "digits_value ((digits_of (n div 100) @ [a]) @ [b])
      = 10 * (10 * int (n div 100) + int (n div 10 mod 10)) + int (n mod 10)"
    by (simp only: digits_value_digits)
  then have "digits_value (digits_of (n div 100) @ [a, b])
      = 10 * (10 * int (n div 100) + int (n div 10 mod 10)) + int (n mod 10)" by (simp only: append.simps append_assoc)
  also have "\<dots> = int (10 * (10 * (n div 100) + n div 10 mod 10) + n mod 10)" by simp
  also have "\<dots> = int n" by (simp only: two_digits)
  finally have v: "digits_value (digits_of (n div 100) @ [a, b]) = int n" .
  have "score_text x = digits_of (n div 100) @ ''.'' @ [a, b]"
    unfolding score_text_def n(1) Let_def ab ..
  then show ?thesis
    using decimal_of_digits [OF digits_of_digits digits_of_nonempty d, of "n div 100"] by (simp only: v n(2))
qed

section \<open>Saving and listing\<close>

definition stored_entry :: "uuid \<Rightarrow> date \<Rightarrow> RankedCandidate \<Rightarrow> WatchlistEntry" where
  "stored_entry i d k = \<lparr>we_id = i, we_trading_date = d, we_symbol = rc_symbol k, we_rank = rc_rank k,
     we_total_score = rc_total_score k, we_component_scores = rc_component_scores k,
     we_warnings = rc_warnings k, we_snapshot = rc_source_result k\<rparr>"

lemma row_entry_row: "codec_ok c \<Longrightarrow> score_ok (rc_total_score k) \<Longrightarrow> row_entry c (entry_row c i d k) = Inr (stored_entry i d k)"
proof -
  assume c: "codec_ok c" and "score_ok (rc_total_score k)"
  then have "decimal_of_string (score_text (rc_total_score k)) = Some (Fin (rc_total_score k))"
    by (intro score_text_reads_back) (auto simp: score_ok_def on_grid_def)
  with c show ?thesis by (simp add: row_entry_def entry_row_def stored_entry_def codec_ok_def)
qed

lemma map_insort_key: "map f (insort_key (\<lambda>a. g (f a)) x xs) = insort_key g (f x) (map f xs)"
  by (induction xs) auto

lemma sort_key_map: "sort_key g (map f xs) = map f (sort_key (g \<circ> f) xs)"
  unfolding comp_def by (induction xs) (simp_all add: map_insort_key)

lemma map_of_sorted_zip: "length ids = length ks \<Longrightarrow> map snd (sort_key (g \<circ> snd) (zip ids ks)) = sort_key g ks"
  by (simp add: sort_key_map [symmetric])

lemma entry_row_fields: "er_trading_date (entry_row c i d k) = d" "er_symbol (entry_row c i d k) = rc_symbol k"
  "er_rank (entry_row c i d k) = rc_rank k" "er_id (entry_row c i d k) = i"
  by (simp_all add: entry_row_def)

definition new_rows :: "'t codec \<Rightarrow> uuid list \<Rightarrow> date \<Rightarrow> RankedCandidate list \<Rightarrow> 't EntryRow list" where
  "new_rows c ids d ks = map2 (\<lambda>i k. entry_row c i d k) ids ks"

lemma save_watchlist_iff: "save_watchlist c ids d ks es = Inr es' \<longleftrightarrow> validate_candidates [] [] ks = Inr ()
    \<and> es' = delete_date d es @ new_rows c ids d ks \<and> entries_ok es'"
  by (auto simp: save_watchlist_def bindE_eq_Inr Let_def new_rows_def)

lemma new_rows_date: "r \<in> set (new_rows c ids d ks) \<Longrightarrow> er_trading_date r = d"
  by (auto simp: new_rows_def entry_row_fields dest: set_zip_rightD)

lemma filter_new_rows:
  "filter (\<lambda>e. er_trading_date e = d') (delete_date d es @ new_rows c ids d ks)
    = (if d' = d then new_rows c ids d ks else filter (\<lambda>e. er_trading_date e = d') es)"
proof (cases "d' = d")
  case True
  then show ?thesis
    using new_rows_date by (auto simp: delete_date_def filter_empty_conv intro!: filter_True)
next
  case False
  then have "filter (\<lambda>e. er_trading_date e = d') (new_rows c ids d ks) = []"
    using new_rows_date by (fastforce simp: filter_empty_conv)
  with False show ?thesis by (auto simp: delete_date_def intro: filter_cong)
qed

lemma list_new_rows:
  assumes c: "codec_ok c" and s: "list_all (\<lambda>k. score_ok (rc_total_score k)) ks"
  shows "mapE (row_entry c) (sort_key er_rank (new_rows c ids d ks))
    = Inr (map (\<lambda>(i, k). stored_entry i d k) (sort_key (rc_rank \<circ> snd) (zip ids ks)))"
proof -
  have "sort_key er_rank (new_rows c ids d ks)
      = map (\<lambda>(i, k). entry_row c i d k) (sort_key (rc_rank \<circ> snd) (zip ids ks))"
  proof -
    have "er_rank \<circ> (\<lambda>(i, k). entry_row c i d k) = rc_rank \<circ> snd" by (auto simp: entry_row_fields)
    then show ?thesis by (simp only: new_rows_def sort_key_map)
  qed
  moreover have "row_entry c (entry_row c i d k) = Inr (stored_entry i d k)" if "(i, k) \<in> set (zip ids ks)" for i k
    using that s row_entry_row [OF c] by (auto simp: list_all_iff dest: set_zip_rightD)
  ultimately show ?thesis
    unfolding mapE_iff by (auto simp: list_all_iff value_of_def)
qed

lemma distinct_new_rows: "length ids = length ks \<Longrightarrow> map er_id (new_rows c ids d ks) = ids
    \<and> map er_symbol (new_rows c ids d ks) = map rc_symbol ks \<and> map er_rank (new_rows c ids d ks) = map rc_rank ks"
  by (induction ids ks rule: list_induct2) (simp_all add: new_rows_def entry_row_fields)

lemma find_sorted_rows:
  assumes "distinct (map f rows)" and "r \<in> set rows"
  shows "find (\<lambda>e. f e = f r) rows = Some r"
  using assms by (induction rows) (auto simp: image_iff)

lemma validate_candidates_iff: "validate_candidates symbols ranks ks = Inr u \<longleftrightarrow>
    list_all (\<lambda>k. strip (rc_symbol k) \<noteq> '''' \<and> rc_symbol k \<notin> set symbols \<and> rc_rank k \<notin> set ranks) ks
    \<and> distinct (map rc_symbol ks) \<and> distinct (map rc_rank ks)"
  by (induction ks arbitrary: symbols ranks) (auto simp: bindE_eq_Inr list_all_iff image_iff)

text \<open>
  C14. Saving a watchlist and reading it back. Once a date is saved, listing the date returns the
  candidates with every field, in rank order and each under its identifier; the listing of every other
  date is what it was; and saving the date again after that replaces the first save completely. The
  texts the columns hold lose nothing: the score by the two decimals the rankers give it, the rest by
  the codec.
\<close>

theorem watchlist_roundtrip:
  assumes "codec_ok c" and "list_all (\<lambda>k. score_ok (rc_total_score k)) ks" and "length ids = length ks"
    and "save_watchlist c ids d ks es = Inr es'"
  shows "list_watchlist c d es' = Inr (map (\<lambda>(i, k). stored_entry i d k) (sort_key (rc_rank \<circ> snd) (zip ids ks)))
    \<and> (d' \<noteq> d \<longrightarrow> list_watchlist c d' es' = list_watchlist c d' es)
    \<and> save_watchlist c ids2 d ks2 es' = save_watchlist c ids2 d ks2 es"
proof -
  from assms(4) have es': "es' = delete_date d es @ new_rows c ids d ks" by (simp add: save_watchlist_iff)
  have "list_watchlist c d es' = mapE (row_entry c) (sort_key er_rank (new_rows c ids d ks))"
    by (simp only: list_watchlist_def es' filter_new_rows simp_thms if_True)
  moreover have "d' \<noteq> d \<Longrightarrow> list_watchlist c d' es' = list_watchlist c d' es"
    by (simp only: list_watchlist_def es' filter_new_rows if_False)
  moreover have "delete_date d es' = delete_date d es"
    using new_rows_date by (fastforce simp: es' delete_date_def filter_empty_conv)
  then have "save_watchlist c ids2 d ks2 es' = save_watchlist c ids2 d ks2 es"
    by (simp only: save_watchlist_def)
  ultimately show ?thesis using list_new_rows [OF assms(1,2)] by simp
qed

lemma entries_ok_append:
  assumes "entries_ok es" and "length ids = length ks" and "distinct ids"
    and "list_all (\<lambda>e. er_id e \<notin> set ids) es"
  shows "entries_ok (delete_date d es @ new_rows c ids d ks)
    \<longleftrightarrow> distinct (map rc_symbol ks) \<and> distinct (map rc_rank ks)"
proof -
  let ?old = "delete_date d es" and ?new = "new_rows c ids d ks"
  have old: "entries_ok ?old" "list_all (\<lambda>e. er_id e \<notin> set ids) ?old" "\<forall>e \<in> set ?old. er_trading_date e \<noteq> d"
    using assms(1,4) by (auto simp: entries_ok_def delete_date_def distinct_map_filter list_all_iff)
  have new: "map er_id ?new = ids" "map er_symbol ?new = map rc_symbol ks" "map er_rank ?new = map rc_rank ks"
    using distinct_new_rows [OF assms(2), of c d] by simp_all
  have pair: "map (\<lambda>e. (er_trading_date e, f e)) ?new = map (Pair d) (map f ?new)" for f :: "'a EntryRow \<Rightarrow> 'b"
    using new_rows_date by (auto intro: map_cong)
  have inj: "distinct (map (\<lambda>e. (er_trading_date e, f e)) ?new) \<longleftrightarrow> distinct (map f ?new)" for f :: "'a EntryRow \<Rightarrow> 'b"
    unfolding pair by (simp only: distinct_map [of "Pair d"] inj_on_def) simp
  have apart: "g ` set ?old \<inter> g ` set ?new = {}" if "\<And>e. fst (g e) = er_trading_date e" for g :: "'a EntryRow \<Rightarrow> date \<times> 'b"
  proof -
    { fix e e' assume "e \<in> set ?old" "e' \<in> set ?new" "g e = g e'"
      with that [of e] that [of e'] old(3) new_rows_date [of e' c ids d ks] have False by metis }
    then show ?thesis by blast
  qed
  have ids: "er_id ` set ?new = set ids" using new(1) by (metis list.set_map)
  have "entries_ok (?old @ ?new) \<longleftrightarrow> distinct (map er_symbol ?new) \<and> distinct (map er_rank ?new)"
    using old(1,2) assms(3) ids apart [of "\<lambda>e. (er_trading_date e, er_symbol e)"] apart [of "\<lambda>e. (er_trading_date e, er_rank e)"]
    by (auto simp: entries_ok_def inj new(1) list_all_iff)
  then show ?thesis by (simp only: new)
qed

text \<open>
  When a watchlist is saved. On a table that satisfies its constraints, with new identifiers, a
  save goes through exactly for candidates with nonblank, distinct symbols and distinct ranks, and then
  leaves a table that satisfies the constraints, in which each saved candidate is found by its date and
  symbol; otherwise it raises and the table stays as it was.
\<close>

theorem watchlist_save_accepts:
  assumes "entries_ok es" and "length ids = length ks" and "distinct ids"
    and "list_all (\<lambda>e. er_id e \<notin> set ids) es"
  shows "(returns (save_watchlist c ids d ks es) \<longleftrightarrow> list_all (\<lambda>k. strip (rc_symbol k) \<noteq> '''') ks
      \<and> distinct (map rc_symbol ks) \<and> distinct (map rc_rank ks))
    \<and> (save_watchlist c ids d ks es = Inr es' \<and> codec_ok c \<and> score_ok (rc_total_score k) \<and> (i, k) \<in> set (zip ids ks)
      \<longrightarrow> entries_ok es' \<and> get_entry c d (rc_symbol k) es' = Inr (Some (stored_entry i d k)))"
proof -
  have "returns (save_watchlist c ids d ks es) \<longleftrightarrow> list_all (\<lambda>k. strip (rc_symbol k) \<noteq> '''') ks
      \<and> distinct (map rc_symbol ks) \<and> distinct (map rc_rank ks)"
    using entries_ok_append [OF assms]
    by (auto simp: returns_iff save_watchlist_iff validate_candidates_iff)
  moreover have "get_entry c d (rc_symbol k) es' = Inr (Some (stored_entry i d k))"
    if s: "save_watchlist c ids d ks es = Inr es'" and c: "codec_ok c" "score_ok (rc_total_score k)"
      and k: "(i, k) \<in> set (zip ids ks)"
  proof -
    from s have es': "es' = delete_date d es @ new_rows c ids d ks" "entries_ok es'"
      unfolding save_watchlist_iff by blast+
    let ?r = "entry_row c i d k"
    have "?r \<in> set es'" using k by (force simp: es' new_rows_def)
    then have "find (\<lambda>e. (er_trading_date e, er_symbol e) = (er_trading_date ?r, er_symbol ?r)) es' = Some ?r"
      using es'(2) by (intro find_sorted_rows) (simp_all add: entries_ok_def)
    then show ?thesis using row_entry_row [OF c] by (simp add: get_entry_def entry_row_fields)
  qed
  ultimately show ?thesis by (auto simp: save_watchlist_iff)
qed

section \<open>Newest result, history and existence\<close>

lemma max_date_Max: "max_date ds = (if ds = [] then None else Some (Max (set ds)))"
proof (cases ds)
  case (Cons d ds')
  have "foldl max d ds' = fold max ds' d" for d by (induction ds' arbitrary: d) (simp_all add: max.commute)
  then show ?thesis by (simp add: Cons max_date_def Max.set_eq_fold [symmetric])
qed (simp add: max_date_def)

lemma dates_desc_strict: "sorted_wrt (>) (dates_desc ds)"
  by (simp add: dates_desc_def sorted_wrt_rev strict_sorted_iff)

lemma dates_desc_set [simp]: "set (dates_desc ds) = set ds"
  by (simp add: dates_desc_def)

lemma dates_desc_Nil [simp]: "dates_desc ds = [] \<longleftrightarrow> ds = []"
  by (metis dates_desc_set set_empty)

lemma dates_desc_hd:
  assumes "ds \<noteq> []"
  shows "hd (dates_desc ds) = Max (set ds)"
proof -
  obtain x xs where x: "dates_desc ds = x # xs" using assms by (cases "dates_desc ds") auto
  with dates_desc_strict [of ds] have "\<forall>y \<in> set xs. y < x" by simp
  moreover have "set ds = insert x (set xs)" using x dates_desc_set [of ds] by simp
  ultimately show ?thesis by (simp add: x) (metis Max_insert2 List.finite_set order.strict_implies_order)
qed

text \<open>
  The newest watchlist, the history and the existence test tell one story: the history is strictly
  falling, a date exists exactly when the history lists it, and the newest date is the first of the
  history. All three go by successful executions, also those with an empty result, and fall back to
  the stored entries exactly when no execution was ever recorded.
\<close>

theorem watchlist_history_consistent:
  "sorted_wrt (>) (watchlist_history xs es)
    \<and> (watchlist_exists d xs es \<longleftrightarrow> d \<in> set (watchlist_history xs es))
    \<and> latest_date xs es = (if watchlist_history xs es = [] then None else Some (hd (watchlist_history xs es)))
    \<and> set (watchlist_history xs es) = (if xs = [] then er_trading_date ` set es
        else {ex_trading_date x | x. x \<in> set xs \<and> ex_status x = SUCCEEDED})"
proof -
  have s: "set (succeeded_dates xs) = {ex_trading_date x | x. x \<in> set xs \<and> ex_status x = SUCCEEDED}"
    by (auto simp: succeeded_dates_def)
  have e: "succeeded_dates [] = []" by (simp add: succeeded_dates_def)
  have "sorted_wrt (>) (watchlist_history xs es)"
    by (simp add: watchlist_history_def Let_def dates_desc_strict)
  moreover have h: "set (watchlist_history xs es) = (if xs = [] then er_trading_date ` set es
        else {ex_trading_date x | x. x \<in> set xs \<and> ex_status x = SUCCEEDED})"
    using s e by (auto simp: watchlist_history_def Let_def)
  moreover have "watchlist_exists d xs es \<longleftrightarrow> d \<in> set (watchlist_history xs es)"
    by (auto simp: watchlist_exists_def h list_ex_iff image_iff)
  moreover have "latest_date xs es = (if watchlist_history xs es = [] then None else Some (hd (watchlist_history xs es)))"
    using e by (auto simp: latest_date_def watchlist_history_def Let_def max_date_Max dates_desc_hd)
  ultimately show ?thesis by blast
qed

section \<open>Concrete saves\<close>

text \<open>A codec whose texts are the values themselves.\<close>

datatype plain_text = ComponentsText metric_dict | WarningsText "string list" | SnapshotText ScreeningResult

definition plain_codec :: "plain_text codec" where
  "plain_codec = \<lparr>dump_components = ComponentsText, load_components = (\<lambda>t. case t of ComponentsText x \<Rightarrow> x | _ \<Rightarrow> []),
     dump_warnings = WarningsText, load_warnings = (\<lambda>t. case t of WarningsText x \<Rightarrow> x | _ \<Rightarrow> []),
     dump_snapshot = SnapshotText, load_snapshot = (\<lambda>t. case t of SnapshotText x \<Rightarrow> x | _ \<Rightarrow> passing '''' [])\<rparr>"

definition plain_candidate :: "string \<Rightarrow> nat \<Rightarrow> decimal \<Rightarrow> RankedCandidate" where
  "plain_candidate s r x = \<lparr>rc_symbol = s, rc_rank = r, rc_total_score = x, rc_component_scores = [],
     rc_source_result = passing s [], rc_warnings = []\<rparr>"

lemma plain_codec_ok: "codec_ok plain_codec"
  by (simp add: codec_ok_def plain_codec_def)

definition two_candidates :: "RankedCandidate list" where
  "two_candidates = [plain_candidate ''B'' 2 (85 / 2), plain_candidate ''A'' 1 90]"

definition two_rows :: "plain_text EntryRow list" where
  "two_rows = new_rows plain_codec [7, 8] 738000 two_candidates"

lemma two_scores_ok: "list_all (\<lambda>k. score_ok (rc_total_score k)) two_candidates"
proof -
  have "(85 / 2 :: rat) * 10 ^ 2 = of_int 4250" "(90 :: rat) * 10 ^ 2 = of_int 9000" by simp_all
  then show ?thesis unfolding two_candidates_def plain_candidate_def score_ok_def on_grid_def by auto
qed

lemma two_saved: "save_watchlist plain_codec [7, 8] 738000 two_candidates [] = Inr two_rows"
  by (simp add: save_watchlist_iff validate_candidates_iff two_rows_def delete_date_def entries_ok_def new_rows_def
      two_candidates_def plain_candidate_def entry_row_fields strip_def is_space_def)

lemma watchlist_roundtrip_witness:
  "list_watchlist plain_codec 738000 two_rows
    = Inr [stored_entry 8 738000 (plain_candidate ''A'' 1 90), stored_entry 7 738000 (plain_candidate ''B'' 2 (85 / 2))]"
proof -
  have "length [7, 8 :: nat] = length two_candidates" by (simp add: two_candidates_def)
  from watchlist_roundtrip [OF plain_codec_ok two_scores_ok this two_saved] show ?thesis
    by (simp add: two_candidates_def plain_candidate_def)
qed

lemma watchlist_save_accepts_witness: "returns (save_watchlist plain_codec [7, 8] 738000 two_candidates [])
    \<and> \<not> returns (save_watchlist plain_codec [7, 8] 738000 [plain_candidate ''A'' 1 90, plain_candidate ''B'' 1 80] [])"
proof -
  have "entries_ok ([] :: plain_text EntryRow list)" by (simp add: entries_ok_def)
  from watchlist_save_accepts [OF this, of "[7, 8]"] show ?thesis
    by (simp add: two_candidates_def plain_candidate_def strip_def is_space_def)
qed

end
