(* ===== verification/Sync_Props.thy ===== *)
theory Sync_Props
  imports Sync
begin

text \<open>
  What a synchronization leaves behind: the bookkeeping of its run and the tables its body committed, stated
  once for every body that neither changes nor reads the job log and interpreted for the two services, and the
  effect of the bar synchronization on the bar table, batch by batch.
\<close>

section \<open>Bookkeeping\<close>

lemma job_start_fields:
  assumes "job_start name now db = (db1, run)"
  shows "mdb_stocks db1 = mdb_stocks db" "mdb_bars db1 = mdb_bars db" "mdb_runs db1 = mdb_runs db @ [run]"
    "run_job run = name" "run_started_at run = now" "\<forall>r \<in> set (mdb_runs db). run_id r < run_id run"
    "find_row job_name name (mdb_jobs db1) \<noteq> None"
proof -
  show "mdb_stocks db1 = mdb_stocks db" "mdb_bars db1 = mdb_bars db" "mdb_runs db1 = mdb_runs db @ [run]"
    "run_job run = name" "run_started_at run = now"
    using assms by (auto simp: job_start_def Let_def)
  have le: "x \<le> foldl max a xs" if "x \<in> set xs \<or> x \<le> a" for x a :: nat and xs
    using that by (induction xs arbitrary: a) (auto simp: max.coboundedI1 max.coboundedI2)
  have "run_id run = foldl max 0 (map run_id (mdb_runs db)) + 1" using assms by (auto simp: job_start_def Let_def)
  then show "\<forall>r \<in> set (mdb_runs db). run_id r < run_id run"
    using le [of _ "map run_id (mdb_runs db)" 0] by (auto simp: less_Suc_eq_le)
  show "find_row job_name name (mdb_jobs db1) \<noteq> None"
    using assms by (auto simp: job_start_def Let_def job_table.find_row_None dest!: job_table.find_row_Some split: option.splits)
qed

lemma put_row_last: "key q = key r \<Longrightarrow> \<forall>p \<in> set rs. key p \<noteq> key r \<Longrightarrow> put_row key r (rs @ [q]) = rs @ [r]"
  by (induction rs) auto

lemma find_row_last: "\<forall>p \<in> set rs. key p \<noteq> key r \<Longrightarrow> find_row key (key r) (rs @ [r]) = Some r"
  by (induction rs) (auto simp: find_row_def)

lemma finish_job_instant: "is_error e \<Longrightarrow> job_last_failure_at (finish_job now e j) = Some now"
  "\<not> is_error e \<Longrightarrow> job_last_success_at (finish_job now e j) = Some now"
  by (simp_all add: finish_job_def)

text \<open>What a run leaves in the job log: one finished run row, and its job's instant.\<close>

definition run_logged :: "(py_exc \<Rightarrow> string) \<Rightarrow> sync_clock \<Rightarrow> string \<Rightarrow> SyncResult res \<Rightarrow> market_db \<Rightarrow> market_db \<Rightarrow> bool" where
  "run_logged message clk name res db db' \<longleftrightarrow>
    (\<exists>row. mdb_runs db' = mdb_runs db @ [row] \<and> run_job row = name \<and> run_started_at row = sc_started clk
      \<and> run_finished_at row = Some (sc_finished clk)
      \<and> (case res of
           Inr y \<Rightarrow> run_status row = ''succeeded'' \<and> run_error row = None \<and> sy_inserted y = run_inserted row
             \<and> sy_updated y = run_updated row \<and> sy_skipped y = run_skipped row
         | Inl e \<Rightarrow> run_error row = Some (take 2000 (message e)) \<and> run_inserted row = 0 \<and> run_updated row = 0
             \<and> run_skipped row = 0
             \<and> run_status row = (if message e = '''' then ''succeeded'' else ''failed'')))
    \<and> (\<exists>j. find_row job_name name (mdb_jobs db') = Some j
      \<and> (case res of
           Inr y \<Rightarrow> job_last_success_at j = Some (sc_finished clk)
         | Inl e \<Rightarrow> if message e = '''' then job_last_success_at j = Some (sc_finished clk)
             else job_last_failure_at j = Some (sc_finished clk)))"

definition counts_of :: "SyncResult \<Rightarrow> UpsertResult" where
  "counts_of y = \<lparr>up_inserted = sy_inserted y, up_updated = sy_updated y, up_skipped = sy_skipped y\<rparr>"

locale sync_body =
  fixes body :: "market_db \<Rightarrow> market_db \<times> UpsertResult res"
  assumes keeps_log: "body db = (db', r) \<Longrightarrow> mdb_jobs db' = mdb_jobs db \<and> mdb_runs db' = mdb_runs db"
    and ignores_log: "body (db\<lparr>mdb_jobs := js, mdb_runs := rs\<rparr>)
      = ((fst (body db))\<lparr>mdb_jobs := js, mdb_runs := rs\<rparr>, snd (body db))"
begin

lemma run_locked_recorded:
  assumes "run_locked message to_ms clk name body db = (db', res)"
  shows "run_logged message clk name res db db'" "mdb_stocks db' = mdb_stocks (fst (body db))" "mdb_bars db' = mdb_bars (fst (body db))"
    "case res of Inl e \<Rightarrow> snd (body db) = Inl e | Inr y \<Rightarrow> snd (body db) = Inr (counts_of y)"
proof -
  obtain db1 run where s: "job_start name (sc_started clk) db = (db1, run)" by fastforce
  note f = job_start_fields [OF s]
  obtain db2 r where b: "body db1 = (db2, r)" by fastforce
  note k = keeps_log [OF b]
  have "db1 = db\<lparr>mdb_jobs := mdb_jobs db1, mdb_runs := mdb_runs db1\<rparr>" using f(1,2) by simp
  then have "body db1 = ((fst (body db))\<lparr>mdb_jobs := mdb_jobs db1, mdb_runs := mdb_runs db1\<rparr>, snd (body db))"
    using ignores_log by metis
  with b have "db2 = (fst (body db))\<lparr>mdb_jobs := mdb_jobs db1, mdb_runs := mdb_runs db1\<rparr>" "snd (body db) = r" by simp_all
  then have own: "mdb_stocks (fst (body db)) = mdb_stocks db2" "mdb_bars (fst (body db)) = mdb_bars db2" "snd (body db) = r"
    by simp_all
  have ids: "\<forall>p \<in> set (mdb_runs db). run_id p \<noteq> run_id run" using f(6) by auto
  obtain j where j: "find_row job_name name (mdb_jobs db2) = Some j" using k f(7) by auto
  have find: "find_row run_id (run_id run) (mdb_runs db2) = Some run"
    using k f(3) ids by (simp add: find_row_last)
  have fin: "job_finish to_ms run (sc_finished clk) u e db2 = Inr (db2\<lparr>mdb_runs := mdb_runs db
      @ [finish_run to_ms (sc_finished clk) u e run], mdb_jobs := put_row job_name (finish_job (sc_finished clk) e j) (mdb_jobs db2)\<rparr>)"
    for u e
    using j k f(3,4) ids by (simp add: job_finish_def finish_run_def put_row_last)
  have "job_name j = name" using job_table.find_row_Some [OF j] by simp
  then have job: "find_row job_name name (put_row job_name (finish_job now e j) (mdb_jobs db2)) = Some (finish_job now e j)" for now e
    by (simp add: job_table.find_put_row finish_job_def)
  have err: "is_error (Some (take 2000 (message e))) \<longleftrightarrow> message e \<noteq> ''''" "\<not> is_error None" "\<not> is_error (Some [])" for e
    by (simp_all add: is_error_def)
  have "run_logged message clk name res db db' \<and> mdb_stocks db' = mdb_stocks db2 \<and> mdb_bars db' = mdb_bars db2
      \<and> (case res of Inl e \<Rightarrow> r = Inl e | Inr y \<Rightarrow> r = Inr (counts_of y))"
  proof (cases r)
    case (Inr u)
    with assms s b fin job show ?thesis
      by (auto simp: run_locked_def run_logged_def finish_run_def finish_job_instant f err counts_of_def)
  next
    case (Inl e)
    with assms s b fin find job show ?thesis
      by (auto simp: run_locked_def run_logged_def record_failure_def finish_run_def finish_job_instant f err no_rows_def)
  qed
  then show "run_logged message clk name res db db'" "mdb_stocks db' = mdb_stocks (fst (body db))" "mdb_bars db' = mdb_bars (fst (body db))"
    "case res of Inl e \<Rightarrow> snd (body db) = Inl e | Inr y \<Rightarrow> snd (body db) = Inr (counts_of y)"
    by (simp_all only: own)
qed

end

interpretation stock_body: sync_body "stock_sync provider" for provider
  by unfold_locales (auto simp: stock_sync_def split: sum.splits prod.splits if_splits)

section \<open>The bar table\<close>

lemma sync_symbol_log: "sync_symbol provider years today latest s x = Inr s' \<Longrightarrow>
    mdb_jobs (fst s') = mdb_jobs (fst s) \<and> mdb_runs (fst s') = mdb_runs (fst s) \<and> mdb_stocks (fst s') = mdb_stocks (fst s)"
  by (auto simp: sync_symbol_def Let_def bindE_eq_Inr split: prod.splits if_splits)

text \<open>The batches of the active symbols, and the tables after the first of them.\<close>

definition symbol_batches :: "nat \<Rightarrow> market_db \<Rightarrow> string list list" where
  "symbol_batches n db = batches n (map st_symbol (active_stocks (mdb_stocks db)))"

definition after_batches :: "provider \<Rightarrow> int \<Rightarrow> nat \<Rightarrow> date \<Rightarrow> market_db \<Rightarrow> nat \<Rightarrow> (market_db \<times> UpsertResult) res" where
  "after_batches provider years n today db k =
    foldE (sync_symbol provider years today (latest_dates (map st_symbol (active_stocks (mdb_stocks db))) (mdb_bars db)))
      (db, no_rows) (concat (take k (symbol_batches n db)))"

lemma bar_sync_batches:
  assumes "bar_sync provider years n today db = (db', r)" and "0 < n"
  shows "\<exists>k u. after_batches provider years n today db k = Inr (db', u)
    \<and> (case r of Inr v \<Rightarrow> v = u \<and> length (symbol_batches n db) \<le> k
       | Inl e \<Rightarrow> after_batches provider years n today db (Suc k) = Inl e)"
proof -
  let ?f = "sync_symbol provider years today (latest_dates (map st_symbol (active_stocks (mdb_stocks db))) (mdb_bars db))"
  obtain d u q where s: "sync_batches ?f (symbol_batches n db) (db, no_rows) = ((d, u), q)" by (metis prod.exhaust)
  then have d: "d = db'" "r = (case q of Inr _ \<Rightarrow> Inr u | Inl e \<Rightarrow> Inl e)"
    using assms by (auto simp: bar_sync_def symbol_batches_def Let_def split: sum.splits)
  obtain k where "after_batches provider years n today db k = Inr (d, u)"
      "case q of Inr _ \<Rightarrow> length (symbol_batches n db) \<le> k | Inl e \<Rightarrow> after_batches provider years n today db (Suc k) = Inl e"
    using sync_batches_stop [OF s] unfolding after_batches_def by blast
  with d show ?thesis by (intro exI [of _ k] exI [of _ u]) (simp split: sum.splits)
qed

lemma bar_sync_fold:
  assumes "bar_sync provider years n today db = (db', r)"
  shows "\<exists>xs u. foldE (sync_symbol provider years today (latest_dates (map st_symbol (active_stocks (mdb_stocks db))) (mdb_bars db)))
    (db, no_rows) xs = Inr (db', u)"
proof (cases "n = 0")
  case True
  with assms show ?thesis by (intro exI [of _ "[]"]) (simp add: bar_sync_def Let_def)
next
  case False
  then show ?thesis using bar_sync_batches [OF assms] unfolding after_batches_def by blast
qed

lemma bar_sync_log: "bar_sync provider years n today db = (db', r) \<Longrightarrow>
    mdb_jobs db' = mdb_jobs db \<and> mdb_runs db' = mdb_runs db \<and> mdb_stocks db' = mdb_stocks db"
proof -
  assume "bar_sync provider years n today db = (db', r)"
  then obtain xs u where f: "foldE (sync_symbol provider years today
      (latest_dates (map st_symbol (active_stocks (mdb_stocks db))) (mdb_bars db))) (db, no_rows) xs = Inr (db', u)"
    using bar_sync_fold by blast
  have "(\<lambda>s. mdb_jobs (fst s) = mdb_jobs db \<and> mdb_runs (fst s) = mdb_runs db \<and> mdb_stocks (fst s) = mdb_stocks db) (db', u)"
    using f by (rule foldE_invariant) (auto dest: sync_symbol_log)
  then show ?thesis by simp
qed

text \<open>The log plays no part in a bar synchronization: replacing it before or after is the same.\<close>

definition with_log :: "SyncJob list \<Rightarrow> SyncJobRun list \<Rightarrow> market_db \<times> 'u \<Rightarrow> market_db \<times> 'u" where
  "with_log js rs s = ((fst s)\<lparr>mdb_jobs := js, mdb_runs := rs\<rparr>, snd s)"

lemma sync_symbol_with_log: "sync_symbol provider years today latest (with_log js rs s) x
    = map_sum (\<lambda>e. e) (with_log js rs) (sync_symbol provider years today latest s x)"
  by (cases s) (auto simp: sync_symbol_def with_log_def bindE_def Let_def split: sum.split)

lemma foldE_commute:
  assumes "\<And>s x. f (g s) x = map_sum (\<lambda>e. e) g (f s x)"
  shows "foldE f (g s) xs = map_sum (\<lambda>e. e) g (foldE f s xs)"
proof (induction xs arbitrary: s)
  case (Cons x xs)
  then show ?case by (cases "f s x") (simp_all add: assms bindE_def)
qed simp

lemma sync_batches_commute:
  assumes "\<And>s x. f (g s) x = map_sum (\<lambda>e. e) g (f s x)"
  shows "sync_batches f bs (g s) = map_prod g (\<lambda>r. r) (sync_batches f bs s)"
proof (induction bs arbitrary: s)
  case (Cons b bs)
  then show ?case by (cases "foldE f s b") (simp_all add: foldE_commute [of f g, OF assms])
qed simp

lemma bar_sync_with_log: "bar_sync provider years n today (db\<lparr>mdb_jobs := js, mdb_runs := rs\<rparr>)
    = ((fst (bar_sync provider years n today db))\<lparr>mdb_jobs := js, mdb_runs := rs\<rparr>, snd (bar_sync provider years n today db))"
proof -
  let ?symbols = "map st_symbol (active_stocks (mdb_stocks db))"
  let ?f = "sync_symbol provider years today (latest_dates ?symbols (mdb_bars db))"
  obtain d u q where s: "sync_batches ?f (batches n ?symbols) (db, no_rows) = ((d, u), q)" by (metis prod.exhaust)
  have "sync_batches ?f (batches n ?symbols) (with_log js rs (db, no_rows)) = ((d\<lparr>mdb_jobs := js, mdb_runs := rs\<rparr>, u), q)"
    unfolding sync_batches_commute [of ?f "with_log js rs", OF sync_symbol_with_log] s by (simp add: with_log_def)
  with s show ?thesis by (simp add: bar_sync_def Let_def with_log_def split: sum.split)
qed

interpretation bar_body: sync_body "bar_sync provider years n today" for provider years n today
proof
  show "mdb_jobs db' = mdb_jobs db \<and> mdb_runs db' = mdb_runs db" if "bar_sync provider years n today db = (db', r)" for db db' r
    using bar_sync_log [OF that] by blast
qed (rule bar_sync_with_log)

section \<open>Properties\<close>

text \<open>
  C18. What a synchronization leaves, for both services. In the job log: exactly one new run, finished, with
  the counts of the result; a run that raised has no counts and the text of its exception, and is recorded
  as failed unless that text is empty, in which case it is recorded as succeeded; the job notes the instant
  accordingly. In the other tables: what the body committed, also when it raised. The stock synchronization
  commits all or nothing; the bar synchronization keeps every batch before the one that failed, and
  nothing of that one. The answer is the body's: its counts or its exception.
\<close>

theorem sync_run_recorded:
  assumes "body = stock_sync provider \<or> body = bar_sync provider years n today"
    and "run_locked message to_ms clk name body db = (db', res)"
  shows "run_logged message clk name res db db'
    \<and> mdb_stocks db' = mdb_stocks (fst (body db)) \<and> mdb_bars db' = mdb_bars (fst (body db))
    \<and> (case res of Inl e \<Rightarrow> snd (body db) = Inl e | Inr y \<Rightarrow> snd (body db) = Inr (counts_of y))
    \<and> (body = stock_sync provider \<longrightarrow> mdb_bars db' = mdb_bars db \<and> (\<forall>e. res = Inl e \<longrightarrow> mdb_stocks db' = mdb_stocks db))
    \<and> (body = bar_sync provider years n today \<and> 0 < n \<longrightarrow> mdb_stocks db' = mdb_stocks db
        \<and> (\<exists>k kept u. after_batches provider years n today db k = Inr (kept, u) \<and> mdb_bars db' = mdb_bars kept
            \<and> (case res of Inr y \<Rightarrow> counts_of y = u \<and> length (symbol_batches n db) \<le> k
               | Inl e \<Rightarrow> after_batches provider years n today db (Suc k) = Inl e)))"
proof -
  obtain d r where b: "body db = (d, r)" by fastforce
  have body: "sync_body body" using assms(1) stock_body.sync_body_axioms bar_body.sync_body_axioms by blast
  note rec = sync_body.run_locked_recorded [OF body assms(2), unfolded b fst_conv snd_conv]
  have "mdb_bars d = mdb_bars db \<and> (\<forall>e. r = Inl e \<longrightarrow> mdb_stocks d = mdb_stocks db)" if "body = stock_sync provider"
    using b unfolding that by (auto simp: stock_sync_def split: sum.splits prod.splits if_splits)
  moreover have "mdb_stocks d = mdb_stocks db \<and> (\<exists>k u. after_batches provider years n today db k = Inr (d, u)
      \<and> (case r of Inr v \<Rightarrow> v = u \<and> length (symbol_batches n db) \<le> k
         | Inl e \<Rightarrow> after_batches provider years n today db (Suc k) = Inl e))"
    if "body = bar_sync provider years n today \<and> 0 < n"
    using b that bar_sync_batches bar_sync_log by metis
  ultimately show ?thesis
    using rec b by (cases res) auto
qed

definition empty_db :: market_db where
  "empty_db = \<lparr>mdb_stocks = [], mdb_bars = [], mdb_jobs = [], mdb_runs = []\<rparr>"

definition silent_error :: ProviderError where
  "silent_error = \<lparr>er_kind = ProviderUnavailableError, er_message = '''', er_provider = ''toss'', er_retryable = True,
     er_provider_code = None, er_request_id = None, er_retry_after = None, er_provider_message = None\<rparr>"

definition silent :: provider where
  "silent = \<lparr>pv_stock_master = (\<lambda>m. Inl (ProviderException silent_error)), pv_daily_bars = (\<lambda>s a b. Inr [])\<rparr>"

definition demo_clock :: sync_clock where
  "demo_clock = \<lparr>sc_started = 0, sc_finished = 5, sc_today = 700000\<rparr>"

lemma sync_run_recorded_witness:
  "\<exists>row db'. run_locked (\<lambda>e. '''') (\<lambda>x. x) demo_clock ''stock_master'' (stock_sync silent) empty_db
      = (db', Inl (ProviderException silent_error)) \<and> mdb_runs db' = [row] \<and> run_status row = ''succeeded''"
proof -
  obtain db' res where r: "run_locked (\<lambda>e. '''') (\<lambda>x. x) demo_clock ''stock_master'' (stock_sync silent) empty_db = (db', res)"
    by fastforce
  have "snd (run_locked (\<lambda>e. '''') (\<lambda>x. x) demo_clock ''stock_master'' (stock_sync silent) empty_db)
      = Inl (ProviderException silent_error)"
    by (simp add: run_locked_def job_start_def empty_db_def stock_sync_def silent_def record_failure_def find_row_def
      job_finish_def Let_def)
  with r have res: "res = Inl (ProviderException silent_error)" by simp
  obtain row where "mdb_runs db' = mdb_runs empty_db @ [row]" "run_status row = ''succeeded''"
    using sync_run_recorded [OF _ r, of silent 1 1 0] unfolding res run_logged_def by auto
  with r res show ?thesis by (auto simp: empty_db_def)
qed

text \<open>Every row a bar synchronization adds or changes is dated no later than its day.\<close>

lemma sync_symbol_dates:
  assumes "sync_symbol provider years today latest s x = Inr s'" and "r \<in> set (mdb_bars (fst s'))"
  shows "r \<in> set (mdb_bars (fst s)) \<or> br_date r \<le> today"
proof -
  obtain db u where s: "s = (db, u)" by fastforce
  show ?thesis
  proof (cases "today < sync_start years today latest x")
    case True
    with assms s show ?thesis by (auto simp: sync_symbol_def)
  next
    case False
    with assms(1) s obtain bars rows v where b: "\<forall>b \<in> set bars. mk_date b \<le> today"
      and up: "upsert_bars bars (mdb_stocks db) (mdb_bars db) = Inr (rows, v)" and s': "mdb_bars (fst s') = rows"
      by (auto simp: sync_symbol_def Let_def bindE_eq_Inr list_ex_iff not_less)
    have put: "q \<in> set (put_row bar_key p t) \<Longrightarrow> q = p \<or> q \<in> set t" for q p t
      by (induction t) (auto split: if_splits)
    have puts: "q \<in> set (put_rows bar_key ps t) \<Longrightarrow> q \<in> set ps \<or> q \<in> set t" for q ps t
      by (induction ps arbitrary: t) (auto simp: put_rows_def dest: put)
    obtain u' cs where c: "classify_rows (\<lambda>r. find_row bar_key (bar_key r) (mdb_bars db)) (=) (map bar_row bars) = (u', cs)"
      by fastforce
    have "rows = mdb_bars db \<or> rows = put_rows bar_key (map stored_row cs) (mdb_bars db)"
      using up c by (auto simp: upsert_bars_def split: if_splits)
    then have "r \<in> set (mdb_bars db) \<or> r \<in> stored_row ` set cs" using assms(2) s' puts by force
    moreover have "set cs \<subseteq> bar_row ` set bars" using classify_rows_eq [OF c] by auto
    ultimately show ?thesis using b s by (auto simp: stored_row_def bar_row_def)
  qed
qed

lemma keeps_distinct: "sync_symbol provider years today latest s x = Inr s' \<Longrightarrow>
    distinct (map bar_key (mdb_bars (fst s))) \<Longrightarrow> distinct (map bar_key (mdb_bars (fst s')))"
  by (auto simp: sync_symbol_def Let_def bindE_eq_Inr upsert_bars_def split: prod.splits if_splits
    intro: bar_table.put_rows_distinct)

text \<open>
  The bar synchronization, whether it succeeds or stops half way, keeps one row per symbol and
  date, dates nothing after its day, and touches neither the stocks nor the job log.
\<close>

theorem bar_sync_keeps:
  assumes "bar_sync provider years n today db = (db', r)" and "distinct (map bar_key (mdb_bars db))"
    and "list_all (\<lambda>b. br_date b \<le> today) (mdb_bars db)"
  shows "distinct (map bar_key (mdb_bars db')) \<and> list_all (\<lambda>b. br_date b \<le> today) (mdb_bars db')
    \<and> mdb_stocks db' = mdb_stocks db \<and> mdb_jobs db' = mdb_jobs db \<and> mdb_runs db' = mdb_runs db"
proof -
  obtain xs u where f: "foldE (sync_symbol provider years today
      (latest_dates (map st_symbol (active_stocks (mdb_stocks db))) (mdb_bars db))) (db, no_rows) xs = Inr (db', u)"
    using bar_sync_fold [OF assms(1)] by blast
  have "(\<lambda>s. distinct (map bar_key (mdb_bars (fst s))) \<and> list_all (\<lambda>b. br_date b \<le> today) (mdb_bars (fst s))) (db', u)"
    using f
  proof (rule foldE_invariant)
    fix s x s'
    assume "distinct (map bar_key (mdb_bars (fst s))) \<and> list_all (\<lambda>b. br_date b \<le> today) (mdb_bars (fst s))"
      and "sync_symbol provider years today (latest_dates (map st_symbol (active_stocks (mdb_stocks db))) (mdb_bars db)) s x = Inr s'"
    then show "distinct (map bar_key (mdb_bars (fst s'))) \<and> list_all (\<lambda>b. br_date b \<le> today) (mdb_bars (fst s'))"
      using keeps_distinct sync_symbol_dates unfolding list_all_iff by blast
  qed (use assms in simp)
  then show ?thesis using bar_sync_log [OF assms(1)] by simp
qed

lemma bar_sync_keeps_witness:
  "distinct (map bar_key (mdb_bars (fst (bar_sync silent 3 500 700000 empty_db))))"
proof -
  obtain db' r where b: "bar_sync silent 3 500 700000 empty_db = (db', r)" by fastforce
  show ?thesis using bar_sync_keeps [OF b] b by (simp add: empty_db_def)
qed

text \<open>
  The batches of a synchronization terminate and partition the symbols: in order, none lost, none
  empty, none longer than the batch size.
\<close>

theorem batches_partition:
  assumes "0 < n"
  shows "concat (batches n xs) = xs \<and> list_all (\<lambda>b. b \<noteq> [] \<and> length b \<le> n) (batches n xs)"
proof -
  have "list_all (\<lambda>b. b \<noteq> [] \<and> length b \<le> n) (batches n xs)"
    using assms
  proof (induction n xs rule: batches.induct)
    case (1 n xs)
    then show ?case by (simp add: batches.simps [of n xs])
  qed
  then show ?thesis using concat_batches [OF assms] by simp
qed

lemma batches_partition_witness: "concat (batches 2 [1, 2, 3 :: nat]) = [1, 2, 3]"
  using batches_partition [of 2 "[1, 2, 3 :: nat]"] by simp

end
