(* ===== verification/Pipeline_Inputs.thy ===== *)
theory Pipeline_Inputs
  imports Pipeline Watchlist_Props Sync_Props
begin

text \<open>
  What the screening inputs of a date are: the window query keeps the newest bars of each symbol, the
  grouping loop collects them in date order, and the filter keeps the symbols that traded on the date.
  The result is compared with its plain description, the last bars of the symbol's history.
\<close>

section \<open>The window query\<close>

lemma sorted_window:
  assumes "sorted_wrt (\<lambda>a b. f a < (f b :: 'k :: linorder)) xs"
  shows "filter (\<lambda>r. int (length (filter (\<lambda>q. f r < f q) xs)) + 1 \<le> n) xs = last_n (nat n) xs"
  using assms
proof (induction xs)
  case (Cons x xs)
  then have later: "filter (\<lambda>q. f r < f q) (x # xs) = filter (\<lambda>q. f r < f q) xs" if "r \<in> set xs" for r
    using that by (auto dest: less_asym)
  have "filter (\<lambda>q. f x < f q) (x # xs) = xs" using Cons.prems by (simp add: filter_id_conv)
  then have "int (length (filter (\<lambda>q. f x < f q) (x # xs))) + 1 \<le> n \<longleftrightarrow> Suc (length xs) \<le> nat n" by auto
  moreover have "filter (\<lambda>r. int (length (filter (\<lambda>q. f r < f q) (x # xs))) + 1 \<le> n) xs = last_n (nat n) xs"
    using Cons later by (simp cong: filter_cong)
  ultimately show ?case by (auto simp: last_n_def Suc_diff_le not_le)
qed (simp add: last_n_def)

text \<open>The bars of one symbol up to a date, oldest first.\<close>

definition history_of :: "date \<Rightarrow> market_db \<Rightarrow> string \<Rightarrow> BarRow list" where
  "history_of target db s = sort_key br_date (filter (\<lambda>r. br_symbol r = s \<and> br_date r \<le> target) (mdb_bars db))"

definition screened_symbol :: "market_db \<Rightarrow> string \<Rightarrow> bool" where
  "screened_symbol db s \<longleftrightarrow> list_ex (\<lambda>t. st_symbol t = s \<and> screened_stock t) (mdb_stocks db)"

lemma screened_rows_of: "filter (\<lambda>r. br_symbol r = s) (screened_rows target db)
    = (if screened_symbol db s then filter (\<lambda>r. br_symbol r = s \<and> br_date r \<le> target) (mdb_bars db) else [])"
  by (auto simp: screened_rows_def screened_symbol_def filter_empty_conv list_ex_iff intro!: filter_cong)

lemma strict_sort_key:
  assumes "distinct (map f xs)"
  shows "sorted_wrt (\<lambda>a b. f a < (f b :: 'k :: linorder)) (sort_key f xs)"
proof -
  have "mset (map f (sort_key f xs)) = mset (map f xs)" by simp
  then have "distinct (map f (sort_key f xs))" using assms by (metis mset_eq_imp_distinct_iff)
  then have "sorted_wrt (<) (map f (sort_key f xs))" by (simp add: strict_sorted_iff)
  then show ?thesis by (simp add: sorted_wrt_map)
qed

lemma history_strict:
  assumes "distinct (map bar_key (mdb_bars db))"
  shows "sorted_wrt (\<lambda>a b. br_date a < br_date b) (history_of target db s)"
proof -
  have "inj_on br_date (set (filter (\<lambda>r. br_symbol r = s \<and> br_date r \<le> target) (mdb_bars db)))"
    using assms by (auto simp: distinct_map inj_on_def bar_key_def)
  then have "distinct (map br_date (filter (\<lambda>r. br_symbol r = s \<and> br_date r \<le> target) (mdb_bars db)))"
    using assms by (simp add: distinct_map)
  then show ?thesis unfolding history_of_def by (rule strict_sort_key)
qed

lemma length_filter_sort: "length (filter P (sort_key f xs)) = length (filter P xs)"
  by (metis filter_sort length_sort)

lemma recent_rank_history:
  assumes "br_symbol r = s" and "screened_symbol db s"
  shows "recent_rank (screened_rows target db) r
    = int (length (filter (\<lambda>q. br_date r < br_date q) (history_of target db s))) + 1"
proof -
  have "filter (\<lambda>q. br_symbol q = br_symbol r \<and> br_date r < br_date q) (screened_rows target db)
      = filter (\<lambda>q. br_date r < br_date q) (filter (\<lambda>q. br_symbol q = s) (screened_rows target db))"
    using assms(1) by (auto intro: filter_cong)
  then show ?thesis using assms(2) by (simp add: recent_rank_def screened_rows_of history_of_def length_filter_sort)
qed

lemma sort_key_same_symbol:
  assumes "list_all (\<lambda>r. br_symbol r = s) rows"
  shows "sort_key bar_key rows = sort_key br_date rows"
  using assms
proof (induction rows)
  case (Cons r rows)
  then have "list_all (\<lambda>q. br_symbol q = s) (sort_key br_date rows)" by (simp add: list_all_iff)
  moreover have "list_all (\<lambda>q. br_symbol q = s) qs \<Longrightarrow> br_symbol r = s \<Longrightarrow> insort_key bar_key r qs = insort_key br_date r qs" for qs
    by (induction qs) (auto simp: bar_key_def less_eq_prod_def)
  ultimately show ?case using Cons by simp
qed simp

lemma recent_rows_of:
  assumes "distinct (map bar_key (mdb_bars db))"
  shows "filter (\<lambda>r. br_symbol r = s) (recent_rows n target db)
    = (if screened_symbol db s then last_n (nat n) (history_of target db s) else [])"
proof -
  let ?rows = "screened_rows target db" and ?h = "history_of target db s"
  have "filter (\<lambda>r. br_symbol r = s) (recent_rows n target db)
      = sort_key bar_key (filter (\<lambda>r. recent_rank ?rows r \<le> n) (filter (\<lambda>r. br_symbol r = s) ?rows))"
    unfolding recent_rows_def Let_def filter_sort by (simp add: conj_commute)
  also have "\<dots> = sort_key br_date (filter (\<lambda>r. recent_rank ?rows r \<le> n) (filter (\<lambda>r. br_symbol r = s) ?rows))"
    by (rule sort_key_same_symbol [of s]) (auto simp: list_all_iff)
  also have "\<dots> = filter (\<lambda>r. recent_rank ?rows r \<le> n) (sort_key br_date (filter (\<lambda>r. br_symbol r = s) ?rows))"
    by (simp only: filter_sort)
  finally have eq: "filter (\<lambda>r. br_symbol r = s) (recent_rows n target db)
      = filter (\<lambda>r. recent_rank ?rows r \<le> n) (sort_key br_date (filter (\<lambda>r. br_symbol r = s) ?rows))" .
  show ?thesis
  proof (cases "screened_symbol db s")
    case True
    then have "sort_key br_date (filter (\<lambda>r. br_symbol r = s) ?rows) = ?h" by (simp add: screened_rows_of history_of_def)
    moreover have "filter (\<lambda>r. recent_rank ?rows r \<le> n) ?h
        = filter (\<lambda>r. int (length (filter (\<lambda>q. br_date r < br_date q) ?h)) + 1 \<le> n) ?h"
      using True by (intro filter_cong) (auto simp: recent_rank_history history_of_def)
    ultimately show ?thesis using eq True sorted_window [OF history_strict [OF assms], of target s n] by simp
  next
    case False
    then show ?thesis using eq by (simp add: screened_rows_of)
  qed
qed

section \<open>Grouping\<close>

definition grouped_bars :: "(BarRow \<Rightarrow> datetime) \<Rightarrow> BarRow list \<Rightarrow> (string, MarketBar list) dict" where
  "grouped_bars read_at rows = foldl (\<lambda>d r. dict_append (br_symbol r) (daily_bar read_at r) d) [] rows"

definition rows_valid :: "BarRow list \<Rightarrow> bool" where
  "rows_valid rows \<longleftrightarrow> list_all (\<lambda>r. bar_ok (daily_bar (\<lambda>_. 0) r)) rows"

lemma bar_ok_daily_bar: "bar_ok (daily_bar f r) = bar_ok (daily_bar g r)"
  by (simp add: bar_ok_def daily_bar_def)

lemma row_bar_Inr: "bar_ok (daily_bar (\<lambda>_. 0) r) \<Longrightarrow> row_bar f r = Inr (daily_bar f r)"
  using bar_ok_daily_bar [of f r "\<lambda>_. 0"]
  unfolding row_bar_def validate_bar_def check_fields_def bar_ok_def
  by (simp add: check_ohlc_iff bindE_eq_Inr ohlc_ok_def)

lemma group_fold: "rows_valid rows \<Longrightarrow> foldE (group_step f) d rows
    = Inr (foldl (\<lambda>d r. dict_append (br_symbol r) (daily_bar f r) d) d rows)"
  by (induction rows arbitrary: d) (simp_all add: rows_valid_def group_step_def row_bar_Inr)

lemma grouped_snoc: "grouped_bars f (rows @ [r]) = dict_append (br_symbol r) (daily_bar f r) (grouped_bars f rows)"
  by (simp add: grouped_bars_def)

lemma grouped_getd: "dict_getd (grouped_bars f rows) s [] = map (daily_bar f) (filter (\<lambda>r. br_symbol r = s) rows)"
proof (induction rows rule: rev_induct)
  case Nil
  show ?case by (simp add: grouped_bars_def dict_getd_def)
next
  case (snoc r rows)
  then show ?case by (auto simp: grouped_snoc)
qed

lemma grouped_dict: "dict_ok (grouped_bars f rows) \<and> fst ` set (grouped_bars f rows) = br_symbol ` set rows"
proof (induction rows rule: rev_induct)
  case Nil
  show ?case by (simp add: grouped_bars_def)
next
  case (snoc r rows)
  then show ?case by (simp add: grouped_snoc dict_append_keys)
qed

lemma grouped_mem: "(s, bars) \<in> set (grouped_bars f rows) \<longleftrightarrow>
    s \<in> br_symbol ` set rows \<and> bars = map (daily_bar f) (filter (\<lambda>r. br_symbol r = s) rows)"
proof -
  let ?g = "grouped_bars f rows"
  have d: "distinct (map fst ?g)" "fst ` set ?g = br_symbol ` set rows"
    using grouped_dict [of f rows] by (simp_all add: dict_ok_def)
  have "(s, bars) \<in> set ?g \<longleftrightarrow> map_of ?g s = Some bars" using d(1) by simp
  also have "\<dots> \<longleftrightarrow> s \<in> fst ` set ?g \<and> bars = dict_getd ?g s []"
    by (cases "map_of ?g s") (auto simp: dict_getd_def map_of_eq_None_iff dest: map_of_SomeD intro: rev_image_eqI)
  finally show ?thesis by (simp only: d(2) grouped_getd)
qed

lemma dict_set_keys_list: "map fst (dict_set k v d) = (if k \<in> fst ` set d then map fst d else map fst d @ [k])"
  by (induction k v d rule: dict_set.induct) auto

lemma grouped_keys_sorted:
  assumes "sorted (map br_symbol rows)"
  shows "sorted_wrt (<) (map fst (grouped_bars f rows))"
  using assms
proof (induction rows rule: rev_induct)
  case Nil
  show ?case by (simp add: grouped_bars_def)
next
  case (snoc r rows)
  then have IH: "sorted_wrt (<) (map fst (grouped_bars f rows))" and le: "\<forall>q \<in> set rows. br_symbol q \<le> br_symbol r"
    by (simp_all add: sorted_append)
  have keys: "fst ` set (grouped_bars f rows) = br_symbol ` set rows" using grouped_dict by blast
  show ?case
  proof (cases "br_symbol r \<in> br_symbol ` set rows")
    case True
    then show ?thesis using IH by (simp add: grouped_snoc dict_append_def dict_set_keys_list keys)
  next
    case False
    then have "\<forall>s \<in> br_symbol ` set rows. s < br_symbol r" using le by (metis (no_types, lifting) imageE le_neq_trans)
    then show ?thesis using IH False
      by (auto simp: grouped_snoc dict_append_def dict_set_keys_list keys sorted_wrt_append simp flip: keys)
  qed
qed

lemma recent_rows_sorted: "sorted (map br_symbol (recent_rows n target db))"
proof -
  have "sorted (map bar_key (recent_rows n target db))" by (simp add: recent_rows_def Let_def)
  then have "sorted_wrt (\<lambda>a b. br_symbol a \<le> br_symbol b) (recent_rows n target db)"
    unfolding sorted_map by (rule sorted_wrt_mono_rel [rotated]) (auto simp: bar_key_def less_eq_prod_def)
  then show ?thesis by (simp add: sorted_map)
qed

section \<open>The inputs\<close>

lemma last_last_n: "0 < n \<Longrightarrow> xs \<noteq> [] \<Longrightarrow> last_n n xs \<noteq> [] \<and> last (last_n n xs) = last xs"
  by (cases xs) (auto simp: last_n_def)

lemma sorted_last_top: "sorted (map f xs) \<Longrightarrow> x \<in> set xs \<Longrightarrow> f x \<le> f (last xs)"
  by (induction xs) (auto split: if_splits)

lemma history_last:
  assumes "history_of target db s \<noteq> []"
  shows "br_date (last (history_of target db s)) = target \<longleftrightarrow> (\<exists>r \<in> set (mdb_bars db). br_symbol r = s \<and> br_date r = target)"
proof -
  let ?h = "history_of target db s"
  have set_h: "set ?h = {r \<in> set (mdb_bars db). br_symbol r = s \<and> br_date r \<le> target}" by (auto simp: history_of_def)
  have l: "last ?h \<in> set ?h" using assms by simp
  have "sorted (map br_date ?h)" by (simp add: history_of_def)
  then have top: "\<forall>r \<in> set ?h. br_date r \<le> br_date (last ?h)"
    using sorted_last_top [of br_date ?h] by simp
  show ?thesis
  proof
    assume "br_date (last ?h) = target"
    with l set_h show "\<exists>r \<in> set (mdb_bars db). br_symbol r = s \<and> br_date r = target" by blast
  next
    assume "\<exists>r \<in> set (mdb_bars db). br_symbol r = s \<and> br_date r = target"
    then obtain r where "r \<in> set ?h" "br_date r = target" using set_h by auto
    with top l set_h show "br_date (last ?h) = target" by force
  qed
qed

lemma history_empty: "history_of target db s = [] \<longleftrightarrow> (\<forall>r \<in> set (mdb_bars db). \<not> (br_symbol r = s \<and> br_date r \<le> target))"
proof -
  have "history_of target db s = [] \<longleftrightarrow> filter (\<lambda>r. br_symbol r = s \<and> br_date r \<le> target) (mdb_bars db) = []"
    unfolding history_of_def by (simp only: length_0_conv [symmetric] length_sort)
  then show ?thesis by (simp add: filter_empty_conv)
qed

text \<open>The bars handed to the screening of one symbol.\<close>

definition input_bars :: "'t pipeline_env \<Rightarrow> date \<Rightarrow> market_db \<Rightarrow> string \<Rightarrow> MarketBar list" where
  "input_bars env target db s =
     map (daily_bar (pe_read_at env)) (last_n (nat (minimum_history_bars (pe_config env))) (history_of target db s))"

definition traded_symbol :: "date \<Rightarrow> market_db \<Rightarrow> string \<Rightarrow> bool" where
  "traded_symbol target db s \<longleftrightarrow> screened_symbol db s \<and> (\<exists>r \<in> set (mdb_bars db). br_symbol r = s \<and> br_date r = target)"

lemma kept_group:
  assumes d: "distinct (map bar_key (mdb_bars db))" and n: "0 < minimum_history_bars (pe_config env)"
  shows "(s, bars) \<in> set (grouped_bars (pe_read_at env) (recent_rows (minimum_history_bars (pe_config env)) target db))
      \<and> bars \<noteq> [] \<and> mk_date (last bars) = target
    \<longleftrightarrow> traded_symbol target db s \<and> bars = input_bars env target db s"
proof -
  let ?n = "minimum_history_bars (pe_config env)" and ?h = "history_of target db s"
  let ?R = "recent_rows ?n target db"
  have mem: "s \<in> br_symbol ` set ?R \<longleftrightarrow> filter (\<lambda>r. br_symbol r = s) ?R \<noteq> []"
    by (auto simp: filter_empty_conv)
  have nn: "0 < nat ?n" using n by simp
  show ?thesis
  proof (cases "screened_symbol db s \<and> ?h \<noteq> []")
    case True
    then have f: "filter (\<lambda>r. br_symbol r = s) ?R = last_n (nat ?n) ?h" using recent_rows_of [OF d] by simp
    have l: "last_n (nat ?n) ?h \<noteq> []" "last (last_n (nat ?n) ?h) = last ?h" using True nn last_last_n by blast+
    then have "mk_date (last (map (daily_bar (pe_read_at env)) (last_n (nat ?n) ?h))) = br_date (last ?h)"
      by (simp add: last_map daily_bar_def)
    then show ?thesis
      using True history_last [of target db s] l
      by (auto simp: grouped_mem mem f traded_symbol_def input_bars_def)
  next
    case False
    then have "filter (\<lambda>r. br_symbol r = s) ?R = []" using recent_rows_of [OF d, of s ?n target] by (auto simp: last_n_def)
    moreover have "\<not> traded_symbol target db s" using False history_empty [of target db s] by (auto simp: traded_symbol_def)
    ultimately show ?thesis by (simp add: grouped_mem mem)
  qed
qed

lemma input_bars_ascending:
  assumes "distinct (map bar_key (mdb_bars db))"
  shows "ascending (input_bars env target db s)"
proof -
  have "sorted_wrt (\<lambda>a b. br_date a < br_date b) (last_n k (history_of target db s))" for k
    using history_strict [OF assms] unfolding last_n_def by (rule sorted_wrt_drop)
  then show ?thesis by (simp add: ascending_sorted input_bars_def sorted_wrt_map daily_bar_def)
qed

lemma pipeline_inputs_eq:
  assumes d: "distinct (map bar_key (mdb_bars db))" and v: "rows_valid (mdb_bars db)"
    and n: "0 < minimum_history_bars (pe_config env)"
  shows "\<exists>inputs. pipeline_inputs env target db = Inr inputs
    \<and> sorted_wrt (<) (map si_symbol inputs)
    \<and> set (map si_symbol inputs) = {s. traded_symbol target db s}
    \<and> list_all (\<lambda>x. si_bars x = input_bars env target db (si_symbol x) \<and> calculate (si_bars x) = Inr (si_indicators x)) inputs"
proof -
  let ?R = "recent_rows (minimum_history_bars (pe_config env)) target db"
  define G where "G = filter (\<lambda>(s, bars). bars \<noteq> [] \<and> mk_date (last bars) = target) (grouped_bars (pe_read_at env) ?R)"
  have "rows_valid ?R" using v by (auto simp: rows_valid_def list_all_iff recent_rows_def screened_rows_def Let_def)
  then have eq: "pipeline_inputs env target db = mapE scan_input G"
    by (simp add: pipeline_inputs_def group_fold grouped_bars_def G_def)
  have g: "(s, bars) \<in> set G \<longleftrightarrow> traded_symbol target db s \<and> bars = input_bars env target db s" for s bars
    using kept_group [OF d n, of s bars target] by (simp add: G_def)
  have calc: "\<exists>i. scan_input p = Inr \<lparr>si_symbol = fst p, si_bars = snd p, si_indicators = i\<rparr> \<and> calculate (snd p) = Inr i"
    if "p \<in> set G" for p
  proof -
    have "ascending (snd p)" using that g [of "fst p" "snd p"] input_bars_ascending [OF d] by auto
    then obtain i where "calculate (snd p) = Inr i" using calculate_iff by blast
    then show ?thesis by (simp add: scan_input_def)
  qed
  then have "returns (scan_input p)" if "p \<in> set G" for p
    using calc [OF that] by (elim exE conjE) (simp only: returns_simps)
  then have "\<forall>p \<in> set G. returns (scan_input p)" by (rule ballI)
  then have "returns (mapE scan_input G)" unfolding mapE_returns list_all_iff .
  then obtain inputs where inputs: "mapE scan_input G = Inr inputs" unfolding returns_iff by blast
  then have m: "inputs = map (\<lambda>p. value_of (scan_input p)) G" by (simp add: mapE_iff)
  have syms: "map si_symbol inputs = map fst G" using calc by (fastforce simp: m value_of_def)
  have "sorted_wrt (<) (map fst (grouped_bars (pe_read_at env) ?R))" by (rule grouped_keys_sorted [OF recent_rows_sorted])
  then have "sorted_wrt (<) (map si_symbol inputs)"
    unfolding syms sorted_wrt_map G_def by (rule sorted_wrt_filter)
  moreover have "set (map si_symbol inputs) = {s. traded_symbol target db s}"
  proof -
    have "s \<in> fst ` set G \<longleftrightarrow> traded_symbol target db s" for s
      by (simp add: image_iff Bex_def g)
    then show ?thesis unfolding syms by auto
  qed
  moreover have "si_bars x = input_bars env target db (si_symbol x) \<and> calculate (si_bars x) = Inr (si_indicators x)"
    if "x \<in> set inputs" for x
  proof -
    from that obtain p where p: "p \<in> set G" "x = value_of (scan_input p)" by (auto simp: m)
    then show ?thesis using calc [OF p(1)] g [of "fst p" "snd p"] by (auto simp: value_of_def)
  qed
  ultimately show ?thesis unfolding eq inputs list_all_iff by blast
qed

section \<open>Properties\<close>

text \<open>
  C13. What is screened on a date. On tables that satisfy their constraints the inputs are always built:
  one per listed, active KOSPI common stock that has a bar on the date, in symbol order; its bars are
  the last \<open>minimum_history_bars\<close> of the symbol's bars up to the date, oldest first, so the window query
  loses none of them and lets no later bar in; and its indicators are those of exactly these bars.
\<close>

theorem pipeline_inputs_exact:
  assumes "distinct (map bar_key (mdb_bars db))" and "rows_valid (mdb_bars db)"
    and "0 < minimum_history_bars (pe_config env)"
  shows "\<exists>inputs. pipeline_inputs env target db = Inr inputs
    \<and> sorted_wrt (<) (map si_symbol inputs)
    \<and> set (map si_symbol inputs) = {s. (\<exists>t \<in> set (mdb_stocks db). st_symbol t = s \<and> screened_stock t)
        \<and> (\<exists>r \<in> set (mdb_bars db). br_symbol r = s \<and> br_date r = target)}
    \<and> list_all (\<lambda>x. si_bars x = map (daily_bar (pe_read_at env))
          (last_n (nat (minimum_history_bars (pe_config env)))
            (sort_key br_date (filter (\<lambda>r. br_symbol r = si_symbol x \<and> br_date r \<le> target) (mdb_bars db))))
        \<and> calculate (si_bars x) = Inr (si_indicators x)) inputs"
  using pipeline_inputs_eq [OF assms, of target]
  by (simp only: input_bars_def history_of_def traded_symbol_def screened_symbol_def list_ex_iff)

definition demo_stock :: Stock where
  "demo_stock = \<lparr>st_symbol = ''005930'', st_name = ''S'', st_market = ''KOSPI'', st_exchange = None,
     st_currency = ''KRW'', st_country = ''KR'', st_security_type = Some ''common_stock'',
     st_listing_status = Some ''listed'', st_is_active = True\<rparr>"

definition demo_row :: "date \<Rightarrow> BarRow" where
  "demo_row d = \<lparr>br_symbol = ''005930'', br_date = d, br_open = 10, br_high = 12, br_low = 9, br_close = 11,
     br_volume = 100, br_source = ''TOSS'', br_provider_timestamp = None\<rparr>"

definition demo_market_db :: market_db where
  "demo_market_db = \<lparr>mdb_stocks = [demo_stock], mdb_bars = [demo_row 738001, demo_row 738000], mdb_jobs = [], mdb_runs = []\<rparr>"

definition demo_env_pipeline :: "plain_text pipeline_env" where
  "demo_env_pipeline = \<lparr>pe_config = default_config, pe_codec = plain_codec, pe_stale_after = 7200,
     pe_message = (\<lambda>e. ''''), pe_class_name = (\<lambda>e. ''ValueError''), pe_to_ms = (\<lambda>x. x), pe_provider = silent,
     pe_history_years = 3, pe_batch_size = 500, pe_stock_clock = demo_clock, pe_bar_clock = demo_clock,
     pe_stocks_locked = False, pe_bars_locked = False, pe_today = 738000, pe_started = 0, pe_skipped = 1,
     pe_acquired = 1, pe_read_at = (\<lambda>r. 2), pe_finished = 3, pe_failed = 4, pe_id = 1, pe_entry_ids = [1..<11]\<rparr>"

lemma demo_market_ok: "distinct (map bar_key (mdb_bars demo_market_db))" "rows_valid (mdb_bars demo_market_db)"
  by (simp_all add: demo_market_db_def demo_row_def bar_key_def rows_valid_def bar_ok_def ohlc_ok_def daily_bar_def)

lemma demo_history: "0 < minimum_history_bars (pe_config demo_env_pipeline)"
  by (simp add: demo_env_pipeline_def default_config_def)

lemma pipeline_inputs_exact_witness:
  "\<exists>inputs. pipeline_inputs demo_env_pipeline 738000 demo_market_db = Inr inputs \<and> ''005930'' \<in> set (map si_symbol inputs)"
proof -
  obtain inputs where "pipeline_inputs demo_env_pipeline 738000 demo_market_db = Inr inputs"
      "set (map si_symbol inputs) = {s. (\<exists>t \<in> set (mdb_stocks demo_market_db). st_symbol t = s \<and> screened_stock t)
        \<and> (\<exists>r \<in> set (mdb_bars demo_market_db). br_symbol r = s \<and> br_date r = 738000)}"
    using pipeline_inputs_exact [OF demo_market_ok demo_history, of 738000] by blast
  then show ?thesis
    by (auto simp: demo_market_db_def demo_stock_def demo_row_def screened_stock_def simp del: set_map)
qed

end
