(* ===== verification/Executions_Props.thy ===== *)
theory Executions_Props
  imports Executions
begin

text \<open>
  The execution table as a state machine: every interleaving of acquisitions, stage updates and
  completions, by any number of processes, is a path of a step relation; its reachable tables have at
  most one running execution per date. The acquisition's answer and
  the table it leaves are characterised on them.
\<close>

section \<open>Steps\<close>

inductive exec_step :: "executions \<Rightarrow> executions \<Rightarrow> bool" where
  acquire: "acquire_execution es i now d trigger s force = Inr (es', r) \<Longrightarrow> i \<notin> ex_id ` set es \<Longrightarrow> exec_step es es'"
| stage: "set_stage es i st = Inr es' \<Longrightarrow> exec_step es es'"
| finish: "finish_execution_row es i now oc = Inr (es', e) \<Longrightarrow> oc_status oc \<noteq> RUNNING \<Longrightarrow> exec_step es es'"

inductive exec_reachable :: "executions \<Rightarrow> bool" where
  start: "exec_reachable []"
| step: "exec_reachable es \<Longrightarrow> exec_step es es' \<Longrightarrow> exec_reachable es'"

definition running_on :: "date \<Rightarrow> executions \<Rightarrow> Execution list" where
  "running_on d es = filter (\<lambda>e. ex_trading_date e = d \<and> ex_status e = RUNNING) es"

definition row_ok :: "Execution \<Rightarrow> bool" where
  "row_ok e \<longleftrightarrow> (ex_finished_at e = None \<longleftrightarrow> ex_status e = RUNNING)"

definition exec_inv :: "executions \<Rightarrow> bool" where
  "exec_inv es \<longleftrightarrow> distinct (map ex_id es) \<and> list_all row_ok es \<and> (\<forall>d. length (running_on d es) \<le> 1)"

section \<open>Rows\<close>

lemma update_execution_ids: "(\<And>e. ex_id (f e) = ex_id e) \<Longrightarrow> map ex_id (update_execution i f es) = map ex_id es"
  by (simp add: update_execution_def)

lemma newest_with_mem: "newest_with s d es = Some e \<Longrightarrow> e \<in> set es \<and> ex_trading_date e = d \<and> ex_status e = s"
proof -
  assume "newest_with s d es = Some e"
  then have "e \<in> set (newest_first (filter (\<lambda>e. ex_trading_date e = d \<and> ex_status e = s) es))"
    by (auto simp: newest_with_def first_of_def split: list.splits)
  then show ?thesis by (simp add: newest_first_def)
qed

lemma newest_with_None: "newest_with s d es = None \<longleftrightarrow> (\<forall>e \<in> set es. \<not> (ex_trading_date e = d \<and> ex_status e = s))"
proof -
  have "newest_with s d es = None
      \<longleftrightarrow> newest_first (filter (\<lambda>e. ex_trading_date e = d \<and> ex_status e = s) es) = []"
    by (simp add: newest_with_def first_of_def split: list.splits)
  also have "\<dots> \<longleftrightarrow> filter (\<lambda>e. ex_trading_date e = d \<and> ex_status e = s) es = []"
    unfolding newest_first_def by (simp only: length_0_conv [symmetric] length_sort)
  finally show ?thesis by (simp add: filter_empty_conv)
qed

lemma newest_with_newest: "newest_with s d es = Some e \<Longrightarrow> e' \<in> set es \<Longrightarrow> ex_trading_date e' = d
    \<Longrightarrow> ex_status e' = s \<Longrightarrow> ex_started_at e' \<le> ex_started_at e"
proof -
  assume n: "newest_with s d es = Some e" and e': "e' \<in> set es" "ex_trading_date e' = d" "ex_status e' = s"
  let ?xs = "sort_key (\<lambda>e. - ex_started_at e) (filter (\<lambda>e. ex_trading_date e = d \<and> ex_status e = s) es)"
  from n obtain rest where xs: "?xs = e # rest"
    by (auto simp: newest_with_def newest_first_def first_of_def split: list.splits)
  have "e' \<in> set ?xs" using e' by simp
  moreover have "sorted (map (\<lambda>e. - ex_started_at e) ?xs)" by (rule sorted_sort_key)
  ultimately show ?thesis unfolding xs by auto
qed

lemma running_on_single:
  assumes "exec_inv es" and "e \<in> set es" "ex_status e = RUNNING"
  shows "running_on (ex_trading_date e) es = [e]"
proof -
  have "e \<in> set (running_on (ex_trading_date e) es)" using assms(2,3) by (simp add: running_on_def)
  moreover have "length (running_on (ex_trading_date e) es) \<le> 1" using assms(1) by (simp add: exec_inv_def)
  ultimately show ?thesis by (cases "running_on (ex_trading_date e) es") auto
qed

text \<open>A row update that does not start an execution keeps the invariant.\<close>

lemma running_on_update:
  assumes "\<And>e. ex_trading_date (f e) = ex_trading_date e" and "\<And>e. ex_status (f e) = RUNNING \<Longrightarrow> ex_status e = RUNNING"
  shows "length (running_on d (update_execution i f es)) \<le> length (running_on d es)"
  using assms by (induction es) (auto simp: running_on_def update_execution_def)

lemma update_inv:
  assumes "exec_inv es" and "\<And>e. ex_id (f e) = ex_id e" and "\<And>e. ex_trading_date (f e) = ex_trading_date e"
    and "\<And>e. ex_status (f e) = RUNNING \<Longrightarrow> ex_status e = RUNNING" and "\<And>e. row_ok e \<Longrightarrow> row_ok (f e)"
  shows "exec_inv (update_execution i f es)"
proof -
  have "length (running_on d (update_execution i f es)) \<le> 1" for d
    using running_on_update [of f d i es] assms(1,3,4) by (meson exec_inv_def order_trans)
  moreover have "distinct (map ex_id (update_execution i f es))"
    using assms(1,2) by (simp add: update_execution_ids exec_inv_def)
  moreover have "list_all row_ok (update_execution i f es)"
    using assms(1,5) by (auto simp: exec_inv_def list_all_iff update_execution_def)
  ultimately show ?thesis by (simp add: exec_inv_def)
qed

lemma new_execution_fields: "ex_id (new_execution i d t now) = i" "ex_trading_date (new_execution i d t now) = d"
  "ex_status (new_execution i d t now) = RUNNING" "row_ok (new_execution i d t now)"
  by (simp_all add: new_execution_def row_ok_def)

lemma append_inv:
  assumes "exec_inv es" and "i \<notin> ex_id ` set es" and "running_on d es = []"
  shows "exec_inv (es @ [new_execution i d t now])"
  using assms by (auto simp: exec_inv_def new_execution_fields running_on_def)

lemma recover_inv: "exec_inv es \<Longrightarrow> exec_inv (update_execution i (recover_stale now) es)"
  by (rule update_inv) (simp_all add: recover_stale_def row_ok_def)

lemma recover_clears:
  assumes "exec_inv es" and "r \<in> set es" and "ex_status r = RUNNING"
  shows "running_on (ex_trading_date r) (update_execution (ex_id r) (recover_stale now) es) = []"
proof -
  have "e = r" if "e \<in> set es" "ex_trading_date e = ex_trading_date r" "ex_status e = RUNNING" for e
  proof -
    have "e \<in> set (running_on (ex_trading_date r) es)" using that by (simp add: running_on_def)
    then show ?thesis using running_on_single [OF assms] by simp
  qed
  then show ?thesis by (auto simp: running_on_def filter_empty_conv update_execution_def recover_stale_def)
qed

section \<open>Acquisition\<close>

lemma acquire_inv:
  assumes inv: "exec_inv es" and acq: "acquire_execution es i now d t s f = Inr (es', r)" and new: "i \<notin> ex_id ` set es"
  shows "exec_inv es'"
proof (cases "newest_with RUNNING d es")
  case None
  then have "running_on d es = []" by (simp add: newest_with_None running_on_def filter_empty_conv)
  with None acq inv new show ?thesis
    by (auto simp: acquire_execution_def Let_def split: if_splits intro: append_inv)
next
  case (Some x)
  note x = newest_with_mem [OF Some]
  let ?es = "update_execution (ex_id x) (recover_stale now) es"
  have "exec_inv ?es" using inv by (rule recover_inv)
  moreover have "exec_inv (?es @ [new_execution i d t now])"
    using recover_clears [OF inv, of x] x new
    by (intro append_inv recover_inv inv) (auto simp: update_execution_def recover_stale_def)
  ultimately show ?thesis using Some acq inv
    by (auto simp: acquire_execution_def Let_def split: if_splits)
qed

lemma exec_step_inv: "exec_step es es' \<Longrightarrow> exec_inv es \<Longrightarrow> exec_inv es'"
proof (induction rule: exec_step.induct)
  case (acquire es i now d trigger s force es' r)
  then show ?case using acquire_inv by blast
next
  case (stage es i st es')
  then have "es' = update_execution i (\<lambda>e. e\<lparr>ex_stage := st\<rparr>) es"
    by (auto simp: set_stage_def split: option.splits)
  then show ?case using stage.prems by (auto intro!: update_inv simp: row_ok_def)
next
  case (finish es i now oc es' e)
  then have "es' = update_execution i (finish_row now oc) es"
    by (auto simp: finish_execution_row_def split: option.splits)
  then show ?case using finish by (auto intro!: update_inv simp: row_ok_def finish_row_def)
qed

lemma exec_reachable_inv: "exec_reachable es \<Longrightarrow> exec_inv es"
proof (induction rule: exec_reachable.induct)
  case start
  show ?case by (simp add: exec_inv_def running_on_def)
next
  case (step es es')
  then show ?case using exec_step_inv by blast
qed

section \<open>Properties\<close>

text \<open>
  C15. In every reachable table, whatever the interleaving, the identifiers are distinct, a date has at
  most one running execution, and exactly the running executions have no finishing time.
\<close>

theorem execution_table_invariant:
  assumes "exec_reachable es"
  shows "distinct (map ex_id es) \<and> (\<forall>d. length (running_on d es) \<le> 1)
    \<and> list_all (\<lambda>e. ex_finished_at e = None \<longleftrightarrow> ex_status e = RUNNING) es"
  using exec_reachable_inv [OF assms] by (simp add: exec_inv_def list_all_iff row_ok_def)

text \<open>What the table says about a date, without the repository's queries.\<close>

definition active_on :: "datetime \<Rightarrow> date \<Rightarrow> executions \<Rightarrow> bool" where
  "active_on limit d es = list_ex (\<lambda>e. limit \<le> ex_started_at e) (running_on d es)"

definition succeeded_on :: "date \<Rightarrow> executions \<Rightarrow> bool" where
  "succeeded_on d es = list_ex (\<lambda>e. ex_trading_date e = d \<and> ex_status e = SUCCEEDED) es"

definition newest_success :: "date \<Rightarrow> executions \<Rightarrow> Execution \<Rightarrow> bool" where
  "newest_success d es x \<longleftrightarrow> x \<in> set es \<and> ex_trading_date x = d \<and> ex_status x = SUCCEEDED
     \<and> (\<forall>e \<in> set es. ex_trading_date e = d \<and> ex_status e = SUCCEEDED \<longrightarrow> ex_started_at e \<le> ex_started_at x)"

definition failed_as_stale :: "datetime \<Rightarrow> date \<Rightarrow> executions \<Rightarrow> executions" where
  "failed_as_stale now d es = map (\<lambda>e. if ex_trading_date e = d \<and> ex_status e = RUNNING
     then e\<lparr>ex_status := FAILED, ex_finished_at := Some now, ex_error_code := Some ''stale_execution_recovered'',
       ex_error_detail := Some ''Execution exceeded stale timeout''\<rparr> else e) es"

lemma succeeded_on_newest: "succeeded_on d es \<longleftrightarrow> newest_with SUCCEEDED d es \<noteq> None"
  by (auto simp: succeeded_on_def list_ex_iff newest_with_None)

lemma newest_success_newest: "newest_with SUCCEEDED d es = Some x \<Longrightarrow> newest_success d es x"
  using newest_with_mem newest_with_newest unfolding newest_success_def by blast

lemma failed_as_stale_ids: "map ex_id (failed_as_stale now d es) = map ex_id es"
  "filter (\<lambda>e. ex_trading_date e \<noteq> d) (failed_as_stale now d es) = filter (\<lambda>e. ex_trading_date e \<noteq> d) es"
  "running_on d (failed_as_stale now d es) = []"
  by (induction es) (auto simp: failed_as_stale_def running_on_def)

text \<open>Recovering the one running row of a date by its key is failing the running rows of the date.\<close>

lemma recovered_rows:
  assumes "exec_inv es" and "running_on d es = [x]"
  shows "update_execution (ex_id x) (recover_stale now) es = failed_as_stale now d es"
proof -
  have x: "x \<in> set es" "ex_trading_date x = d" "ex_status x = RUNNING"
    using assms(2) by (auto simp: running_on_def filter_eq_Cons_iff)
  have "ex_id e = ex_id x \<longleftrightarrow> ex_trading_date e = d \<and> ex_status e = RUNNING" if "e \<in> set es" for e
  proof
    assume "ex_id e = ex_id x"
    then have "e = x" using that x(1) assms(1) by (auto simp: exec_inv_def distinct_map dest: inj_onD)
    then show "ex_trading_date e = d \<and> ex_status e = RUNNING" using x by simp
  next
    assume "ex_trading_date e = d \<and> ex_status e = RUNNING"
    then have "e \<in> set (running_on d es)" using that by (simp add: running_on_def)
    then show "ex_id e = ex_id x" using assms(2) by simp
  qed
  then show ?thesis unfolding update_execution_def failed_as_stale_def recover_stale_def by (intro map_cong) simp_all
qed

lemma running_on_newest:
  assumes "exec_inv es"
  shows "running_on d es = (case newest_with RUNNING d es of None \<Rightarrow> [] | Some x \<Rightarrow> [x])"
proof (cases "newest_with RUNNING d es")
  case None
  then have "running_on d es = []" by (simp add: newest_with_None running_on_def filter_empty_conv)
  with None show ?thesis by simp
next
  case (Some x)
  then show ?thesis using running_on_single [OF assms, of x] newest_with_mem [OF Some] by simp
qed

text \<open>
  C16. What an acquisition with a positive timeout answers and does, on every reachable table. While the
  running execution of the date is younger than the timeout the answer is ALREADY_RUNNING with that row and
  the table stays as it is. Otherwise a running row, being stale, becomes FAILED with the finishing time, code
  and detail of a recovery, and the answer names its identifier. Then a success of the date without a forced
  reanalysis answers ALREADY_COMPLETED with the newest success, a forced reanalysis without a success
  PRIOR_SUCCESS_REQUIRED; in the two cases left the date is ACQUIRED: the caller's row is added, and it is the
  only running one of the date. No row is ever removed, and the rows of other dates are left alone.
\<close>

theorem acquire_decision:
  assumes "exec_reachable es" and "0 < timeout"
  shows "\<exists>es' r. acquire_execution es i now d trigger timeout force = Inr (es', r)
    \<and> aq_status r = (if active_on (stale_before now timeout) d es then ALREADY_RUNNING
        else if succeeded_on d es \<and> \<not> force then ALREADY_COMPLETED
        else if \<not> succeeded_on d es \<and> force then PRIOR_SUCCESS_REQUIRED else ACQUIRED)
    \<and> (case aq_status r of
         ALREADY_RUNNING \<Rightarrow> \<exists>x. running_on d es = [x] \<and> aq_execution r = Some x
       | ALREADY_COMPLETED \<Rightarrow> \<exists>x. newest_success d es x \<and> aq_execution r = Some x
       | PRIOR_SUCCESS_REQUIRED \<Rightarrow> aq_execution r = None
       | ACQUIRED \<Rightarrow> aq_execution r = Some (new_execution i d trigger now))
    \<and> aq_recovered r = (if active_on (stale_before now timeout) d es then None
        else map_option ex_id (first_of (running_on d es)))
    \<and> es' = (if active_on (stale_before now timeout) d es then es else failed_as_stale now d es)
        @ (if aq_status r = ACQUIRED then [new_execution i d trigger now] else [])
    \<and> (aq_status r = ACQUIRED \<longrightarrow> running_on d es' = [new_execution i d trigger now])
    \<and> take (length es) (map ex_id es') = map ex_id es
    \<and> filter (\<lambda>e. ex_trading_date e \<noteq> d) es' = filter (\<lambda>e. ex_trading_date e \<noteq> d) es"
proof -
  note inv = exec_reachable_inv [OF assms(1)]
  note run = running_on_newest [OF inv, of d]
  have appended: "running_on d (failed_as_stale now d es @ [new_execution i d trigger now]) = [new_execution i d trigger now]"
    using failed_as_stale_ids(3) by (simp add: running_on_def new_execution_fields)
  have len: "length (failed_as_stale now d es) = length es" by (simp add: failed_as_stale_def)
  have none: "failed_as_stale now d es = es" if "running_on d es = []"
    using that unfolding failed_as_stale_def running_on_def by (intro map_idI) (auto simp: filter_empty_conv)
  show ?thesis
  proof (cases "newest_with RUNNING d es")
    case None
    then have n: "running_on d es = []" using run by simp
    show ?thesis using None assms(2) n none [OF n] appended failed_as_stale_ids newest_success_newest
      by (cases "newest_with SUCCEEDED d es"; cases force)
        (simp_all add: acquire_execution_def active_on_def succeeded_on_newest first_of_def new_execution_fields Let_def)
  next
    case (Some x)
    then have o: "running_on d es = [x]" using run by simp
    show ?thesis using Some assms(2) o recovered_rows [OF inv o] appended len failed_as_stale_ids newest_success_newest
      by (cases "newest_with SUCCEEDED d es"; cases force; cases "ex_started_at x < stale_before now timeout")
        (simp_all add: acquire_execution_def active_on_def succeeded_on_newest first_of_def new_execution_fields Let_def
          not_le not_less)
  qed
qed

text \<open>A small history: an execution, its replacement after two hours and one second, and its end.\<close>

definition second :: "datetime \<Rightarrow> datetime" where
  "second s = s * 1000000"

definition done_with :: "nat \<Rightarrow> Outcome" where
  "done_with n = \<lparr>oc_status = SUCCEEDED, oc_stage = STAGE_COMPLETED, oc_screened_count = Some n,
     oc_candidate_count = Some n, oc_qualified_count = Some n, oc_score_threshold = Some 80,
     oc_persisted_count = Some n, oc_skipped_reason = None, oc_error_code = None, oc_error_detail = None\<rparr>"

definition first_table :: executions where
  "first_table = [new_execution 1 700000 SCHEDULED (second 0)]"

definition recovered_table :: executions where
  "recovered_table = [recover_stale (second 7201) (new_execution 1 700000 SCHEDULED (second 0)),
     new_execution 2 700000 MANUAL (second 7201)]"

lemma first_reachable: "exec_reachable first_table"
proof -
  have "acquire_execution [] 1 (second 0) 700000 SCHEDULED 7200 False
      = Inr (first_table, \<lparr>aq_status = ACQUIRED, aq_execution = Some (new_execution 1 700000 SCHEDULED (second 0)),
          aq_recovered = None\<rparr>)"
    by (simp add: acquire_execution_def newest_with_def newest_first_def first_of_def first_table_def Let_def)
  then have "exec_step [] first_table" by (rule exec_step.acquire) simp
  with exec_reachable.start show ?thesis by (rule exec_reachable.step)
qed

lemma recovered_acquire: "acquire_execution first_table 2 (second 7201) 700000 MANUAL 7200 False
    = Inr (recovered_table, \<lparr>aq_status = ACQUIRED, aq_execution = Some (new_execution 2 700000 MANUAL (second 7201)),
        aq_recovered = Some 1\<rparr>)"
  by (simp add: acquire_execution_def newest_with_def newest_first_def first_of_def first_table_def
    recovered_table_def new_execution_def update_execution_def stale_before_def second_def Let_def recover_stale_def)

lemma recovered_reachable: "exec_reachable recovered_table"
proof -
  have "exec_step first_table recovered_table"
    using recovered_acquire by (rule exec_step.acquire) (simp add: first_table_def new_execution_def)
  with first_reachable show ?thesis by (rule exec_reachable.step)
qed

lemma execution_table_invariant_witness: "length (running_on 700000 recovered_table) \<le> 1"
  using execution_table_invariant [OF recovered_reachable] by blast

lemma acquire_decision_witness:
  "running_on 700000 recovered_table = [new_execution 2 700000 MANUAL (second 7201)]"
  using acquire_decision [OF first_reachable, of 7200 2 "second 7201" 700000 MANUAL False]
  by (simp add: recovered_acquire)

text \<open>
  Completion does not look at the status: an execution that was recovered as stale and replaced can
  still finish afterwards, which turns its failed row into a success while the replacement, also on
  its way to a success, is running. The date then has two successes.
\<close>

theorem stale_execution_finishes:
  "\<exists>t1 t2. exec_reachable recovered_table \<and> map ex_status recovered_table = [FAILED, RUNNING]
    \<and> exec_step recovered_table t1 \<and> map ex_status t1 = [SUCCEEDED, RUNNING]
    \<and> exec_step t1 t2 \<and> map ex_status t2 = [SUCCEEDED, SUCCEEDED]
    \<and> map ex_trading_date t2 = [700000, 700000]"
proof -
  let ?t1 = "update_execution 1 (finish_row (second 7300) (done_with 3)) recovered_table"
  let ?t2 = "update_execution 2 (finish_row (second 7400) (done_with 2)) ?t1"
  have "finish_execution_row recovered_table 1 (second 7300) (done_with 3) = Inr (?t1,
      finish_row (second 7300) (done_with 3) (recover_stale (second 7201) (new_execution 1 700000 SCHEDULED (second 0))))"
    by (simp add: finish_execution_row_def get_execution_def recovered_table_def recover_stale_def new_execution_def)
  then have 1: "exec_step recovered_table ?t1" by (rule exec_step.finish) (simp add: done_with_def)
  have "finish_execution_row ?t1 2 (second 7400) (done_with 2) = Inr (?t2,
      finish_row (second 7400) (done_with 2) (new_execution 2 700000 MANUAL (second 7201)))"
    by (simp add: finish_execution_row_def get_execution_def recovered_table_def recover_stale_def
      new_execution_def update_execution_def finish_row_def)
  then have 2: "exec_step ?t1 ?t2" by (rule exec_step.finish) (simp add: done_with_def)
  show ?thesis
    by (intro exI [of _ ?t1] exI [of _ ?t2] conjI recovered_reachable 1 2)
      (simp_all add: recovered_table_def update_execution_def finish_row_def done_with_def recover_stale_def
        new_execution_def)
qed

end
