(* ===== verification/Pipeline_Props.thy ===== *)
theory Pipeline_Props
  imports Pipeline_Inputs Executions_Props Swing_Props
begin

text \<open>
  The pipeline's run: what an action may do to the database is a reflexive and transitive relation, so
  a locale proves once that a chain of stages stays in it; it is interpreted for the stored entries and
  for the execution table. With it, a run always ends in a recorded result, a run that does not succeed
  leaves every watchlist alone, and a run that succeeds stores the qualified top of its ranking.
\<close>

section \<open>Chains of actions\<close>

definition keeps :: "('t pipeline_db \<Rightarrow> 't pipeline_db \<Rightarrow> bool) \<Rightarrow> ('t, 'a) action \<Rightarrow> bool" where
  "keeps R m \<longleftrightarrow> (\<forall>s. R (fst s) (fst (fst (m s))))"

text \<open>The same for the executions of an action that raise.\<close>

definition keeps_raising :: "('t pipeline_db \<Rightarrow> 't pipeline_db \<Rightarrow> bool) \<Rightarrow> ('t, 'a) action \<Rightarrow> bool" where
  "keeps_raising R m \<longleftrightarrow> (\<forall>s s' e. m s = (s', Inl e) \<longrightarrow> R (fst s) (fst s'))"

lemma keeps_step: "keeps R m \<Longrightarrow> m s = (s', r) \<Longrightarrow> R (fst s) (fst s')"
  by (metis fst_conv keeps_def)

locale run_relation =
  fixes R :: "'t pipeline_db \<Rightarrow> 't pipeline_db \<Rightarrow> bool"
  assumes R_refl: "R d d" and R_trans: "R a b \<Longrightarrow> R b c \<Longrightarrow> R a c"
begin

lemma keeps_then: "keeps R m \<Longrightarrow> (\<And>x. keeps R (f x)) \<Longrightarrow> keeps R (and_then m f)"
proof -
  assume m: "keeps R m" and f: "\<And>x. keeps R (f x)"
  have "R (fst s) (fst (fst (and_then m f s)))" for s
  proof -
    obtain s1 r where s1: "m s = (s1, r)" by fastforce
    have a: "R (fst s) (fst s1)" using keeps_step [OF m s1] .
    show ?thesis
    proof (cases r)
      case (Inl e)
      then show ?thesis using a s1 by (simp add: and_then_def)
    next
      case (Inr x)
      have "R (fst s1) (fst (fst (f x s1)))" using f unfolding keeps_def by blast
      then show ?thesis using a s1 Inr R_trans by (simp add: and_then_def)
    qed
  qed
  then show ?thesis by (simp add: keeps_def)
qed

lemma keeps_attempt: "keeps R (attempt f)"
  by (simp add: keeps_def attempt_def R_refl)

lemma raising_then: "keeps R m \<Longrightarrow> (\<And>x. keeps_raising R (f x)) \<Longrightarrow> keeps_raising R (and_then m f)"
  unfolding keeps_raising_def and_then_Inl by (metis R_trans keeps_step)

lemma raising_last: "keeps_raising R m \<Longrightarrow> (\<And>s s' x. m s = (s', Inr x) \<Longrightarrow> R (fst s) (fst s')) \<Longrightarrow> keeps R m"
  unfolding keeps_raising_def keeps_def by (metis old.sum.exhaust prod.collapse)

text \<open>All stages but the last.\<close>

lemma raising_body:
  assumes "\<And>st. keeps R (enter i st :: ('t, unit) action)" and "keeps R (sync_market env)"
    and "\<And>a b c ks. keeps_raising R (persist_result env i target a b c ks)"
  shows "keeps_raising R (pipeline_body env i target force)"
  unfolding pipeline_body_def Let_def
  by (intro raising_then keeps_attempt assms keeps_then; cases force; simp add: keeps_attempt assms keeps_then)

end

section \<open>The stored entries\<close>

lemma enter_fst: "fst (fst (enter i st s)) = fst s \<or> (\<exists>es. set_stage (pd_executions (fst s)) i st = Inr es
    \<and> fst (fst (enter i st s)) = (fst s)\<lparr>pd_executions := es\<rparr>)"
  by (auto simp: enter_def Let_def split: prod.splits sum.splits)

lemma persist_raises: "persist_result env i target a b c ks s = (s', Inl e) \<Longrightarrow> s' = s"
  by (auto simp: persist_result_def Let_def split: prod.splits sum.splits)

definition same_entries :: "'t pipeline_db \<Rightarrow> 't pipeline_db \<Rightarrow> bool" where
  "same_entries a b \<longleftrightarrow> pd_entries b = pd_entries a"

interpretation entries: run_relation same_entries
  by unfold_locales (simp_all add: same_entries_def)

lemma enter_entries: "keeps same_entries (enter i st)"
  unfolding keeps_def same_entries_def
proof (intro allI)
  fix s :: "'a run_state"
  show "pd_entries (fst (fst (enter i st s))) = pd_entries (fst s)" using enter_fst [of i st s] by auto
qed

lemma sync_entries: "keeps same_entries (sync_market env)"
  by (simp add: keeps_def same_entries_def sync_market_def Let_def split: prod.splits)

lemma body_raises_entries: "pipeline_body env i target force s = (s', Inl e) \<Longrightarrow> pd_entries (fst s') = pd_entries (fst s)"
proof -
  have "keeps_raising same_entries (pipeline_body env i target force)"
    by (rule entries.raising_body [OF enter_entries sync_entries])
      (auto simp: keeps_raising_def same_entries_def dest: persist_raises)
  then show "pipeline_body env i target force s = (s', Inl e) \<Longrightarrow> pd_entries (fst s') = pd_entries (fst s)"
    unfolding keeps_raising_def same_entries_def by blast
qed

section \<open>The execution table\<close>

definition row_progress :: "uuid \<Rightarrow> Execution \<Rightarrow> Execution \<Rightarrow> bool" where
  "row_progress i e e' \<longleftrightarrow> ex_id e' = ex_id e \<and> ex_trading_date e' = ex_trading_date e \<and> ex_trigger e' = ex_trigger e
     \<and> ex_started_at e' = ex_started_at e \<and> (ex_id e \<noteq> i \<longrightarrow> e' = e)"

definition progress :: "uuid \<Rightarrow> executions \<Rightarrow> executions \<Rightarrow> bool" where
  "progress i es es' \<longleftrightarrow> list_all2 (row_progress i) es es' \<and> (exec_reachable es \<longrightarrow> exec_reachable es')"

lemma progress_refl: "progress i es es"
  by (simp add: progress_def row_progress_def list_all2_same)

lemma progress_trans: "progress i a b \<Longrightarrow> progress i b c \<Longrightarrow> progress i a c"
  unfolding progress_def
  by (auto simp: row_progress_def elim: list_all2_trans [rotated])

lemma progress_update:
  assumes "\<And>e. row_progress (ex_id e) e (f e)" and "exec_reachable es \<Longrightarrow> exec_reachable (update_execution i f es)"
  shows "progress i es (update_execution i f es)"
  using assms by (auto simp: progress_def update_execution_def list_all2_map2 row_progress_def intro: list_all2_refl)

definition execution_progress :: "uuid \<Rightarrow> 't pipeline_db \<Rightarrow> 't pipeline_db \<Rightarrow> bool" where
  "execution_progress i a b \<longleftrightarrow> progress i (pd_executions a) (pd_executions b)"

interpretation executions: run_relation "execution_progress i" for i
  by unfold_locales (auto simp: execution_progress_def intro: progress_refl progress_trans)

lemma set_stage_progress: "set_stage es i st = Inr es' \<Longrightarrow> progress i es es'"
proof -
  assume s: "set_stage es i st = Inr es'"
  then have eq: "es' = update_execution i (\<lambda>e. e\<lparr>ex_stage := st\<rparr>) es"
    by (auto simp: set_stage_def split: option.splits)
  show ?thesis unfolding eq
  proof (rule progress_update)
    assume "exec_reachable es"
    then show "exec_reachable (update_execution i (\<lambda>e. e\<lparr>ex_stage := st\<rparr>) es)"
      using exec_step.stage [OF s] eq exec_reachable.step by blast
  qed (simp add: row_progress_def)
qed

lemma finish_progress: "finish_execution_row es i now oc = Inr (es', e) \<Longrightarrow> oc_status oc \<noteq> ExecutionStatus.RUNNING \<Longrightarrow> progress i es es'"
proof -
  assume f: "finish_execution_row es i now oc = Inr (es', e)" and oc: "oc_status oc \<noteq> ExecutionStatus.RUNNING"
  then have eq: "es' = update_execution i (finish_row now oc) es"
    by (auto simp: finish_execution_row_def split: option.splits)
  show ?thesis unfolding eq
  proof (rule progress_update)
    assume "exec_reachable es"
    then show "exec_reachable (update_execution i (finish_row now oc) es)"
      using exec_step.finish [OF f oc] eq exec_reachable.step by blast
  qed (simp add: row_progress_def finish_row_def)
qed

lemma enter_progress: "keeps (execution_progress i) (enter i st)"
  unfolding keeps_def execution_progress_def
proof (intro allI)
  fix s :: "'a run_state"
  show "progress i (pd_executions (fst s)) (pd_executions (fst (fst (enter i st s))))"
    using enter_fst [of i st s] set_stage_progress progress_refl by auto
qed

lemma sync_progress: "keeps (execution_progress i) (sync_market env)"
  by (simp add: keeps_def execution_progress_def sync_market_def Let_def progress_refl split: prod.splits)

lemma persist_Inr: "persist_result env i target a b c ks s = (s', Inr row) \<Longrightarrow>
  \<exists>es rows. finish_execution_row (pd_executions (fst s)) i (pe_finished env)
      \<lparr>oc_status = SUCCEEDED, oc_stage = STAGE_COMPLETED, oc_screened_count = Some a,
       oc_candidate_count = Some b, oc_qualified_count = Some c,
       oc_score_threshold = Some (minimum_candidate_score (pe_config env)),
       oc_persisted_count = Some (length ks), oc_skipped_reason = None, oc_error_code = None,
       oc_error_detail = None\<rparr> = Inr (es, row)
    \<and> save_watchlist (pe_codec env) (take (length ks) (pe_entry_ids env)) target ks (pd_entries (fst s)) = Inr rows
    \<and> fst s' = (fst s)\<lparr>pd_executions := es, pd_entries := rows\<rparr>"
  by (auto simp: persist_result_def Let_def split: prod.splits sum.splits)

lemma persist_progress: "keeps (execution_progress i) (persist_result env i target a b c ks)"
proof (rule executions.raising_last)
  show "keeps_raising (execution_progress i) (persist_result env i target a b c ks)"
    by (auto simp: keeps_raising_def execution_progress_def progress_refl dest: persist_raises)
  fix s s' and row
  assume "persist_result env i target a b c ks s = (s', Inr row)"
  from persist_Inr [OF this] show "execution_progress i (fst s) (fst s')"
    by (auto simp: execution_progress_def intro: finish_progress)
qed

lemma body_progress: "keeps (execution_progress i) (pipeline_body env i target force)"
  unfolding pipeline_body_def Let_def
  by (intro executions.keeps_then executions.keeps_attempt enter_progress sync_progress persist_progress; cases force;
    simp add: executions.keeps_attempt executions.keeps_then enter_progress sync_progress)

section \<open>A run ends\<close>

lemma get_execution_mem: "get_execution es i = Some e \<Longrightarrow> e \<in> set es \<and> ex_id e = i"
  by (auto simp: get_execution_def find_Some_iff)

lemma get_execution_present: "i \<in> ex_id ` set es \<Longrightarrow> \<exists>e. get_execution es i = Some e"
  unfolding get_execution_def by (cases "find (\<lambda>e. ex_id e = i) es") (auto simp: find_None_iff)

lemma progress_mem: "progress i es es' \<Longrightarrow> e' \<in> set es' \<Longrightarrow> \<exists>e \<in> set es. row_progress i e e'"
  by (auto simp: progress_def list_all2_conv_all_nth in_set_conv_nth) (metis nth_mem)+

lemma progress_ids: "progress i es es' \<Longrightarrow> ex_id ` set es' = ex_id ` set es"
proof -
  assume "progress i es es'"
  then have "list_all2 (\<lambda>e e'. ex_id e' = ex_id e) es es'"
    by (auto simp: progress_def row_progress_def elim: list_all2_mono)
  then have "map ex_id es' = map ex_id es" by (induction rule: list_all2_induct) simp_all
  then show ?thesis by (metis list.set_map)
qed

lemma finish_row_mem: "finish_execution_row es i now oc = Inr (es', row) \<Longrightarrow>
    row \<in> set es' \<and> (\<exists>e. get_execution es i = Some e \<and> row = finish_row now oc e)"
  by (auto simp: finish_execution_row_def update_execution_def split: option.splits dest!: get_execution_mem)

definition own_row :: "uuid \<Rightarrow> date \<Rightarrow> TriggerType \<Rightarrow> datetime \<Rightarrow> Execution \<Rightarrow> bool" where
  "own_row i d t now e \<longleftrightarrow> ex_id e = i \<and> ex_trading_date e = d \<and> ex_trigger e = t \<and> ex_started_at e = now"

lemma progress_own:
  assumes "exec_reachable es" and "new_execution i d t now \<in> set es" and "progress i es es'"
    and "e \<in> set es'" and "ex_id e = i"
  shows "own_row i d t now e"
proof -
  obtain e0 where e0: "e0 \<in> set es" "row_progress i e0 e" using progress_mem [OF assms(3,4)] by blast
  then have "ex_id e0 = ex_id (new_execution i d t now)" using assms(5) by (simp add: row_progress_def new_execution_def)
  moreover have "distinct (map ex_id es)" using exec_reachable_inv [OF assms(1)] by (simp add: exec_inv_def)
  ultimately have "e0 = new_execution i d t now" using assms(2) e0(1) by (auto simp: distinct_map dest: inj_onD)
  with e0(2) show ?thesis by (simp add: own_row_def row_progress_def new_execution_def)
qed

definition ended :: "Execution \<Rightarrow> bool" where
  "ended e \<longleftrightarrow> ex_finished_at e \<noteq> None \<and> ex_skipped_reason e = None
     \<and> (ex_status e = SUCCEEDED \<and> ex_stage e = STAGE_COMPLETED \<and> ex_error_code e = None
        \<or> ex_status e = ExecutionStatus.FAILED \<and> ex_error_code e = Some (stage_value (ex_stage e) @ ''_failed''))"

lemma run_acquired_ends:
  assumes reach: "exec_reachable (pd_executions db)" and new: "new_execution i d t now \<in> set (pd_executions db)"
  shows "\<exists>db' row. run_acquired env i d force db = (db', Inr (pipeline_result row))
    \<and> progress i (pd_executions db) (pd_executions db') \<and> row \<in> set (pd_executions db')
    \<and> own_row i d t now row \<and> ended row
    \<and> (ex_status row = SUCCEEDED \<or> pd_entries db' = pd_entries db)"
proof -
  define st0 where "st0 = (if force then INDICATOR_CALCULATION else MARKET_SYNC)"
  obtain db1 st r where b: "pipeline_body env i d force (db, st0) = ((db1, st), r)" by (metis prod.exhaust)
  have p: "progress i (pd_executions db) (pd_executions db1)"
    using keeps_step [OF body_progress b] by (simp add: execution_progress_def)
  show ?thesis
  proof (cases r)
    case (Inr row)
    obtain a bb c ks s where "persist_result env i d a bb c ks s = ((db1, st), Inr row)"
      using b unfolding Inr pipeline_body_def Let_def and_then_Inr by blast
    from persist_Inr [OF this] obtain oc es where
      f: "finish_execution_row es i (pe_finished env) oc = Inr (pd_executions db1, row)"
      and oc: "oc_status oc = SUCCEEDED" "oc_stage oc = STAGE_COMPLETED" "oc_error_code oc = None" "oc_skipped_reason oc = None" by fastforce
    have e: "row \<in> set (pd_executions db1)" "ended row" "ex_status row = SUCCEEDED" "ex_id row = i"
      using finish_row_mem [OF f] oc by (auto simp: ended_def finish_row_def dest: get_execution_mem)
    then show ?thesis
      using b p progress_own [OF reach new p] by (auto simp: Inr run_acquired_def st0_def)
  next
    case (Inl e)
    let ?oc = "failed_outcome env st e"
    have "i \<in> ex_id ` set (pd_executions db)" using new by (force simp: new_execution_def image_iff)
    then obtain e1 where g: "get_execution (pd_executions db1) i = Some e1"
      using get_execution_present [of i "pd_executions db1"] progress_ids [OF p] by blast
    then obtain es row where f: "finish_execution_row (pd_executions db1) i (pe_failed env) ?oc = Inr (es, row)"
      by (simp add: finish_execution_row_def)
    have "progress i (pd_executions db1) es" by (rule finish_progress [OF f]) (simp add: failed_outcome_def)
    then have p2: "progress i (pd_executions db) es" using p progress_trans by blast
    have row: "row \<in> set es" "ended row" "ex_id row = i"
      using finish_row_mem [OF f] by (auto simp: ended_def finish_row_def failed_outcome_def dest: get_execution_mem)
    have "pd_entries db1 = pd_entries db" using body_raises_entries [OF b [unfolded Inl]] by simp
    then show ?thesis
      using b f row p2 progress_own [OF reach new p2] by (auto simp: Inl run_acquired_def st0_def)
  qed
qed

lemma acquire_returns: "0 < s \<Longrightarrow> \<exists>es' r. acquire_execution es i now d t s f = Inr (es', r)"
  by (auto simp: acquire_execution_def Let_def split: option.splits)

lemma acquire_answer:
  assumes "acquire_execution es i now d t s f = Inr (es', r)"
  shows "if aq_status r = ACQUIRED
    then aq_execution r = Some (new_execution i d t now) \<and> new_execution i d t now \<in> set es'
    else ex_id ` set es' = ex_id ` set es"
proof -
  have ids: "ex_id ` set (update_execution j (recover_stale now) es) = ex_id ` set es" for j
  proof -
    have "map ex_id (update_execution j (recover_stale now) es) = map ex_id es"
      by (rule update_execution_ids) (simp add: recover_stale_def)
    then show ?thesis by (metis list.set_map)
  qed
  show ?thesis using assms ids
    by (auto simp: acquire_execution_def Let_def split: option.splits if_splits)
qed

lemma run_ends:
  assumes "exec_reachable (pd_executions db)" and "0 < pe_stale_after env"
    and "pe_id env \<notin> ex_id ` set (pd_executions db)"
  shows "\<exists>db' r. pipeline_run env (Some d) trigger force db = (db', Inr r) \<and> pr_trading_date r = d
    \<and> exec_reachable (pd_executions db')
    \<and> (if pr_status r = SKIPPED
       then pr_execution_id r = None \<and> pe_id env \<notin> ex_id ` set (pd_executions db') \<and> pd_entries db' = pd_entries db
         \<and> pd_market db' = pd_market db
       else \<exists>e \<in> set (pd_executions db'). ex_id e = pe_id env \<and> r = pipeline_result e \<and> ended e
         \<and> ex_trigger e = trigger \<and> (ex_status e = SUCCEEDED \<or> pd_entries db' = pd_entries db))"
proof (cases "5 \<le> weekday d")
  case True
  then show ?thesis using assms by (simp add: pipeline_run_def skipped_result_def)
next
  case False
  obtain es aq where acq: "acquire_execution (pd_executions db) (pe_id env) (pe_acquired env) d trigger
      (pe_stale_after env) force = Inr (es, aq)" using acquire_returns [OF assms(2)] by blast
  have reach: "exec_reachable es" using exec_step.acquire [OF acq assms(3)] assms(1) exec_reachable.step by blast
  let ?db1 = "db\<lparr>pd_executions := es\<rparr>"
  show ?thesis
  proof (cases "aq_status aq = ACQUIRED")
    case True
    let ?new = "new_execution (pe_id env) d trigger (pe_acquired env)"
    have new: "aq_execution aq = Some ?new" "?new \<in> set (pd_executions ?db1)"
      using acquire_answer [OF acq] True by simp_all
    have "exec_reachable (pd_executions ?db1)" using reach by simp
    from run_acquired_ends [OF this new(2), of env force] obtain db' row where
      r: "run_acquired env (pe_id env) d force ?db1 = (db', Inr (pipeline_result row))"
      and p: "progress (pe_id env) es (pd_executions db')"
      and row: "row \<in> set (pd_executions db')" "own_row (pe_id env) d trigger (pe_acquired env) row" "ended row"
        "ex_status row = SUCCEEDED \<or> pd_entries db' = pd_entries db" by auto
    have run: "pipeline_run env (Some d) trigger force db = (db', Inr (pipeline_result row))"
      using False acq True new(1) r by (simp add: pipeline_run_def new_execution_def)
    have "exec_reachable (pd_executions db')" using p reach by (simp add: progress_def)
    moreover have "pr_status (pipeline_result row) \<noteq> SKIPPED"
      using row(3) by (auto simp: ended_def pipeline_result_def)
    moreover have "pr_trading_date (pipeline_result row) = d"
      using row(2) by (simp add: own_row_def pipeline_result_def)
    ultimately show ?thesis using run row unfolding own_row_def by auto
  next
    case a: False
    then have "ex_id ` set es = ex_id ` set (pd_executions db)" using acquire_answer [OF acq] by simp
    then show ?thesis
      using False acq a reach assms(3) by (simp add: pipeline_run_def skipped_result_def)
  qed
qed

text \<open>
  C10. A run of the pipeline always ends in a recorded result. Whatever the provider, the screening and
  the tables do, it returns, for its date, and the execution table stays reachable. A weekend or a
  refused acquisition is reported as skipped, without an execution; otherwise the run's own execution
  is in the table, finished, as succeeded in the last stage or as failed with the stage it failed in,
  and the result reports its row. It never raises and never leaves its execution running.
\<close>

theorem pipeline_run_ends:
  assumes "exec_reachable (pd_executions db)" and "0 < pe_stale_after env"
    and "pe_id env \<notin> ex_id ` set (pd_executions db)"
  shows "\<exists>db' r. pipeline_run env (Some d) trigger force db = (db', Inr r) \<and> pr_trading_date r = d
    \<and> exec_reachable (pd_executions db')
    \<and> (if pr_status r = SKIPPED
       then pr_execution_id r = None \<and> pe_id env \<notin> ex_id ` set (pd_executions db') \<and> pd_entries db' = pd_entries db
         \<and> pd_market db' = pd_market db
       else \<exists>e \<in> set (pd_executions db'). ex_id e = pe_id env \<and> r = pipeline_result e \<and> ended e
         \<and> ex_trigger e = trigger \<and> (ex_status e = SUCCEEDED \<or> pd_entries db' = pd_entries db))"
  by (rule run_ends [OF assms])

section \<open>What a successful run stores\<close>

lemma ranked_facts:
  assumes "rank_swing cfg results = Inr cs"
  shows "map rc_rank cs = [1..<length cs + 1]" "list_all candidate_ok cs"
    "sorted_wrt (\<lambda>a b. rc_total_score b \<le> rc_total_score a) cs" "rc_source_result ` set cs = set results"
proof -
  from assms obtain scored where s: "mapE (score_swing cfg) results = Inr scored"
    and cs: "cs = assign_ranks (sort_key swing_key scored)"
    by (auto simp: rank_swing_def bindE_eq_Inr)
  note r = swing_ranker.ranked [OF s cs]
  have "length cs = length results" using r(2) by (metis size_mset length_map)
  then show "map rc_rank cs = [1..<length cs + 1]" using r(1) by (simp del: upt_Suc)
  show "list_all candidate_ok cs" "sorted_wrt (\<lambda>a b. rc_total_score b \<le> rc_total_score a) cs" using r(3,4) .
  show "rc_source_result ` set cs = set results" using mset_eq_setD [OF r(2)] by simp
qed

lemma filter_prefix:
  assumes "sorted_wrt (\<lambda>a b. f b \<le> (f a :: 'k :: linorder)) xs"
  shows "\<exists>j \<le> length xs. filter (\<lambda>x. m \<le> f x) xs = take j xs"
  using assms
proof (induction xs)
  case (Cons x xs)
  then obtain j where j: "j \<le> length xs" "filter (\<lambda>x. m \<le> f x) xs = take j xs" by auto
  show ?case
  proof (cases "m \<le> f x")
    case True
    with j show ?thesis by (intro exI [of _ "Suc j"]) simp
  next
    case False
    with Cons.prems have "filter (\<lambda>x. m \<le> f x) (x # xs) = []" by (force simp: filter_empty_conv)
    then show ?thesis by (intro exI [of _ 0]) simp
  qed
qed simp

lemma top_candidates:
  assumes "rank_swing cfg results = Inr scored" and "0 \<le> maximum_candidates cfg"
    and "ranked = first_n (maximum_candidates cfg) (qualified_candidates cfg scored)"
  shows "map rc_rank ranked = [1..<length ranked + 1]" "int (length ranked) \<le> maximum_candidates cfg"
    "sorted_wrt (\<lambda>a b. rc_total_score b \<le> rc_total_score a) ranked"
    "list_all (\<lambda>k. candidate_ok k \<and> minimum_candidate_score cfg \<le> rc_total_score k \<and> rc_source_result k \<in> set results) ranked"
proof -
  note f = ranked_facts [OF assms(1)]
  obtain j where j: "j \<le> length scored" "qualified_candidates cfg scored = take j scored"
    using filter_prefix [OF f(3)] unfolding qualified_candidates_def by blast
  define k where "k = min (nat (maximum_candidates cfg)) j"
  have r: "ranked = take k scored" "k \<le> length scored" using assms(2,3) j by (simp_all add: first_n_def k_def)
  show "map rc_rank ranked = [1..<length ranked + 1]"
    using r f(1) by (simp add: take_map [symmetric] del: upt_Suc)
  show "int (length ranked) \<le> maximum_candidates cfg" using assms(2) r by (simp add: k_def)
  show "sorted_wrt (\<lambda>a b. rc_total_score b \<le> rc_total_score a) ranked"
    unfolding r(1) using f(3) by (rule sorted_wrt_take)
  have "list_all (\<lambda>k. minimum_candidate_score cfg \<le> rc_total_score k) ranked"
    using assms(2,3) by (auto simp: first_n_def qualified_candidates_def list_all_iff dest: in_set_takeD)
  then show "list_all (\<lambda>k. candidate_ok k \<and> minimum_candidate_score cfg \<le> rc_total_score k \<and> rc_source_result k \<in> set results) ranked"
    using f(2) unfolding f(4) [symmetric] by (auto simp: r(1) list_all_iff dest: in_set_takeD)
qed

definition same_market :: "'t pipeline_db \<Rightarrow> 't pipeline_db \<Rightarrow> bool" where
  "same_market a b \<longleftrightarrow> pd_market b = pd_market a \<and> pd_entries b = pd_entries a"

lemma enter_Inr: "enter i st s = (s', Inr x) \<Longrightarrow> same_market (fst s) (fst s')"
  by (auto simp: enter_def Let_def same_market_def split: prod.splits sum.splits)

lemma attempt_Inr: "attempt f s = (s', Inr x) \<longleftrightarrow> s' = s \<and> f (fst s) = Inr x"
  by (auto simp: attempt_def)

lemma sync_Inr: "sync_market env s = (s', r) \<Longrightarrow> pd_entries (fst s') = pd_entries (fst s)"
  by (auto simp: sync_market_def Let_def split: prod.splits)

lemma first_stage_Inr:
  assumes "(if force then attempt (\<lambda>db. Inr []) else and_then (enter i MARKET_SYNC) (\<lambda>_. sync_market env)) s = (s', Inr x)"
  shows "pd_entries (fst s') = pd_entries (fst s)"
  using assms by (auto simp: attempt_Inr and_then_Inr same_market_def split: if_splits dest!: enter_Inr sync_Inr)

lemma body_Inr:
  assumes "pipeline_body env i d force s = (s', Inr row)"
  shows "\<exists>inputs candidates scored ranked. pipeline_inputs env d (pd_market (fst s')) = Inr inputs
    \<and> scan (swing_evaluate (pe_config env)) inputs = Inr candidates
    \<and> rank_swing (pe_config env) candidates = Inr scored
    \<and> ranked = first_n (maximum_candidates (pe_config env)) (qualified_candidates (pe_config env) scored)
    \<and> save_watchlist (pe_codec env) (take (length ranked) (pe_entry_ids env)) d ranked (pd_entries (fst s))
        = Inr (pd_entries (fst s'))
    \<and> ex_screened_count row = Some (length inputs) \<and> ex_candidate_count row = Some (length candidates)
    \<and> ex_qualified_count row = Some (length (qualified_candidates (pe_config env) scored))
    \<and> ex_persisted_count row = Some (length ranked)"
proof -
  obtain s1 s2 s3 s4 s5 s6 :: "'a run_state" and x1 x2 x3 x4 x5 x6 inputs candidates scored where
    st: "(if force then attempt (\<lambda>db. Inr []) else and_then (enter i MARKET_SYNC) (\<lambda>_. sync_market env)) s = (s1, Inr x1)"
      "enter i INDICATOR_CALCULATION s1 = (s2, Inr x2)" "enter i SCREENING s2 = (s3, Inr x3)"
      "enter i CANDIDATE_SCANNING s3 = (s4, Inr x4)" "enter i CANDIDATE_RANKING s4 = (s5, Inr x5)"
      "enter i WATCHLIST_PERSISTENCE s5 = (s6, Inr x6)"
    and v: "pipeline_inputs env d (pd_market (fst s2)) = Inr inputs"
      "scan (swing_evaluate (pe_config env)) inputs = Inr candidates" "rank_swing (pe_config env) candidates = Inr scored"
    and p: "persist_result env i d (length inputs) (length candidates) (length (qualified_candidates (pe_config env) scored))
          (first_n (maximum_candidates (pe_config env)) (qualified_candidates (pe_config env) scored)) s6 = (s', Inr row)"
    using assms unfolding pipeline_body_def Let_def and_then_Inr attempt_Inr by blast
  note a = first_stage_Inr [OF st(1)] and e = st(2-6) [THEN enter_Inr]
  have m: "pd_market (fst s') = pd_market (fst s2)" "pd_entries (fst s6) = pd_entries (fst s)"
    using a e persist_Inr [OF p] by (auto simp: same_market_def)
  show ?thesis
    using v m persist_Inr [OF p] by (auto simp: finish_row_def dest!: finish_row_mem)
qed

lemma run_succeeded:
  assumes "pipeline_run env (Some d) trigger force db = (db', Inr r)" and "pr_status r = SUCCEEDED"
  shows "\<exists>db1 i st0 st row. pd_entries db1 = pd_entries db \<and> r = pipeline_result row
    \<and> pipeline_body env i d force (db1, st0) = ((db', st), Inr row)"
proof -
  have failed: "pr_status (pipeline_result row) = ExecutionStatus.FAILED"
    if "finish_execution_row es i now (failed_outcome env st e) = Inr (es', row)" for es i now st e es' row
    using that by (auto simp: finish_execution_row_def pipeline_result_def finish_row_def failed_outcome_def split: option.splits)
  obtain es and run :: Execution where db1: "run_acquired env (ex_id run) d force (db\<lparr>pd_executions := es\<rparr>) = (db', Inr r)"
    using assms by (auto simp: pipeline_run_def Let_def skipped_result_def split: if_splits sum.splits prod.splits option.splits)
  let ?db1 = "db\<lparr>pd_executions := es\<rparr>" and ?st = "if force then INDICATOR_CALCULATION else MARKET_SYNC"
  obtain db2 st x where b: "pipeline_body env (ex_id run) d force (?db1, ?st) = ((db2, st), x)" by (metis prod.exhaust)
  have "pd_entries ?db1 = pd_entries db" by simp
  moreover have "\<exists>row. x = Inr row \<and> db' = db2 \<and> r = pipeline_result row"
    using db1 b assms(2) failed
    by (cases x) (auto simp: run_acquired_def split: prod.splits sum.splits)
  ultimately show ?thesis using b by blast
qed

lemma list_ranked_rows:
  assumes "codec_ok c" and "list_all (\<lambda>k. score_ok (rc_total_score k)) ks" and "length ids = length ks"
    and "map rc_rank ks = [1..<length ks + 1]" and "save_watchlist c ids d ks es = Inr es'"
  shows "list_watchlist c d es' = Inr (map2 (\<lambda>i k. stored_entry i d k) ids ks)"
proof -
  from assms(5) have es': "es' = delete_date d es @ new_rows c ids d ks" by (simp add: save_watchlist_iff)
  have "map (rc_rank \<circ> snd) (zip ids ks) = map rc_rank ks" using assms(3) by (metis map_map map_snd_zip)
  then have "sort_key (rc_rank \<circ> snd) (zip ids ks) = zip ids ks"
    using assms(4) by (intro sort_key_id_if_sorted) (simp del: upt_Suc)
  then show ?thesis
    using list_new_rows [OF assms(1,2), of ids d]
    by (simp only: list_watchlist_def es' filter_new_rows simp_thms if_True)
qed

lemma other_dates:
  assumes "save_watchlist c ids d ks es = Inr es'" and "d' \<noteq> d"
  shows "list_watchlist c d' es' = list_watchlist c d' es"
proof -
  from assms(1) have es': "es' = delete_date d es @ new_rows c ids d ks" by (simp add: save_watchlist_iff)
  show ?thesis using assms(2) by (simp only: list_watchlist_def es' filter_new_rows if_False)
qed

lemma stored_fields:
  assumes "length ids = length ks"
  shows "map we_rank (map2 (\<lambda>i k. stored_entry i d k) ids ks) = map rc_rank ks"
    "map we_total_score (map2 (\<lambda>i k. stored_entry i d k) ids ks) = map rc_total_score ks"
    "length (map2 (\<lambda>i k. stored_entry i d k) ids ks) = length ks"
  using assms by (induction ids ks rule: list_induct2) (simp_all add: stored_entry_def)

lemma passing_traded:
  assumes "pipeline_inputs env d db = Inr inputs" and "scan (swing_evaluate cfg) inputs = Inr candidates"
    and "distinct (map bar_key (mdb_bars db))" and "rows_valid (mdb_bars db)" and "0 < minimum_history_bars (pe_config env)"
    and "q \<in> set candidates"
  shows "sr_passed q \<and> traded_symbol d db (sr_symbol q)"
proof -
  have inputs: "set (map si_symbol inputs) = {s. traded_symbol d db s}"
    using pipeline_inputs_eq [OF assms(3-5), of d] assms(1) by auto
  obtain rs where "candidates = filter sr_passed rs" "map sr_symbol rs = map si_symbol inputs"
    using swing.scan_results [OF assms(2)] by blast
  moreover from this assms(6) have "sr_symbol q \<in> set (map si_symbol inputs)" by (metis filter_is_subset image_eqI list.set_map subsetD)
  ultimately show ?thesis using inputs assms(6) by auto
qed

text \<open>
  What a successful run computed: the screened inputs, the passing results, their ranking and the candidates it
  keeps, the best \<open>maximum_candidates\<close> of those that reach the threshold, with its four counts.
\<close>

definition run_computed :: "'t pipeline_env \<Rightarrow> date \<Rightarrow> market_db \<Rightarrow> PipelineResult \<Rightarrow> RankedCandidate list \<Rightarrow> bool" where
  "run_computed env d market r kept \<longleftrightarrow> (\<exists>inputs candidates scored. pipeline_inputs env d market = Inr inputs
     \<and> scan (swing_evaluate (pe_config env)) inputs = Inr candidates
     \<and> rank_swing (pe_config env) candidates = Inr scored
     \<and> kept = take (nat (maximum_candidates (pe_config env)))
         (filter (\<lambda>k. minimum_candidate_score (pe_config env) \<le> rc_total_score k) scored)
     \<and> pr_screened_count r = Some (length inputs) \<and> pr_candidate_count r = Some (length candidates)
     \<and> pr_qualified_count r
         = Some (length (filter (\<lambda>k. minimum_candidate_score (pe_config env) \<le> rc_total_score k) scored))
     \<and> pr_persisted_count r = Some (length kept))"

text \<open>The entries a run lists are its candidates, in order.\<close>

lemma stored_candidates:
  assumes "pipeline_run env (Some d) trigger force db = (db', Inr r)" and "pr_status r = SUCCEEDED"
    and "validate_config (pe_config env) = Inr c" and "codec_ok (pe_codec env)"
    and "maximum_candidates (pe_config env) \<le> int (length (pe_entry_ids env))"
  shows "\<exists>kept. run_computed env d (pd_market db') r kept
    \<and> list_watchlist (pe_codec env) d (pd_entries db')
        = Inr (map2 (\<lambda>i k. stored_entry i d k) (take (length kept) (pe_entry_ids env)) kept)
    \<and> length (take (length kept) (pe_entry_ids env)) = length kept
    \<and> (\<forall>d'. d' \<noteq> d \<longrightarrow> list_watchlist (pe_codec env) d' (pd_entries db') = list_watchlist (pe_codec env) d' (pd_entries db))"
proof -
  obtain db1 i st0 st row where e: "pd_entries db1 = pd_entries db" and r: "r = pipeline_result row"
    and b: "pipeline_body env i d force (db1, st0) = ((db', st), Inr row)"
    using run_succeeded [OF assms(1,2)] by blast
  obtain inputs candidates scored ranked where v: "pipeline_inputs env d (pd_market db') = Inr inputs"
      "scan (swing_evaluate (pe_config env)) inputs = Inr candidates"
      "rank_swing (pe_config env) candidates = Inr scored"
      "ranked = first_n (maximum_candidates (pe_config env)) (qualified_candidates (pe_config env) scored)"
    and s: "save_watchlist (pe_codec env) (take (length ranked) (pe_entry_ids env)) d ranked (pd_entries db) = Inr (pd_entries db')"
    and n: "ex_screened_count row = Some (length inputs)" "ex_candidate_count row = Some (length candidates)"
      "ex_qualified_count row = Some (length (qualified_candidates (pe_config env) scored))" "ex_persisted_count row = Some (length ranked)"
    using body_Inr [OF b] e by auto
  have m: "0 \<le> maximum_candidates (pe_config env)" using min_history [OF assms(3)] by simp
  note t = top_candidates [OF v(3) m v(4)]
  have l: "length (take (length ranked) (pe_entry_ids env)) = length ranked" using t(2) assms(5) by simp
  have ok: "list_all (\<lambda>k. score_ok (rc_total_score k)) ranked" using t(4) by (auto simp: list_all_iff candidate_ok_def)
  have "run_computed env d (pd_market db') r ranked"
    unfolding run_computed_def r using v n m
    by (intro exI [of _ inputs] exI [of _ candidates] exI [of _ scored])
      (simp add: first_n_def qualified_candidates_def pipeline_result_def)
  then show ?thesis using list_ranked_rows [OF assms(4) ok l t(1) s] l other_dates [OF s] by blast
qed

lemma stored_watchlist:
  assumes "pipeline_run env (Some d) trigger force db = (db', Inr r)" and "pr_status r = SUCCEEDED"
    and "validate_config (pe_config env) = Inr c" and "codec_ok (pe_codec env)"
    and "maximum_candidates (pe_config env) \<le> int (length (pe_entry_ids env))"
    and "distinct (map bar_key (mdb_bars (pd_market db')))" and "rows_valid (mdb_bars (pd_market db'))"
  shows "\<exists>ws. list_watchlist (pe_codec env) d (pd_entries db') = Inr ws
    \<and> int (length ws) \<le> maximum_candidates (pe_config env) \<and> pr_persisted_count r = Some (length ws)
    \<and> map we_rank ws = [1..<length ws + 1]
    \<and> sorted_wrt (\<lambda>a b. we_total_score b \<le> we_total_score a) ws
    \<and> list_all (\<lambda>w. minimum_candidate_score (pe_config env) \<le> we_total_score w \<and> sr_passed (we_snapshot w)
        \<and> sr_symbol (we_snapshot w) = we_symbol w \<and> traded_symbol d (pd_market db') (we_symbol w)) ws
    \<and> (\<forall>d'. d' \<noteq> d \<longrightarrow> list_watchlist (pe_codec env) d' (pd_entries db') = list_watchlist (pe_codec env) d' (pd_entries db))"
proof -
  obtain ranked where run: "run_computed env d (pd_market db') r ranked"
    and ws: "list_watchlist (pe_codec env) d (pd_entries db')
        = Inr (map2 (\<lambda>i k. stored_entry i d k) (take (length ranked) (pe_entry_ids env)) ranked)"
    and l: "length (take (length ranked) (pe_entry_ids env)) = length ranked"
    and others: "\<forall>d'. d' \<noteq> d \<longrightarrow> list_watchlist (pe_codec env) d' (pd_entries db') = list_watchlist (pe_codec env) d' (pd_entries db)"
    using stored_candidates [OF assms(1-5)] by blast
  have m: "0 \<le> maximum_candidates (pe_config env)" "0 < minimum_history_bars (pe_config env)"
    using min_history [OF assms(3)] by simp_all
  obtain inputs candidates scored where v: "pipeline_inputs env d (pd_market db') = Inr inputs"
      "scan (swing_evaluate (pe_config env)) inputs = Inr candidates" "rank_swing (pe_config env) candidates = Inr scored"
      "ranked = first_n (maximum_candidates (pe_config env)) (qualified_candidates (pe_config env) scored)"
    and n: "pr_persisted_count r = Some (length ranked)"
    using run m(1) by (auto simp: run_computed_def first_n_def qualified_candidates_def)
  note t = top_candidates [OF v(3) m(1) v(4)]
  let ?ws = "map2 (\<lambda>i k. stored_entry i d k) (take (length ranked) (pe_entry_ids env)) ranked"
  note fields = stored_fields [OF l, of d]
  have entry: "minimum_candidate_score (pe_config env) \<le> we_total_score w \<and> sr_passed (we_snapshot w)
      \<and> sr_symbol (we_snapshot w) = we_symbol w \<and> traded_symbol d (pd_market db') (we_symbol w)" if "w \<in> set ?ws" for w
  proof -
    from that obtain i k where k: "k \<in> set ranked" "w = stored_entry i d k" by (auto dest: set_zip_rightD)
    have "candidate_ok k" "minimum_candidate_score (pe_config env) \<le> rc_total_score k" "rc_source_result k \<in> set candidates"
      using t(4) k(1) by (simp_all add: list_all_iff)
    moreover from this have "sr_passed (rc_source_result k)" "traded_symbol d (pd_market db') (sr_symbol (rc_source_result k))"
      using passing_traded [OF v(1,2) assms(6,7) m(2)] by blast+
    ultimately show ?thesis using k(2) by (simp add: stored_entry_def candidate_ok_def)
  qed
  have "sorted_wrt (\<lambda>x y. y \<le> x) (map rc_total_score ranked)" using t(3) by (simp only: sorted_wrt_map)
  then have "sorted_wrt (\<lambda>x y. y \<le> x) (map we_total_score ?ws)" by (simp only: fields(2))
  then have "sorted_wrt (\<lambda>a b. we_total_score b \<le> we_total_score a) ?ws" by (simp only: sorted_wrt_map)
  moreover have "map we_rank ?ws = [1..<length ?ws + 1]" using fields(1,3) t(1) by simp
  moreover have "int (length ?ws) \<le> maximum_candidates (pe_config env)" using t(2) fields(3) by simp
  moreover have "pr_persisted_count r = Some (length ?ws)" using n fields(3) by simp
  ultimately show ?thesis
    using ws entry others unfolding list_all_iff by blast
qed

text \<open>
  C11. What a successful run stores. The watchlist of its date is then a list of at most
  \<open>maximum_candidates\<close> entries, ranked one to n by falling score, each of at least the qualifying score and
  each for a listed, active KOSPI common stock with a bar on the date whose screening result passed;
  the result reports how many there are; and the watchlist of every other date is what it was.
\<close>

theorem pipeline_watchlist:
  assumes "pipeline_run env (Some d) trigger force db = (db', Inr r)" and "pr_status r = SUCCEEDED"
    and "validate_config (pe_config env) = Inr c" and "codec_ok (pe_codec env)"
    and "maximum_candidates (pe_config env) \<le> int (length (pe_entry_ids env))"
    and "distinct (map bar_key (mdb_bars (pd_market db')))" and "rows_valid (mdb_bars (pd_market db'))"
  shows "\<exists>ws. list_watchlist (pe_codec env) d (pd_entries db') = Inr ws
    \<and> int (length ws) \<le> maximum_candidates (pe_config env) \<and> pr_persisted_count r = Some (length ws)
    \<and> map we_rank ws = [1..<length ws + 1]
    \<and> sorted_wrt (\<lambda>a b. we_total_score b \<le> we_total_score a) ws
    \<and> list_all (\<lambda>w. minimum_candidate_score (pe_config env) \<le> we_total_score w \<and> sr_passed (we_snapshot w)
        \<and> sr_symbol (we_snapshot w) = we_symbol w \<and> traded_symbol d (pd_market db') (we_symbol w)) ws
    \<and> (\<forall>d'. d' \<noteq> d \<longrightarrow> list_watchlist (pe_codec env) d' (pd_entries db') = list_watchlist (pe_codec env) d' (pd_entries db))"
  by (rule stored_watchlist [OF assms])

section \<open>Concrete runs\<close>

definition fresh_db :: "plain_text pipeline_db" where
  "fresh_db = \<lparr>pd_market = demo_market_db, pd_executions = [], pd_entries = []\<rparr>"

lemma pipeline_run_ends_witness:
  "\<exists>db' r. pipeline_run demo_env_pipeline (Some 738000) MANUAL False fresh_db = (db', Inr r) \<and> pr_trading_date r = 738000"
proof -
  have "exec_reachable (pd_executions fresh_db)" "0 < pe_stale_after demo_env_pipeline"
    "pe_id demo_env_pipeline \<notin> ex_id ` set (pd_executions fresh_db)"
    by (simp_all add: fresh_db_def demo_env_pipeline_def exec_reachable.start)
  from pipeline_run_ends [OF this, of 738000 MANUAL False] show ?thesis by blast
qed

end
