(* ===== verification/Screening_Returns.thy ===== *)
theory Screening_Returns
  imports Swing_Props Ranking_Props
begin

text \<open>
  When the screening and the ranking return: under a validated configuration whose scoring marks are
  in order an evaluation always does, and the results of a scan can always be ranked.
\<close>

section \<open>Screening and ranking return\<close>

definition marks_ok :: "SwingConfig \<Rightarrow> bool" where
  "marks_ok c \<longleftrightarrow> box_marks c \<and> pullback_marks c \<and> contraction_marks c"

lemma prior_short: "int (length bars) \<le> k \<Longrightarrow> 0 < k \<Longrightarrow> bars = [] \<or> int (length (prior_n (nat k) bars)) < k"
  by (cases bars) auto

lemma swing_evaluate_returns_ok:
  assumes v: "validate_config c = Inr c'" and m: "marks_ok c"
  shows "returns (swing_evaluate c bars i)"
proof -
  note h = min_history [OF v]
  have "returns (swing_box c bars i)"
  proof (cases "box_lookback c < int (length bars)")
    case True
    then show ?thesis using swing_box_returns h(2) m by (simp add: marks_ok_def)
  next
    case False
    then show ?thesis using prior_short [of bars "box_lookback c"] h(2) by (auto simp: swing_box_def Let_def)
  qed
  moreover have "returns (swing_pullback c bars i)"
  proof (cases "pullback_lookback c < int (length bars)")
    case True
    then show ?thesis using swing_pullback_returns h(3) m by (simp add: marks_ok_def)
  next
    case False
    then show ?thesis using prior_short [of bars "pullback_lookback c"] h(3) by (auto simp: swing_pullback_def Let_def)
  qed
  moreover have "returns (swing_contraction c bars i)"
  proof (cases "contraction_long_lookback c + 1 < int (length bars)")
    case True
    then show ?thesis using swing_contraction_returns h(7) m by (simp add: marks_ok_def)
  next
    case False
    then have "int (length bars) < contraction_long_lookback c + 2" by simp
    then show ?thesis by (simp add: swing_contraction_def Let_def)
  qed
  ultimately show ?thesis by (simp add: swing_evaluate_returns)
qed

lemma swing_result_shape:
  assumes "swing_evaluate c bars i = Inr r"
  shows "map fst (sr_setup_scores r) = sr_matched_setups r \<and> list_all (\<lambda>(n, s). score_ok s) (sr_setup_scores r)
    \<and> (sr_passed r \<longrightarrow> (\<exists>p \<in> set SETUP_ORDER. sr_primary_setup r = Some p))"
proof -
  obtain b p v where bpv: "swing_box c bars i = Inr b" "swing_pullback c bars i = Inr p"
      "swing_contraction c bars i = Inr v"
    and matched: "sr_matched_setups r = filter (\<lambda>n. fst (entry_of (setup_entries b p v) n)
        \<and> fst (swing_common c bars i)) SETUP_ORDER"
    and passed: "sr_passed r = (sr_matched_setups r \<noteq> [])"
    and scores: "sr_setup_scores r = map (\<lambda>n. (n, dict_getd (fst (snd (entry_of (setup_entries b p v) n)))
        ''setup_score'' 0)) (sr_matched_setups r)"
    and primary: "sr_primary_setup r = primary_setup (sr_matched_setups r) (sr_setup_scores r)"
    using swing_evaluate_Inr [OF assms] by blast
  have "evaluation_ok (entry_of (setup_entries b p v) n)" for n using bpv by (rule entry_ok)
  then have "list_all (\<lambda>(n, s). score_ok s) (sr_setup_scores r)"
    by (auto simp: scores list_all_iff evaluation_ok_def)
  moreover have "\<exists>p \<in> set SETUP_ORDER. sr_primary_setup r = Some p" if "sr_passed r"
  proof -
    have "sr_primary_setup r \<noteq> None" using that by (simp add: primary primary_setup_def min_key_None passed)
    then obtain q where q: "sr_primary_setup r = Some q" by blast
    have "q \<in> set (sr_matched_setups r)"
      using min_key_least [OF q [unfolded primary primary_setup_def]] by simp
    then show ?thesis using q by (auto simp: matched)
  qed
  ultimately show ?thesis by (simp add: scores o_def)
qed

lemma score_swing_returns:
  assumes "map fst (sr_setup_scores r) = sr_matched_setups r" and "list_all (\<lambda>(n, s). score_ok s) (sr_setup_scores r)"
  shows "returns (score_swing cfg r)"
proof -
  have scores: "\<exists>s. map_of (sr_setup_scores r) n = Some s \<and> score_ok s" if n: "n \<in> set (sr_matched_setups r)" for n
  proof -
    from n have "n \<in> fst ` set (sr_setup_scores r)" unfolding assms(1) [symmetric] by simp
    then obtain s where "map_of (sr_setup_scores r) n = Some s" by (metis map_of_eq_None_iff option.exhaust)
    with assms(2) show ?thesis by (auto simp: list_all_iff dest: map_of_SomeD)
  qed
  have "\<forall>n \<in> set (sr_matched_setups r). returns (case map_of (sr_setup_scores r) n of None \<Rightarrow> Inl (KeyError n) | Some s \<Rightarrow> Inr s)"
  proof
    fix n
    assume "n \<in> set (sr_matched_setups r)"
    from scores [OF this] show "returns (case map_of (sr_setup_scores r) n of None \<Rightarrow> Inl (KeyError n) | Some s \<Rightarrow> Inr s)"
      by auto
  qed
  then have "returns (setup_scores_of r)" unfolding setup_scores_of_def mapE_returns list_all_iff .
  then obtain ss where ss: "setup_scores_of r = Inr ss" by (auto simp: returns_iff)
  have ok: "score_ok x" if "x \<in> set ss" for x
  proof -
    from ss have "ss = map (\<lambda>n. value_of (case map_of (sr_setup_scores r) n of None \<Rightarrow> Inl (KeyError n) | Some s \<Rightarrow> Inr s)) (sr_matched_setups r)"
      by (simp add: setup_scores_of_def mapE_iff)
    then show ?thesis using that scores by (fastforce simp: value_of_def)
  qed
  have "score_ok (if ss = [] then 0 else max_of ss)" using ok max_of_in [of ss] by (auto simp: score_ok_zero)
  then show ?thesis
    using ss by (auto simp: score_swing_def Let_def validate_ranked_def validate_components_def score_ok_bounds
      scores_ok(4) swing_volatility_ok)
qed

lemma scan_candidate:
  assumes "scan (swing_evaluate c) inputs = Inr candidates" and "q \<in> set candidates"
  shows "sr_passed q \<and> map fst (sr_setup_scores q) = sr_matched_setups q
    \<and> list_all (\<lambda>(n, s). score_ok s) (sr_setup_scores q) \<and> (\<exists>p \<in> set SETUP_ORDER. sr_primary_setup q = Some p)"
proof -
  obtain rs where rs: "mapE (scan_evaluate (swing_evaluate c)) inputs = Inr rs" "candidates = filter sr_passed rs"
    using swing.scan_results [OF assms(1)] by blast
  then have q: "q \<in> set rs" "sr_passed q" using assms(2) by auto
  then obtain x where "x \<in> set inputs" "scan_evaluate (swing_evaluate c) x = Inr q"
    using rs(1) mapE_nth [OF rs(1)] mapE_length [OF rs(1)] by (metis in_set_conv_nth)
  then obtain r where r: "swing_evaluate c (si_bars x) (si_indicators x) = Inr r" "q = r \<or> q = r\<lparr>sr_symbol := si_symbol x\<rparr>"
    by (auto simp: scan_evaluate_def engine_evaluate_def bindE_eq_Inr split: if_splits)
  show ?thesis using swing_result_shape [OF r(1)] r(2) q(2) by auto
qed

lemma rank_swing_returns_all:
  assumes q: "\<And>q. q \<in> set candidates \<Longrightarrow> sr_passed q \<and> map fst (sr_setup_scores q) = sr_matched_setups q
      \<and> list_all (\<lambda>(n, s). score_ok s) (sr_setup_scores q) \<and> (\<exists>p \<in> set SETUP_ORDER. sr_primary_setup q = Some p)"
    and d: "distinct (map sr_symbol candidates)" and b: "list_all (\<lambda>q. strip (sr_symbol q) \<noteq> '''') candidates"
  shows "returns (rank_swing c candidates)"
proof -
  have v: "validate_results [] candidates = Inr ()" using q b d by (auto simp: validate_results_iff list_all_iff)
  have "\<forall>q \<in> set candidates. returns (score_swing c q)" using q score_swing_returns by blast
  then have "returns (mapE (score_swing c) candidates)" unfolding mapE_returns list_all_iff .
  then obtain scored where sc: "mapE (score_swing c) candidates = Inr scored" unfolding returns_iff by blast
  have src: "rc_source_result k \<in> set candidates" if "k \<in> set scored" for k
    using swing_ranker.scored(1) [OF sc] that by (metis image_eqI list.set_map)
  have "\<forall>k \<in> set scored. returns (check_primary k)"
  proof
    fix k
    assume "k \<in> set scored"
    from q [OF src [OF this]] obtain p where "p \<in> set SETUP_ORDER" "sr_primary_setup (rc_source_result k) = Some p"
      by blast
    then show "returns (check_primary k)" by (auto simp: check_primary_def primary_of_def SETUP_ORDER_def)
  qed
  then have "returns (mapE check_primary scored)" unfolding mapE_returns list_all_iff .
  then show ?thesis using v sc by (auto simp: rank_swing_def returns_iff)
qed

lemma rank_swing_returns:
  assumes s: "scan (swing_evaluate c) inputs = Inr candidates"
    and b: "list_all (\<lambda>q. strip (sr_symbol q) \<noteq> '''') candidates"
  shows "returns (rank_swing c candidates)"
  using rank_swing_returns_all [of candidates c] scan_candidate [OF s] swing.scan_results [OF s] b by blast

end
