(* ===== verification/Pipeline_Success.thy ===== *)
theory Pipeline_Success
  imports Pipeline_Props Screening_Returns
begin

text \<open>
  When a run of the pipeline succeeds. Under a configuration whose marks are in order, the screening
  and the ranking of well-formed inputs always return, a watchlist under new identifiers is always
  saved, and no stage loses the run's row: the synchronization is the only thing that can fail.
\<close>

section \<open>Ranked symbols\<close>

lemma ranked_symbols:
  assumes "rank_swing cfg results = Inr scored"
  shows "distinct (map rc_symbol scored) \<and> list_all (\<lambda>k. strip (rc_symbol k) \<noteq> '''') scored"
proof -
  from assms obtain cs where v: "validate_results [] results = Inr ()" and s: "mapE (score_swing cfg) results = Inr cs"
    and out: "scored = assign_ranks (sort_key swing_key cs)"
    by (auto simp: rank_swing_def bindE_eq_Inr)
  note r = swing_ranker.ranked [OF s out]
  have d: "distinct (map sr_symbol results)" "\<forall>q \<in> set results. strip (sr_symbol q) \<noteq> ''''"
    using v by (simp_all add: validate_results_iff list_all_iff)
  have sym: "\<forall>k \<in> set scored. rc_symbol k = sr_symbol (rc_source_result k)" using r(3) by (simp add: list_all_iff candidate_ok_def)
  then have m: "map rc_symbol scored = map sr_symbol (map rc_source_result scored)" by simp
  have "mset (map sr_symbol (map rc_source_result scored)) = mset (map sr_symbol results)" using r(2) by (metis mset_map)
  then have "distinct (map rc_symbol scored)" unfolding m using d(1) by (metis mset_eq_imp_distinct_iff)
  moreover have "rc_source_result ` set scored = set results" using mset_eq_setD [OF r(2)] by simp
  ultimately show ?thesis using d(2) sym by (auto simp: list_all_iff)
qed

section \<open>The stages pass\<close>

text \<open>The market tables after the synchronization stage, and what the table constraints say of them.\<close>

definition market_after :: "'t pipeline_env \<Rightarrow> bool \<Rightarrow> market_db \<Rightarrow> market_db \<times> SyncResult list res" where
  "market_after env force db = (if force then (db, Inr []) else sync_all (pe_message env) (pe_to_ms env)
     (pe_provider env) (pe_history_years env) (pe_batch_size env) (pe_stock_clock env) (pe_bar_clock env)
     (pe_stocks_locked env) (pe_bars_locked env) db)"

definition tables_ok :: "market_db \<Rightarrow> bool" where
  "tables_ok db \<longleftrightarrow> distinct (map bar_key (mdb_bars db)) \<and> rows_valid (mdb_bars db)
     \<and> list_all (\<lambda>t. strip (st_symbol t) \<noteq> '''') (mdb_stocks db)"

lemma inputs_scan:
  assumes t: "tables_ok db" and v: "validate_config (pe_config env) = Inr c" and m: "marks_ok (pe_config env)"
  shows "\<exists>inputs candidates scored. pipeline_inputs env d db = Inr inputs
    \<and> scan (swing_evaluate (pe_config env)) inputs = Inr candidates \<and> rank_swing (pe_config env) candidates = Inr scored"
proof -
  have n: "0 < minimum_history_bars (pe_config env)" using min_history [OF v] by simp
  have db: "distinct (map bar_key (mdb_bars db))" "rows_valid (mdb_bars db)"
    "\<forall>t \<in> set (mdb_stocks db). strip (st_symbol t) \<noteq> ''''"
    using t by (simp_all add: tables_ok_def list_all_iff)
  obtain inputs where i: "pipeline_inputs env d db = Inr inputs" "sorted_wrt (<) (map si_symbol inputs)"
      "set (map si_symbol inputs) = {s. traded_symbol d db s}"
      "list_all (\<lambda>x. si_bars x = input_bars env d db (si_symbol x) \<and> calculate (si_bars x) = Inr (si_indicators x)) inputs"
    using pipeline_inputs_eq [OF db(1,2) n, of d] by blast
  have blank: "strip s \<noteq> ''''" if "traded_symbol d db s" for s
    using that db(3) by (auto simp: traded_symbol_def screened_symbol_def list_ex_iff)
  have "input_ok x" if "x \<in> set inputs" for x
  proof -
    have "mk_symbol b = s" if "b \<in> set (input_bars env d db s)" for b s
      using that set_last_n by (fastforce simp: input_bars_def history_of_def daily_bar_def)
    moreover have "traded_symbol d db (si_symbol x)" using i(3) that by auto
    ultimately show ?thesis using i(4) that blank by (simp add: input_ok_def list_all_iff)
  qed
  moreover have "distinct (map si_symbol inputs)" using i(2) strict_sorted_iff by blast
  ultimately have "returns (scan (swing_evaluate (pe_config env)) inputs)"
    using swing_evaluate_returns_ok [OF v m] by (simp add: swing.scan_returns list_all_iff)
  then obtain candidates where c: "scan (swing_evaluate (pe_config env)) inputs = Inr candidates" by (auto simp: returns_iff)
  have "list_all (\<lambda>q. strip (sr_symbol q) \<noteq> '''') candidates"
    using passing_traded [OF i(1) c db(1,2) n] blank by (auto simp: list_all_iff)
  then obtain scored where "rank_swing (pe_config env) candidates = Inr scored"
    using rank_swing_returns [OF c] by (auto simp: returns_iff)
  then show ?thesis using i(1) c by blast
qed

definition ids_ok :: "'t pipeline_env \<Rightarrow> 't EntryRow list \<Rightarrow> bool" where
  "ids_ok env es \<longleftrightarrow> distinct (pe_entry_ids env) \<and> list_all (\<lambda>e. er_id e \<notin> set (pe_entry_ids env)) es
     \<and> maximum_candidates (pe_config env) \<le> int (length (pe_entry_ids env))"

lemma save_returns:
  assumes r: "rank_swing (pe_config env) candidates = Inr scored" and v: "validate_config (pe_config env) = Inr c"
    and ranked: "ranked = first_n (maximum_candidates (pe_config env)) (qualified_candidates (pe_config env) scored)"
    and es: "entries_ok es" and ids: "ids_ok env es"
  shows "\<exists>rows. save_watchlist (pe_codec env) (take (length ranked) (pe_entry_ids env)) d ranked es = Inr rows"
proof -
  have m: "0 \<le> maximum_candidates (pe_config env)" using min_history [OF v] by simp
  note t = top_candidates [OF r m ranked]
  let ?ids = "take (length ranked) (pe_entry_ids env)"
  have l: "length ?ids = length ranked" using t(2) ids by (simp add: ids_ok_def)
  have i: "distinct ?ids" "list_all (\<lambda>e. er_id e \<notin> set ?ids) es"
    using ids by (auto simp: ids_ok_def list_all_iff dest: in_set_takeD)
  have ranks: "distinct (map rc_rank ranked)" using t(1) by (simp del: upt_Suc)
  have sub: "ranked = take (nat (maximum_candidates (pe_config env))) (filter (\<lambda>k. minimum_candidate_score (pe_config env) \<le> rc_total_score k) scored)"
    using ranked m by (simp add: first_n_def qualified_candidates_def)
  have "distinct (map rc_symbol ranked)" "list_all (\<lambda>k. strip (rc_symbol k) \<noteq> '''') ranked"
    using ranked_symbols [OF r]
    by (auto simp: sub take_map [symmetric] distinct_map_filter list_all_iff dest: in_set_takeD)
  then show ?thesis using entries_ok_append [OF es l i, of d] ranks
    by (auto simp: save_watchlist_iff validate_candidates_iff list_all_iff)
qed

lemma enter_present:
  assumes "i \<in> ex_id ` set (pd_executions (fst s))"
  shows "\<exists>s'. enter i st s = (s', Inr ()) \<and> same_market (fst s) (fst s') \<and> i \<in> ex_id ` set (pd_executions (fst s'))"
proof -
  obtain e where "get_execution (pd_executions (fst s)) i = Some e" using get_execution_present [OF assms] by blast
  then obtain es where es: "set_stage (pd_executions (fst s)) i st = Inr es" by (simp add: set_stage_def)
  then have "ex_id ` set es = ex_id ` set (pd_executions (fst s))" using set_stage_progress progress_ids by blast
  with assms es show ?thesis by (auto simp: enter_def Let_def same_market_def split: prod.splits)
qed

lemma first_stage_present:
  assumes "i \<in> ex_id ` set (pd_executions (fst s))" and "market_after env force (pd_market (fst s)) = (m, Inr x)"
  shows "\<exists>s' y. (if force then attempt (\<lambda>db. Inr []) else and_then (enter i MARKET_SYNC) (\<lambda>_. sync_market env)) s = (s', Inr y)
    \<and> pd_market (fst s') = m \<and> pd_entries (fst s') = pd_entries (fst s) \<and> i \<in> ex_id ` set (pd_executions (fst s'))"
proof (cases force)
  case True
  then show ?thesis using assms by (auto simp: attempt_def market_after_def)
next
  case False
  obtain s1 where s1: "enter i MARKET_SYNC s = (s1, Inr ())" "same_market (fst s) (fst s1)"
      "i \<in> ex_id ` set (pd_executions (fst s1))" using enter_present [OF assms(1)] by blast
  obtain db st where p: "s1 = (db, st)" by fastforce
  have "sync_market env s1 = ((db\<lparr>pd_market := m\<rparr>, st), Inr x)"
    using assms(2) False s1(2) by (simp add: p sync_market_def market_after_def same_market_def)
  then show ?thesis using False s1 by (auto simp: p and_then_def same_market_def)
qed

lemma body_succeeds:
  assumes i: "i \<in> ex_id ` set (pd_executions (fst s))" and m: "market_after env force (pd_market (fst s)) = (m, Inr x)"
    and v: "pipeline_inputs env d m = Inr inputs" "scan (swing_evaluate (pe_config env)) inputs = Inr candidates"
      "rank_swing (pe_config env) candidates = Inr scored"
    and ranked: "ranked = first_n (maximum_candidates (pe_config env)) (qualified_candidates (pe_config env) scored)"
    and rows: "save_watchlist (pe_codec env) (take (length ranked) (pe_entry_ids env)) d ranked (pd_entries (fst s)) = Inr rows"
  shows "\<exists>s' row. pipeline_body env i d force s = (s', Inr row) \<and> pd_market (fst s') = m"
proof -
  obtain s1 y where s1: "(if force then attempt (\<lambda>db. Inr []) else and_then (enter i MARKET_SYNC) (\<lambda>_. sync_market env)) s = (s1, Inr y)"
      "pd_market (fst s1) = m" "pd_entries (fst s1) = pd_entries (fst s)" "i \<in> ex_id ` set (pd_executions (fst s1))"
    using first_stage_present [OF i m] by blast
  obtain s2 where s2: "enter i INDICATOR_CALCULATION s1 = (s2, Inr ())" "same_market (fst s1) (fst s2)"
      "i \<in> ex_id ` set (pd_executions (fst s2))" using enter_present [OF s1(4)] by blast
  obtain s3 where s3: "enter i SCREENING s2 = (s3, Inr ())" "same_market (fst s2) (fst s3)"
      "i \<in> ex_id ` set (pd_executions (fst s3))" using enter_present [OF s2(3)] by blast
  obtain s4 where s4: "enter i CANDIDATE_SCANNING s3 = (s4, Inr ())" "same_market (fst s3) (fst s4)"
      "i \<in> ex_id ` set (pd_executions (fst s4))" using enter_present [OF s3(3)] by blast
  obtain s5 where s5: "enter i CANDIDATE_RANKING s4 = (s5, Inr ())" "same_market (fst s4) (fst s5)"
      "i \<in> ex_id ` set (pd_executions (fst s5))" using enter_present [OF s4(3)] by blast
  obtain s6 where s6: "enter i WATCHLIST_PERSISTENCE s5 = (s6, Inr ())" "same_market (fst s5) (fst s6)"
      "i \<in> ex_id ` set (pd_executions (fst s6))" using enter_present [OF s5(3)] by blast
  have e6: "pd_market (fst s6) = m" "pd_entries (fst s6) = pd_entries (fst s)" and m2: "pd_market (fst s2) = m"
    using s1 s2 s3 s4 s5 s6 by (simp_all add: same_market_def)
  obtain e where "get_execution (pd_executions (fst s6)) i = Some e" using get_execution_present [OF s6(3)] by blast
  then have "\<exists>s' row. persist_result env i d (length inputs) (length candidates)
      (length (qualified_candidates (pe_config env) scored)) ranked s6 = (s', Inr row) \<and> pd_market (fst s') = m"
    using rows e6 by (auto simp: persist_result_def Let_def finish_execution_row_def split: prod.splits)
  then obtain s' row where p: "persist_result env i d (length inputs) (length candidates)
      (length (qualified_candidates (pe_config env) scored)) ranked s6 = (s', Inr row)" "pd_market (fst s') = m" by blast
  have "pipeline_body env i d force s = (s', Inr row)"
    unfolding pipeline_body_def Let_def
    by (simp only: and_then_def [of _ _ s] s1(1) prod.case sum.case, simp only: and_then_def attempt_def s2(1) s3(1) s4(1) s5(1) s6(1)
      m2 v prod.case sum.case p(1) [unfolded ranked])
  then show ?thesis using p(2) by blast
qed

section \<open>The run succeeds\<close>

lemma run_succeeds:
  assumes w: "weekday d < 5"
    and acq: "acquire_execution (pd_executions db) (pe_id env) (pe_acquired env) d trigger (pe_stale_after env) force = Inr (es, aq)"
    and st: "aq_status aq = ACQUIRED"
    and m: "market_after env force (pd_market db) = (m, Inr x)" and t: "tables_ok m"
    and v: "validate_config (pe_config env) = Inr c" and marks: "marks_ok (pe_config env)"
    and e: "entries_ok (pd_entries db)" and ids: "ids_ok env (pd_entries db)"
  shows "\<exists>db' r. pipeline_run env (Some d) trigger force db = (db', Inr r) \<and> pr_status r = SUCCEEDED \<and> pd_market db' = m"
proof -
  let ?new = "new_execution (pe_id env) d trigger (pe_acquired env)"
  let ?db1 = "db\<lparr>pd_executions := es\<rparr>" and ?st = "if force then INDICATOR_CALCULATION else MARKET_SYNC"
  have new: "aq_execution aq = Some ?new" "?new \<in> set es" using acquire_answer [OF acq] st by simp_all
  obtain inputs candidates scored where i: "pipeline_inputs env d m = Inr inputs"
      "scan (swing_evaluate (pe_config env)) inputs = Inr candidates" "rank_swing (pe_config env) candidates = Inr scored"
    using inputs_scan [OF t v marks] by blast
  obtain rows where rows: "save_watchlist (pe_codec env)
      (take (length (first_n (maximum_candidates (pe_config env)) (qualified_candidates (pe_config env) scored))) (pe_entry_ids env)) d
      (first_n (maximum_candidates (pe_config env)) (qualified_candidates (pe_config env) scored)) (pd_entries db) = Inr rows"
    using save_returns [OF i(3) v refl e ids] by blast
  have present: "pe_id env \<in> ex_id ` set es" using new(2) by (force simp: new_execution_def)
  obtain s' row where b: "pipeline_body env (pe_id env) d force (?db1, ?st) = (s', Inr row)" "pd_market (fst s') = m"
  proof -
    let ?s = "(?db1, ?st)"
    have "pe_id env \<in> ex_id ` set (pd_executions (fst ?s))" using present by simp
    moreover have "market_after env force (pd_market (fst ?s)) = (m, Inr x)" using m by simp
    moreover have "pd_entries (fst ?s) = pd_entries db" by simp
    ultimately show thesis using body_succeeds [OF _ _ i refl, of "pe_id env" ?s force x rows] rows that by metis
  qed
  obtain a bb cc ks s where "persist_result env (pe_id env) d a bb cc ks s = (s', Inr row)"
    using b(1) unfolding pipeline_body_def Let_def and_then_Inr by blast
  from persist_Inr [OF this] obtain oc es2 where
    "finish_execution_row (pd_executions (fst s)) (pe_id env) (pe_finished env) oc = Inr (es2, row)" "oc_status oc = SUCCEEDED"
    by fastforce
  then have "ex_status row = SUCCEEDED" by (auto simp: finish_row_def dest!: finish_row_mem)
  moreover have "pipeline_run env (Some d) trigger force db = (fst s', Inr (pipeline_result row))"
    using w acq st new(1) b(1) by (cases s') (simp add: pipeline_run_def run_acquired_def new_execution_def)
  ultimately show ?thesis using b(2) by (simp add: pipeline_result_def)
qed

text \<open>
  C12. When a run succeeds. On a weekday whose execution it acquires, with a validated configuration
  whose scoring marks are in order, tables that satisfy their constraints and new identifiers, a run
  succeeds as soon as the synchronization returns (or is skipped by a forced reanalysis): neither the
  screening, the scanning, the ranking nor the saving of a watchlist can fail, whatever the bars are.
\<close>

theorem pipeline_succeeds:
  assumes "weekday d < 5"
    and "acquire_execution (pd_executions db) (pe_id env) (pe_acquired env) d trigger (pe_stale_after env) force = Inr (es, aq)"
    and "aq_status aq = ACQUIRED"
    and "market_after env force (pd_market db) = (m, Inr x)" and "tables_ok m"
    and "validate_config (pe_config env) = Inr c" and "marks_ok (pe_config env)"
    and "entries_ok (pd_entries db)" and "ids_ok env (pd_entries db)"
  shows "\<exists>db' r. pipeline_run env (Some d) trigger force db = (db', Inr r) \<and> pr_status r = SUCCEEDED \<and> pd_market db' = m"
  using run_succeeds [OF assms] .

section \<open>A concrete run\<close>

text \<open>
  A forced reanalysis of a day on which a stock breaks out after a flat history: the watchlist stored
  by the earlier run is replaced.
\<close>

definition earlier_run :: Execution where
  "earlier_run = finish_row 5 (done_with 2) (new_execution 0 738000 SCHEDULED 0)"

definition breakout_env :: "plain_text pipeline_env" where
  "breakout_env = demo_env_pipeline\<lparr>pe_entry_ids := [11..<21]\<rparr>"

definition breakout_market :: market_db where
  "breakout_market = demo_market_db\<lparr>mdb_bars := map (\<lambda>b. (bar_row b)\<lparr>br_date := 737940 + mk_date b\<rparr>) breakout_bars\<rparr>"

definition breakout_db :: "plain_text pipeline_db" where
  "breakout_db = \<lparr>pd_market = breakout_market, pd_executions = [earlier_run], pd_entries = two_rows\<rparr>"

lemma breakout_acquired: "\<exists>es aq. acquire_execution (pd_executions breakout_db) (pe_id breakout_env) (pe_acquired breakout_env)
    738000 MANUAL_REANALYSIS (pe_stale_after breakout_env) True = Inr (es, aq) \<and> aq_status aq = ACQUIRED"
  by (simp add: acquire_execution_def breakout_db_def breakout_env_def demo_env_pipeline_def newest_with_def
    newest_first_def first_of_def Let_def earlier_run_def finish_row_def done_with_def new_execution_def)

lemma breakout_config: "validate_config (pe_config breakout_env) = Inr default_config" "marks_ok (pe_config breakout_env)"
  by (simp_all add: breakout_env_def demo_env_pipeline_def validate_config_def required_history_def default_config_def
    marks_ok_def box_marks_def pullback_marks_def contraction_marks_def)

lemma breakout_rows: "distinct (map bar_key (mdb_bars breakout_market))" "rows_valid (mdb_bars breakout_market)"
proof -
  have d: "map mk_date breakout_bars = map int [0..<61]"
    by (simp add: breakout_bars_def flat_bar_def o_def upt_rec)
  have "map (\<lambda>r. br_date r - 737940) (mdb_bars breakout_market) = map mk_date breakout_bars"
    by (simp add: breakout_market_def o_def)
  then have "distinct (map (\<lambda>r. br_date r - 737940) (mdb_bars breakout_market))"
    unfolding d by (simp add: distinct_map)
  then show "distinct (map bar_key (mdb_bars breakout_market))"
    by (auto simp: distinct_map inj_on_def bar_key_def)
  show "rows_valid (mdb_bars breakout_market)"
    by (auto simp: rows_valid_def breakout_market_def breakout_bars_def flat_bar_def list_all_iff bar_row_def
      daily_bar_def bar_ok_def ohlc_ok_def)
qed

lemma breakout_tables: "tables_ok breakout_market" "entries_ok (pd_entries breakout_db)"
  "ids_ok breakout_env (pd_entries breakout_db)"
proof -
  show "tables_ok breakout_market"
    using breakout_rows by (simp add: tables_ok_def breakout_market_def demo_market_db_def demo_stock_def strip_def is_space_def)
  show "entries_ok (pd_entries breakout_db)" using two_saved by (simp add: save_watchlist_iff breakout_db_def)
  show "ids_ok breakout_env (pd_entries breakout_db)"
    by (simp add: ids_ok_def breakout_db_def two_rows_def new_rows_def two_candidates_def breakout_env_def
      entry_row_fields demo_env_pipeline_def default_config_def)
qed

lemma breakout_run: "\<exists>db' r. pipeline_run breakout_env (Some 738000) MANUAL_REANALYSIS True breakout_db = (db', Inr r)
    \<and> pr_status r = SUCCEEDED \<and> pd_market db' = breakout_market"
proof -
  obtain es aq where a: "acquire_execution (pd_executions breakout_db) (pe_id breakout_env) (pe_acquired breakout_env)
    738000 MANUAL_REANALYSIS (pe_stale_after breakout_env) True = Inr (es, aq)" "aq_status aq = ACQUIRED"
    using breakout_acquired by blast
  have w: "weekday 738000 < 5" by (simp add: weekday_def)
  have m: "market_after breakout_env True (pd_market breakout_db) = (breakout_market, Inr [])"
    by (simp add: market_after_def breakout_db_def)
  show ?thesis using run_succeeds [OF w a m breakout_tables(1) breakout_config breakout_tables(2,3)] .
qed

lemma pipeline_succeeds_witness:
  "\<exists>db' r. pipeline_run breakout_env (Some 738000) MANUAL_REANALYSIS True breakout_db = (db', Inr r) \<and> pr_status r = SUCCEEDED"
proof -
  obtain es aq where a: "acquire_execution (pd_executions breakout_db) (pe_id breakout_env) (pe_acquired breakout_env)
    738000 MANUAL_REANALYSIS (pe_stale_after breakout_env) True = Inr (es, aq)" "aq_status aq = ACQUIRED"
    using breakout_acquired by blast
  have w: "weekday 738000 < 5" by (simp add: weekday_def)
  have m: "market_after breakout_env True (pd_market breakout_db) = (breakout_market, Inr [])"
    by (simp add: market_after_def breakout_db_def)
  show ?thesis using pipeline_succeeds [OF w a m breakout_tables(1) breakout_config breakout_tables(2,3)] by blast
qed

lemma pipeline_watchlist_witness:
  "\<exists>db' r ws. pipeline_run breakout_env (Some 738000) MANUAL_REANALYSIS True breakout_db = (db', Inr r)
    \<and> list_watchlist plain_codec 738000 (pd_entries db') = Inr ws \<and> length ws \<le> 5 \<and> pr_persisted_count r = Some (length ws)"
proof -
  obtain db' r where r: "pipeline_run breakout_env (Some 738000) MANUAL_REANALYSIS True breakout_db = (db', Inr r)"
    "pr_status r = SUCCEEDED" "pd_market db' = breakout_market" using breakout_run by blast
  have env: "pe_codec breakout_env = plain_codec" "maximum_candidates (pe_config breakout_env) = 5"
      "length (pe_entry_ids breakout_env) = 10"
    by (simp_all add: breakout_env_def demo_env_pipeline_def default_config_def)
  have ok: "codec_ok (pe_codec breakout_env)" "maximum_candidates (pe_config breakout_env) \<le> int (length (pe_entry_ids breakout_env))"
    by (simp_all add: env plain_codec_ok)
  have bars: "distinct (map bar_key (mdb_bars (pd_market db')))" "rows_valid (mdb_bars (pd_market db'))"
    using breakout_rows by (simp_all only: r(3))
  obtain ws where "list_watchlist plain_codec 738000 (pd_entries db') = Inr ws" "int (length ws) \<le> 5"
      "pr_persisted_count r = Some (length ws)"
    using pipeline_watchlist [OF r(1,2) breakout_config(1) ok bars] unfolding env by blast
  then show ?thesis using r(1) by auto
qed

end
