(* ===== verification/Toss_Values.thy ===== *)
theory Toss_Values
  imports Market_Domain Calendar
begin

text \<open>
  The values at the boundary of the Toss adapter, \<open>modules/market/infrastructure/toss.py\<close>: decoded JSON
  with Python's \<open>str\<close>, \<open>repr\<close> and truth value, HTTP replies, the module-level conversions, the error
  envelopes, and the mapping of a refused response to a provider error.

  A JSON float is its \<open>repr\<close>. The readers of calendar and clock text, \<open>date.fromisoformat\<close>,
  \<open>datetime.fromisoformat\<close>, \<open>email.utils.parsedate_to_datetime\<close> and \<open>float\<close>, the
  offset of Seoul at the end of a day, and the integer field of the pydantic token model are arguments:
  nothing below depends on which texts they accept.
\<close>

section \<open>JSON\<close>

datatype json = JNull | JBool bool | JInt int | JFloat string | JStr string | JList "json list"
  | JObj "(string \<times> json) list"

type_synonym row = "(string \<times> json) list"

text \<open>\<open>repr\<close> of an ASCII string: single quotes unless only double quotes avoid an escape.\<close>

definition hex_digit :: "nat \<Rightarrow> char" where
  "hex_digit n = (if n < 10 then char_of (48 + n) else char_of (87 + n))"

definition repr_char :: "char \<Rightarrow> char \<Rightarrow> string" where
  "repr_char q c = (let n = of_char c :: nat in
     if c = q \<or> n = 92 then [char_of (92 :: nat), c]
     else if n = 10 then [char_of (92 :: nat), CHR ''n'']
     else if n = 13 then [char_of (92 :: nat), CHR ''r'']
     else if n = 9 then [char_of (92 :: nat), CHR ''t'']
     else if n < 32 \<or> n = 127 then [char_of (92 :: nat), CHR ''x'', hex_digit (n div 16), hex_digit (n mod 16)]
     else [c])"

definition repr_string :: "string \<Rightarrow> string" where
  "repr_string s = (let q = (if char_of (39 :: nat) \<in> set s \<and> char_of (34 :: nat) \<notin> set s
       then char_of (34 :: nat) else char_of (39 :: nat))
     in [q] @ concat (map (repr_char q) s) @ [q])"

fun joined :: "string \<Rightarrow> string list \<Rightarrow> string" where
  "joined sep [] = []"
| "joined sep [x] = x"
| "joined sep (x # y # xs) = x @ sep @ joined sep (y # xs)"

fun py_repr :: "json \<Rightarrow> string" where
  "py_repr JNull = ''None''"
| "py_repr (JBool b) = (if b then ''True'' else ''False'')"
| "py_repr (JInt i) = int_text i"
| "py_repr (JFloat s) = s"
| "py_repr (JStr s) = repr_string s"
| "py_repr (JList xs) = ''['' @ joined '', '' (map py_repr xs) @ '']''"
| "py_repr (JObj d) = ''{'' @ joined '', '' (map (\<lambda>(k, v). repr_string k @ '': '' @ py_repr v) d) @ ''}''"

definition py_str :: "json \<Rightarrow> string" where
  "py_str v = (case v of JStr s \<Rightarrow> s | _ \<Rightarrow> py_repr v)"

definition truthy :: "json \<Rightarrow> bool" where
  "truthy v = (case v of JNull \<Rightarrow> False | JBool b \<Rightarrow> b | JInt i \<Rightarrow> i \<noteq> 0
     | JFloat s \<Rightarrow> s \<noteq> ''0.0'' \<and> s \<noteq> ''-0.0'' | JStr s \<Rightarrow> s \<noteq> [] | JList xs \<Rightarrow> xs \<noteq> [] | JObj d \<Rightarrow> d \<noteq> [])"

text \<open>\<open>row[key]\<close>\<close>

definition field :: "row \<Rightarrow> string \<Rightarrow> json res" where
  "field r key = (case map_of r key of None \<Rightarrow> Inl (KeyError key) | Some v \<Rightarrow> Inr v)"

section \<open>Replies\<close>

text \<open>
  A response, with its decoded body when it is JSON and the three headers the code reads. A request
  that gets no response raises: a timeout or a network error, which the code catches, or another
  error of the transport, which it does not.
\<close>

record http_response =
  rs_status :: int
  rs_json :: "json option"
  rs_retry_after :: "string option"
  rs_rate_reset :: "string option"
  rs_request_id :: "string option"

datatype reply = Unreachable | Broken string | Answered http_response

record stamp =
  sm_instant :: datetime
  sm_date :: date
  sm_aware :: bool

datatype pyfloat = Finite rat | PosInf | NegInf | NaN

record readers =
  rd_float :: "string \<Rightarrow> pyfloat option"
  rd_http_date :: "string \<Rightarrow> stamp option"
  rd_iso_datetime :: "string \<Rightarrow> stamp option"
  rd_iso_date :: "string \<Rightarrow> date option"
  rd_seoul_offset :: "date \<Rightarrow> string"
  rd_int_field :: "json \<Rightarrow> int option"

section \<open>Conversions\<close>

definition to_decimal :: "json \<Rightarrow> decimal res" where
  "to_decimal v = (case decimal_of_string (py_str v) of
     None \<Rightarrow> Inl InvalidOperation
   | Some (Fin d) \<Rightarrow> if d < 0 then Inl (ValueError ''invalid decimal'') else Inr d
   | Some _ \<Rightarrow> Inl (ValueError ''invalid decimal''))"

definition to_integer :: "json \<Rightarrow> int res" where
  "to_integer v = (case v of JBool _ \<Rightarrow> Inl (ValueError ''invalid integer'')
     | _ \<Rightarrow> (case int_of_string (py_str v) of
         None \<Rightarrow> Inl (ValueError ''invalid literal for int()'')
       | Some i \<Rightarrow> if i < 0 then Inl (ValueError ''invalid integer'')
           else (case decimal_of_string (py_str v) of
               None \<Rightarrow> Inl InvalidOperation
             | Some d \<Rightarrow> if d = Fin (of_int i) then Inr i else Inl (ValueError ''invalid integer''))))"

text \<open>\<open>str(value).replace("Z", "+00:00")\<close>\<close>

definition zulu :: "string \<Rightarrow> string" where
  "zulu s = concat (map (\<lambda>c. if c = CHR ''Z'' then ''+00:00'' else [c]) s)"

definition parse_datetime :: "readers \<Rightarrow> json \<Rightarrow> stamp res" where
  "parse_datetime rd v = (case rd_iso_datetime rd (zulu (py_str v)) of
     None \<Rightarrow> Inl (ValueError ''Invalid isoformat string'')
   | Some t \<Rightarrow> if sm_aware t then Inr t else Inl (ValueError ''timestamp has no timezone''))"

definition optional :: "row \<Rightarrow> string \<Rightarrow> string option" where
  "optional r key = (case map_of r key of None \<Rightarrow> None | Some JNull \<Rightarrow> None | Some v \<Rightarrow> Some (py_str v))"

definition optional_bool :: "row \<Rightarrow> string \<Rightarrow> bool option res" where
  "optional_bool r key = (case map_of r key of None \<Rightarrow> Inr None | Some JNull \<Rightarrow> Inr None
     | Some (JBool b) \<Rightarrow> Inr (Some b) | Some _ \<Rightarrow> Inl (TypeError ''expected boolean''))"

definition optional_date :: "readers \<Rightarrow> row \<Rightarrow> string \<Rightarrow> date option res" where
  "optional_date rd r key = (case map_of r key of None \<Rightarrow> Inr None | Some JNull \<Rightarrow> Inr None
     | Some v \<Rightarrow> if v = JStr '''' then Inr None
         else (case rd_iso_date rd (py_str v) of
             None \<Rightarrow> Inl (ValueError ''Invalid isoformat string'') | Some d \<Rightarrow> Inr (Some d)))"

definition warning_active :: "readers \<Rightarrow> date \<Rightarrow> row \<Rightarrow> bool res" where
  "warning_active rd today r = bindE (optional_date rd r ''endDate'') (\<lambda>e.
     Inr (case e of None \<Rightarrow> True | Some d \<Rightarrow> today \<le> d))"

text \<open>
  \<open>_retry_after\<close>: the header as a number of seconds, a reset time as seconds from now, else an HTTP
  date; always between 0 and 30 seconds. Seconds are exact here, floats in the code.
\<close>

definition seconds_until :: "datetime \<Rightarrow> datetime \<Rightarrow> rat" where
  "seconds_until now t = of_int (t - now) / 1000000"

definition clamp_seconds :: "rat \<Rightarrow> rat" where
  "clamp_seconds x = max 0 (min x 30)"

definition retry_after :: "readers \<Rightarrow> datetime \<Rightarrow> string option \<Rightarrow> string option \<Rightarrow> rat" where
  "retry_after rd now value reset = (case (case value of None \<Rightarrow> reset | Some v \<Rightarrow> Some v) of
     None \<Rightarrow> 1 / 10
   | Some candidate \<Rightarrow> (case rd_float rd candidate of
         Some (Finite x) \<Rightarrow> clamp_seconds (if value = None then x - seconds_until 0 now else x)
       | Some PosInf \<Rightarrow> 30
       | Some NegInf \<Rightarrow> 0
       | Some NaN \<Rightarrow> 0
       | None \<Rightarrow> (case rd_http_date rd candidate of None \<Rightarrow> 1 / 10
           | Some t \<Rightarrow> clamp_seconds (seconds_until now (sm_instant t)))))"

lemma retry_after_bounds: "0 \<le> retry_after rd now value reset \<and> retry_after rd now value reset \<le> 30"
  by (auto simp: retry_after_def clamp_seconds_def split: option.splits pyfloat.splits)

section \<open>Errors\<close>

definition toss_error :: "provider_error_kind \<Rightarrow> string \<Rightarrow> ProviderError" where
  "toss_error k m = \<lparr>er_kind = k, er_message = m, er_provider = ''toss'', er_retryable = False,
     er_provider_code = None, er_request_id = None, er_retry_after = None, er_provider_message = None\<rparr>"

definition malformed :: py_exc where
  "malformed = ProviderException (toss_error ProviderMalformedResponseError ''Malformed provider response'')"

text \<open>A field \<open>str | None = None\<close> of a pydantic model: absent, null or a string.\<close>

definition text_field :: "row \<Rightarrow> string \<Rightarrow> string option option" where
  "text_field r key = (case map_of r key of None \<Rightarrow> Some None | Some JNull \<Rightarrow> Some None
     | Some (JStr s) \<Rightarrow> Some (Some s) | Some _ \<Rightarrow> None)"

record TossCommonError =
  tc_requestId :: "string option"
  tc_code :: "string option"
  tc_message :: "string option"

definition common_error :: "json \<Rightarrow> TossCommonError option" where
  "common_error v = (case v of JObj r \<Rightarrow>
       (case (text_field r ''requestId'', text_field r ''code'', text_field r ''message'') of
          (Some i, Some c, Some m) \<Rightarrow> Some \<lparr>tc_requestId = i, tc_code = c, tc_message = m\<rparr>
        | _ \<Rightarrow> None)
     | _ \<Rightarrow> None)"

definition error_envelope :: "json \<Rightarrow> TossCommonError option" where
  "error_envelope v = (case v of JObj r \<Rightarrow> Option.bind (map_of r ''error'') common_error | _ \<Rightarrow> None)"

definition oauth_envelope :: "json \<Rightarrow> (string option \<times> string option) option" where
  "oauth_envelope v = (case v of JObj r \<Rightarrow> (case (text_field r ''error'', text_field r ''error_description'') of
       (Some e, Some d) \<Rightarrow> Some (e, d) | _ \<Rightarrow> None) | _ \<Rightarrow> None)"

text \<open>\<open>_error_details\<close>: code, request id and message of the body, nothing when it has another shape.\<close>

definition error_details :: "http_response \<Rightarrow> bool \<Rightarrow> string option \<times> string option \<times> string option" where
  "error_details r authentication = (case rs_json r of None \<Rightarrow> (None, None, None)
     | Some v \<Rightarrow> if authentication
         then (case oauth_envelope v of None \<Rightarrow> (None, None, None) | Some (e, d) \<Rightarrow> (e, None, d))
         else (case error_envelope v of None \<Rightarrow> (None, None, None)
           | Some c \<Rightarrow> (tc_code c, tc_requestId c, tc_message c)))"

text \<open>\<open>body_request_id or header\<close>: an empty id counts as none.\<close>

definition or_else :: "string option \<Rightarrow> string option \<Rightarrow> string option" where
  "or_else a b = (if a = None \<or> a = Some '''' then b else a)"

definition response_error :: "readers \<Rightarrow> datetime \<Rightarrow> http_response \<Rightarrow> bool \<Rightarrow> ProviderError" where
  "response_error rd now r authentication =
    (let (code, body_request_id, message) = error_details r authentication;
         mk = (\<lambda>k m again wait. \<lparr>er_kind = k, er_message = m, er_provider = ''toss'', er_retryable = again,
           er_provider_code = code, er_request_id = or_else body_request_id (rs_request_id r),
           er_retry_after = wait, er_provider_message = message\<rparr>)
     in if rs_status r = 400 then mk ProviderValidationError ''Provider rejected the request'' False None
        else if rs_status r = 401 then mk ProviderAuthenticationError ''Provider authentication failed'' False None
        else if rs_status r = 403 then mk ProviderForbiddenError ''Provider access is forbidden'' False None
        else if rs_status r = 404 then mk ProviderNotFoundError ''Provider resource not found'' False None
        else if rs_status r = 429 then mk ProviderRateLimitError ''Provider rate limit exceeded'' True
          (Some (retry_after rd now (rs_retry_after r) (rs_rate_reset r)))
        else if 500 \<le> rs_status r then mk ProviderUnavailableError ''Provider is unavailable'' True None
        else if authentication then mk ProviderAuthenticationError ''Token issuance failed'' False None
        else mk ProviderValidationError ''Provider rejected the request'' False None)"

lemma response_error_fields:
  "er_retryable (response_error rd now r a) \<longleftrightarrow> rs_status r = 429 \<or> 500 \<le> rs_status r"
  "er_kind (response_error rd now r a) = ProviderRateLimitError \<longleftrightarrow> rs_status r = 429"
  "er_retry_after (response_error rd now r a) \<noteq> None \<longleftrightarrow> rs_status r = 429"
  "er_kind (response_error rd now r a) = ProviderUnavailableError \<longleftrightarrow> 500 \<le> rs_status r"
  by (auto simp: response_error_def Let_def split: prod.splits)

section \<open>Token responses\<close>

record IssuedToken =
  it_access_token :: string
  it_expires_in :: int

definition issued_token :: "readers \<Rightarrow> json \<Rightarrow> IssuedToken option" where
  "issued_token rd v = (case v of JObj r \<Rightarrow>
      (case (map_of r ''access_token'', Option.bind (map_of r ''expires_in'') (rd_int_field rd)) of
         (Some (JStr t), Some n) \<Rightarrow>
           if t = [] \<or> strip t = [] \<or> n \<le> 0 then None
           else (case map_of r ''token_type'' of
               None \<Rightarrow> Some \<lparr>it_access_token = t, it_expires_in = n\<rparr>
             | Some (JStr k) \<Rightarrow> if map lower k = ''bearer'' then Some \<lparr>it_access_token = t, it_expires_in = n\<rparr> else None
             | Some _ \<Rightarrow> None)
       | _ \<Rightarrow> None)
    | _ \<Rightarrow> None)"

lemma issued_token_ok: "issued_token rd v = Some t \<Longrightarrow> it_access_token t \<noteq> [] \<and> 0 < it_expires_in t"
  by (auto simp: issued_token_def split: json.splits option.splits if_splits)

end
