(* ===== verification/Toss_Client.thy ===== *)
theory Toss_Client
  imports Toss_Values
begin

text \<open>
  The HTTP side of the Toss adapter, \<open>modules/market/infrastructure/toss.py\<close>: \<open>issue_token\<close>, the
  \<open>TokenManager\<close> and \<open>TossMarketDataProvider._request\<close>, as actions on the state of the adapter. The
  service, the wall clock and the time that passes between two readings of the loop's clock are
  functions of a counter, so every behaviour of the outside is one environment; a sleep lasts as long
  as it was asked to. One task runs the actions; several tasks sharing the token manager are the
  subject of \<open>Toss_Tokens\<close>.
\<close>

section \<open>State and environment\<close>

datatype request = TokenPost string string | ApiGet string "(string \<times> string) list" string

record client =
  cl_token :: "string option"
  cl_expires_at :: datetime
  cl_last_success :: "datetime option"
  cl_last_failure :: "datetime option"
  cl_last_chart :: rat
  cl_time :: rat
  cl_reads :: nat
  cl_sent :: "request list"
  cl_chart_times :: "rat list"
  cl_slept :: "rat list"

record client_env =
  ce_reply :: "nat \<Rightarrow> request \<Rightarrow> reply"
  ce_now :: "nat \<Rightarrow> datetime"
  ce_today :: "nat \<Rightarrow> date"
  ce_elapsed :: "nat \<Rightarrow> rat"
  ce_readers :: readers
  ce_configured :: bool
  ce_client_id :: string
  ce_client_secret :: string
  ce_skew_seconds :: int
  ce_max_retries :: nat
  ce_symbols :: "string list res"

type_synonym 'a act = "(client, 'a) io"

definition datetime_min :: datetime where
  "datetime_min = - 62135596800000000"

definition datetime_max :: datetime where
  "datetime_max = 253402300799999999"

definition new_client :: client where
  "new_client = \<lparr>cl_token = None, cl_expires_at = datetime_min, cl_last_success = None, cl_last_failure = None,
     cl_last_chart = 0, cl_time = 0, cl_reads = 0, cl_sent = [], cl_chart_times = [], cl_slept = []\<rparr>"

text \<open>The clocks, sleeping, and one exchange with the service.\<close>

definition read_now :: "client_env \<Rightarrow> datetime act" where
  "read_now env s = (s\<lparr>cl_reads := Suc (cl_reads s)\<rparr>, Inr (ce_now env (cl_reads s)))"

definition read_today :: "client_env \<Rightarrow> date act" where
  "read_today env s = (s\<lparr>cl_reads := Suc (cl_reads s)\<rparr>, Inr (ce_today env (cl_reads s)))"

definition loop_time :: "client_env \<Rightarrow> rat act" where
  "loop_time env s = (let t = cl_time s + ce_elapsed env (cl_reads s)
     in (s\<lparr>cl_reads := Suc (cl_reads s), cl_time := t\<rparr>, Inr t))"

definition sleep :: "rat \<Rightarrow> unit act" where
  "sleep w s = (s\<lparr>cl_time := cl_time s + max 0 w, cl_slept := cl_slept s @ [w]\<rparr>, Inr ())"

definition send :: "client_env \<Rightarrow> request \<Rightarrow> reply act" where
  "send env r s = (s\<lparr>cl_sent := cl_sent s @ [r]\<rparr>, Inr (ce_reply env (length (cl_sent s)) r))"

section \<open>Tokens\<close>

definition unavailable :: "string \<Rightarrow> py_exc" where
  "unavailable m = ProviderException ((toss_error ProviderUnavailableError m)\<lparr>er_retryable := True\<rparr>)"

definition issue_token :: "client_env \<Rightarrow> IssuedToken act" where
  "issue_token env =
    and_then (send env (TokenPost (ce_client_id env) (ce_client_secret env))) (\<lambda>reply. case reply of
      Unreachable \<Rightarrow> raising (unavailable ''Token service request failed'')
    | Broken e \<Rightarrow> raising (TransportError e)
    | Answered r \<Rightarrow> and_then (read_now env) (\<lambda>now.
        if 400 \<le> rs_status r then raising (ProviderException (response_error (ce_readers env) now r True))
        else (case Option.bind (rs_json r) (issued_token (ce_readers env)) of
            None \<Rightarrow> raising (ProviderException (toss_error ProviderMalformedResponseError ''Malformed token response''))
          | Some t \<Rightarrow> answer t)))"

definition token_valid :: "client_env \<Rightarrow> datetime \<Rightarrow> client \<Rightarrow> bool" where
  "token_valid env now s = (cl_token s \<noteq> None \<and> now + 1000000 * ce_skew_seconds env < cl_expires_at s)"

definition cached_token :: "client \<Rightarrow> string" where
  "cached_token s = (case cl_token s of None \<Rightarrow> '''' | Some t \<Rightarrow> t)"

text \<open>Storing an issued token: its expiry must still be a date.\<close>

definition store_token :: "IssuedToken \<Rightarrow> datetime \<Rightarrow> string act" where
  "store_token t now s = (let s' = s\<lparr>cl_token := Some (it_access_token t)\<rparr>;
       expires = now + 1000000 * it_expires_in t
     in if datetime_max < expires then (s', Inl (OverflowError ''date value out of range''))
        else (s'\<lparr>cl_expires_at := expires\<rparr>, Inr (it_access_token t)))"

definition get_token :: "client_env \<Rightarrow> string act" where
  "get_token env = and_then (read_now env) (\<lambda>now s.
     if token_valid env now s then (s, Inr (cached_token s))
     else and_then (read_now env) (\<lambda>now s.
       if token_valid env now s then (s, Inr (cached_token s))
       else and_then (issue_token env) (\<lambda>t. and_then (read_now env) (\<lambda>now. store_token t now)) s) s)"

definition invalidate :: "string \<Rightarrow> unit act" where
  "invalidate rejected s = (if cl_token s = Some rejected
     then s\<lparr>cl_token := None, cl_expires_at := datetime_min\<rparr> else s, Inr ())"

section \<open>Requests\<close>

definition chart_interval :: rat where
  "chart_interval = 21 / 100"

definition chart_pause :: "client_env \<Rightarrow> unit act" where
  "chart_pause env = and_then (loop_time env) (\<lambda>t s. let wait = chart_interval - (t - cl_last_chart s) in
     and_then (if 0 < wait then sleep wait else answer ()) (\<lambda>_.
     and_then (loop_time env) (\<lambda>t s.
       (s\<lparr>cl_last_chart := t, cl_chart_times := cl_chart_times s @ [t]\<rparr>, Inr ()))) s)"

definition backoff :: "rat \<Rightarrow> nat \<Rightarrow> rat" where
  "backoff base attempt = min (base * 2 ^ attempt) 2"

definition mark_success :: "client_env \<Rightarrow> unit act" where
  "mark_success env = and_then (read_now env) (\<lambda>now s. (s\<lparr>cl_last_success := Some now\<rparr>, Inr ()))"

definition mark_failure :: "client_env \<Rightarrow> unit act" where
  "mark_failure env = and_then (read_now env) (\<lambda>now s. (s\<lparr>cl_last_failure := Some now\<rparr>, Inr ()))"

text \<open>One turn of the loop: what it decides, after it has done the waiting.\<close>

datatype verdict = Return http_response | Again nat bool

definition decide :: "client_env \<Rightarrow> string \<Rightarrow> bool \<Rightarrow> nat \<Rightarrow> bool \<Rightarrow> reply \<Rightarrow> verdict act" where
  "decide env token chart attempt auth_retried reply = (case reply of
      Broken e \<Rightarrow> raising (TransportError e)
    | Unreachable \<Rightarrow>
        if ce_max_retries env \<le> attempt
        then and_then (mark_failure env) (\<lambda>_. raising (unavailable ''Provider request failed''))
        else and_then (sleep (backoff (1 / 10) (Suc attempt))) (\<lambda>_. answer (Again (Suc attempt) auth_retried))
    | Answered r \<Rightarrow>
        if rs_status r = 401 \<and> \<not> auth_retried
        then and_then (invalidate token) (\<lambda>_. answer (Again attempt True))
        else if rs_status r < 400 then and_then (mark_success env) (\<lambda>_. answer (Return r))
        else if rs_status r = 429 \<and> attempt < ce_max_retries env
        then and_then (read_now env) (\<lambda>now.
          and_then (sleep (retry_after (ce_readers env) now (rs_retry_after r) (rs_rate_reset r)))
            (\<lambda>_. answer (Again (Suc attempt) auth_retried)))
        else if 500 \<le> rs_status r \<and> rs_status r < 600 \<and> attempt < ce_max_retries env
        then and_then (sleep (backoff (if chart then 2 / 10 else 1 / 10) (Suc attempt)))
            (\<lambda>_. answer (Again (Suc attempt) auth_retried))
        else and_then (mark_failure env) (\<lambda>_. and_then (read_now env) (\<lambda>now.
          raising (ProviderException (response_error (ce_readers env) now r False)))))"

definition turn :: "client_env \<Rightarrow> string \<Rightarrow> (string \<times> string) list \<Rightarrow> bool \<Rightarrow> nat \<Rightarrow> bool \<Rightarrow> verdict act" where
  "turn env path params chart attempt auth_retried =
    and_then (get_token env) (\<lambda>token.
    and_then (if chart then chart_pause env else answer ()) (\<lambda>_.
    and_then (send env (ApiGet path params token)) (\<lambda>reply.
    decide env token chart attempt auth_retried reply)))"

text \<open>
  The loop. A turn that goes round again has used a retry or the one renewal of the token.
\<close>

definition budget :: "client_env \<Rightarrow> nat \<Rightarrow> bool \<Rightarrow> nat" where
  "budget env attempt auth_retried = ce_max_retries env - attempt + (if auth_retried then 0 else 1)"

lemma decide_again:
  assumes "decide env token chart attempt auth reply s = (s', Inr (Again attempt' auth'))"
  shows "budget env attempt' auth' < budget env attempt auth"
  using assms by (cases reply)
    (auto simp: decide_def and_then_Inr budget_def answer_def raising_def split: if_splits)

lemma turn_again:
  assumes "turn env path params chart attempt auth s = (s', Inr (Again attempt' auth'))"
  shows "budget env attempt' auth' < budget env attempt auth"
  using assms unfolding turn_def and_then_Inr by (blast dest: decide_again)

function request_loop :: "client_env \<Rightarrow> string \<Rightarrow> (string \<times> string) list \<Rightarrow> bool \<Rightarrow> nat \<Rightarrow> bool
    \<Rightarrow> http_response act" where
  "request_loop env path params chart attempt auth_retried s =
    (case turn env path params chart attempt auth_retried s of
       (s', Inl e) \<Rightarrow> (s', Inl e)
     | (s', Inr (Return r)) \<Rightarrow> (s', Inr r)
     | (s', Inr (Again attempt' auth')) \<Rightarrow> request_loop env path params chart attempt' auth' s')"
  by pat_completeness auto
termination
  by (relation "measure (\<lambda>(env, path, params, chart, attempt, auth, s). budget env attempt auth)")
    (auto dest: sym turn_again)

declare request_loop.simps [simp del]

definition provider_request :: "client_env \<Rightarrow> string \<Rightarrow> (string \<times> string) list \<Rightarrow> bool \<Rightarrow> http_response act" where
  "provider_request env path params chart =
    (if \<not> ce_configured env
     then raising (ProviderException (toss_error ProviderUnavailableError ''Provider is unconfigured''))
     else request_loop env path params chart 0 False)"

end
