(* ===== verification/Toss_Provider.thy ===== *)
theory Toss_Provider
  imports Toss_Client
begin

text \<open>
  The operations of \<open>TossMarketDataProvider\<close>, \<open>modules/market/infrastructure/toss.py\<close>: status,
  instruments, the stock master in batches, daily candles by cursor, minute candles, prices and
  warnings, each over \<open>provider_request\<close>. The daily candles are a loop that only ends when the service
  stops offering older pages, so it is a partial function: \<open>None\<close> is a loop that never ends.
\<close>

section \<open>Payloads\<close>

definition stocks_path :: string where
  "stocks_path = ''/api/v1/stocks''"

definition candles_path :: string where
  "candles_path = ''/api/v1/candles''"

definition prices_path :: string where
  "prices_path = ''/api/v1/prices''"

definition max_candles :: nat where
  "max_candles = 200"

definition max_stock_symbols :: nat where
  "max_stock_symbols = 200"

definition max_price_symbols :: nat where
  "max_price_symbols = 100"

definition object :: "http_response \<Rightarrow> row res" where
  "object r = (case rs_json r of Some (JObj d) \<Rightarrow> Inr d | _ \<Rightarrow> Inl malformed)"

definition result_object :: "http_response \<Rightarrow> row res" where
  "result_object r = bindE (object r) (\<lambda>d. case map_of d ''result'' of Some (JObj v) \<Rightarrow> Inr v | _ \<Rightarrow> Inl malformed)"

definition rows_of :: "json option \<Rightarrow> row list res" where
  "rows_of v = (case v of
     Some (JList xs) \<Rightarrow> mapE (\<lambda>x. case x of JObj d \<Rightarrow> Inr d | _ \<Rightarrow> Inl malformed) xs
   | _ \<Rightarrow> Inl malformed)"

definition result_rows :: "http_response \<Rightarrow> row list res" where
  "result_rows r = bindE (object r) (\<lambda>d. rows_of (map_of d ''result''))"

definition validation_error :: "string \<Rightarrow> py_exc" where
  "validation_error m = ProviderException (toss_error ProviderValidationError m)"

section \<open>Status\<close>

definition toss_status :: "client_env \<Rightarrow> string option \<Rightarrow> ProviderStatus act" where
  "toss_status env host = and_then (read_now env) (\<lambda>now s. (s, Inr
     \<lparr>ps_provider = ''toss'', ps_configured = ce_configured env,
      ps_state = (if \<not> ce_configured env then UNCONFIGURED
        else case (cl_last_failure s, cl_last_success s) of
            (None, _) \<Rightarrow> AVAILABLE
          | (Some f, None) \<Rightarrow> DEGRADED
          | (Some f, Some ok) \<Rightarrow> if ok < f then DEGRADED else AVAILABLE),
      ps_as_of = now, ps_api_base_host = host, ps_api_version = Some ''1.2.5'',
      ps_message = (if ce_configured env then None else Some ''Toss client credentials are not configured''),
      ps_last_successful_request_at = cl_last_success s\<rparr>))"

section \<open>Instruments\<close>

definition is_active_common_stock :: "row \<Rightarrow> bool" where
  "is_active_common_stock r = (map_of r ''market'' = Some (JStr ''KOSPI'') \<and> map_of r ''securityType'' = Some (JStr ''STOCK'')
     \<and> map_of r ''isCommonShare'' = Some (JBool True) \<and> map_of r ''status'' = Some (JStr ''ACTIVE''))"

definition instrument_of :: "readers \<Rightarrow> datetime \<Rightarrow> row \<Rightarrow> InstrumentSnapshot res" where
  "instrument_of rd as_of r =
    bindE (field r ''symbol'') (\<lambda>symbol. bindE (field r ''name'') (\<lambda>name.
    bindE (field r ''market'') (\<lambda>market. bindE (field r ''currency'') (\<lambda>currency.
    bindE (optional_bool r ''isCommonShare'') (\<lambda>common.
    bindE (optional_date rd r ''listDate'') (\<lambda>listed. bindE (optional_date rd r ''delistDate'') (\<lambda>delisted.
    Inr \<lparr>in_symbol = py_str symbol, in_name = py_str name, in_market = py_str market, in_country = Some ''KR'',
      in_currency = py_str currency,
      in_security_type = (if is_active_common_stock r then Some ''common_stock'' else optional r ''securityType''),
      in_listing_status = (if is_active_common_stock r then Some ''listed'' else optional r ''status''),
      in_exchange = optional r ''exchange'', in_is_common_share = common, in_status = optional r ''status'',
      in_list_date = listed, in_delist_date = delisted,
      in_korean_market_detail = optional r ''koreanMarketDetail'', in_source = ''toss'', in_as_of = as_of\<rparr>)))))))"

text \<open>
  What the two instrument readers catch: missing keys and wrong types. A \<open>ValueError\<close> is not in the
  list, and the snapshot model has no constraint that could raise a validation error here.
\<close>

definition row_errors :: "py_exc \<Rightarrow> bool" where
  "row_errors e = (case e of KeyError _ \<Rightarrow> True | TypeError _ \<Rightarrow> True | _ \<Rightarrow> False)"

definition candle_errors :: "py_exc \<Rightarrow> bool" where
  "candle_errors e = (case e of KeyError _ \<Rightarrow> True | TypeError _ \<Rightarrow> True | ValueError _ \<Rightarrow> True
     | InvalidOperation \<Rightarrow> True | _ \<Rightarrow> False)"

definition warning_errors :: "py_exc \<Rightarrow> bool" where
  "warning_errors e = (case e of KeyError _ \<Rightarrow> True | TypeError _ \<Rightarrow> True | ValueError _ \<Rightarrow> True | _ \<Rightarrow> False)"

definition instrument :: "client_env \<Rightarrow> string \<Rightarrow> InstrumentSnapshot act" where
  "instrument env symbol =
    and_then (provider_request env stocks_path [(''symbols'', symbol)] False) (\<lambda>response.
    and_then (lift_res (result_rows response)) (\<lambda>rows.
    (let matches = filter (\<lambda>r. (case map_of r ''symbol'' of None \<Rightarrow> '''' | Some v \<Rightarrow> py_str v) = symbol) rows
     in case matches of
         [] \<Rightarrow> raising (ProviderException (toss_error ProviderNotFoundError ''Instrument not found''))
       | [r] \<Rightarrow> except_as row_errors malformed
           (and_then (read_now env) (\<lambda>now. lift_res (instrument_of (ce_readers env) now r)))
       | _ \<Rightarrow> raising malformed)))"

definition screened_instrument :: "string list \<Rightarrow> InstrumentSnapshot \<Rightarrow> bool" where
  "screened_instrument symbols i = (in_symbol i \<in> set symbols \<and> in_market i = ''KOSPI''
     \<and> in_security_type i = Some ''common_stock'' \<and> in_is_common_share i = Some True
     \<and> in_listing_status i = Some ''listed'')"

definition stock_batch :: "client_env \<Rightarrow> string list \<Rightarrow> InstrumentSnapshot list act" where
  "stock_batch env batch =
    and_then (provider_request env stocks_path [(''symbols'', joined '','' batch)] False) (\<lambda>response.
    except_as row_errors malformed
      (and_then (read_now env) (\<lambda>now.
       and_then (lift_res (result_rows response)) (\<lambda>rows.
       lift_res (mapE (instrument_of (ce_readers env) now) rows)))))"

definition stock_master :: "client_env \<Rightarrow> string \<Rightarrow> InstrumentSnapshot list act" where
  "stock_master env market =
    (if market \<noteq> ''KOSPI'' then raising (validation_error ''Unsupported stock universe'')
     else and_then (lift_res (ce_symbols env)) (\<lambda>symbols.
       and_then (map_io (stock_batch env) (batches max_stock_symbols symbols)) (\<lambda>results.
       answer (filter (screened_instrument symbols) (concat results)))))"

section \<open>Daily candles\<close>

definition daily_bar_of :: "readers \<Rightarrow> string \<Rightarrow> row \<Rightarrow> MarketBar res" where
  "daily_bar_of rd symbol r =
    bindE (field r ''timestamp'') (\<lambda>ts. bindE (parse_datetime rd ts) (\<lambda>t.
    bindE (bindE (field r ''openPrice'') to_decimal) (\<lambda>op.
    bindE (bindE (field r ''highPrice'') to_decimal) (\<lambda>hi.
    bindE (bindE (field r ''lowPrice'') to_decimal) (\<lambda>lo.
    bindE (bindE (field r ''closePrice'') to_decimal) (\<lambda>cl.
    bindE (bindE (field r ''volume'') to_integer) (\<lambda>vol.
    validate_bar \<lparr>mk_symbol = symbol, mk_date = sm_date t, mk_open = op, mk_high = hi, mk_low = lo, mk_close = cl,
      mk_volume = vol, mk_source = ''toss'', mk_as_of = sm_instant t\<rparr>)))))))"

text \<open>One row of a page: a bar of the range is kept, unless another bar of its date is there.\<close>

definition put_once :: "'k \<Rightarrow> 'v \<Rightarrow> ('k, 'v) dict \<Rightarrow> ('k, 'v) dict res" where
  "put_once k v d = (case map_of d k of None \<Rightarrow> Inr (dict_set k v d)
     | Some w \<Rightarrow> if w = v then Inr (dict_set k v d) else Inl malformed)"

definition daily_row :: "client_env \<Rightarrow> string \<Rightarrow> date \<Rightarrow> date \<Rightarrow> (date, MarketBar) dict \<Rightarrow> row
    \<Rightarrow> (date, MarketBar) dict act" where
  "daily_row env symbol start stop by_date r =
    and_then (lift_res (daily_bar_of (ce_readers env) symbol r)) (\<lambda>bar.
    if start \<le> mk_date bar \<and> mk_date bar \<le> stop
    then and_then (read_today env) (\<lambda>today.
      if mk_date bar \<le> today then lift_res (put_once (mk_date bar) bar by_date) else answer by_date)
    else answer by_date)"

definition row_date :: "readers \<Rightarrow> row \<Rightarrow> date res" where
  "row_date rd r = bindE (field r ''timestamp'') (\<lambda>ts. bindE (parse_datetime rd ts) (\<lambda>t. Inr (sm_date t)))"

text \<open>One page: the bars so far and the next cursor, none when the page reaches the start.\<close>

definition daily_page :: "client_env \<Rightarrow> string \<Rightarrow> date \<Rightarrow> date \<Rightarrow> (date, MarketBar) dict \<Rightarrow> string
    \<Rightarrow> ((date, MarketBar) dict \<times> string option) act" where
  "daily_page env symbol start stop by_date before =
    and_then (provider_request env candles_path [(''symbol'', symbol), (''interval'', ''1d''),
      (''count'', int_text (int max_candles)), (''before'', before), (''adjusted'', ''true'')] True) (\<lambda>response.
    and_then (lift_res (result_object response)) (\<lambda>payload.
    and_then (lift_res (rows_of (map_of payload ''candles''))) (\<lambda>rows.
    and_then (except_as candle_errors malformed (fold_io (daily_row env symbol start stop) by_date rows)) (\<lambda>by_date.
    and_then (lift_res (mapE (row_date (ce_readers env)) rows)) (\<lambda>dates.
    answer (by_date, if list_ex (\<lambda>d. d \<le> start) dates then None
      else case map_of payload ''nextBefore'' of
          None \<Rightarrow> None | Some v \<Rightarrow> if truthy v then Some (py_str v) else None))))))"

partial_function (option) daily_loop :: "client_env \<Rightarrow> string \<Rightarrow> date \<Rightarrow> date \<Rightarrow> string list
    \<Rightarrow> (date, MarketBar) dict \<Rightarrow> string \<Rightarrow> client \<Rightarrow> (client \<times> (date, MarketBar) dict res) option" where
  "daily_loop env symbol start stop cursors by_date before s =
    (if before \<in> set cursors then Some (s, Inl malformed)
     else case daily_page env symbol start stop by_date before s of
       (s', Inl e) \<Rightarrow> Some (s', Inl e)
     | (s', Inr (by_date', next_before)) \<Rightarrow> (case next_before of
           None \<Rightarrow> Some (s', Inr by_date')
         | Some b \<Rightarrow> daily_loop env symbol start stop (before # cursors) by_date' b s'))"

text \<open>\<open>[d[k] for k in sorted(d)]\<close>\<close>

definition sorted_values :: "('k :: linorder, 'v) dict \<Rightarrow> 'v list" where
  "sorted_values d = map (\<lambda>k. the (map_of d k)) (sort (dict_keys d))"

definition first_cursor :: "readers \<Rightarrow> date \<Rightarrow> string" where
  "first_cursor rd stop = date_text stop @ ''T23:59:59.999999'' @ rd_seoul_offset rd stop"

definition daily_bars :: "client_env \<Rightarrow> string \<Rightarrow> date \<Rightarrow> date \<Rightarrow> client \<Rightarrow> (client \<times> MarketBar list res) option" where
  "daily_bars env symbol start stop s =
    (if stop < start then Some (s, Inl (validation_error ''Invalid candle date range''))
     else map_option (\<lambda>(s', r). (s', bindE r (\<lambda>d. Inr (sorted_values d))))
       (daily_loop env symbol start stop [] [] (first_cursor (ce_readers env) stop) s))"

section \<open>Minute candles\<close>

definition minute_bar_of :: "readers \<Rightarrow> string \<Rightarrow> row \<Rightarrow> MinuteBar res" where
  "minute_bar_of rd symbol r =
    bindE (field r ''timestamp'') (\<lambda>ts. bindE (parse_datetime rd ts) (\<lambda>t.
    bindE (bindE (field r ''openPrice'') to_decimal) (\<lambda>op.
    bindE (bindE (field r ''highPrice'') to_decimal) (\<lambda>hi.
    bindE (bindE (field r ''lowPrice'') to_decimal) (\<lambda>lo.
    bindE (bindE (field r ''closePrice'') to_decimal) (\<lambda>cl.
    bindE (bindE (field r ''volume'') to_integer) (\<lambda>vol.
    bindE (field r ''currency'') (\<lambda>currency.
    validate_minute_bar \<lparr>mn_symbol = symbol, mn_timestamp = sm_instant t, mn_timestamp_aware = sm_aware t,
      mn_open = op, mn_high = hi, mn_low = lo, mn_close = cl, mn_volume = vol, mn_currency = py_str currency,
      mn_source = ''toss'', mn_as_of = sm_instant t, mn_as_of_aware = sm_aware t\<rparr>))))))))"

definition minute_row :: "readers \<Rightarrow> string \<Rightarrow> (datetime, MinuteBar) dict \<Rightarrow> row \<Rightarrow> (datetime, MinuteBar) dict res" where
  "minute_row rd symbol d r = bindE (minute_bar_of rd symbol r) (\<lambda>b. put_once (mn_timestamp b) b d)"

definition minute_bars :: "client_env \<Rightarrow> string \<Rightarrow> int \<Rightarrow> MinuteBar list act" where
  "minute_bars env symbol count =
    (if \<not> (1 \<le> count \<and> count \<le> int max_candles) then raising (validation_error ''Invalid minute candle count'')
     else and_then (provider_request env candles_path [(''symbol'', symbol), (''interval'', ''1m''),
       (''count'', int_text count), (''adjusted'', ''true'')] True) (\<lambda>response.
     and_then (lift_res (result_object response)) (\<lambda>payload.
     and_then (lift_res (rows_of (map_of payload ''candles''))) (\<lambda>rows.
     and_then (except_as candle_errors malformed (lift_res (foldE (minute_row (ce_readers env) symbol) [] rows))) (\<lambda>d.
     answer (sorted_values d))))))"

section \<open>Prices\<close>

definition quote_of :: "readers \<Rightarrow> row \<Rightarrow> QuoteSnapshot res" where
  "quote_of rd r =
    bindE (field r ''symbol'') (\<lambda>symbol. bindE (bindE (field r ''lastPrice'') to_decimal) (\<lambda>price.
    bindE (field r ''currency'') (\<lambda>currency. bindE (bindE (field r ''timestamp'') (parse_datetime rd)) (\<lambda>t.
    bindE (optional_bool r ''delayed'') (\<lambda>delayed.
    validate_quote \<lparr>q_symbol = py_str symbol, q_price = price, q_currency = py_str currency, q_source = ''toss'',
      q_as_of = sm_instant t, q_delayed = delayed\<rparr>)))))"

definition prices :: "client_env \<Rightarrow> string list \<Rightarrow> QuoteSnapshot list act" where
  "prices env symbols =
    (if \<not> (1 \<le> length symbols \<and> length symbols \<le> max_price_symbols)
     then raising (validation_error ''Invalid price batch size'')
     else if \<not> distinct symbols then raising (validation_error ''Duplicate symbols are not allowed'')
     else and_then (provider_request env prices_path [(''symbols'', joined '','' symbols)] False) (\<lambda>response.
     and_then (lift_res (result_rows response)) (\<lambda>rows.
     and_then (except_as candle_errors malformed (lift_res (mapE (quote_of (ce_readers env)) rows))) (\<lambda>quotes.
     (let returned = map q_symbol quotes
      in if \<not> distinct returned \<or> set returned \<noteq> set symbols then raising malformed else answer quotes)))))"

section \<open>Warnings\<close>

definition warning_row :: "client_env \<Rightarrow> string \<Rightarrow> row \<Rightarrow> StockWarning act" where
  "warning_row env symbol r =
    and_then (lift_res (field r ''warningType'')) (\<lambda>kind.
    and_then (read_today env) (\<lambda>today.
    and_then (lift_res (warning_active (ce_readers env) today r)) (\<lambda>active.
    and_then (lift_res (optional_date (ce_readers env) r ''startDate'')) (\<lambda>start.
    and_then (lift_res (optional_date (ce_readers env) r ''endDate'')) (\<lambda>stop.
    and_then (read_now env) (\<lambda>now.
    answer \<lparr>w_symbol = symbol, w_warning_type = py_str kind, w_active = active, w_description = optional r ''description'',
      w_exchange = optional r ''exchange'', w_start_date = start, w_end_date = stop, w_source = ''toss'', w_as_of = now\<rparr>))))))"

definition warnings :: "client_env \<Rightarrow> string \<Rightarrow> StockWarning list act" where
  "warnings env symbol =
    and_then (provider_request env (stocks_path @ ''/'' @ symbol @ ''/warnings'') [] False) (\<lambda>response.
    and_then (lift_res (result_rows response)) (\<lambda>rows.
    except_as warning_errors malformed (map_io (warning_row env symbol) rows)))"

end
