(* ===== verification/Toss_Props.thy ===== *)
theory Toss_Props
  imports Toss_Provider
begin

text \<open>
  The Toss adapter: what a request can cost and how it ends, the pacing of chart requests as an
  invariant of every reachable client, and the answers of the operations. A locale proves once that a
  property of the client kept by its primitive steps is kept by every operation.
\<close>

section \<open>Invariants of the client\<close>

definition preserves :: "('s \<Rightarrow> bool) \<Rightarrow> ('s, 'a) io \<Rightarrow> bool" where
  "preserves P m \<longleftrightarrow> (\<forall>s. P s \<longrightarrow> P (fst (m s)))"

named_theorems preserving \<open>actions that preserve a property of the state\<close>

lemma preservesD: "preserves P m \<Longrightarrow> P s \<Longrightarrow> m s = (s', r) \<Longrightarrow> P s'"
  unfolding preserves_def by (metis fst_conv)

lemma preserves_then [preserving]: "preserves P m \<Longrightarrow> (\<And>x. preserves P (f x)) \<Longrightarrow> preserves P (and_then m f)"
  unfolding preserves_def and_then_def by (force split: prod.splits sum.splits)

lemma preserves_simple [preserving]:
  "preserves P (answer x)" "preserves P (raising e)" "preserves P (lift_res r)"
  by (simp_all add: preserves_def answer_def raising_def lift_res_def)

lemma preserves_except [preserving]: "preserves P m \<Longrightarrow> preserves P (except_as k e m)"
  by (simp add: preserves_def)

lemma preserves_if [preserving]: "(b \<Longrightarrow> preserves P m) \<Longrightarrow> (\<not> b \<Longrightarrow> preserves P n) \<Longrightarrow> preserves P (if b then m else n)"
  by simp

lemma preserves_option [preserving]:
  "preserves P m \<Longrightarrow> (\<And>x. preserves P (f x)) \<Longrightarrow> preserves P (case v of None \<Rightarrow> m | Some x \<Rightarrow> f x)"
  by (cases v) simp_all

lemma preserves_reply [preserving]:
  "preserves P m \<Longrightarrow> (\<And>e. preserves P (f e)) \<Longrightarrow> (\<And>r. preserves P (g r))
    \<Longrightarrow> preserves P (case v of Unreachable \<Rightarrow> m | Broken e \<Rightarrow> f e | Answered r \<Rightarrow> g r)"
  by (cases v) simp_all

lemma preserves_map [preserving]: "(\<And>x. preserves P (f x)) \<Longrightarrow> preserves P (map_io f xs)"
  by (induction xs) (auto intro!: preserving)

lemma preserves_fold [preserving]: "(\<And>x a. preserves P (f x a)) \<Longrightarrow> preserves P (fold_io f x as)"
  by (induction "as" arbitrary: x) (auto intro!: preserving)

locale client_invariant =
  fixes P :: "client \<Rightarrow> bool" and env :: client_env
  assumes keep_reads: "P s \<Longrightarrow> P (s\<lparr>cl_reads := n\<rparr>)"
    and keep_token: "P s \<Longrightarrow> P (s\<lparr>cl_token := t\<rparr>)"
    and keep_expires: "P s \<Longrightarrow> P (s\<lparr>cl_expires_at := e\<rparr>)"
    and keep_success: "P s \<Longrightarrow> P (s\<lparr>cl_last_success := u\<rparr>)"
    and keep_failure: "P s \<Longrightarrow> P (s\<lparr>cl_last_failure := u\<rparr>)"
    and keep_sent: "P s \<Longrightarrow> P (s\<lparr>cl_sent := cl_sent s @ [q]\<rparr>)"
    and keep_sleep: "0 \<le> w \<Longrightarrow> w \<le> 30 \<Longrightarrow> P s \<Longrightarrow> P (fst (sleep w s))"
    and keep_pause: "P s \<Longrightarrow> P (fst (chart_pause env s))"
begin

lemma basic_keeps [preserving]:
  "preserves P (read_now env)" "preserves P (read_today env)" "preserves P (send env q)"
  "preserves P (chart_pause env)" "0 \<le> w \<Longrightarrow> w \<le> 30 \<Longrightarrow> preserves P (sleep w)"
  "preserves P (invalidate t)" "preserves P (mark_success env)" "preserves P (mark_failure env)"
  by (auto simp: preserves_def read_now_def read_today_def send_def invalidate_def mark_success_def
      mark_failure_def and_then_def keep_reads keep_sent keep_token keep_expires keep_success keep_failure
      keep_sleep keep_pause)

lemma issue_keeps [preserving]: "preserves P (issue_token env)"
  unfolding issue_token_def by (intro preserving)

lemma store_keeps [preserving]: "preserves P (store_token t now)"
  by (auto simp: preserves_def store_token_def Let_def intro: keep_token keep_expires)

lemma get_keeps [preserving]: "preserves P (get_token env)"
proof -
  have i: "preserves P (and_then (issue_token env) (\<lambda>t. and_then (read_now env) (store_token t)))"
    by (intro preserving)
  have c: "preserves P (\<lambda>s. if token_valid env now s then (s, Inr (cached_token s)) else m s)"
    if "preserves P m" for now m
    using that by (simp add: preserves_def)
  show ?thesis unfolding get_token_def by (intro preserving c i)
qed

lemma decide_keeps [preserving]: "preserves P (decide env token chart attempt auth reply)"
proof -
  have b: "0 \<le> backoff x n" "backoff x n \<le> 30" if "0 \<le> x" for x n
    using that by (auto simp: backoff_def min_def)
  show ?thesis unfolding decide_def
    by (intro preserving b retry_after_bounds [THEN conjunct1] retry_after_bounds [THEN conjunct2]) simp_all
qed

lemma turn_keeps [preserving]: "preserves P (turn env path params chart attempt auth)"
  unfolding turn_def by (intro preserving)

lemma loop_keeps [preserving]: "preserves P (request_loop env path params chart attempt auth)"
proof -
  have "P (fst (request_loop e path params chart attempt auth s))" if "e = env" "P s" for e s
    using that
  proof (induction e path params chart attempt auth s rule: request_loop.induct)
    case (1 e path params chart attempt auth s)
    have k: "P (fst (turn env path params chart attempt auth s))"
      using turn_keeps 1 by (simp add: preserves_def)
    then show ?case using 1
      by (subst request_loop.simps) (auto split: prod.splits sum.splits verdict.splits)
  qed
  then show ?thesis by (simp add: preserves_def)
qed

lemma request_keeps [preserving]: "preserves P (provider_request env path params chart)"
  unfolding provider_request_def by (intro preserving)

lemma operations_keep:
  "preserves P (instrument env symbol)" "preserves P (stock_master env market)"
  "preserves P (minute_bars env symbol count)" "preserves P (prices env symbols)"
  "preserves P (warnings env symbol)" "preserves P (toss_status env host)"
proof -
  have m: "preserves P (case xs of [] \<Rightarrow> raising e | [r] \<Rightarrow> f r | _ \<Rightarrow> raising e')" if "\<And>r. preserves P (f r)"
    for xs :: "row list" and e e' and f :: "row \<Rightarrow> InstrumentSnapshot act"
    using that by (auto split: list.split intro: preserving)
  show "preserves P (instrument env symbol)" unfolding instrument_def Let_def by (intro preserving m)
  show "preserves P (stock_master env market)" unfolding stock_master_def stock_batch_def by (intro preserving)
  show "preserves P (minute_bars env symbol count)" unfolding minute_bars_def by (intro preserving)
  show "preserves P (prices env symbols)" unfolding prices_def Let_def by (intro preserving)
  show "preserves P (warnings env symbol)" unfolding warnings_def warning_row_def by (intro preserving)
  show "preserves P (toss_status env host)"
    using basic_keeps(1) unfolding toss_status_def preserves_def and_then_def read_now_def by simp
qed

lemma page_keeps: "preserves P (daily_page env symbol start stop by_date before)"
  unfolding daily_page_def daily_row_def by (intro preserving)

end

text \<open>
  What the candle loop does: an invariant of the turns that go on holds when it stops, and it stops at
  a cursor it has seen, at a page that raised, or at a page with nothing older.
\<close>

lemma daily_loop_rule:
  assumes "daily_loop env symbol start stop cursors by_date before s = Some (s', r)"
    and "Inv cursors by_date before s"
    and step: "\<And>cs d c t t' d' b. Inv cs d c t \<Longrightarrow> c \<notin> set cs
      \<Longrightarrow> daily_page env symbol start stop d c t = (t', Inr (d', Some b)) \<Longrightarrow> Inv (c # cs) d' b t'"
  shows "\<exists>cs d c t. Inv cs d c t \<and> (c \<in> set cs \<and> s' = t \<and> r = Inl malformed
    \<or> c \<notin> set cs \<and> (\<exists>e. daily_page env symbol start stop d c t = (s', Inl e) \<and> r = Inl e)
    \<or> c \<notin> set cs \<and> (\<exists>d'. daily_page env symbol start stop d c t = (s', Inr (d', None)) \<and> r = Inr d'))"
    (is "?P s' r")
proof -
  let ?Q = "\<lambda>e sym a b cs d c t y. e = env \<longrightarrow> sym = symbol \<longrightarrow> a = start \<longrightarrow> b = stop \<longrightarrow> Inv cs d c t
    \<longrightarrow> ?P (fst y) (snd y)"
  have "?Q env symbol start stop cursors by_date before s (s', r)"
  proof (rule daily_loop.raw_induct [of ?Q, OF _ assms(1)])
    fix loop e sym a b cs d c t y
    assume ih: "\<And>e sym a b cs d c t y. loop e sym a b cs d c t = Some y \<Longrightarrow> ?Q e sym a b cs d c t y"
      and run: "(if c \<in> set cs then Some (t, Inl malformed)
        else case daily_page e sym a b d c t of (s', Inl ex) \<Rightarrow> Some (s', Inl ex)
          | (s', Inr (d', nb)) \<Rightarrow> (case nb of None \<Rightarrow> Some (s', Inr d')
            | Some nx \<Rightarrow> loop e sym a b (c # cs) d' nx s')) = Some y"
    show "?Q e sym a b cs d c t y"
    proof (intro impI)
      assume eq: "e = env" "sym = symbol" "a = start" "b = stop" and inv: "Inv cs d c t"
      show "?P (fst y) (snd y)"
      proof (cases "c \<in> set cs")
        case True
        with run have "y = (t, Inl malformed)" by simp
        with inv True show ?thesis by auto
      next
        case new: False
        obtain t' q where pg: "daily_page env symbol start stop d c t = (t', q)" by fastforce
        show ?thesis
        proof (cases q)
          case (Inl ex)
          with run new pg eq have "y = (t', Inl ex)" by simp
          with inv new pg Inl show ?thesis by auto
        next
          case (Inr p)
          obtain d' nb where p: "p = (d', nb)" by fastforce
          show ?thesis
          proof (cases nb)
            case None
            with run new pg eq Inr p have "y = (t', Inr d')" by simp
            with inv new pg Inr p None show ?thesis by auto
          next
            case (Some nx)
            with run new pg eq Inr p have l: "loop e sym a b (c # cs) d' nx t' = Some y" by simp
            have "Inv (c # cs) d' nx t'" using step [OF inv new] pg Inr p Some by simp
            then show ?thesis using ih [OF l] eq by simp
          qed
        qed
      qed
    qed
  qed
  with assms(2) show ?thesis by simp
qed

context client_invariant
begin

lemma daily_keeps: "daily_bars env symbol start stop s = Some (s', r) \<Longrightarrow> P s \<Longrightarrow> P s'"
proof -
  assume d: "daily_bars env symbol start stop s = Some (s', r)" and P: "P s"
  show "P s'"
  proof (cases "stop < start")
    case False
    with d obtain q where l: "daily_loop env symbol start stop [] [] (first_cursor (ce_readers env) stop) s = Some (s', q)"
      by (auto simp: daily_bars_def)
    have keep: "daily_page env symbol start stop d c t = (t', x) \<Longrightarrow> P t \<Longrightarrow> P t'" for d c t t' x
      using preservesD [OF page_keeps] by blast
    show ?thesis
      using daily_loop_rule [OF l, of "\<lambda>_ _ _ t. P t"] P by (auto dest: keep)
  qed (use d P in \<open>simp add: daily_bars_def\<close>)
qed

end

section \<open>Reachable clients\<close>

inductive adapter_reachable :: "client_env \<Rightarrow> client \<Rightarrow> bool" for env where
  fresh: "adapter_reachable env new_client"
| instrument: "adapter_reachable env s \<Longrightarrow> adapter_reachable env (fst (instrument env symbol s))"
| stock_master: "adapter_reachable env s \<Longrightarrow> adapter_reachable env (fst (stock_master env market s))"
| minute_bars: "adapter_reachable env s \<Longrightarrow> adapter_reachable env (fst (minute_bars env symbol count s))"
| prices: "adapter_reachable env s \<Longrightarrow> adapter_reachable env (fst (prices env symbols s))"
| warnings: "adapter_reachable env s \<Longrightarrow> adapter_reachable env (fst (warnings env symbol s))"
| status: "adapter_reachable env s \<Longrightarrow> adapter_reachable env (fst (toss_status env host s))"
| daily_bars: "adapter_reachable env s \<Longrightarrow> daily_bars env symbol start stop s = Some (s', r) \<Longrightarrow> adapter_reachable env s'"

text \<open>An invariant of the client holds in every reachable one.\<close>

context client_invariant
begin

lemma reachable_invariant: "adapter_reachable env s \<Longrightarrow> P new_client \<Longrightarrow> P s"
  by (induction rule: adapter_reachable.induct)
    (auto dest: daily_keeps simp: operations_keep [unfolded preserves_def, rule_format])

end

section \<open>Pacing\<close>

definition spaced :: "rat list \<Rightarrow> bool" where
  "spaced ts = sorted_wrt (\<lambda>a b. a + chart_interval \<le> b) ts"

definition paced :: "client_env \<Rightarrow> client \<Rightarrow> bool" where
  "paced env s \<longleftrightarrow> (\<forall>n. 0 \<le> ce_elapsed env n) \<longrightarrow> spaced (cl_chart_times s)
     \<and> (\<forall>t \<in> set (cl_chart_times s). t \<le> cl_last_chart s) \<and> cl_last_chart s \<le> cl_time s
     \<and> (\<forall>w \<in> set (cl_slept s). 0 \<le> w \<and> w \<le> 30)"

lemma pause_paced: "paced env s \<Longrightarrow> paced env (fst (chart_pause env s))"
proof -
  assume p: "paced env s"
  obtain t1 s1 where r1: "loop_time env s = (s1, Inr t1)" and t1: "t1 = cl_time s + ce_elapsed env (cl_reads s)"
    and s1: "s1 = s\<lparr>cl_reads := Suc (cl_reads s), cl_time := t1\<rparr>"
    by (simp add: loop_time_def Let_def)
  let ?w = "chart_interval - (t1 - cl_last_chart s)"
  let ?s2 = "if 0 < ?w then s1\<lparr>cl_time := t1 + ?w, cl_slept := cl_slept s @ [?w]\<rparr> else s1"
  let ?t2 = "cl_time ?s2 + ce_elapsed env (Suc (cl_reads s))"
  have f: "fst (chart_pause env s) = ?s2\<lparr>cl_reads := Suc (Suc (cl_reads s)), cl_time := ?t2,
      cl_last_chart := ?t2, cl_chart_times := cl_chart_times s @ [?t2]\<rparr>"
    by (simp add: chart_pause_def and_then_def r1 s1 t1 sleep_def answer_def loop_time_def Let_def)
  show ?thesis unfolding paced_def f
  proof (intro impI conjI ballI)
    assume el: "\<forall>n. 0 \<le> ce_elapsed env n"
    with p have sp: "spaced (cl_chart_times s)" and last: "\<forall>t \<in> set (cl_chart_times s). t \<le> cl_last_chart s"
      and le: "cl_last_chart s \<le> cl_time s" and sl: "\<forall>w \<in> set (cl_slept s). 0 \<le> w \<and> w \<le> 30"
      unfolding paced_def by blast+
    have t1s: "cl_last_chart s \<le> t1" using le el by (simp add: t1 add_increasing2)
    have w: "?w \<le> 30" using t1s by (simp add: chart_interval_def)
    have t2: "cl_last_chart s + chart_interval \<le> ?t2"
      using el [rule_format, of "Suc (cl_reads s)"] by (auto simp: s1)
    have ci: "0 < chart_interval" by (simp add: chart_interval_def)
    show "spaced (cl_chart_times (?s2\<lparr>cl_reads := Suc (Suc (cl_reads s)), cl_time := ?t2,
        cl_last_chart := ?t2, cl_chart_times := cl_chart_times s @ [?t2]\<rparr>))"
      using sp last t2 by (fastforce simp: spaced_def sorted_wrt_append)
    fix x
    {
      assume "x \<in> set (cl_chart_times (?s2\<lparr>cl_reads := Suc (Suc (cl_reads s)), cl_time := ?t2,
        cl_last_chart := ?t2, cl_chart_times := cl_chart_times s @ [?t2]\<rparr>))"
      then show "x \<le> cl_last_chart (?s2\<lparr>cl_reads := Suc (Suc (cl_reads s)), cl_time := ?t2,
        cl_last_chart := ?t2, cl_chart_times := cl_chart_times s @ [?t2]\<rparr>)"
        using last t2 ci by fastforce
    next
      assume x: "x \<in> set (cl_slept (?s2\<lparr>cl_reads := Suc (Suc (cl_reads s)), cl_time := ?t2,
        cl_last_chart := ?t2, cl_chart_times := cl_chart_times s @ [?t2]\<rparr>))"
      show "0 \<le> x" using x sl by (auto simp: s1 split: if_splits)
      show "x \<le> 30" using x sl w by (auto simp: s1 split: if_splits)
    }
  qed simp
qed

interpretation pacing: client_invariant "paced env" env for env
proof
  show "paced env (fst (sleep w s))" if "0 \<le> w" "w \<le> 30" "paced env s" for w s
    using that by (auto simp: paced_def sleep_def)
  show "paced env (fst (chart_pause env s))" if "paced env s" for s
    using that by (rule pause_paced)
qed (simp_all add: paced_def)

text \<open>
  C21. Whatever sequence of operations the adapter has carried out, and whatever the service answered,
  two chart requests never started less than 0.21 seconds apart, and no single wait, for the pace, for
  a back-off or on the service's demand, exceeded 30 seconds. The time between two readings of the
  clock is not negative.
\<close>

theorem chart_requests_paced:
  assumes "\<forall>n. 0 \<le> ce_elapsed env n" and "adapter_reachable env s"
  shows "spaced (cl_chart_times s) \<and> (\<forall>w \<in> set (cl_slept s). 0 \<le> w \<and> w \<le> 30)"
proof -
  have "paced env new_client" by (simp add: paced_def new_client_def spaced_def)
  then show ?thesis using pacing.reachable_invariant assms unfolding paced_def by blast
qed

text \<open>A small service for the witnesses: it issues a token and answers every request with the same body.\<close>

definition no_readers :: readers where
  "no_readers = \<lparr>rd_float = (\<lambda>s. None), rd_http_date = (\<lambda>s. None), rd_iso_datetime = (\<lambda>s. Some \<lparr>sm_instant = 0, sm_date = 5, sm_aware = True\<rparr>),
     rd_iso_date = (\<lambda>s. None), rd_seoul_offset = (\<lambda>d. ''+09:00''), rd_int_field = (\<lambda>v. case v of JInt i \<Rightarrow> Some i | _ \<Rightarrow> None)\<rparr>"

definition ok_response :: "json \<Rightarrow> http_response" where
  "ok_response v = \<lparr>rs_status = 200, rs_json = Some (JObj [(''result'', v)]), rs_retry_after = None, rs_rate_reset = None, rs_request_id = None\<rparr>"

definition token_response :: http_response where
  "token_response = \<lparr>rs_status = 200, rs_json = Some (JObj [(''access_token'', JStr ''T''), (''expires_in'', JInt 3600)]),
     rs_retry_after = None, rs_rate_reset = None, rs_request_id = None\<rparr>"

definition demo_service :: "json \<Rightarrow> client_env" where
  "demo_service body = \<lparr>ce_reply = (\<lambda>n q. case q of TokenPost _ _ \<Rightarrow> Answered token_response | ApiGet _ _ _ \<Rightarrow> Answered (ok_response body)),
     ce_now = (\<lambda>n. int n), ce_today = (\<lambda>n. 10), ce_elapsed = (\<lambda>n. 1 / 100), ce_readers = no_readers, ce_configured = True,
     ce_client_id = ''id'', ce_client_secret = ''secret'', ce_skew_seconds = 30, ce_max_retries = 2,
     ce_symbols = Inr [''005930'']\<rparr>"

definition two_charts :: client where
  "two_charts = (let env = demo_service (JObj [(''candles'', JList [])])
     in fst (minute_bars env ''005930'' 1 (fst (minute_bars env ''005930'' 1 new_client))))"

lemmas client_eval = and_then_def answer_def raising_def lift_res_def read_now_def loop_time_def sleep_def send_def
  get_token_def token_valid_def cached_token_def issue_token_def store_token_def chart_pause_def chart_interval_def
  mark_success_def decide_def turn_def Let_def

lemma demo_first:
  assumes "cl_token s = None" and "cl_reads s < 1000"
  shows "\<exists>s'. request_loop (demo_service body) path params True 0 False s = (s', Inr (ok_response body))
    \<and> cl_token s' = Some ''T'' \<and> cl_expires_at s' = int (cl_reads s) + 3600000003 \<and> cl_reads s' = cl_reads s + 7
    \<and> (cl_last_chart s = 0 \<and> cl_time s = 0 \<longrightarrow> cl_last_chart s' = 22 / 100 \<and> cl_time s' = 22 / 100)
    \<and> cl_chart_times s' = cl_chart_times s @ [cl_last_chart s']"
  using assms
  by (subst request_loop.simps)
    (simp add: client_eval demo_service_def token_response_def issued_token_def no_readers_def ok_response_def
      strip_def is_space_def datetime_max_def)

lemma demo_next:
  assumes "cl_token s = Some ''T''" and "int (cl_reads s) + 30000000 < cl_expires_at s"
  shows "\<exists>s'. request_loop (demo_service body) path params True 0 False s = (s', Inr (ok_response body))
    \<and> cl_chart_times s' = cl_chart_times s @ [cl_last_chart s']"
  using assms
  by (subst request_loop.simps) (simp add: client_eval demo_service_def no_readers_def ok_response_def)

lemma minute_bars_request:
  assumes "ce_configured env" and "1 \<le> count" and "count \<le> 200"
  shows "\<exists>params. fst (minute_bars env symbol count s) = fst (request_loop env candles_path params True 0 False s)"
proof -
  have f: "fst (and_then m (\<lambda>r. and_then (lift_res (a r)) (\<lambda>p. and_then (lift_res (b p)) (\<lambda>q.
      and_then (except_as k e (lift_res (c q))) (\<lambda>d. answer (g d))))) s) = fst (m s)"
    for m :: "http_response act" and a :: "http_response \<Rightarrow> row res" and b :: "row \<Rightarrow> row list res"
      and c :: "row list \<Rightarrow> 'd res" and g :: "'d \<Rightarrow> 'e" and k e
    by (auto simp: and_then_def lift_res_def except_as_def answer_def split: prod.splits sum.splits)
  show ?thesis
    using assms by (auto simp: minute_bars_def max_candles_def provider_request_def f)
qed

lemma two_charts_times: "length (cl_chart_times two_charts) = 2"
proof -
  let ?env = "demo_service (JObj [(''candles'', JList [])])"
  let ?one = "fst (minute_bars ?env ''005930'' 1 new_client)"
  have cfg: "ce_configured ?env" by (simp add: demo_service_def)
  obtain p where p: "?one = fst (request_loop ?env candles_path p True 0 False new_client)"
    using minute_bars_request [OF cfg, of 1] by auto
  obtain q where q: "two_charts = fst (request_loop ?env candles_path q True 0 False ?one)"
    using minute_bars_request [OF cfg, of 1] by (auto simp: two_charts_def Let_def)
  have one: "cl_token ?one = Some ''T''" "cl_expires_at ?one = 3600000003" "cl_reads ?one = 7" "length (cl_chart_times ?one) = 1"
    using demo_first [of new_client "JObj [(''candles'', JList [])]" candles_path p]
    unfolding p by (auto simp: new_client_def)
  show ?thesis using demo_next [of ?one "JObj [(''candles'', JList [])]" candles_path q] one unfolding q by auto
qed

lemma chart_requests_paced_witness: "spaced (cl_chart_times two_charts) \<and> length (cl_chart_times two_charts) = 2"
proof -
  let ?env = "demo_service (JObj [(''candles'', JList [])])"
  have "adapter_reachable ?env two_charts"
    unfolding two_charts_def Let_def by (intro adapter_reachable.intros)
  then have "spaced (cl_chart_times two_charts)"
    using chart_requests_paced [of ?env two_charts] by (simp add: demo_service_def)
  then show ?thesis by (simp add: two_charts_times)
qed

section \<open>The cost of a request\<close>

definition is_get :: "request \<Rightarrow> bool" where
  "is_get q = (case q of ApiGet _ _ _ \<Rightarrow> True | TokenPost _ _ \<Rightarrow> False)"

lemma sent_unchanged:
  "cl_sent (fst (chart_pause env s)) = cl_sent s"
  "cl_sent (fst (decide env token chart attempt auth reply s)) = cl_sent s"
  by (auto simp: chart_pause_def loop_time_def sleep_def answer_def raising_def and_then_def decide_def Let_def
      mark_failure_def mark_success_def read_now_def invalidate_def split: reply.splits)

lemma issue_sent: "cl_sent (fst (issue_token env s)) = cl_sent s @ [TokenPost (ce_client_id env) (ce_client_secret env)]"
  by (auto simp: issue_token_def and_then_def send_def raising_def answer_def read_now_def
      split: reply.splits option.splits)

lemma store_sent: "cl_sent (fst (store_token t now s)) = cl_sent s"
  by (simp add: store_token_def Let_def)

lemma get_sent: "\<exists>new. cl_sent (fst (get_token env s)) = cl_sent s @ new \<and> length new \<le> 1 \<and> list_all (\<lambda>q. \<not> is_get q) new"
proof -
  have i: "cl_sent (fst (and_then (issue_token env) (\<lambda>t. and_then (read_now env) (\<lambda>now. store_token t now)) t))
      = cl_sent t @ [TokenPost (ce_client_id env) (ce_client_secret env)]" for t
    using issue_sent [of env t]
    by (auto simp: and_then_def read_now_def store_sent split: prod.splits sum.splits)
  let ?s = "s\<lparr>cl_reads := Suc (cl_reads s)\<rparr>"
  let ?t = "?s\<lparr>cl_reads := Suc (Suc (cl_reads s))\<rparr>"
  have "fst (get_token env s) \<in> {?s, ?t, fst (and_then (issue_token env) (\<lambda>t. and_then (read_now env) (\<lambda>now. store_token t now)) ?t)}"
    by (auto simp: get_token_def and_then_def [of "read_now env"] read_now_def)
  then have "cl_sent (fst (get_token env s)) \<in> {cl_sent s, cl_sent s @ [TokenPost (ce_client_id env) (ce_client_secret env)]}"
    using i [of ?t] by auto
  then show ?thesis by (auto simp: is_get_def)
qed

text \<open>A turn sends at most one token request and one data request.\<close>

lemma turn_sent:
  "\<exists>new. cl_sent (fst (turn env path params chart attempt auth s)) = cl_sent s @ new
    \<and> length (filter is_get new) \<le> 1 \<and> length new \<le> 2"
proof -
  obtain s1 r1 where g: "get_token env s = (s1, r1)" by fastforce
  obtain new where new: "cl_sent s1 = cl_sent s @ new" "length new \<le> 1" "list_all (\<lambda>q. \<not> is_get q) new"
    using get_sent [of env s] g by auto
  have none: "filter is_get new = []" using new(3) by (simp add: filter_empty_conv list_all_iff)
  show ?thesis
  proof (cases r1)
    case (Inl e)
    then show ?thesis using g new none by (auto simp: turn_def and_then_def)
  next
    case (Inr token)
    obtain s2 r2 where p: "(if chart then chart_pause env else answer ()) s1 = (s2, r2)" by fastforce
    have s2: "cl_sent s2 = cl_sent s1"
      using p sent_unchanged(1) [of env s1] by (auto simp: answer_def split: if_splits)
    show ?thesis
    proof (cases r2)
      case (Inl e)
      then show ?thesis using g new none p s2 Inr by (auto simp: turn_def and_then_def)
    next
      case r2: (Inr u)
      have "cl_sent (fst (turn env path params chart attempt auth s)) = cl_sent s2 @ [ApiGet path params token]"
        using g p Inr r2 sent_unchanged(2) by (simp add: turn_def and_then_def send_def)
      then show ?thesis using new none s2 by (intro exI [of _ "new @ [ApiGet path params token]"]) simp
    qed
  qed
qed

lemma loop_sent:
  "\<exists>new. cl_sent (fst (request_loop env path params chart attempt auth s)) = cl_sent s @ new
    \<and> length (filter is_get new) \<le> Suc (budget env attempt auth) \<and> length new \<le> 2 * Suc (budget env attempt auth)"
proof (induction env path params chart attempt auth s rule: request_loop.induct)
  case (1 env path params chart attempt auth s)
  obtain s' v where t: "turn env path params chart attempt auth s = (s', v)" by fastforce
  obtain new where new: "cl_sent s' = cl_sent s @ new" "length (filter is_get new) \<le> 1" "length new \<le> 2"
    using turn_sent [of env path params chart attempt auth s] t by auto
  consider (stop) "cl_sent (fst (request_loop env path params chart attempt auth s)) = cl_sent s'"
    | (again) a b where "v = Inr (Again a b)"
  proof (cases v)
    case (Inl e)
    then show ?thesis using stop by (simp add: request_loop.simps [of env path params chart attempt auth s] t)
  next
    case (Inr d)
    then show ?thesis using stop again by (cases d) (simp_all add: request_loop.simps [of env path params chart attempt auth s] t)
  qed
  then show ?case
  proof cases
    case stop
    then show ?thesis using new by (intro exI [of _ new]) auto
  next
    case again
    have b: "budget env a b < budget env attempt auth" using turn_again t again by blast
    obtain more where m: "cl_sent (fst (request_loop env path params chart a b s')) = cl_sent s' @ more"
      "length (filter is_get more) \<le> Suc (budget env a b)" "length more \<le> 2 * Suc (budget env a b)"
      using 1 t [symmetric] again by blast
    have "fst (request_loop env path params chart attempt auth s) = fst (request_loop env path params chart a b s')"
      by (subst request_loop.simps) (simp add: t again)
    then show ?thesis using new m b by (intro exI [of _ "new @ more"]) simp
  qed
qed

text \<open>What a request may raise, and what it may return.\<close>

definition raises_only :: "(py_exc \<Rightarrow> bool) \<Rightarrow> ('s, 'a) io \<Rightarrow> bool" where
  "raises_only Q m \<longleftrightarrow> (\<forall>s s' e. m s = (s', Inl e) \<longrightarrow> Q e)"

named_theorems raising_rules \<open>actions that raise only certain exceptions\<close>

lemma raises_basic [raising_rules]:
  "raises_only Q (answer x)" "Q e \<Longrightarrow> raises_only Q (raising e)" "raises_only Q (read_now env)"
  "raises_only Q (loop_time env)" "raises_only Q (sleep w)" "raises_only Q (send env q)" "raises_only Q (invalidate t)"
  by (simp_all add: raises_only_def answer_def raising_def read_now_def loop_time_def sleep_def send_def
      invalidate_def Let_def)

lemma raises_then [raising_rules]:
  "raises_only Q m \<Longrightarrow> (\<And>x. raises_only Q (f x)) \<Longrightarrow> raises_only Q (and_then m f)"
  unfolding raises_only_def and_then_Inl by blast

lemma raises_if [raising_rules]: "raises_only Q m \<Longrightarrow> raises_only Q n \<Longrightarrow> raises_only Q (if b then m else n)"
  by simp

lemma raises_option [raising_rules]:
  "raises_only Q m \<Longrightarrow> (\<And>x. raises_only Q (f x)) \<Longrightarrow> raises_only Q (case v of None \<Rightarrow> m | Some x \<Rightarrow> f x)"
  by (cases v) simp_all

lemma raises_reply [raising_rules]:
  "raises_only Q m \<Longrightarrow> (\<And>e. raises_only Q (f e)) \<Longrightarrow> (\<And>r. raises_only Q (g r))
    \<Longrightarrow> raises_only Q (case v of Unreachable \<Rightarrow> m | Broken e \<Rightarrow> f e | Answered r \<Rightarrow> g r)"
  by (cases v) simp_all

definition request_error :: "py_exc \<Rightarrow> bool" where
  "request_error x = (case x of ProviderException e \<Rightarrow> er_provider e = ''toss'' | TransportError _ \<Rightarrow> True
     | OverflowError _ \<Rightarrow> True | _ \<Rightarrow> False)"

lemma request_error_simps [simp]:
  "request_error (unavailable m)" "request_error (TransportError m)" "request_error (OverflowError m)"
  "request_error (ProviderException (toss_error k m))" "request_error malformed"
  "request_error (ProviderException (response_error rd now r a))"
  by (auto simp: request_error_def unavailable_def toss_error_def malformed_def response_error_def Let_def split: prod.splits)

lemma get_raises: "raises_only request_error (get_token env)"
proof -
  have issue: "raises_only request_error (issue_token env)"
    unfolding issue_token_def by (intro raising_rules request_error_simps)
  have store: "raises_only request_error (store_token t now)" for t now
    by (auto simp: raises_only_def store_token_def Let_def)
  have i: "raises_only request_error (and_then (issue_token env) (\<lambda>t. and_then (read_now env) (store_token t)))"
    by (intro raising_rules issue store)
  have c: "raises_only request_error (\<lambda>s. if token_valid env now s then (s, Inr (cached_token s)) else m s)"
    if "raises_only request_error m" for now m
    using that by (simp add: raises_only_def)
  show ?thesis unfolding get_token_def by (intro raising_rules c i)
qed

lemma turn_raises: "raises_only request_error (turn env path params chart attempt auth)"
proof -
  have p: "raises_only request_error (chart_pause env)"
    by (auto simp: raises_only_def chart_pause_def and_then_def loop_time_def sleep_def answer_def Let_def)
  have m: "raises_only request_error (mark_failure env)" "raises_only request_error (mark_success env)"
    by (auto simp: raises_only_def mark_failure_def mark_success_def and_then_def read_now_def)
  have d: "raises_only request_error (decide env token chart attempt auth reply)" for token reply
    unfolding decide_def by (intro raising_rules request_error_simps m)
  show ?thesis unfolding turn_def by (intro raising_rules get_raises p d)
qed

lemma decide_returns:
  "decide env token chart attempt auth reply s = (s', Inr (Return r)) \<Longrightarrow> reply = Answered r \<and> rs_status r < 400"
  by (cases reply) (auto simp: decide_def and_then_Inr split: if_splits)

lemma loop_result:
  "request_loop env path params chart attempt auth s = (s', res)
    \<Longrightarrow> case res of Inl e \<Rightarrow> request_error e | Inr r \<Rightarrow> rs_status r < 400"
proof (induction env path params chart attempt auth s arbitrary: s' res rule: request_loop.induct)
  case (1 env path params chart attempt auth s)
  obtain t v where t: "turn env path params chart attempt auth s = (t, v)" by fastforce
  show ?case
  proof (cases v)
    case (Inl e)
    then have "res = Inl e" using 1(2) t by (simp add: request_loop.simps [of env path params chart attempt auth s])
    moreover have "request_error e" using turn_raises t Inl unfolding raises_only_def by blast
    ultimately show ?thesis by simp
  next
    case (Inr d)
    show ?thesis
    proof (cases d)
      case (Return r)
      then have "res = Inr r" using 1(2) t Inr by (simp add: request_loop.simps [of env path params chart attempt auth s])
      moreover have "rs_status r < 400" using t [unfolded Inr Return turn_def and_then_Inr] by (blast dest: decide_returns)
      ultimately show ?thesis by simp
    next
      case (Again a b)
      then have "request_loop env path params chart a b t = (s', res)"
        using 1(2) t Inr by (simp add: request_loop.simps [of env path params chart attempt auth s])
      then show ?thesis using 1(1) [OF t [symmetric] Inr Again] by blast
    qed
  qed
qed

text \<open>
  C19. Every request ends, whatever the service does: it sends at most \<open>max_retries + 2\<close> data requests
  and no more token requests than that, and ends with a response below 400 or with one of three kinds
  of exception.
\<close>

theorem request_bounded:
  assumes "provider_request env path params chart s = (s', res)"
  shows "\<exists>new. cl_sent s' = cl_sent s @ new \<and> length (filter is_get new) \<le> ce_max_retries env + 2
    \<and> length new \<le> 2 * (ce_max_retries env + 2)
    \<and> (case res of Inl e \<Rightarrow> request_error e | Inr r \<Rightarrow> ce_configured env \<and> rs_status r < 400)"
proof (cases "ce_configured env")
  case True
  then have l: "request_loop env path params chart 0 False s = (s', res)"
    using assms by (simp add: provider_request_def)
  from loop_sent [of env path params chart 0 False s] loop_result [OF l] l True show ?thesis
    by (auto simp: budget_def split: sum.splits)
next
  case False
  with assms show ?thesis by (auto simp: provider_request_def raising_def)
qed

lemma request_bounded_witness:
  "\<exists>new. cl_sent (fst (provider_request (demo_service JNull) prices_path [] False new_client)) = new \<and> length new \<le> 8"
proof -
  obtain s' res where r: "provider_request (demo_service JNull) prices_path [] False new_client = (s', res)" by fastforce
  then show ?thesis using request_bounded [OF r] by (auto simp: new_client_def demo_service_def)
qed

section \<open>Recovery\<close>

definition transient :: "reply \<Rightarrow> bool" where
  "transient p = (case p of Unreachable \<Rightarrow> True | Broken _ \<Rightarrow> False
     | Answered r \<Rightarrow> rs_status r = 429 \<or> 500 \<le> rs_status r \<and> rs_status r < 600)"

definition token_lasts :: "client_env \<Rightarrow> client \<Rightarrow> bool" where
  "token_lasts env s \<longleftrightarrow> cl_token s \<noteq> None \<and> (\<forall>n. ce_now env n + 1000000 * ce_skew_seconds env < cl_expires_at s)"

lemma get_lasting: "token_lasts env s \<Longrightarrow> get_token env s = (s\<lparr>cl_reads := Suc (cl_reads s)\<rparr>, Inr (cached_token s))"
  by (auto simp: get_token_def and_then_def read_now_def token_valid_def token_lasts_def cached_token_def)

text \<open>The part of a turn before the reply: with a lasting token only the request goes out.\<close>

definition same_tokens :: "client \<Rightarrow> client \<Rightarrow> bool" where
  "same_tokens s t \<longleftrightarrow> cl_token t = cl_token s \<and> cl_expires_at t = cl_expires_at s"

lemma pause_frame: "\<exists>u. chart_pause env s = (u, Inr ()) \<and> same_tokens s u \<and> cl_sent u = cl_sent s"
  by (cases "chart_interval - (cl_time s + ce_elapsed env (cl_reads s) - cl_last_chart s) > 0")
    (simp_all add: answer_def chart_pause_def loop_time_def and_then_def sleep_def Let_def same_tokens_def)

lemma lasting_turn:
  assumes "token_lasts env s"
  shows "\<exists>t q token. turn env path params chart attempt auth s
      = decide env token chart attempt auth (ce_reply env (length (cl_sent s)) q) t
    \<and> same_tokens s t \<and> length (cl_sent t) = Suc (length (cl_sent s))"
proof -
  let ?s = "s\<lparr>cl_reads := Suc (cl_reads s)\<rparr>"
  obtain u where u: "(if chart then chart_pause env else answer ()) ?s = (u, Inr ())" and f: "same_tokens s u" "cl_sent u = cl_sent s"
    using pause_frame [of env ?s] by (cases chart) (auto simp: answer_def same_tokens_def)
  have "turn env path params chart attempt auth s = decide env (cached_token s) chart attempt auth
      (ce_reply env (length (cl_sent s)) (ApiGet path params (cached_token s)))
      (u\<lparr>cl_sent := cl_sent u @ [ApiGet path params (cached_token s)]\<rparr>)"
    using u f by (simp add: turn_def get_lasting [OF assms] and_then_def send_def)
  then show ?thesis using f by (fastforce simp: same_tokens_def)
qed

lemma decide_transient:
  assumes "transient p" and "attempt < ce_max_retries env"
  shows "\<exists>t. decide env token chart attempt auth p s = (t, Inr (Again (Suc attempt) auth))
    \<and> same_tokens s t \<and> cl_sent t = cl_sent s"
  using assms by (cases p)
    (auto simp: transient_def decide_def and_then_def sleep_def answer_def read_now_def same_tokens_def)

lemma decide_success:
  assumes "rs_status r < 400" and "rs_status r \<noteq> 401"
  shows "\<exists>t. decide env token chart attempt auth (Answered r) s = (t, Inr (Return r)) \<and> cl_sent t = cl_sent s"
  using assms by (auto simp: decide_def mark_success_def and_then_def read_now_def answer_def)

lemma loop_recovers:
  assumes "token_lasts env s" and "k + attempt \<le> ce_max_retries env"
    and "\<And>i q. i < k \<Longrightarrow> transient (ce_reply env (length (cl_sent s) + i) q)"
    and "\<And>q. ce_reply env (length (cl_sent s) + k) q = Answered r" and "rs_status r < 400"
  shows "\<exists>s'. request_loop env path params chart attempt auth s = (s', Inr r)
    \<and> length (cl_sent s') = length (cl_sent s) + k + 1"
  using assms
proof (induction k arbitrary: s attempt)
  case 0
  obtain t q token where t: "turn env path params chart attempt auth s
      = decide env token chart attempt auth (ce_reply env (length (cl_sent s)) q) t"
    "length (cl_sent t) = Suc (length (cl_sent s))"
    using lasting_turn [OF 0(1)] by blast
  have "ce_reply env (length (cl_sent s)) q = Answered r" using 0(4) [of q] by simp
  moreover obtain u where u: "decide env token chart attempt auth (Answered r) t = (u, Inr (Return r))" "cl_sent u = cl_sent t"
    using decide_success [of r] 0(5) by fastforce
  ultimately show ?case using t by (subst request_loop.simps) simp
next
  case (Suc k)
  obtain t q token where t: "turn env path params chart attempt auth s
      = decide env token chart attempt auth (ce_reply env (length (cl_sent s)) q) t"
    "same_tokens s t" "length (cl_sent t) = Suc (length (cl_sent s))"
    using lasting_turn [OF Suc.prems(1)] by blast
  have "transient (ce_reply env (length (cl_sent s)) q)" "attempt < ce_max_retries env"
    using Suc.prems(2) Suc.prems(3) [of 0 q] by simp_all
  then obtain u where u: "decide env token chart attempt auth (ce_reply env (length (cl_sent s)) q) t = (u, Inr (Again (Suc attempt) auth))"
    "same_tokens t u" "cl_sent u = cl_sent t"
    using decide_transient by blast
  have "token_lasts env u" using Suc.prems(1) t u by (simp add: token_lasts_def same_tokens_def)
  moreover have "Suc k + attempt \<le> ce_max_retries env" "k + Suc attempt \<le> ce_max_retries env" using Suc.prems(2) by simp_all
  moreover have "transient (ce_reply env (length (cl_sent u) + i) q)" if "i < k" for i q
    using Suc.prems(3) [of "Suc i" q] that t u by simp
  moreover have "ce_reply env (length (cl_sent u) + k) q = Answered r" for q
    using Suc.prems(4) [of q] t u by simp
  ultimately obtain s' where "request_loop env path params chart (Suc attempt) auth u = (s', Inr r)"
    "length (cl_sent s') = length (cl_sent u) + k + 1"
    using Suc.IH [of u "Suc attempt"] Suc.prems(5) by blast
  then show ?case using t u by (subst request_loop.simps) simp
qed

text \<open>
  C20. A request survives as many transient failures as it has retries: with a token that lasts, when
  the first \<open>k \<le> max_retries\<close> attempts meet no answer, a 429 or a 5xx and the next one is answered below
  400, the request returns that answer after exactly \<open>k + 1\<close> attempts.
\<close>

theorem request_recovers:
  assumes "ce_configured env" and "token_lasts env s" and "k \<le> ce_max_retries env"
    and "\<And>i q. i < k \<Longrightarrow> transient (ce_reply env (length (cl_sent s) + i) q)"
    and "\<And>q. ce_reply env (length (cl_sent s) + k) q = Answered r" and "rs_status r < 400"
  shows "\<exists>s'. provider_request env path params chart s = (s', Inr r)
    \<and> length (cl_sent s') = length (cl_sent s) + k + 1"
  using loop_recovers [of env s k 0 r path params chart False] assms by (simp add: provider_request_def)

definition flaky_service :: client_env where
  "flaky_service = (demo_service JNull)\<lparr>ce_now := (\<lambda>n. 0),
     ce_reply := (\<lambda>n q. if n = 0 then Unreachable else if n = 1 then Answered ((ok_response JNull)\<lparr>rs_status := 503\<rparr>)
       else Answered (ok_response JNull))\<rparr>"

lemma request_recovers_witness:
  "\<exists>s'. provider_request flaky_service prices_path [] False (new_client\<lparr>cl_token := Some ''T'', cl_expires_at := 100000000\<rparr>)
      = (s', Inr (ok_response JNull)) \<and> length (cl_sent s') = 3"
proof -
  let ?s = "new_client\<lparr>cl_token := Some ''T'', cl_expires_at := 100000000\<rparr>"
  have "transient (ce_reply flaky_service (length (cl_sent ?s) + i) q)" if "i < 2" for i q
    using that by (auto simp: flaky_service_def new_client_def transient_def)
  moreover have "ce_reply flaky_service (length (cl_sent ?s) + 2) q = Answered (ok_response JNull)" for q
    by (simp add: flaky_service_def new_client_def)
  moreover have "token_lasts flaky_service ?s" "ce_configured flaky_service" "2 \<le> ce_max_retries flaky_service"
    by (simp_all add: token_lasts_def flaky_service_def demo_service_def)
  ultimately show ?thesis
    using request_recovers [of flaky_service ?s 2 "ok_response JNull" prices_path "[]" False]
    by (simp add: ok_response_def new_client_def eval_nat_numeral)
qed

end
