(* ===== verification/Toss_Answers.thy ===== *)
theory Toss_Answers
  imports Toss_Props Sync "HOL-Library.Multiset"
begin

text \<open>
  The answers of the Toss adapter: daily candles are valid, in range and in order, and end when the
  service's cursors run out; a price batch is answered for exactly its symbols; the stock master lists
  only active common shares of the universe.
\<close>

section \<open>Loops\<close>

lemma fold_io_invariant:
  assumes "fold_io f x as s = (s', Inr y)" and "I x"
    and "\<And>x a s s' y. I x \<Longrightarrow> a \<in> set as \<Longrightarrow> f x a s = (s', Inr y) \<Longrightarrow> I y"
  shows "I y"
  using assms
proof (induction "as" arbitrary: x s)
  case (Cons a as)
  from Cons.prems(1) obtain t z where t: "f x a s = (t, Inr z)" "fold_io f z as t = (s', Inr y)"
    by (auto simp: and_then_Inr)
  have "I z" using Cons.prems(3) [OF Cons.prems(2) _ t(1)] by simp
  with t(2) show ?case using Cons.IH Cons.prems(3) by (metis list.set_intros(2))
qed simp

lemma map_io_elements:
  assumes "map_io f xs s = (s', Inr ys)"
  shows "length ys = length xs \<and> (\<forall>i < length xs. \<exists>t t'. f (xs ! i) t = (t', Inr (ys ! i)))"
  using assms
proof (induction xs arbitrary: s s' ys)
  case (Cons x xs)
  then obtain t y zs u where t: "f x s = (t, Inr y)" "map_io f xs t = (u, Inr zs)" "ys = y # zs"
    by (auto simp: and_then_Inr)
  have "length zs = length xs \<and> (\<forall>i < length xs. \<exists>t t'. f (xs ! i) t = (t', Inr (zs ! i)))"
    using Cons.IH [OF t(2)] .
  moreover have "\<exists>t t'. f ((x # xs) ! i) t = (t', Inr ((y # zs) ! i))" if "i < Suc (length xs)" for i
    using that t(1) calculation by (cases i) auto
  ultimately show ?case using t(3) by auto
qed simp

text \<open>Every response a request returns is an answer of the service.\<close>

lemma turn_reply:
  "turn env path params chart attempt auth s = (s', Inr (Return r)) \<Longrightarrow> \<exists>n q. ce_reply env n q = Answered r"
  unfolding turn_def and_then_Inr by (auto simp: send_def dest!: decide_returns)

lemma loop_reply:
  "request_loop env path params chart attempt auth s = (s', Inr r) \<Longrightarrow> \<exists>n q. ce_reply env n q = Answered r"
proof (induction env path params chart attempt auth s rule: request_loop.induct)
  case (1 env path params chart attempt auth s)
  obtain t v where t: "turn env path params chart attempt auth s = (t, v)" by fastforce
  note u = request_loop.simps [of env path params chart attempt auth s]
  show ?case
  proof (cases v)
    case (Inl e)
    then show ?thesis using 1(2) t by (simp add: u)
  next
    case (Inr d)
    show ?thesis
    proof (cases d)
      case (Return q)
      then show ?thesis using 1(2) t Inr turn_reply [of env path params chart attempt auth s t q] by (simp add: u)
    next
      case (Again a b)
      then have "request_loop env path params chart a b t = (s', Inr r)" using 1(2) t Inr by (simp add: u)
      then show ?thesis using 1(1) [OF t [symmetric] Inr Again] by blast
    qed
  qed
qed

lemma request_reply: "provider_request env path params chart s = (s', Inr r) \<Longrightarrow> \<exists>n q. ce_reply env n q = Answered r"
  by (auto simp: provider_request_def dest: loop_reply split: if_splits)

section \<open>Daily candles\<close>

definition good_bar :: "client_env \<Rightarrow> string \<Rightarrow> date \<Rightarrow> date \<Rightarrow> MarketBar \<Rightarrow> bool" where
  "good_bar env symbol start stop b \<longleftrightarrow> start \<le> mk_date b \<and> mk_date b \<le> stop \<and> (\<exists>n. mk_date b \<le> ce_today env n)
     \<and> bar_ok b \<and> mk_symbol b = symbol \<and> mk_source b = ''toss''"

definition bars_by_date :: "client_env \<Rightarrow> string \<Rightarrow> date \<Rightarrow> date \<Rightarrow> (date, MarketBar) dict \<Rightarrow> bool" where
  "bars_by_date env symbol start stop d \<longleftrightarrow> dict_ok d
     \<and> (\<forall>k b. map_of d k = Some b \<longrightarrow> mk_date b = k \<and> good_bar env symbol start stop b)"

lemma daily_bar_of_ok:
  assumes "daily_bar_of rd symbol r = Inr b"
  shows "bar_ok b \<and> mk_symbol b = symbol \<and> mk_source b = ''toss''"
proof -
  obtain raw where "validate_bar raw = Inr b" "mk_symbol raw = symbol" "mk_source raw = ''toss''"
    using assms unfolding daily_bar_of_def bindE_eq_Inr by fastforce
  then show ?thesis by (auto simp: validate_bar_Inr)
qed

lemma daily_row_ok:
  assumes "bars_by_date env symbol start stop d" and "daily_row env symbol start stop d r s = (s', Inr d')"
  shows "bars_by_date env symbol start stop d'"
proof -
  obtain b t where b: "daily_bar_of (ce_readers env) symbol r = Inr b"
    and rest: "(if start \<le> mk_date b \<and> mk_date b \<le> stop
      then and_then (read_today env) (\<lambda>today. if mk_date b \<le> today then lift_res (put_once (mk_date b) b d) else answer d)
      else answer d) t = (s', Inr d')"
    using assms(2) unfolding daily_row_def and_then_Inr by auto
  have "d' = d \<or> (start \<le> mk_date b \<and> mk_date b \<le> stop \<and> (\<exists>n. mk_date b \<le> ce_today env n) \<and> d' = dict_set (mk_date b) b d)"
    using rest by (auto simp: and_then_Inr read_today_def put_once_def split: if_splits option.splits)
  then consider "d' = d" | "good_bar env symbol start stop b" "d' = dict_set (mk_date b) b d"
    using daily_bar_of_ok [OF b] unfolding good_bar_def by blast
  then show ?thesis using assms(1) by cases (auto simp: bars_by_date_def split: if_splits)
qed

lemma daily_page_ok:
  assumes "bars_by_date env symbol start stop d" and "daily_page env symbol start stop d c s = (s', Inr (d', nb))"
  shows "bars_by_date env symbol start stop d'"
proof -
  obtain t t' rows where "fold_io (daily_row env symbol start stop) d rows t = (t', Inr d')"
    using assms(2) unfolding daily_page_def and_then_Inr by auto
  then show ?thesis
    by (rule fold_io_invariant [where I = "bars_by_date env symbol start stop", OF _ assms(1)]) (blast intro: daily_row_ok)
qed

lemma daily_loop_ok:
  assumes "daily_loop env symbol start stop [] [] c s = Some (s', Inr d)"
  shows "bars_by_date env symbol start stop d"
proof -
  have "bars_by_date env symbol start stop []" by (simp add: bars_by_date_def)
  moreover have "bars_by_date env symbol start stop d'"
    if "bars_by_date env symbol start stop d" "daily_page env symbol start stop d c t = (t', Inr (d', Some b))" for d c t t' d' b
    using daily_page_ok [OF that] .
  ultimately obtain d' c' t where "bars_by_date env symbol start stop d'"
    "daily_page env symbol start stop d' c' t = (s', Inr (d, None))"
    using daily_loop_rule [OF assms, of "\<lambda>_ d _ _. bars_by_date env symbol start stop d"] by auto
  then show ?thesis by (rule daily_page_ok)
qed

lemma sorted_values_props:
  assumes "dict_ok d"
  shows "map_of d ` set (dict_keys d) = Some ` set (sorted_values d)"
    and "(\<And>k v. map_of d k = Some v \<Longrightarrow> g v = k) \<Longrightarrow> map g (sorted_values d) = sort (dict_keys d)"
proof -
  have m: "map_of d k = Some (the (map_of d k))" if "k \<in> set (dict_keys d)" for k
    using that by (auto simp: dict_keys_def map_of_eq_None_iff dest!: weak_map_of_SomeI)
  then show "map_of d ` set (dict_keys d) = Some ` set (sorted_values d)"
    unfolding sorted_values_def by (simp add: image_image)
  assume g: "\<And>k v. map_of d k = Some v \<Longrightarrow> g v = k"
  have "g (the (map_of d k)) = k" if "k \<in> set (sort (dict_keys d))" for k
    using g [OF m] that by simp
  then show "map g (sorted_values d) = sort (dict_keys d)"
    unfolding sorted_values_def map_map o_def by (intro map_idI) blast
qed

lemma strict_sorted_keys: "dict_ok d \<Longrightarrow> sorted_wrt (<) (sort (dict_keys d))" for d :: "(date, 'v) dict"
  by (simp add: dict_ok_def dict_keys_def strict_sorted_iff)

text \<open>
  C23. The daily candles the adapter returns for a range: strictly ascending by date, every bar valid,
  of the symbol asked for, inside the range and not after the current day; so the check of the
  synchronization for future trading dates never fires on them and their dates are unique.
\<close>

theorem daily_bars_valid:
  assumes "daily_bars env symbol start stop s = Some (s', Inr bars)"
  shows "sorted_wrt (\<lambda>a b. mk_date a < mk_date b) bars \<and> list_all (good_bar env symbol start stop) bars
    \<and> distinct (map (\<lambda>b. (mk_symbol b, mk_date b)) bars) \<and> \<not> list_ex (\<lambda>b. stop < mk_date b) bars"
proof -
  obtain d where l: "daily_loop env symbol start stop [] [] (first_cursor (ce_readers env) stop) s = Some (s', Inr d)"
    and bars: "bars = sorted_values d"
    using assms by (auto simp: daily_bars_def bindE_eq_Inr split: if_splits)
  have ok: "bars_by_date env symbol start stop d" using daily_loop_ok [OF l] .
  then have d: "dict_ok d" and key: "\<And>k b. map_of d k = Some b \<Longrightarrow> mk_date b = k"
    and good: "\<And>k b. map_of d k = Some b \<Longrightarrow> good_bar env symbol start stop b"
    by (auto simp: bars_by_date_def)
  have "map mk_date bars = sort (dict_keys d)" using sorted_values_props(2) [OF d] key unfolding bars by blast
  then have s: "sorted_wrt (<) (map mk_date bars)" using strict_sorted_keys [OF d] by simp
  have g: "good_bar env symbol start stop b" if "b \<in> set bars" for b
    using sorted_values_props(1) [OF d] good that unfolding bars by (metis imageE imageI)
  have "distinct (map mk_date bars)" using s by (simp add: strict_sorted_iff)
  then have "distinct (map (\<lambda>b. (mk_symbol b, mk_date b)) bars)"
    by (auto simp: distinct_map inj_on_def)
  moreover have "\<not> list_ex (\<lambda>b. stop < mk_date b) bars"
    using g by (force simp: list_ex_iff good_bar_def)
  ultimately show ?thesis using s g by (auto simp: sorted_wrt_map list_all_iff)
qed

definition one_row :: row where
  "one_row = [(''timestamp'', JStr ''t''), (''openPrice'', JStr ''10''), (''highPrice'', JStr ''12''), (''lowPrice'', JInt 9),
     (''closePrice'', JFloat ''11.5''), (''volume'', JInt 7)]"

definition one_candle :: client_env where
  "one_candle = demo_service (JObj [(''candles'', JList [JObj one_row])])"

definition one_bar :: MarketBar where
  "one_bar = \<lparr>mk_symbol = ''005930'', mk_date = 5, mk_open = 10, mk_high = 12, mk_low = 9, mk_close = 23 / 2, mk_volume = 7,
     mk_source = ''toss'', mk_as_of = 0\<rparr>"

lemma one_row_values:
  "daily_bar_of no_readers ''005930'' one_row = Inr one_bar" "row_date no_readers one_row = Inr 5"
  by code_simp+

lemma one_candle_page:
  "\<exists>t. daily_page one_candle ''005930'' 1 9 [] c new_client = (t, Inr ([(5, one_bar)], None))"
proof -
  let ?b = "JObj [(''candles'', JList [JObj one_row])]"
  let ?p = "[(''symbol'', ''005930''), (''interval'', ''1d''), (''count'', int_text (int max_candles)), (''before'', c), (''adjusted'', ''true'')]"
  obtain t where t: "provider_request one_candle candles_path ?p True new_client = (t, Inr (ok_response ?b))"
    using demo_first [of new_client ?b candles_path ?p]
    by (auto simp: provider_request_def one_candle_def demo_service_def new_client_def)
  have r: "result_object (ok_response ?b) = Inr [(''candles'', JList [JObj one_row])]"
    by (simp add: result_object_def object_def ok_response_def)
  have e: "ce_readers one_candle = no_readers" "ce_today one_candle = (\<lambda>n. 10)"
    by (simp_all add: one_candle_def demo_service_def)
  show ?thesis
    by (simp add: daily_page_def and_then_def t lift_res_def r rows_of_def except_as_def daily_row_def e one_row_values
        read_today_def put_once_def answer_def) (simp add: one_bar_def)
qed

lemma one_candle_bars: "\<exists>s'. daily_bars one_candle ''005930'' 1 9 new_client = Some (s', Inr [one_bar])"
proof -
  obtain t where "daily_page one_candle ''005930'' 1 9 [] (first_cursor (ce_readers one_candle) 9) new_client
      = (t, Inr ([(5, one_bar)], None))"
    using one_candle_page by blast
  then have "daily_loop one_candle ''005930'' 1 9 [] [] (first_cursor (ce_readers one_candle) 9) new_client
      = Some (t, Inr [(5, one_bar)])"
    by (subst daily_loop.simps) simp
  then show ?thesis by (simp add: daily_bars_def sorted_values_def dict_keys_def)
qed

lemma daily_bars_valid_witness: "list_all (good_bar one_candle ''005930'' 1 9) [one_bar]"
proof -
  obtain s' where "daily_bars one_candle ''005930'' 1 9 new_client = Some (s', Inr [one_bar])"
    using one_candle_bars by blast
  from daily_bars_valid [OF this] show ?thesis by blast
qed

section \<open>The end of the candle loop\<close>

definition offers :: "client_env \<Rightarrow> string set \<Rightarrow> bool" where
  "offers env C \<longleftrightarrow> (\<forall>n q r d v. ce_reply env n q = Answered r \<longrightarrow> result_object r = Inr d
     \<longrightarrow> map_of d ''nextBefore'' = Some v \<longrightarrow> truthy v \<longrightarrow> py_str v \<in> C)"

lemma page_cursor:
  assumes "daily_page env symbol start stop d c s = (s', Inr (d', Some b))" and "offers env C"
  shows "b \<in> C"
proof -
  obtain t r payload v where "provider_request env candles_path [(''symbol'', symbol), (''interval'', ''1d''),
      (''count'', int_text (int max_candles)), (''before'', c), (''adjusted'', ''true'')] True s = (t, Inr r)"
    and p: "result_object r = Inr payload" "map_of payload ''nextBefore'' = Some v" "truthy v" "b = py_str v"
    using assms(1) unfolding daily_page_def and_then_Inr by (auto split: if_splits option.splits)
  then obtain n q where "ce_reply env n q = Answered r" using request_reply by blast
  then show ?thesis using assms(2) p unfolding offers_def by blast
qed

text \<open>
  The candle loop ends: when the cursors the service offers come from a finite set, \<open>daily_bars\<close>
  returns or raises, whatever else the service answers, because a cursor seen before is refused.
\<close>

theorem daily_bars_end:
  assumes "finite C" and "offers env C"
  shows "\<exists>s' res. daily_bars env symbol start stop s = Some (s', res)"
proof -
  define C0 where "C0 = insert (first_cursor (ce_readers env) stop) C"
  have fin: "finite C0" using assms(1) by (simp add: C0_def)
  have loop: "\<exists>y. daily_loop env symbol start stop cs d c t = Some y" if "c \<in> C0" for cs d c t
    using that
  proof (induction "card (C0 - set cs)" arbitrary: cs d c t rule: less_induct)
    case less
    show ?case
    proof (cases "c \<in> set cs")
      case True
      then show ?thesis by (subst daily_loop.simps) simp
    next
      case False
      obtain t' q where pg: "daily_page env symbol start stop d c t = (t', q)" by fastforce
      show ?thesis
      proof (cases "\<exists>d' b. q = Inr (d', Some b)")
        case True
        then obtain d' b where q: "q = Inr (d', Some b)" by blast
        have "b \<in> C0" using page_cursor [OF pg [unfolded q] assms(2)] by (simp add: C0_def)
        moreover have "card (C0 - set (c # cs)) < card (C0 - set cs)"
          using fin less.prems False by (intro psubset_card_mono) auto
        ultimately have "\<exists>y. daily_loop env symbol start stop (c # cs) d' b t' = Some y" by (intro less.hyps)
        then show ?thesis using False pg q by (subst daily_loop.simps) simp
      next
        case stop: False
        then consider e where "q = Inl e" | d' where "q = Inr (d', None)" by (cases q) auto
        then show ?thesis using False pg by cases (subst daily_loop.simps, simp)+
      qed
    qed
  qed
  then have "\<exists>y. daily_loop env symbol start stop [] [] (first_cursor (ce_readers env) stop) s = Some y"
    by (simp add: C0_def)
  then show ?thesis by (auto simp: daily_bars_def)
qed

lemma daily_bars_end_witness: "\<exists>s' res. daily_bars one_candle ''005930'' 1 9 new_client = Some (s', res)"
proof (rule daily_bars_end [of "{}"])
  have "ce_reply one_candle n q = Answered r \<Longrightarrow> result_object r = Inr d \<Longrightarrow> map_of d ''nextBefore'' = None" for n q r d
    by (cases q) (auto simp: one_candle_def demo_service_def token_response_def ok_response_def result_object_def object_def
        split: option.splits json.splits)
  then show "offers one_candle {}" unfolding offers_def by fastforce
qed simp

section \<open>Exceptions of the operations\<close>

lemma raises_lift [raising_rules]: "fails_only Q m \<Longrightarrow> raises_only Q (lift_res m)"
  by (simp add: fails_only_def raises_only_def lift_res_def)

lemma raises_fold [raising_rules]: "(\<And>x a. raises_only Q (f x a)) \<Longrightarrow> raises_only Q (fold_io f x as)"
  by (induction "as" arbitrary: x) (auto intro!: raising_rules)

lemma raises_map [raising_rules]: "(\<And>x. raises_only Q (f x)) \<Longrightarrow> raises_only Q (map_io f xs)"
  by (induction xs) (auto intro!: raising_rules)

lemma raises_today [raising_rules]: "raises_only Q (read_today env)"
  by (simp add: raises_only_def read_today_def)

lemma raises_weaken: "raises_only Q m \<Longrightarrow> (\<And>e. Q e \<Longrightarrow> R e) \<Longrightarrow> raises_only R m"
  by (simp add: raises_only_def)

lemma raises_except: "raises_only (\<lambda>e. known e \<or> Q e) m \<Longrightarrow> Q e' \<Longrightarrow> raises_only Q (except_as known e' m)"
  by (auto simp: raises_only_def except_as_def split: prod.splits sum.splits if_splits)

definition row_error :: "py_exc \<Rightarrow> bool" where
  "row_error e \<longleftrightarrow> candle_errors e \<or> request_error e"

lemma row_error_simps [simp]:
  "row_error (KeyError k)" "row_error (TypeError m)" "row_error (ValueError m)" "row_error InvalidOperation" "row_error malformed"
  by (simp_all add: row_error_def candle_errors_def)

lemma conversion_fails [failing]:
  "fails_only row_error (field r k)" "fails_only row_error (to_decimal v)" "fails_only row_error (to_integer v)"
  "fails_only row_error (parse_datetime rd v)" "fails_only row_error (optional_bool r k)" "fails_only row_error (optional_date rd r k)"
  "fails_only row_error (put_once x b d)" "fails_only row_error (warning_active rd today r)"
  by (auto simp: fails_only_def field_def to_decimal_def to_integer_def parse_datetime_def optional_bool_def optional_date_def
      put_once_def warning_active_def bindE_eq_Inl split: option.splits json.splits pydec.splits if_splits)

lemma validation_fails [failing]:
  "fails_only row_error (validate_bar b)" "fails_only row_error (validate_minute_bar m)" "fails_only row_error (validate_quote q)"
  unfolding validate_bar_def validate_minute_bar_def validate_quote_def check_fields_def check_ohlc_def
  by (intro failing row_error_simps)+

lemma row_fails [failing]:
  "fails_only row_error (daily_bar_of rd symbol r)" "fails_only row_error (minute_row rd symbol d r)"
  "fails_only row_error (quote_of rd r)" "fails_only row_error (row_date rd r)" "fails_only row_error (instrument_of rd t r)"
  unfolding daily_bar_of_def minute_row_def minute_bar_of_def quote_of_def row_date_def instrument_of_def
  by (intro failing)+

lemma payload_fails [failing]:
  "fails_only request_error (result_object r)" "fails_only request_error (rows_of v)" "fails_only request_error (result_rows r)"
proof -
  have o: "fails_only request_error (object r)" for r
    by (auto simp: fails_only_def object_def split: option.splits json.splits)
  show rows: "fails_only request_error (rows_of v)" for v
    unfolding rows_of_def
    by (cases v; simp; cases "the v"; simp) (auto simp: fails_only_def [of _ "Inl _"] intro!: failing split: json.splits)
  show "fails_only request_error (result_object r)"
    unfolding result_object_def by (intro failing o) (auto simp: fails_only_def split: option.splits json.splits)
  show "fails_only request_error (result_rows r)"
    unfolding result_rows_def by (intro failing o rows)
qed

lemma request_raises: "raises_only request_error (provider_request env path params chart)"
  unfolding raises_only_def
proof (intro allI impI)
  fix s s' e
  assume r: "provider_request env path params chart s = (s', Inl e)"
  show "request_error e"
  proof (cases "ce_configured env")
    case True
    then have "request_loop env path params chart 0 False s = (s', Inl e)" using r by (simp add: provider_request_def)
    from loop_result [OF this] show ?thesis by simp
  qed (use r in \<open>auto simp: provider_request_def raising_def\<close>)
qed

lemma candle_except:
  "raises_only row_error m \<Longrightarrow> raises_only request_error (except_as candle_errors malformed m)"
  by (rule raises_except) (simp_all add: row_error_def [abs_def])

lemma validation_error_request [simp]: "request_error (validation_error m)"
  by (simp add: validation_error_def)

text \<open>The two readers of instruments let a \<open>ValueError\<close> through.\<close>

definition leaked :: "py_exc \<Rightarrow> bool" where
  "leaked e \<longleftrightarrow> request_error e \<or> (\<exists>m. e = ValueError m)"

lemma leaked_simps [simp]:
  "leaked (ValueError m)" "leaked malformed" "leaked (validation_error m)"
  "leaked (ProviderException (toss_error k m))"
  by (simp_all add: leaked_def)

lemma instrument_fails [failing]: "fails_only (\<lambda>e. row_errors e \<or> leaked e) (instrument_of rd t r)"
proof -
  have "fails_only (\<lambda>e. row_errors e \<or> leaked e) (field r k)" "fails_only (\<lambda>e. row_errors e \<or> leaked e) (optional_bool r k)"
    "fails_only (\<lambda>e. row_errors e \<or> leaked e) (optional_date rd r k)" for k
    by (auto simp: fails_only_def field_def optional_bool_def optional_date_def row_errors_def
        split: option.splits json.splits if_splits)
  then show ?thesis unfolding instrument_of_def by (intro failing)
qed

lemma request_leaked: "raises_only leaked (provider_request env path params chart)"
  by (rule raises_weaken [OF request_raises]) (simp add: leaked_def)

lemma rows_leaked:
  "fails_only leaked (result_rows r)" "fails_only (\<lambda>e. row_errors e \<or> leaked e) (result_rows r)"
  by (rule fails_weaken [OF payload_fails(3)], simp add: leaked_def)+

lemma instrument_raises: "raises_only leaked (instrument env symbol)"
proof -
  have r: "raises_only leaked (except_as row_errors malformed
      (and_then (read_now env) (\<lambda>now. lift_res (instrument_of (ce_readers env) now r))))" for r
    by (intro raises_except raising_rules failing leaked_simps)
  have c: "raises_only leaked (case xs of [] \<Rightarrow> raising e | [r] \<Rightarrow> f r | _ \<Rightarrow> raising e')"
    if "leaked e" "leaked e'" "\<And>r. raises_only leaked (f r)" for xs :: "row list" and e e' and f :: "row \<Rightarrow> InstrumentSnapshot act"
    using that by (auto split: list.split intro: raising_rules)
  show ?thesis
    unfolding instrument_def Let_def by (intro raising_rules request_leaked rows_leaked c r leaked_simps)
qed

lemma stock_master_raises:
  "raises_only (\<lambda>e. leaked e \<or> ce_symbols env = Inl e) (stock_master env market)"
proof -
  have b: "raises_only leaked (stock_batch env b)" for b
    unfolding stock_batch_def by (intro raising_rules raises_except request_leaked rows_leaked failing leaked_simps)
  have "raises_only (\<lambda>e. leaked e \<or> ce_symbols env = Inl e) (stock_batch env b)" for b
    by (rule raises_weaken [OF b]) simp
  moreover have "fails_only (\<lambda>e. leaked e \<or> ce_symbols env = Inl e) (ce_symbols env)"
    by (simp add: fails_only_def)
  ultimately show ?thesis unfolding stock_master_def by (intro raising_rules disjI1 leaked_simps)
qed

lemma simple_raises:
  "raises_only request_error (minute_bars env symbol k)" "raises_only request_error (prices env symbols)"
  "raises_only request_error (warnings env symbol)"
proof -
  show "raises_only request_error (minute_bars env symbol k)"
    unfolding minute_bars_def
    by (intro raising_rules request_raises failing candle_except validation_error_request)
  show "raises_only request_error (prices env symbols)"
    unfolding prices_def Let_def
    by (intro raising_rules request_raises failing candle_except validation_error_request request_error_simps)
  let ?Q = "\<lambda>e. warning_errors e \<or> request_error e"
  have "fails_only ?Q (field r k)" "fails_only ?Q (optional_date rd r k)" "fails_only ?Q (warning_active rd d r)" for r k rd d
    by (auto simp: fails_only_def field_def optional_date_def warning_active_def bindE_eq_Inl warning_errors_def
        split: option.splits json.splits if_splits)
  then show "raises_only request_error (warnings env symbol)"
    unfolding warnings_def warning_row_def
    by (intro raising_rules request_raises failing raises_except request_error_simps)
qed

lemma fold_io_elements:
  "fold_io f x as s = (s', Inr y) \<Longrightarrow> a \<in> set as \<Longrightarrow> \<exists>x t t' z. f x a t = (t', Inr z)"
proof (induction "as" arbitrary: x s)
  case (Cons b bs)
  then show ?case by (auto simp: and_then_Inr)
qed simp

text \<open>The scan of a page for its oldest date only meets timestamps that were parsed before.\<close>

lemma page_dates:
  assumes "fold_io (daily_row env symbol start stop) d rows t = (t', Inr d')"
  shows "returns (mapE (row_date (ce_readers env)) rows)"
proof -
  have "returns (row_date (ce_readers env) r)" if r: "r \<in> set rows" for r
  proof -
    obtain x u u' z where "daily_row env symbol start stop x r u = (u', Inr z)"
      using fold_io_elements [OF assms r] by blast
    then obtain b where "daily_bar_of (ce_readers env) symbol r = Inr b"
      unfolding daily_row_def and_then_Inr by auto
    then show ?thesis unfolding daily_bar_of_def row_date_def bindE_eq_Inr by auto
  qed
  then show ?thesis by (simp add: mapE_returns list_all_iff)
qed

lemma page_raises: "raises_only request_error (daily_page env symbol start stop d c)"
proof -
  have f: "raises_only request_error (except_as candle_errors malformed (fold_io (daily_row env symbol start stop) d rows))" for rows
    unfolding daily_row_def by (intro candle_except raising_rules failing)
  have tail: "raises_only request_error (and_then (except_as candle_errors malformed (fold_io (daily_row env symbol start stop) d rows))
      (\<lambda>d'. and_then (lift_res (mapE (row_date (ce_readers env)) rows)) (\<lambda>dates. answer (g d' dates))))"
    for rows and g :: "_ \<Rightarrow> _ \<Rightarrow> (date, MarketBar) dict \<times> string option"
    unfolding raises_only_def
  proof (intro allI impI)
    fix s s' e
    assume "and_then (except_as candle_errors malformed (fold_io (daily_row env symbol start stop) d rows))
      (\<lambda>d'. and_then (lift_res (mapE (row_date (ce_readers env)) rows)) (\<lambda>dates. answer (g d' dates))) s = (s', Inl e)"
    then consider "except_as candle_errors malformed (fold_io (daily_row env symbol start stop) d rows) s = (s', Inl e)"
      | t d' where "fold_io (daily_row env symbol start stop) d rows s = (t, Inr d')" "mapE (row_date (ce_readers env)) rows = Inl e"
      unfolding and_then_Inl by (auto simp: lift_res_def answer_def)
    then show "request_error e"
    proof cases
      case 1
      then show ?thesis using f unfolding raises_only_def by blast
    next
      case 2
      then show ?thesis using page_dates by fastforce
    qed
  qed
  show ?thesis unfolding daily_page_def by (intro raising_rules request_raises failing tail)
qed

lemma daily_bars_raises:
  assumes "daily_bars env symbol start stop s = Some (s', Inl e)"
  shows "request_error e"
proof (cases "stop < start")
  case False
  then obtain r where l: "daily_loop env symbol start stop [] [] (first_cursor (ce_readers env) stop) s = Some (s', r)" "r = Inl e"
    using assms by (auto simp: daily_bars_def bindE_eq_Inl)
  show ?thesis
    using daily_loop_rule [OF l(1), of "\<lambda>_ _ _ _. True"] l(2) page_raises unfolding raises_only_def by auto
qed (use assms in \<open>auto simp: daily_bars_def\<close>)

text \<open>The same for the candle loop, which may have no end.\<close>

definition ends_raising_only :: "(py_exc \<Rightarrow> bool) \<Rightarrow> ('s \<Rightarrow> ('s \<times> 'a res) option) \<Rightarrow> bool" where
  "ends_raising_only Q m \<longleftrightarrow> (\<forall>s s' e. m s = Some (s', Inl e) \<longrightarrow> Q e)"

text \<open>
  C24. Which exceptions leave the adapter. Candles, prices and warnings end in a provider error of the
  adapter, a transport error of the client or an overflow of the token's expiry, whatever the service
  answers. The instrument readers let a \<open>ValueError\<close> through as well, and there is a service that
  makes them: one whose list date is no date.
\<close>

theorem operation_errors:
  "raises_only request_error (minute_bars env symbol k) \<and> raises_only request_error (prices env symbols)
    \<and> raises_only request_error (warnings env symbol)
    \<and> ends_raising_only request_error (daily_bars env symbol start stop)
    \<and> raises_only leaked (instrument env symbol)
    \<and> raises_only (\<lambda>e. leaked e \<or> ce_symbols env = Inl e) (stock_master env market)
    \<and> (\<exists>bad s s' m. instrument bad ''005930'' s = (s', Inl (ValueError m)))"
proof -
  let ?row = "[(''symbol'', JStr ''005930''), (''name'', JStr ''A''), (''market'', JStr ''KOSPI''), (''currency'', JStr ''KRW''),
      (''listDate'', JStr ''x'')]"
  let ?s = "new_client\<lparr>cl_token := Some ''T'', cl_expires_at := 100000000\<rparr>"
  let ?bad = "(demo_service JNull)\<lparr>ce_now := (\<lambda>n. 0), ce_reply := (\<lambda>n q. Answered (ok_response (JList [JObj ?row])))\<rparr>"
  have "\<exists>s'. provider_request ?bad stocks_path [(''symbols'', ''005930'')] False ?s = (s', Inr (ok_response (JList [JObj ?row])))"
    using loop_recovers [of ?bad ?s 0 0 "ok_response (JList [JObj ?row])" stocks_path "[(''symbols'', ''005930'')]" False False]
    by (auto simp: token_lasts_def demo_service_def provider_request_def ok_response_def)
  then have "\<exists>s' m. instrument ?bad ''005930'' ?s = (s', Inl (ValueError m))"
    by (auto simp: instrument_def and_then_def result_rows_def object_def ok_response_def rows_of_def lift_res_def py_str_def
        except_as_def row_errors_def read_now_def instrument_of_def field_def optional_bool_def optional_date_def
        demo_service_def no_readers_def)
  then show ?thesis
    using simple_raises instrument_raises stock_master_raises daily_bars_raises unfolding ends_raising_only_def by blast
qed

section \<open>Prices\<close>

text \<open>
  A price batch is answered for exactly the symbols asked for, each once, with prices from zero up;
  only batches of 1 to 100 distinct symbols are sent at all.
\<close>

theorem prices_complete:
  assumes "prices env symbols s = (s', Inr quotes)"
  shows "mset (map q_symbol quotes) = mset symbols \<and> list_all (\<lambda>q. 0 \<le> q_price q) quotes
    \<and> distinct symbols \<and> 1 \<le> length symbols \<and> length symbols \<le> 100"
proof -
  have g: "1 \<le> length symbols" "length symbols \<le> 100" "distinct symbols"
    using assms by (auto simp: prices_def max_price_symbols_def split: if_splits)
  obtain rows where q: "mapE (quote_of (ce_readers env)) rows = Inr quotes"
    and u: "distinct (map q_symbol quotes)" "set (map q_symbol quotes) = set symbols"
    using assms g by (auto simp: prices_def max_price_symbols_def and_then_Inr Let_def split: if_splits)
  have "0 \<le> q_price p" if p: "p \<in> set quotes" for p
  proof -
    obtain i where "i < length quotes" "p = quotes ! i" using p by (auto simp: in_set_conv_nth)
    then have "quote_of (ce_readers env) (rows ! i) = Inr p" using mapE_nth [OF q] mapE_length [OF q] by simp
    then show ?thesis unfolding quote_of_def validate_quote_def bindE_eq_Inr by auto
  qed
  moreover have "mset (map q_symbol quotes) = mset symbols" using u g(3) set_eq_iff_mset_eq_distinct by blast
  ultimately show ?thesis using g by (simp add: list_all_iff)
qed

definition quote_row :: row where
  "quote_row = [(''symbol'', JStr ''005930''), (''lastPrice'', JStr ''70''), (''currency'', JStr ''KRW''), (''timestamp'', JStr ''t'')]"

definition quote_service :: client_env where
  "quote_service = (demo_service JNull)\<lparr>ce_now := (\<lambda>n. 0),
     ce_reply := (\<lambda>n q. Answered (ok_response (JList [JObj quote_row])))\<rparr>"

definition with_token :: client where
  "with_token = new_client\<lparr>cl_token := Some ''T'', cl_expires_at := 100000000\<rparr>"

definition one_quote :: QuoteSnapshot where
  "one_quote = \<lparr>q_symbol = ''005930'', q_price = 70, q_currency = ''KRW'', q_source = ''toss'', q_as_of = 0, q_delayed = None\<rparr>"

lemma quote_row_value: "quote_of no_readers quote_row = Inr one_quote"
  by code_simp

lemma prices_complete_witness:
  "\<exists>s'. prices quote_service [''005930''] with_token = (s', Inr [one_quote]) \<and> mset (map q_symbol [one_quote]) = {#''005930''#}"
proof -
  obtain t where t: "provider_request quote_service prices_path [(''symbols'', ''005930'')] False with_token
      = (t, Inr (ok_response (JList [JObj quote_row])))"
    using loop_recovers [of quote_service with_token 0 0 "ok_response (JList [JObj quote_row])" prices_path "[(''symbols'', ''005930'')]" False False]
    by (auto simp: token_lasts_def quote_service_def demo_service_def provider_request_def ok_response_def with_token_def)
  have e: "ce_readers quote_service = no_readers" by (simp add: quote_service_def demo_service_def)
  have p: "prices quote_service [''005930''] with_token = (t, Inr [one_quote])"
    by (simp add: prices_def max_price_symbols_def and_then_def t result_rows_def object_def ok_response_def rows_of_def
        lift_res_def except_as_def e quote_row_value answer_def) (simp add: one_quote_def)
  from prices_complete [OF p] p show ?thesis by simp
qed

section \<open>The provider's status\<close>

definition refuses_tokens :: "client_env \<Rightarrow> bool" where
  "refuses_tokens env \<longleftrightarrow> (\<forall>n i c. \<exists>r. ce_reply env n (TokenPost i c) = Answered r \<and> rs_status r = 401)"

lemma issue_refused:
  assumes "refuses_tokens env"
  shows "\<exists>s' e. issue_token env s = (s', Inl (ProviderException e)) \<and> er_kind e = ProviderAuthenticationError
    \<and> cl_last_failure s' = cl_last_failure s \<and> cl_last_success s' = cl_last_success s"
proof -
  obtain r where "ce_reply env (length (cl_sent s)) (TokenPost (ce_client_id env) (ce_client_secret env)) = Answered r" "rs_status r = 401"
    using assms unfolding refuses_tokens_def by blast
  then show ?thesis
    by (auto simp: issue_token_def and_then_def send_def read_now_def raising_def response_error_def Let_def split: prod.splits)
qed

lemma get_refused:
  assumes "refuses_tokens env" and "cl_token s = None"
  shows "\<exists>s' e. get_token env s = (s', Inl (ProviderException e)) \<and> er_kind e = ProviderAuthenticationError
    \<and> cl_last_failure s' = cl_last_failure s \<and> cl_last_success s' = cl_last_success s"
  using issue_refused [OF assms(1), of "s\<lparr>cl_reads := Suc (Suc (cl_reads s))\<rparr>"] assms(2)
  by (auto simp: get_token_def and_then_def read_now_def token_valid_def)

text \<open>
  C25. The provider's status is degraded exactly when the last recorded failure is newer than the last
  success. A refused token is not recorded: when the service rejects the client's credentials, every
  request of a new client fails with an authentication error and the status stays available.
\<close>

theorem toss_status_by_record:
  assumes "ce_configured env"
  shows "(\<exists>t st. toss_status env host s = (t, Inr st) \<and> ps_state st = (if \<exists>f. cl_last_failure s = Some f
        \<and> (\<forall>ok. cl_last_success s = Some ok \<longrightarrow> ok < f) then DEGRADED else AVAILABLE))
    \<and> (refuses_tokens env \<longrightarrow> (\<exists>s' e t st. provider_request env path params chart new_client = (s', Inl (ProviderException e))
        \<and> er_kind e = ProviderAuthenticationError
        \<and> toss_status env host s' = (t, Inr st) \<and> ps_state st = AVAILABLE))"
proof (intro conjI impI)
  show "\<exists>t st. toss_status env host s = (t, Inr st) \<and> ps_state st = (if \<exists>f. cl_last_failure s = Some f
        \<and> (\<forall>ok. cl_last_success s = Some ok \<longrightarrow> ok < f) then DEGRADED else AVAILABLE)"
    using assms by (cases "cl_last_failure s"; cases "cl_last_success s")
      (simp_all add: toss_status_def and_then_def read_now_def)
  assume "refuses_tokens env"
  from get_refused [OF this, of new_client] obtain s' e where g: "get_token env new_client = (s', Inl (ProviderException e))"
    "er_kind e = ProviderAuthenticationError" "cl_last_failure s' = None"
    by (auto simp: new_client_def)
  have "provider_request env path params chart new_client = (s', Inl (ProviderException e))"
    using assms g(1) by (simp add: provider_request_def request_loop.simps [of env path params chart 0 False new_client]
        turn_def and_then_def)
  then show "\<exists>s' e t st. provider_request env path params chart new_client = (s', Inl (ProviderException e))
        \<and> er_kind e = ProviderAuthenticationError
        \<and> toss_status env host s' = (t, Inr st) \<and> ps_state st = AVAILABLE"
    using assms g by (auto simp: toss_status_def and_then_def read_now_def)
qed

definition refusing_service :: client_env where
  "refusing_service = (demo_service JNull)\<lparr>ce_reply := (\<lambda>n q. Answered (token_response\<lparr>rs_status := 401\<rparr>))\<rparr>"

lemma toss_status_by_record_witness:
  "\<exists>s' e t st. provider_request refusing_service prices_path [] False new_client = (s', Inl (ProviderException e))
    \<and> toss_status refusing_service None s' = (t, Inr st) \<and> ps_state st = AVAILABLE"
proof -
  have "ce_configured refusing_service" "refuses_tokens refusing_service"
    by (simp_all add: refusing_service_def refuses_tokens_def demo_service_def)
  with toss_status_by_record [of refusing_service None new_client prices_path "[]" False] show ?thesis by blast
qed

end
