(* ===== verification/Toss_Tokens.thy ===== *)
theory Toss_Tokens
  imports Toss_Client
begin

text \<open>
  Several tasks sharing one \<open>TokenManager\<close>, \<open>modules/market/infrastructure/toss.py\<close>: \<open>get\<close> with its check
  before and after the lock, the issue awaited while the lock is held, and \<open>invalidate\<close>. A step is
  what one task does between two awaits; the clock moves between steps. The history variables record
  the tokens issued and the tokens rejected.
\<close>

section \<open>Steps\<close>

datatype phase = Idle | Waiting | Issuing | Holding string

record tokens =
  tk_token :: "string option"
  tk_expires :: datetime
  tk_now :: datetime
  tk_lock :: "nat option"
  tk_phase :: "nat \<Rightarrow> phase"
  tk_issued :: "(string \<times> datetime) list"
  tk_rejected :: "string list"

definition tokens_valid :: "int \<Rightarrow> tokens \<Rightarrow> bool" where
  "tokens_valid skew s \<longleftrightarrow> tk_token s \<noteq> None \<and> tk_now s + skew < tk_expires s"

definition to_phase :: "nat \<Rightarrow> phase \<Rightarrow> tokens \<Rightarrow> tokens" where
  "to_phase t p s = s\<lparr>tk_phase := (tk_phase s)(t := p)\<rparr>"

definition fresh_tokens :: "datetime \<Rightarrow> tokens" where
  "fresh_tokens now = \<lparr>tk_token = None, tk_expires = datetime_min, tk_now = now, tk_lock = None,
     tk_phase = (\<lambda>t. Idle), tk_issued = [], tk_rejected = []\<rparr>"

inductive token_step :: "int \<Rightarrow> tokens \<Rightarrow> tokens \<Rightarrow> bool" for skew where
  passes: "tk_now s \<le> now \<Longrightarrow> token_step skew s (s\<lparr>tk_now := now\<rparr>)"
| cached: "tk_phase s t = Idle \<Longrightarrow> tokens_valid skew s \<Longrightarrow> tk_token s = Some tok
    \<Longrightarrow> token_step skew s (to_phase t (Holding tok) s)"
| queues: "tk_phase s t = Idle \<Longrightarrow> \<not> tokens_valid skew s \<Longrightarrow> token_step skew s (to_phase t Waiting s)"
| reuses: "tk_phase s t = Waiting \<Longrightarrow> tk_lock s = None \<Longrightarrow> tokens_valid skew s \<Longrightarrow> tk_token s = Some tok
    \<Longrightarrow> token_step skew s (to_phase t (Holding tok) s)"
| starts: "tk_phase s t = Waiting \<Longrightarrow> tk_lock s = None \<Longrightarrow> \<not> tokens_valid skew s
    \<Longrightarrow> token_step skew s (to_phase t Issuing (s\<lparr>tk_lock := Some t\<rparr>))"
| issued: "tk_phase s t = Issuing \<Longrightarrow> tk_lock s = Some t \<Longrightarrow> expires \<le> datetime_max
    \<Longrightarrow> token_step skew s (to_phase t (Holding tok) (s\<lparr>tk_token := Some tok, tk_expires := expires, tk_lock := None,
        tk_issued := tk_issued s @ [(tok, expires)]\<rparr>))"
| overflow: "tk_phase s t = Issuing \<Longrightarrow> tk_lock s = Some t
    \<Longrightarrow> token_step skew s (to_phase t Idle (s\<lparr>tk_token := Some tok, tk_lock := None,
        tk_issued := tk_issued s @ [(tok, tk_expires s)]\<rparr>))"
| refused: "tk_phase s t = Issuing \<Longrightarrow> tk_lock s = Some t
    \<Longrightarrow> token_step skew s (to_phase t Idle (s\<lparr>tk_lock := None\<rparr>))"
| rejected: "tk_phase s t = Holding tok \<Longrightarrow> tk_lock s = None
    \<Longrightarrow> token_step skew s (to_phase t Idle (s\<lparr>tk_token := (if tk_token s = Some tok then None else tk_token s),
        tk_expires := (if tk_token s = Some tok then datetime_min else tk_expires s),
        tk_rejected := tk_rejected s @ [tok]\<rparr>))"
| finished: "tk_phase s t = Holding tok \<Longrightarrow> token_step skew s (to_phase t Idle s)"

inductive tokens_reachable :: "int \<Rightarrow> tokens \<Rightarrow> bool" for skew where
  fresh: "datetime_min \<le> now + skew \<Longrightarrow> tokens_reachable skew (fresh_tokens now)"
| step: "tokens_reachable skew s \<Longrightarrow> token_step skew s s' \<Longrightarrow> tokens_reachable skew s'"

inductive_cases token_stepE: "token_step skew s s'"

section \<open>The invariant\<close>

definition spent :: "int \<Rightarrow> tokens \<Rightarrow> string \<times> datetime \<Rightarrow> bool" where
  "spent skew s p \<longleftrightarrow> snd p \<le> tk_now s + skew \<or> fst p \<in> set (tk_rejected s)"

text \<open>The newest token issued is the stored one, with its expiry, or spent.\<close>

definition newest_ok :: "int \<Rightarrow> tokens \<Rightarrow> bool" where
  "newest_ok skew s \<longleftrightarrow> tk_issued s = [] \<or> tk_token s \<noteq> None \<and> last (tk_issued s) = (the (tk_token s), tk_expires s)
     \<or> spent skew s (last (tk_issued s))"

definition tokens_inv :: "int \<Rightarrow> tokens \<Rightarrow> bool" where
  "tokens_inv skew s \<longleftrightarrow> (\<forall>t. tk_phase s t = Issuing \<longleftrightarrow> tk_lock s = Some t)
     \<and> (tk_lock s \<noteq> None \<longrightarrow> \<not> tokens_valid skew s)
     \<and> (tk_token s = None \<longrightarrow> tk_expires s = datetime_min)
     \<and> datetime_min \<le> tk_now s + skew
     \<and> (\<forall>p \<in> set (butlast (tk_issued s)). spent skew s p)
     \<and> newest_ok skew s"

lemma spent_mono:
  "spent skew s p \<Longrightarrow> tk_now s \<le> tk_now s' \<Longrightarrow> set (tk_rejected s) \<subseteq> set (tk_rejected s') \<Longrightarrow> spent skew s' p"
  by (auto simp: spent_def)

text \<open>A step that neither changes the token nor the log, and the two that do.\<close>

lemma not_valid_spent:
  assumes "tokens_inv skew s" and "tk_lock s = Some t" and "p \<in> set (tk_issued s)"
  shows "spent skew s p"
proof -
  have nv: "\<not> tokens_valid skew s" using assms unfolding tokens_inv_def by blast
  show ?thesis
  proof (cases "p \<in> set (butlast (tk_issued s))")
    case True
    then show ?thesis using assms(1) unfolding tokens_inv_def by blast
  next
    case False
    have ne: "tk_issued s \<noteq> []" using assms(3) by auto
    then have "set (tk_issued s) = insert (last (tk_issued s)) (set (butlast (tk_issued s)))"
      using append_butlast_last_id [OF ne] by (metis rotate1.simps(2) set_rotate1 list.simps(15))
    then have p: "p = last (tk_issued s)" using False assms(3) by blast
    from assms(1) ne consider "last (tk_issued s) = (the (tk_token s), tk_expires s)" "tk_token s \<noteq> None"
      | "spent skew s (last (tk_issued s))"
      unfolding tokens_inv_def newest_ok_def by blast
    then show ?thesis
      using nv unfolding p by cases (auto simp: spent_def tokens_valid_def)
  qed
qed

lemma phase_inv:
  assumes "tokens_inv skew s" and "tk_phase s t \<noteq> Issuing" and "p \<noteq> Issuing"
  shows "tokens_inv skew (to_phase t p s)"
proof -
  have "tk_lock s \<noteq> Some t" using assms unfolding tokens_inv_def by blast
  moreover have "spent skew (to_phase t p s) = spent skew s" by (rule ext) (simp add: spent_def to_phase_def)
  ultimately show ?thesis
    using assms unfolding tokens_inv_def newest_ok_def tokens_valid_def by (simp add: to_phase_def)
qed

lemma tokens_inv_step:
  assumes "token_step skew s s'" and "tokens_inv skew s"
  shows "tokens_inv skew s'"
  using assms(1)
proof (cases rule: token_step.cases)
  case (passes now)
  have mono: "spent skew s' p" if "spent skew s p" for p
    using spent_mono [OF that, of s'] passes by simp
  have "newest_ok skew s \<Longrightarrow> newest_ok skew s'" unfolding newest_ok_def using mono [of "last (tk_issued s)"] passes by auto
  then show ?thesis using assms(2) passes mono unfolding tokens_inv_def tokens_valid_def by auto
next
  case (issued t expires tok)
  have sp: "spent skew s' p" if "p \<in> set (tk_issued s)" for p
    using not_valid_spent [OF assms(2) issued(3) that] issued(1) by (simp add: spent_def to_phase_def)
  show ?thesis using assms(2) issued sp
    by (auto simp: tokens_inv_def to_phase_def tokens_valid_def newest_ok_def)
next
  case (overflow t tok)
  have sp: "spent skew s' p" if "p \<in> set (tk_issued s)" for p
    using not_valid_spent [OF assms(2) overflow(3) that] overflow(1) by (simp add: spent_def to_phase_def)
  show ?thesis using assms(2) overflow sp
    by (auto simp: tokens_inv_def to_phase_def tokens_valid_def newest_ok_def)
next
  case (rejected t tok)
  have mono: "spent skew s' p" if "spent skew s p" for p
    using that rejected(1) by (auto simp: spent_def to_phase_def)
  have "newest_ok skew s'" if "newest_ok skew s"
    using that [unfolded newest_ok_def]
  proof (elim disjE conjE)
    assume "tk_token s \<noteq> None" "last (tk_issued s) = (the (tk_token s), tk_expires s)"
    then show ?thesis
      by (cases "tk_token s = Some tok") (auto simp: newest_ok_def rejected(1) to_phase_def spent_def)
  next
    assume "spent skew s (last (tk_issued s))"
    from mono [OF this] show ?thesis unfolding newest_ok_def by (simp add: rejected(1) to_phase_def)
  qed (simp add: newest_ok_def rejected(1) to_phase_def)
  then show ?thesis
    using assms(2) rejected(1-3) mono by (auto simp: tokens_inv_def to_phase_def tokens_valid_def)
next
  case (starts t)
  have "spent skew s' = spent skew s" by (rule ext) (simp add: spent_def to_phase_def starts(1))
  then show ?thesis
    using assms(2) starts unfolding tokens_inv_def newest_ok_def tokens_valid_def by (auto simp: to_phase_def)
next
  case (refused t)
  have "spent skew s' = spent skew s" by (rule ext) (simp add: spent_def to_phase_def refused(1))
  then show ?thesis
    using assms(2) refused unfolding tokens_inv_def newest_ok_def tokens_valid_def by (auto simp: to_phase_def)
qed (use assms(2) in \<open>simp_all add: phase_inv\<close>)

lemma tokens_reachable_inv: "tokens_reachable skew s \<Longrightarrow> tokens_inv skew s"
proof (induction rule: tokens_reachable.induct)
  case (fresh now)
  then show ?case by (simp add: tokens_inv_def fresh_tokens_def newest_ok_def)
qed (rule tokens_inv_step)

text \<open>
  C22. Refreshes coalesce: however many tasks share the manager and however their steps interleave, at
  most one of them is issuing a token, nobody issues while the stored token is valid, and every token
  but the newest one issued had expired or been rejected.
\<close>

theorem tokens_coalesce:
  assumes "tokens_reachable skew s"
  shows "(\<forall>t u. tk_phase s t = Issuing \<longrightarrow> tk_phase s u = Issuing \<longrightarrow> t = u)
    \<and> (\<forall>t. tk_phase s t = Issuing \<longrightarrow> \<not> tokens_valid skew s)
    \<and> (\<forall>p \<in> set (butlast (tk_issued s)). snd p \<le> tk_now s + skew \<or> fst p \<in> set (tk_rejected s))"
proof -
  have inv: "tokens_inv skew s" using assms by (rule tokens_reachable_inv)
  then have "tk_phase s t = Issuing \<Longrightarrow> tk_lock s = Some t" for t by (simp add: tokens_inv_def)
  then show ?thesis using inv unfolding tokens_inv_def spent_def by (metis option.distinct(1) option.inject)
qed

text \<open>A task that is issued a token, has it rejected, and is issued another.\<close>

definition renewal :: "tokens list" where
  "renewal = (let s0 = fresh_tokens 0; s1 = to_phase 0 Waiting s0; s2 = to_phase 0 Issuing (s1\<lparr>tk_lock := Some 0\<rparr>);
     s3 = to_phase 0 (Holding ''A'') (s2\<lparr>tk_token := Some ''A'', tk_expires := 1000000000, tk_lock := None,
        tk_issued := [(''A'', 1000000000)]\<rparr>);
     s4 = to_phase 0 Idle (s3\<lparr>tk_token := None, tk_expires := datetime_min, tk_rejected := [''A'']\<rparr>);
     s5 = to_phase 0 Waiting s4; s6 = to_phase 0 Issuing (s5\<lparr>tk_lock := Some 0\<rparr>);
     s7 = to_phase 0 (Holding ''B'') (s6\<lparr>tk_token := Some ''B'', tk_expires := 2000000000, tk_lock := None,
        tk_issued := [(''A'', 1000000000), (''B'', 2000000000)]\<rparr>)
   in [s0, s1, s2, s3, s4, s5, s6, s7])"

lemma renewal_reachable: "tokens_reachable 30000000 (last renewal)"
proof -
  have step: "token_step 30000000 (renewal ! i) (renewal ! Suc i)" if i: "i < 7" for i
  proof -
    note q = token_step.queues [where t = 0] token_step.starts [where t = 0] token_step.issued [where t = 0 and expires = 1000000000 and tok = "''A''"]
      token_step.issued [where t = 0 and expires = 2000000000 and tok = "''B''"] token_step.rejected [where t = 0 and tok = "''A''"]
    consider "i = 0" | "i = 1" | "i = 2" | "i = 3" | "i = 4" | "i = 5" | "i = 6" using i by linarith
    then show ?thesis
    proof cases
      case 1 then show ?thesis
        using q(1) [where s = "renewal ! 0" and skew = 30000000] by (simp add: renewal_def fresh_tokens_def tokens_valid_def to_phase_def)
    next
      case 2 then show ?thesis
        using q(2) [where s = "renewal ! 1" and skew = 30000000] by (simp add: renewal_def fresh_tokens_def tokens_valid_def to_phase_def)
    next
      case 3 then show ?thesis
        using q(3) [where s = "renewal ! 2" and skew = 30000000] by (simp add: renewal_def fresh_tokens_def to_phase_def datetime_max_def numeral_3_eq_3)
    next
      case 4 then show ?thesis
        using q(5) [where s = "renewal ! 3" and skew = 30000000] by (simp add: renewal_def fresh_tokens_def to_phase_def eval_nat_numeral)
    next
      case 5 then show ?thesis
        using q(1) [where s = "renewal ! 4" and skew = 30000000] by (simp add: renewal_def fresh_tokens_def tokens_valid_def to_phase_def eval_nat_numeral)
    next
      case 6 then show ?thesis
        using q(2) [where s = "renewal ! 5" and skew = 30000000] by (simp add: renewal_def fresh_tokens_def tokens_valid_def to_phase_def eval_nat_numeral)
    next
      case 7 then show ?thesis
        using q(4) [where s = "renewal ! 6" and skew = 30000000] by (simp add: renewal_def fresh_tokens_def to_phase_def datetime_max_def eval_nat_numeral)
    qed
  qed
  have "tokens_reachable 30000000 (renewal ! i)" if "i \<le> 7" for i
    using that
  proof (induction i)
    case 0
    show ?case using tokens_reachable.fresh [of 0 30000000] by (simp add: renewal_def datetime_min_def Let_def)
  next
    case (Suc i)
    then show ?case using tokens_reachable.step step by auto
  qed
  from this [of 7] show ?thesis by (simp add: renewal_def Let_def)
qed

lemma tokens_coalesce_witness:
  "\<exists>s :: tokens. tk_issued s = [(''A'', 1000000000), (''B'', 2000000000)] \<and> ''A'' \<in> set (tk_rejected s)"
proof -
  have l: "tk_issued (last renewal) = [(''A'', 1000000000), (''B'', 2000000000)]" "tk_now (last renewal) = 0"
    by (simp_all add: renewal_def to_phase_def fresh_tokens_def)
  from tokens_coalesce [OF renewal_reachable] have "''A'' \<in> set (tk_rejected (last renewal))" by (simp add: l)
  with l show ?thesis by blast
qed

end
