(* ===== verification/Realtime.thy ===== *)
theory Realtime
  imports Swing Ranking
begin

text \<open>
  The analysis of one live instrument, \<open>modules/market/technical_analysis.py\<close>: minute bars joined into
  longer ones, the intraday and the daily summary, the support and resistance levels, and the narrative.
  The sentences of the narrative are values: a constructor per sentence of the source with the numbers
  it prints, rounded as it prints them; their Korean wording is left out. Seoul is nine hours ahead of
  UTC, as it has been since 1988.
\<close>

section \<open>Values\<close>

datatype Trend = Bullish | Pullback | Neutral | Bearish | Insufficient

record SetupProgress =
  sp_passed_rules :: nat
  sp_total_rules :: nat

record DailySummary =
  ds_screening_trading_date :: "date option"
  ds_trend :: Trend
  ds_previous_close :: "decimal option"
  ds_change_pct :: "decimal option"
  ds_sma20 :: "decimal option"
  ds_sma60 :: "decimal option"
  ds_ema20 :: "decimal option"
  ds_atr_pct :: "decimal option"
  ds_recent_high_20 :: "decimal option"
  ds_recent_low_20 :: "decimal option"
  ds_screening_passed :: bool
  ds_matched_setups :: "string list"
  ds_primary_setup :: "string option"
  ds_total_score :: "decimal option"
  ds_score_threshold :: decimal
  ds_meets_score_threshold :: bool
  ds_common_failures :: "reason list"
  ds_setup_progress :: "(string, SetupProgress) dict"

record IntradaySummary =
  is_timeframe :: string
  is_trend :: Trend
  is_candle_count :: nat
  is_session_open :: "decimal option"
  is_session_high :: "decimal option"
  is_session_low :: "decimal option"
  is_change_from_open_pct :: "decimal option"
  is_sma5 :: "decimal option"
  is_sma20 :: "decimal option"
  is_vwap :: "decimal option"
  is_momentum_5_pct :: "decimal option"
  is_latest_volume_ratio :: "decimal option"
  is_recent_high_20 :: "decimal option"
  is_recent_low_20 :: "decimal option"

datatype basis = IntradayVwap | IntradaySma20 string | SessionLow | SessionHigh | RecentLow string | RecentHigh string
  | DailySma20 | PriorLow20 | PriorHigh20

record PriceLevel =
  pl_price :: decimal
  pl_basis :: "basis list"

record TechnicalLevels =
  tl_supports :: "PriceLevel list"
  tl_resistances :: "PriceLevel list"

datatype outlook = BothUp | UpCorrecting | DownFirst | Mixed

datatype observation = PriceChange decimal "decimal option" | IntradayChange string "decimal option" decimal
  | NoVwap string | SetupPassed "string option" decimal | NoSetup

datatype confirmation = AboveResistance decimal string | HoldVwap decimal | AwaitBreakout

datatype invalidation = BelowSupport decimal | NoSupport

datatype risk = WarningText string | WarningKind string | DelayedQuote | DailyDowntrend | FarAboveVwap | ThinVolume | NoRisk

record Narrative =
  na_verdict :: outlook
  na_observations :: "observation list"
  na_entry_confirmation :: confirmation
  na_invalidation :: invalidation
  na_risk_flags :: "risk list"

record RealtimeAnalysis =
  ra_instrument :: InstrumentSnapshot
  ra_quote :: QuoteSnapshot
  ra_as_of :: datetime
  ra_daily_bars :: "MarketBar list"
  ra_intraday_bars :: "(string, MinuteBar list) dict"
  ra_daily :: DailySummary
  ra_intraday :: "(string, IntradaySummary) dict"
  ra_levels :: TechnicalLevels
  ra_narrative :: Narrative
  ra_warnings :: "StockWarning list"

section \<open>Arithmetic\<close>

definition price_ratio :: "decimal \<Rightarrow> decimal \<Rightarrow> decimal option res" where
  "price_ratio value base = (if base \<le> 0 then Inr None
     else bindE (dquantize half_up (1 / 10000) (dquot (dsub value base) base)) (\<lambda>r. Inr (Some r)))"

definition mean_of :: "decimal list \<Rightarrow> decimal option" where
  "mean_of xs = (if xs = [] then None else Some (dquot (dsum xs) (of_nat (length xs))))"

definition price_text :: "decimal \<Rightarrow> decimal res" where
  "price_text v = dquantize half_up (1 / 100) v"

definition percent_text :: "decimal option \<Rightarrow> decimal option res" where
  "percent_text v = (case v of None \<Rightarrow> Inr None
     | Some x \<Rightarrow> bindE (dquantize half_up (1 / 100) (dmul x 100)) (\<lambda>r. Inr (Some r)))"

section \<open>Longer minute bars\<close>

definition seoul_offset :: int where
  "seoul_offset = 9 * 3600 * 1000000"

definition seoul_date :: "datetime \<Rightarrow> date" where
  "seoul_date t = (t + seoul_offset) div 86400000000 + 719163"

text \<open>The hour of a timestamp on the wall clock of Seoul, and the minutes since, cut to a multiple.\<close>

definition bucket_of :: "int \<Rightarrow> datetime \<Rightarrow> datetime" where
  "bucket_of minutes t = (let wall = t + seoul_offset; rest = wall mod 3600000000
     in wall - rest + (rest div 60000000) div minutes * minutes * 60000000 - seoul_offset)"

definition merged_bar :: "datetime \<times> MinuteBar list \<Rightarrow> MinuteBar res" where
  "merged_bar p = (let (bucket, values) = p in
     if card (mn_currency ` set values) \<noteq> 1 \<or> card (mn_symbol ` set values) \<noteq> 1
     then Inl (ValueError ''minute bars cannot mix symbols or currencies'')
     else validate_minute_bar \<lparr>mn_symbol = mn_symbol (hd values), mn_timestamp = bucket, mn_timestamp_aware = True,
       mn_open = mn_open (hd values), mn_high = max_of (map mn_high values), mn_low = min_of (map mn_low values),
       mn_close = mn_close (last values), mn_volume = sum_list (map mn_volume values),
       mn_currency = mn_currency (hd values), mn_source = mn_source (hd values),
       mn_as_of = foldl max (mn_as_of (hd values)) (map mn_as_of (tl values)), mn_as_of_aware = True\<rparr>)"

definition bucketed :: "int \<Rightarrow> MinuteBar list \<Rightarrow> (datetime, MinuteBar list) dict" where
  "bucketed minutes bars = groups (\<lambda>b. bucket_of minutes (mn_timestamp b)) (sort_key mn_timestamp bars)"

definition aggregate_minute_bars :: "MinuteBar list \<Rightarrow> int \<Rightarrow> MinuteBar list res" where
  "aggregate_minute_bars bars minutes =
    (if minutes \<le> 0 then Inl (ValueError ''minutes must be positive'')
     else if minutes = 1 then Inr bars
     else mapE merged_bar (sort_key fst (bucketed minutes bars)))"

section \<open>The intraday summary\<close>

definition typical_value :: "MinuteBar \<Rightarrow> decimal" where
  "typical_value b = dmul (dquot (dadd (dadd (mn_high b) (mn_low b)) (mn_close b)) 3) (of_int (mn_volume b))"

definition vwap :: "MinuteBar list \<Rightarrow> decimal option" where
  "vwap bars = (let total = sum_list (map mn_volume bars) in
     if total \<le> 0 then None else Some (dquot (dsum (map typical_value bars)) (of_int total)))"

definition opt_le :: "decimal option \<Rightarrow> decimal \<Rightarrow> bool" where
  "opt_le m x = (case m of None \<Rightarrow> True | Some y \<Rightarrow> y \<le> x)"

definition opt_ge :: "decimal option \<Rightarrow> decimal \<Rightarrow> bool" where
  "opt_ge m x = (case m of None \<Rightarrow> True | Some y \<Rightarrow> x \<le> y)"

definition intraday_trend :: "decimal \<Rightarrow> decimal option \<Rightarrow> decimal option \<Rightarrow> decimal option \<Rightarrow> Trend" where
  "intraday_trend price s5 s20 vw = (case (s5, s20) of
     (Some a, Some b) \<Rightarrow>
       if a \<le> price \<and> b \<le> a \<and> opt_le vw price then Bullish
       else if price \<le> a \<and> a \<le> b \<and> opt_ge vw price then Bearish
       else Neutral
   | (None, Some b) \<Rightarrow> Neutral
   | (_, None) \<Rightarrow> Insufficient)"

definition list_max :: "decimal list \<Rightarrow> decimal option" where
  "list_max xs = (if xs = [] then None else Some (max_of xs))"

definition list_min :: "decimal list \<Rightarrow> decimal option" where
  "list_min xs = (if xs = [] then None else Some (min_of xs))"

definition no_candles :: "string \<Rightarrow> IntradaySummary" where
  "no_candles timeframe = \<lparr>is_timeframe = timeframe, is_trend = Insufficient, is_candle_count = 0, is_session_open = None,
     is_session_high = None, is_session_low = None, is_change_from_open_pct = None, is_sma5 = None, is_sma20 = None,
     is_vwap = None, is_momentum_5_pct = None, is_latest_volume_ratio = None, is_recent_high_20 = None,
     is_recent_low_20 = None\<rparr>"

definition session_of :: "MinuteBar list \<Rightarrow> MinuteBar list" where
  "session_of bars = filter (\<lambda>b. seoul_date (mn_timestamp b) = seoul_date (mn_timestamp (last bars))) bars"

definition volume_ratio :: "MinuteBar list \<Rightarrow> decimal option" where
  "volume_ratio bars = (case mean_of (map (\<lambda>b. of_int (mn_volume b)) (prior_n 20 bars)) of
     None \<Rightarrow> None | Some a \<Rightarrow> if 0 < a then Some (dquot (of_int (mn_volume (last bars))) a) else None)"

definition intraday_summary :: "string \<Rightarrow> MinuteBar list \<Rightarrow> decimal \<Rightarrow> IntradaySummary res" where
  "intraday_summary timeframe bars price =
    (if bars = [] then Inr (no_candles timeframe)
     else let session = session_of bars; closes = map mn_close bars; s5 = mean_of (last_n 5 closes);
         s20 = (if 20 \<le> length closes then mean_of (last_n 20 closes) else None);
         vw = vwap session; recent = last_n 20 bars
       in bindE (if session = [] then Inr None else price_ratio price (mn_open (hd session))) (\<lambda>change.
          bindE (if 6 \<le> length bars then price_ratio price (mn_close (bars ! (length bars - 6))) else Inr None) (\<lambda>momentum.
          Inr \<lparr>is_timeframe = timeframe, is_trend = intraday_trend price s5 s20 vw, is_candle_count = length bars,
            is_session_open = (if session = [] then None else Some (mn_open (hd session))),
            is_session_high = list_max (map mn_high session), is_session_low = list_min (map mn_low session),
            is_change_from_open_pct = change, is_sma5 = s5, is_sma20 = s20, is_vwap = vw, is_momentum_5_pct = momentum,
            is_latest_volume_ratio = volume_ratio bars, is_recent_high_20 = list_max (map mn_high recent),
            is_recent_low_20 = list_min (map mn_low recent)\<rparr>)))"

section \<open>The daily summary\<close>

definition daily_trend :: "decimal \<Rightarrow> decimal option \<Rightarrow> decimal option \<Rightarrow> Trend" where
  "daily_trend current a b = (case (a, b) of
     (Some s20, Some s60) \<Rightarrow>
       if s20 \<le> current \<and> s60 < s20 then Bullish
       else if s60 < s20 \<and> s60 \<le> current then Pullback
       else if current \<le> s20 \<and> s20 < s60 then Bearish
       else Neutral
   | _ \<Rightarrow> Insufficient)"

definition previous_close :: "MarketBar list \<Rightarrow> date \<Rightarrow> decimal option" where
  "previous_close bars quote_date =
    (if bars \<noteq> [] \<and> mk_date (last bars) = quote_date \<and> 2 \<le> length bars then Some (mk_close (last (butlast bars)))
     else if bars \<noteq> [] then Some (mk_close (last bars)) else None)"

definition prior_bars :: "MarketBar list \<Rightarrow> MarketBar list" where
  "prior_bars bars = (let prior = (if 2 \<le> length bars then prior_n 20 bars else bars)
     in if prior = [] then last_n 20 bars else prior)"

text \<open>\<open>key.partition(":")[0]\<close>, and the rules of each setup counted.\<close>

definition setup_of :: "string \<Rightarrow> string" where
  "setup_of key = takeWhile (\<lambda>c. c \<noteq> CHR '':'') key"

definition setup_progress :: "(string, bool) dict \<Rightarrow> (string, SetupProgress) dict" where
  "setup_progress rules = map (\<lambda>(setup, passed). (setup, \<lparr>sp_passed_rules = length (filter id passed),
       sp_total_rules = length passed\<rparr>))
     (foldl (\<lambda>d (key, passed). dict_append (setup_of key) passed d) [] rules)"

definition daily_summary :: "MarketBar list \<Rightarrow> QuoteSnapshot \<Rightarrow> SwingConfig \<Rightarrow> DailySummary res" where
  "daily_summary bars quote config =
    bindE (calculate bars) (\<lambda>i.
    let current = q_price quote; previous = previous_close bars (seoul_date (q_as_of quote));
        prior = last_n 20 (prior_bars bars)
    in bindE (swing_evaluate config bars i) (\<lambda>screening.
       bindE (if sr_passed screening
         then bindE (rank_swing config [screening]) (\<lambda>ranked. Inr (Some (rc_total_score (hd ranked)))) else Inr None) (\<lambda>total.
       bindE (case previous of None \<Rightarrow> Inr None | Some p \<Rightarrow> price_ratio current p) (\<lambda>change.
       bindE (assertE (0 \<le> minimum_candidate_score config \<and> minimum_candidate_score config \<le> 100)
         (ValueError ''score_threshold out of bounds'')) (\<lambda>_.
       Inr \<lparr>ds_screening_trading_date = (if bars = [] then None else Some (mk_date (last bars))),
         ds_trend = daily_trend current (sma20 i) (sma60 i), ds_previous_close = previous, ds_change_pct = change,
         ds_sma20 = sma20 i, ds_sma60 = sma60 i, ds_ema20 = ema20 i,
         ds_atr_pct = (case atr14 i of None \<Rightarrow> None | Some a \<Rightarrow> if 0 < current then Some (dquot a current) else None),
         ds_recent_high_20 = list_max (map mk_high prior), ds_recent_low_20 = list_min (map mk_low prior),
         ds_screening_passed = sr_passed screening, ds_matched_setups = sr_matched_setups screening,
         ds_primary_setup = sr_primary_setup screening, ds_total_score = total,
         ds_score_threshold = minimum_candidate_score config,
         ds_meets_score_threshold = (case total of None \<Rightarrow> False | Some t \<Rightarrow> minimum_candidate_score config \<le> t),
         ds_common_failures = sr_reasons screening,
         ds_setup_progress = setup_progress (sr_rule_evaluations screening)\<rparr>)))))"

section \<open>Levels\<close>

definition level_values :: "DailySummary \<Rightarrow> IntradaySummary \<Rightarrow> (decimal option \<times> basis) list" where
  "level_values daily intraday =
    [(is_vwap intraday, IntradayVwap), (is_sma20 intraday, IntradaySma20 (is_timeframe intraday)),
     (is_session_low intraday, SessionLow), (is_session_high intraday, SessionHigh),
     (is_recent_low_20 intraday, RecentLow (is_timeframe intraday)),
     (is_recent_high_20 intraday, RecentHigh (is_timeframe intraday)),
     (ds_sma20 daily, DailySma20), (ds_recent_low_20 daily, PriorLow20), (ds_recent_high_20 daily, PriorHigh20)]"

definition group_level :: "(decimal, basis list) dict \<Rightarrow> decimal option \<times> basis \<Rightarrow> (decimal, basis list) dict" where
  "group_level d p = (case fst p of None \<Rightarrow> d
     | Some v \<Rightarrow> if 0 \<le> v \<and> snd p \<notin> set (dict_getd d v []) then dict_append v (snd p) d else d)"

definition grouped_levels :: "(decimal option \<times> basis) list \<Rightarrow> (decimal, basis list) dict" where
  "grouped_levels values = foldl group_level [] values"

definition to_level :: "decimal \<times> basis list \<Rightarrow> PriceLevel" where
  "to_level p = \<lparr>pl_price = fst p, pl_basis = snd p\<rparr>"

definition technical_levels :: "decimal \<Rightarrow> DailySummary \<Rightarrow> IntradaySummary \<Rightarrow> TechnicalLevels" where
  "technical_levels price daily intraday = (let grouped = grouped_levels (level_values daily intraday) in
     \<lparr>tl_supports = map to_level (take 3 (sort_key (\<lambda>p. - fst p) (filter (\<lambda>p. fst p \<le> price) grouped))),
      tl_resistances = map to_level (take 3 (sort_key fst (filter (\<lambda>p. price \<le> fst p) grouped)))\<rparr>)"

section \<open>The narrative\<close>

definition verdict_of :: "Trend \<Rightarrow> Trend \<Rightarrow> outlook" where
  "verdict_of daily intraday =
    (if daily \<in> {Bullish, Pullback} \<and> intraday = Bullish then BothUp
     else if daily \<in> {Bullish, Pullback} \<and> intraday = Bearish then UpCorrecting
     else if daily = Bearish then DownFirst else Mixed)"

definition setup_name :: "string option \<Rightarrow> string option" where
  "setup_name s = (if s = Some '''' then None else s)"

definition warning_risk :: "StockWarning \<Rightarrow> risk" where
  "warning_risk w = (case w_description w of None \<Rightarrow> WarningKind (w_warning_type w)
     | Some d \<Rightarrow> if d = '''' then WarningKind (w_warning_type w) else WarningText d)"

definition far_above :: "decimal \<Rightarrow> decimal option \<Rightarrow> bool res" where
  "far_above price vw = (case vw of None \<Rightarrow> Inr False
     | Some v \<Rightarrow> if 0 < v then bindE (price_ratio price v) (\<lambda>r. Inr (case r of None \<Rightarrow> False | Some x \<Rightarrow> 3 / 100 \<le> x))
         else Inr False)"

definition risk_flags :: "QuoteSnapshot \<Rightarrow> DailySummary \<Rightarrow> IntradaySummary \<Rightarrow> StockWarning list \<Rightarrow> risk list res" where
  "risk_flags quote daily intraday warnings =
    bindE (far_above (q_price quote) (is_vwap intraday)) (\<lambda>far.
    let flags = map warning_risk (filter w_active warnings)
        @ (if q_delayed quote = Some True then [DelayedQuote] else [])
        @ (if ds_trend daily = Bearish then [DailyDowntrend] else [])
        @ (if far then [FarAboveVwap] else [])
        @ (case is_latest_volume_ratio intraday of None \<Rightarrow> [] | Some r \<Rightarrow> if r < 70 / 100 then [ThinVolume] else [])
    in Inr (if flags = [] then [NoRisk] else flags))"

definition narrative :: "QuoteSnapshot \<Rightarrow> DailySummary \<Rightarrow> IntradaySummary \<Rightarrow> TechnicalLevels \<Rightarrow> StockWarning list
    \<Rightarrow> Narrative res" where
  "narrative quote daily intraday levels warnings =
    bindE (price_text (q_price quote)) (\<lambda>price. bindE (percent_text (ds_change_pct daily)) (\<lambda>change.
    bindE (case is_vwap intraday of None \<Rightarrow> Inr (NoVwap (is_timeframe intraday))
      | Some v \<Rightarrow> bindE (percent_text (is_change_from_open_pct intraday)) (\<lambda>c. bindE (price_text v) (\<lambda>p.
          Inr (IntradayChange (is_timeframe intraday) c p)))) (\<lambda>second.
    bindE (case (tl_resistances levels, is_vwap intraday) of
        (l # _, _) \<Rightarrow> bindE (price_text (pl_price l)) (\<lambda>p. Inr (AboveResistance p (is_timeframe intraday)))
      | ([], Some v) \<Rightarrow> bindE (price_text v) (\<lambda>p. Inr (HoldVwap p))
      | ([], None) \<Rightarrow> Inr AwaitBreakout) (\<lambda>entry.
    bindE (case tl_supports levels of [] \<Rightarrow> Inr NoSupport
      | l # _ \<Rightarrow> bindE (price_text (pl_price l)) (\<lambda>p. Inr (BelowSupport p))) (\<lambda>stop.
    bindE (risk_flags quote daily intraday warnings) (\<lambda>flags.
    Inr \<lparr>na_verdict = verdict_of (ds_trend daily) (is_trend intraday),
      na_observations = [PriceChange price change, second,
        (case ds_total_score daily of Some t \<Rightarrow> if ds_screening_passed daily then SetupPassed (setup_name (ds_primary_setup daily)) t
           else NoSetup | None \<Rightarrow> NoSetup)],
      na_entry_confirmation = entry, na_invalidation = stop, na_risk_flags = flags\<rparr>))))))"

section \<open>The analysis\<close>

definition analyze_realtime :: "InstrumentSnapshot \<Rightarrow> QuoteSnapshot \<Rightarrow> MarketBar list \<Rightarrow> MinuteBar list
    \<Rightarrow> StockWarning list \<Rightarrow> SwingConfig \<Rightarrow> RealtimeAnalysis res" where
  "analyze_realtime instrument quote daily_bars minute_bars warnings config =
    bindE (aggregate_minute_bars minute_bars 1) (\<lambda>f1. bindE (aggregate_minute_bars minute_bars 5) (\<lambda>f5.
    bindE (aggregate_minute_bars minute_bars 10) (\<lambda>f10.
    bindE (intraday_summary ''1m'' f1 (q_price quote)) (\<lambda>i1. bindE (intraday_summary ''5m'' f5 (q_price quote)) (\<lambda>i5.
    bindE (intraday_summary ''10m'' f10 (q_price quote)) (\<lambda>i10.
    bindE (daily_summary daily_bars quote config) (\<lambda>daily.
    let levels = technical_levels (q_price quote) daily i5 in
    bindE (narrative quote daily i5 levels warnings) (\<lambda>n.
    Inr \<lparr>ra_instrument = instrument, ra_quote = quote,
      ra_as_of = foldl max (q_as_of quote) (map mn_as_of minute_bars @ map mk_as_of daily_bars),
      ra_daily_bars = last_n 120 daily_bars, ra_intraday_bars = [(''1m'', f1), (''5m'', f5), (''10m'', f10)],
      ra_daily = daily, ra_intraday = [(''1m'', i1), (''5m'', i5), (''10m'', i10)], ra_levels = levels, ra_narrative = n,
      ra_warnings = warnings\<rparr>))))))))"

end
