(* ===== verification/Realtime_Props.thy ===== *)
theory Realtime_Props
  imports Realtime Screening_Returns Indicators
begin

text \<open>
  The live analysis: joined minute bars are valid, ordered and lose no volume; the volume-weighted
  price lies between the prices it weighs; the levels are the nearest ones on their side of the price;
  and the analysis of well-formed data always returns.
\<close>

section \<open>Buckets\<close>

text \<open>A bar starts its bucket or comes after it, within the bucket's minutes.\<close>

lemma bucket_bounds:
  assumes "0 < minutes"
  shows "bucket_of minutes t \<le> t" and "t < bucket_of minutes t + minutes * 60000000"
proof -
  define w where "w = (t + seoul_offset) mod 3600000000"
  define m where "m = w div 60000000"
  have b: "bucket_of minutes t = t - w + m div minutes * minutes * 60000000"
    by (simp add: bucket_of_def Let_def w_def m_def)
  have wm: "0 \<le> w mod 60000000" "w mod 60000000 < 60000000" by simp_all
  have w: "m * 60000000 \<le> w" "w < m * 60000000 + 60000000" using div_mult_mod_eq [of w 60000000] wm unfolding m_def by linarith+
  have d: "m div minutes * minutes = m - m mod minutes" by (simp add: minus_mod_eq_div_mult)
  have mm: "0 \<le> m mod minutes" "m mod minutes < minutes" using assms by simp_all
  have b': "bucket_of minutes t = t - w + m * 60000000 - m mod minutes * 60000000"
    unfolding b d by (simp add: algebra_simps)
  show "bucket_of minutes t \<le> t" using b' w(1) mm by linarith
  have "m mod minutes * 60000000 + 60000000 \<le> minutes * 60000000" using mm by linarith
  then show "t < bucket_of minutes t + minutes * 60000000" using b' w(2) by linarith
qed

definition bars_of_bucket :: "int \<Rightarrow> MinuteBar list \<Rightarrow> datetime \<Rightarrow> MinuteBar list" where
  "bars_of_bucket minutes bars k = filter (\<lambda>b. bucket_of minutes (mn_timestamp b) = k) (sort_key mn_timestamp bars)"

lemma bucketed_mem:
  "(k, g) \<in> set (bucketed minutes bars) \<Longrightarrow> g = bars_of_bucket minutes bars k \<and> g \<noteq> []"
  unfolding bucketed_def bars_of_bucket_def by (auto dest!: groups_mem simp: filter_empty_conv)

text \<open>What a joined bar is.\<close>

definition joined_from :: "int \<Rightarrow> MinuteBar list \<Rightarrow> MinuteBar \<Rightarrow> bool" where
  "joined_from minutes bars o' \<longleftrightarrow> (let g = bars_of_bucket minutes bars (mn_timestamp o') in g \<noteq> [] \<and> minute_ok o'
     \<and> mn_open o' = mn_open (hd g) \<and> mn_close o' = mn_close (last g) \<and> mn_volume o' = sum_list (map mn_volume g)
     \<and> list_all (\<lambda>b. mn_low o' \<le> mn_low b \<and> mn_high b \<le> mn_high o') g
     \<and> mn_high o' \<in> mn_high ` set g \<and> mn_low o' \<in> mn_low ` set g)"

lemma sum_list_nonneg_int: "(\<And>x. x \<in> set xs \<Longrightarrow> 0 \<le> (x :: int)) \<Longrightarrow> 0 \<le> sum_list xs"
  by (induction xs) auto

lemma merged_bar_ok:
  assumes g: "g \<noteq> []" and ok: "list_all minute_ok g" and sym: "card (mn_symbol ` set g) = 1" and cur: "card (mn_currency ` set g) = 1"
  shows "\<exists>o'. merged_bar (k, g) = Inr o' \<and> mn_timestamp o' = k \<and> minute_ok o' \<and> mn_open o' = mn_open (hd g)
    \<and> mn_close o' = mn_close (last g) \<and> mn_volume o' = sum_list (map mn_volume g)
    \<and> mn_high o' = max_of (map mn_high g) \<and> mn_low o' = min_of (map mn_low g)
    \<and> mn_symbol o' = mn_symbol (hd g) \<and> mn_currency o' = mn_currency (hd g)"
proof -
  define o' where "o' = \<lparr>mn_symbol = mn_symbol (hd g), mn_timestamp = k, mn_timestamp_aware = True,
       mn_open = mn_open (hd g), mn_high = max_of (map mn_high g), mn_low = min_of (map mn_low g),
       mn_close = mn_close (last g), mn_volume = sum_list (map mn_volume g),
       mn_currency = mn_currency (hd g), mn_source = mn_source (hd g),
       mn_as_of = foldl max (mn_as_of (hd g)) (map mn_as_of (tl g)), mn_as_of_aware = True\<rparr>"
  have each: "minute_ok b" if "b \<in> set g" for b using ok that by (simp add: list_all_iff)
  have hl: "min_of (map mn_low g) \<le> mn_low b" "mn_high b \<le> max_of (map mn_high g)" if "b \<in> set g" for b
    using that by (auto intro!: min_of_le max_of_ge)
  obtain z where z: "z \<in> set g" "min_of (map mn_low g) = mn_low z" using min_of_in [of "map mn_low g"] g by auto
  have v: "0 \<le> sum_list (map mn_volume g)"
    using each by (intro sum_list_nonneg_int) (auto simp: minute_ok_def)
  have h: "hd g \<in> set g" "last g \<in> set g" using g by simp_all
  have "minute_ok o'"
    using v each [OF h(1)] each [OF h(2)] each [OF z(1)] hl [OF h(1)] hl [OF h(2)] z(2)
    by (auto simp: minute_ok_def ohlc_ok_def o'_def)
  moreover have "merged_bar (k, g) = Inr o'"
    using sym cur calculation by (simp add: merged_bar_def validate_minute_bar_Inr o'_def [symmetric])
  ultimately show ?thesis by (intro exI [of _ o']) (simp add: o'_def)
qed

lemma one_value: "(\<And>x. x \<in> set xs \<Longrightarrow> f x = c) \<Longrightarrow> xs \<noteq> [] \<Longrightarrow> card (f ` set xs) = 1"
proof -
  assume c: "\<And>x. x \<in> set xs \<Longrightarrow> f x = c" and "xs \<noteq> []"
  then obtain y where "y \<in> set xs" using list.set_intros(1) by (metis neq_Nil_conv)
  then have "f ` set xs = {c}" using c by (auto intro!: image_eqI [of _ _ y])
  then show ?thesis by simp
qed

lemma aggregated:
  assumes m: "1 < minutes" and ok: "list_all minute_ok bars"
    and one: "list_all (\<lambda>b. mn_symbol b = symbol \<and> mn_currency b = currency) bars"
  shows "\<exists>out. aggregate_minute_bars bars minutes = Inr out
    \<and> sorted_wrt (<) (map mn_timestamp out)
    \<and> set (map mn_timestamp out) = (\<lambda>b. bucket_of minutes (mn_timestamp b)) ` set bars
    \<and> list_all (joined_from minutes bars) out
    \<and> sum_list (map mn_volume out) = sum_list (map mn_volume bars)
    \<and> list_all (\<lambda>b. bucket_of minutes (mn_timestamp b) \<le> mn_timestamp b
        \<and> mn_timestamp b < bucket_of minutes (mn_timestamp b) + minutes * 60000000) bars"
proof -
  let ?gs = "bucketed minutes bars" and ?sorted = "sort_key fst (bucketed minutes bars)"
  have sub: "set (bars_of_bucket minutes bars k) \<subseteq> set bars" for k by (auto simp: bars_of_bucket_def)
  have good: "\<exists>o'. merged_bar p = Inr o' \<and> mn_timestamp o' = fst p \<and> joined_from minutes bars o'
      \<and> mn_volume o' = sum_list (map mn_volume (snd p))" if p: "p \<in> set ?gs" for p
  proof -
    obtain k g where kg: "p = (k, g)" by fastforce
    have g: "g = bars_of_bucket minutes bars k" "g \<noteq> []" using bucketed_mem p kg by blast+
    have s: "set g \<subseteq> set bars" using sub g by simp
    have "card (mn_symbol ` set g) = 1" by (rule one_value [of g mn_symbol symbol]) (use s one g in \<open>auto simp: list_all_iff\<close>)
    moreover have "card (mn_currency ` set g) = 1"
      by (rule one_value [of g mn_currency currency]) (use s one g in \<open>auto simp: list_all_iff\<close>)
    moreover have "list_all minute_ok g" using s ok by (auto simp: list_all_iff)
    ultimately obtain o' where o': "merged_bar (k, g) = Inr o'" "mn_timestamp o' = k" "minute_ok o'"
        "mn_open o' = mn_open (hd g)" "mn_close o' = mn_close (last g)" "mn_volume o' = sum_list (map mn_volume g)"
        "mn_high o' = max_of (map mn_high g)" "mn_low o' = min_of (map mn_low g)"
      using merged_bar_ok [OF g(2)] by blast
    have "max_of (map mn_high g) \<in> set (map mn_high g)" "min_of (map mn_low g) \<in> set (map mn_low g)"
      using max_of_in [of "map mn_high g"] min_of_in [of "map mn_low g"] g(2) by simp_all
    then have "joined_from minutes bars o'"
      using o' g by (auto simp: joined_from_def Let_def list_all_iff min_of_le max_of_ge)
    then show ?thesis using o' kg by auto
  qed
  have "returns (mapE merged_bar ?sorted)"
    unfolding mapE_returns list_all_iff using good by (auto simp: returns_iff)
  then obtain out where out: "mapE merged_bar ?sorted = Inr out" by (auto simp: returns_iff)
  have val: "out = map (\<lambda>p. value_of (merged_bar p)) ?sorted" using out by (simp add: mapE_iff)
  have v: "mn_timestamp (value_of (merged_bar p)) = fst p" "joined_from minutes bars (value_of (merged_bar p))"
      "mn_volume (value_of (merged_bar p)) = sum_list (map mn_volume (snd p))" if "p \<in> set ?gs" for p
    using good [OF that] by (auto simp: value_of_def)
  have ts: "map mn_timestamp out = map fst ?sorted" unfolding val by (auto simp: v)
  have d: "distinct (map fst ?gs)" using groups_ok unfolding bucketed_def dict_ok_def by blast
  have "sorted (map fst ?sorted)" "distinct (map fst ?sorted)" using d by (simp_all add: distinct_map)
  then have st: "sorted_wrt (<) (map mn_timestamp out)" unfolding ts by (simp add: strict_sorted_iff)
  have keys: "set (map mn_timestamp out) = (\<lambda>b. bucket_of minutes (mn_timestamp b)) ` set bars"
    unfolding ts using groups_keys [of "\<lambda>b. bucket_of minutes (mn_timestamp b)" "sort_key mn_timestamp bars"]
    by (simp add: bucketed_def)
  have "map mn_volume out = map (\<lambda>p. sum_list (map mn_volume (snd p))) ?sorted"
    unfolding val map_map by (rule map_cong [OF refl]) (simp add: v)
  then have "sum_list (map mn_volume out) = (\<Sum>p\<leftarrow>?sorted. sum_list (map mn_volume (snd p)))" by simp
  also have "\<dots> = (\<Sum>p\<leftarrow>?gs. sum_list (map mn_volume (snd p)))"
    by (metis (no_types, lifting) mset_map mset_sort sum_mset_sum_list)
  also have "\<dots> = sum_list (map mn_volume (sort_key mn_timestamp bars))" unfolding bucketed_def by (rule groups_sum)
  also have "\<dots> = sum_list (map mn_volume bars)" by (metis mset_map mset_sort sum_mset_sum_list)
  finally have vol: "sum_list (map mn_volume out) = sum_list (map mn_volume bars)" .
  have "list_all (joined_from minutes bars) out" unfolding val by (auto simp: list_all_iff v)
  moreover have "list_all (\<lambda>b. bucket_of minutes (mn_timestamp b) \<le> mn_timestamp b
      \<and> mn_timestamp b < bucket_of minutes (mn_timestamp b) + minutes * 60000000) bars"
    using m by (simp add: list_all_iff bucket_bounds)
  moreover have "aggregate_minute_bars bars minutes = Inr out" using m out by (simp add: aggregate_minute_bars_def)
  ultimately show ?thesis using st keys vol by blast
qed

text \<open>
  C26. Joining valid minute bars of one symbol and currency always returns. The joined bars are valid and
  strictly ascending, one per bucket that has bars, and a bar's bucket starts at most that many minutes before it; each opens with the first and closes with the last
  bar of its bucket and spans exactly its extremes; together they carry the whole volume.
\<close>

theorem aggregation_sound:
  assumes m: "1 < minutes" and ok: "list_all minute_ok bars"
    and one: "list_all (\<lambda>b. mn_symbol b = symbol \<and> mn_currency b = currency) bars"
  shows "\<exists>out. aggregate_minute_bars bars minutes = Inr out
    \<and> sorted_wrt (<) (map mn_timestamp out)
    \<and> set (map mn_timestamp out) = (\<lambda>b. bucket_of minutes (mn_timestamp b)) ` set bars
    \<and> list_all (joined_from minutes bars) out
    \<and> sum_list (map mn_volume out) = sum_list (map mn_volume bars)
    \<and> list_all (\<lambda>b. bucket_of minutes (mn_timestamp b) \<le> mn_timestamp b
        \<and> mn_timestamp b < bucket_of minutes (mn_timestamp b) + minutes * 60000000) bars"
  using assms by (rule aggregated)

section \<open>The volume-weighted price\<close>

lemma on_grid_times: "on_grid k x \<Longrightarrow> on_grid k (x * of_int n)"
  unfolding on_grid_iff by (metis of_int_mult times_divide_eq_left)

lemma weight_exact:
  assumes "numeric_20_6 x" and "0 \<le> x" and "0 \<le> n" and "x * of_int n < 10 ^ 22"
  shows "dround (x * of_int n) = x * of_int n"
proof (rule dround_grid)
  show "on_grid 6 (x * of_int n)" using assms(1) by (simp add: numeric_20_6_def on_grid_times)
  have "0 \<le> x * of_int n" using assms by simp
  then show "\<bar>x * of_int n\<bar> * 10 ^ 6 < 10 ^ 28" using assms(4) by simp
qed

lemma stored_price: "numeric_20_6 x \<Longrightarrow> representable x"
  by (simp add: representable_def numeric_20_6_representable)

definition priced :: "decimal \<Rightarrow> decimal \<Rightarrow> MinuteBar \<Rightarrow> bool" where
  "priced lo hi b \<longleftrightarrow> minute_ok b \<and> numeric_20_6 (mn_high b) \<and> numeric_20_6 (mn_low b) \<and> numeric_20_6 (mn_close b)
     \<and> lo \<le> mn_low b \<and> mn_high b \<le> hi"

lemma typical_bounds:
  assumes b: "priced lo hi b" and n: "numeric_20_6 lo" "numeric_20_6 hi" "0 \<le> lo"
    and v: "hi * of_int (mn_volume b) < 10 ^ 22"
  shows "lo * of_int (mn_volume b) \<le> typical_value b \<and> typical_value b \<le> hi * of_int (mn_volume b)"
proof -
  let ?h = "mn_high b" and ?l = "mn_low b" and ?c = "mn_close b" and ?v = "of_int (mn_volume b) :: rat"
  have p: "numeric_20_6 ?h" "numeric_20_6 ?l" "numeric_20_6 ?c" "lo \<le> ?l" "?h \<le> hi" "0 \<le> ?l" "?l \<le> ?c" "?c \<le> ?h" "0 \<le> ?v" "?l \<le> ?h"
    using b by (auto simp: priced_def minute_ok_def ohlc_ok_def)
  have up: "?h < 10 ^ 14" using p(1) unfolding numeric_20_6_def by linarith
  have e1: "dadd ?h ?l = ?h + ?l" unfolding dadd_def
    using p up by (intro dround_grid [of 6]) (auto simp: numeric_20_6_def intro: on_grid_add)
  have e2: "dadd (dadd ?h ?l) ?c = ?h + ?l + ?c" unfolding e1 unfolding dadd_def
    using p up by (intro dround_grid [of 6]) (auto simp: numeric_20_6_def intro: on_grid_add)
  let ?q = "dquot (?h + ?l + ?c) 3"
  have q: "lo \<le> ?q" "?q \<le> hi"
    unfolding dquot_def using p by (auto intro!: dround_ge dround_le stored_price n)
  have hi0: "0 \<le> hi" using p by linarith
  have lv: "lo * ?v \<le> hi * ?v" using q p(9) by (intro mult_right_mono) auto
  have "dround (lo * ?v) \<le> dround (?q * ?v)" "dround (?q * ?v) \<le> dround (hi * ?v)"
    using q p(9) by (auto intro!: dround_mono mult_right_mono)
  moreover have "dround (hi * ?v) = hi * ?v" using n(2) hi0 p(9) v by (intro weight_exact) simp_all
  moreover have "dround (lo * ?v) = lo * ?v" using n(1,3) p(9) v lv by (intro weight_exact) simp_all
  ultimately show ?thesis by (simp add: typical_value_def e2 dmul_def)
qed

lemma weighted_sum_bounds:
  assumes "\<And>b. b \<in> set bars \<Longrightarrow> priced lo hi b" and n: "numeric_20_6 lo" "numeric_20_6 hi" "0 \<le> lo" "lo \<le> hi"
    and "0 \<le> w" and "hi * of_int (w + sum_list (map mn_volume bars)) < 10 ^ 22"
    and "lo * of_int w \<le> a" and "a \<le> hi * of_int w"
  shows "lo * of_int (w + sum_list (map mn_volume bars)) \<le> foldl dadd a (map typical_value bars)
    \<and> foldl dadd a (map typical_value bars) \<le> hi * of_int (w + sum_list (map mn_volume bars))"
  using assms(1,6-)
proof (induction bars arbitrary: w a)
  case (Cons b bars)
  let ?v = "mn_volume b" and ?r = "sum_list (map mn_volume bars)"
  have vol: "0 \<le> mn_volume x" if "x \<in> set (b # bars)" for x
    using Cons.prems(1) [OF that] by (simp add: priced_def minute_ok_def)
  have r: "0 \<le> ?r" using vol by (intro sum_list_nonneg_int) auto
  have hi0: "0 \<le> hi" using n by linarith
  have mono: "hi * of_int m \<le> hi * of_int m'" if "m \<le> m'" for m m' :: int
    using hi0 that by (intro mult_left_mono) simp_all
  have total: "hi * of_int (w + (?v + ?r)) < 10 ^ 22" using Cons.prems(3) by simp
  have bv: "hi * of_int ?v < 10 ^ 22" using mono [of ?v "w + (?v + ?r)"] total Cons.prems(2) r by linarith
  have wv: "hi * of_int (w + ?v) < 10 ^ 22" using mono [of "w + ?v" "w + (?v + ?r)"] total r by linarith
  note t = typical_bounds [OF Cons.prems(1) [of b] n(1-3) bv, simplified]
  have sum: "lo * of_int (w + ?v) \<le> a + typical_value b" "a + typical_value b \<le> hi * of_int (w + ?v)"
    using t Cons.prems(4,5) by (simp_all add: algebra_simps)
  have wv0: "0 \<le> w + ?v" using Cons.prems(2) vol [of b] by simp
  have "lo * of_int (w + ?v) \<le> hi * of_int (w + ?v)" using n(4) wv0 by (intro mult_right_mono) simp_all
  then have ex: "dround (lo * of_int (w + ?v)) = lo * of_int (w + ?v)" "dround (hi * of_int (w + ?v)) = hi * of_int (w + ?v)"
    using weight_exact [OF n(1,3) wv0] weight_exact [OF n(2) hi0 wv0] wv by linarith+
  have "lo * of_int (w + ?v) \<le> dadd a (typical_value b)" "dadd a (typical_value b) \<le> hi * of_int (w + ?v)"
    unfolding dadd_def using sum ex by (auto intro!: dround_ge dround_le simp: representable_def)
  then show ?case using Cons.IH [of "w + ?v" "dadd a (typical_value b)"] Cons.prems(1) total wv0
    by (simp add: add.assoc)
qed simp

lemma vwap_bounds:
  assumes "list_all (priced lo hi) bars" and "numeric_20_6 lo" and "numeric_20_6 hi" and "0 \<le> lo" and "lo \<le> hi"
    and "hi * of_int (sum_list (map mn_volume bars)) < 10 ^ 22" and "vwap bars = Some v"
  shows "lo \<le> v \<and> v \<le> hi"
proof -
  let ?t = "sum_list (map mn_volume bars)"
  have t: "0 < ?t" and v: "v = dquot (dsum (map typical_value bars)) (of_int ?t)"
    using assms(7) by (auto simp: vwap_def Let_def split: if_splits)
  have "lo * of_int ?t \<le> dsum (map typical_value bars)" "dsum (map typical_value bars) \<le> hi * of_int ?t"
    using weighted_sum_bounds [of bars lo hi 0 0] assms(1-6) by (auto simp: list_all_iff dsum_def)
  then have "lo \<le> dsum (map typical_value bars) / of_int ?t" "dsum (map typical_value bars) / of_int ?t \<le> hi"
    using t by (simp_all add: pos_le_divide_eq pos_divide_le_eq)
  then show ?thesis
    unfolding v dquot_def using assms(2,3) by (auto intro: dround_ge dround_le stored_price)
qed

text \<open>
  The volume-weighted average price lies between any price bounds of its session: rounding the typical
  prices, their products with the volumes, the running sum and the quotient cannot carry it outside.
  Prices have six decimals and the traded value stays below ten to the 22nd.
\<close>

theorem vwap_between:
  assumes "list_all (priced lo hi) bars" and "numeric_20_6 lo" and "numeric_20_6 hi" and "0 \<le> lo" and "lo \<le> hi"
    and "hi * of_int (sum_list (map mn_volume bars)) < 10 ^ 22" and "vwap bars = Some v"
  shows "lo \<le> v \<and> v \<le> hi"
  using assms by (rule vwap_bounds)

section \<open>Levels\<close>

lemma grouped_spec:
  "distinct (map snd vs) \<Longrightarrow> dict_ok (grouped_levels vs)
    \<and> (\<forall>v. dict_getd (grouped_levels vs) v [] = map snd (filter (\<lambda>p. fst p = Some v \<and> 0 \<le> v) vs))
    \<and> fst ` set (grouped_levels vs) = {v. 0 \<le> v \<and> Some v \<in> fst ` set vs}"
proof (induction vs rule: rev_induct)
  case Nil
  then show ?case by (simp add: grouped_levels_def dict_getd_def)
next
  case (snoc p vs)
  then have ok: "dict_ok (grouped_levels vs)"
    and get: "\<And>v. dict_getd (grouped_levels vs) v [] = map snd (filter (\<lambda>p. fst p = Some v \<and> 0 \<le> v) vs)"
    and keys: "fst ` set (grouped_levels vs) = {v. 0 \<le> v \<and> Some v \<in> fst ` set vs}"
    by auto
  have step: "grouped_levels (vs @ [p]) = group_level (grouped_levels vs) p" by (simp add: grouped_levels_def)
  have new: "snd p \<notin> set (dict_getd (grouped_levels vs) v [])" for v using snoc.prems by (auto simp: get)
  show ?case
  proof (cases "fst p")
    case None
    then show ?thesis using ok get keys by (auto simp: step group_level_def)
  next
    case (Some v)
    show ?thesis
    proof (cases "0 \<le> v")
      case True
      then have g: "group_level (grouped_levels vs) p = dict_append v (snd p) (grouped_levels vs)"
        using Some new by (simp add: group_level_def)
      show ?thesis using ok get keys Some True by (auto simp: step g dict_append_keys)
    next
      case False
      then show ?thesis using ok get keys Some by (auto simp: step group_level_def)
    qed
  qed
qed

text \<open>The first elements of a strictly sorted list are the least ones.\<close>

lemma take_least:
  assumes "sorted_wrt (<) (map f xs)" and "x \<in> set xs"
  shows "x \<in> set (take n xs) \<or> length (take n xs) = n \<and> (\<forall>y \<in> set (take n xs). f y < f x)"
proof (cases "x \<in> set (take n xs)")
  case False
  have split: "map f xs = map f (take n xs) @ map f (drop n xs)" by (metis append_take_drop_id map_append)
  have x: "x \<in> set (drop n xs)" using False assms(2) by (metis Un_iff append_take_drop_id set_append)
  then have "length (take n xs) = n" by (cases "n \<le> length xs") auto
  moreover have "f y < f x" if "y \<in> set (take n xs)" for y
    using assms(1) x that unfolding split sorted_wrt_append by auto
  ultimately show ?thesis by blast
qed simp

definition basis_of :: "(decimal option \<times> basis) list \<Rightarrow> decimal \<Rightarrow> basis list" where
  "basis_of vs v = map snd (filter (\<lambda>p. fst p = Some v) vs)"

text \<open>What the chosen levels of one side are, for a key that grows away from the price.\<close>

definition nearest_levels :: "(decimal \<Rightarrow> bool) \<Rightarrow> (decimal \<Rightarrow> decimal) \<Rightarrow> (decimal option \<times> basis) list \<Rightarrow> PriceLevel list \<Rightarrow> bool" where
  "nearest_levels side key vs ls \<longleftrightarrow> length ls \<le> 3 \<and> sorted_wrt (<) (map (\<lambda>l. key (pl_price l)) ls)
     \<and> list_all (\<lambda>l. side (pl_price l) \<and> 0 \<le> pl_price l \<and> pl_basis l = basis_of vs (pl_price l) \<and> pl_basis l \<noteq> []) ls
     \<and> list_all (\<lambda>p. case fst p of None \<Rightarrow> True | Some v \<Rightarrow> \<not> (0 \<le> v \<and> side v) \<or> v \<in> set (map pl_price ls)
         \<or> length ls = 3 \<and> list_all (\<lambda>l. key (pl_price l) < key v) ls) vs"

lemma nearest_chosen:
  fixes key :: "decimal \<Rightarrow> decimal"
  assumes d: "distinct (map snd vs)" and inj: "inj key"
  shows "nearest_levels side key vs
    (map to_level (take 3 (sort_key (\<lambda>p. key (fst p)) (filter (\<lambda>p. side (fst p)) (grouped_levels vs)))))"
proof -
  let ?g = "grouped_levels vs"
  let ?s = "sort_key (\<lambda>p. key (fst p)) (filter (\<lambda>p. side (fst p)) ?g)"
  note spec = grouped_spec [OF d]
  have mem: "p \<in> set ?g \<Longrightarrow> 0 \<le> fst p \<and> snd p = basis_of vs (fst p) \<and> snd p \<noteq> []" for p
  proof -
    assume p: "p \<in> set ?g"
    obtain k b where kb: "p = (k, b)" by fastforce
    have "map_of ?g k = Some b" using spec p kb by (simp add: dict_ok_def)
    then have b: "b = dict_getd ?g k []" by (simp add: dict_getd_def)
    have "k \<in> fst ` set ?g" using p kb by force
    then have k: "0 \<le> k" "Some k \<in> fst ` set vs" using spec by simp_all
    from k(2) obtain ba where "(Some k, ba) \<in> set vs" by auto
    then have "basis_of vs k \<noteq> []" by (force simp: basis_of_def filter_empty_conv)
    then show ?thesis using spec b kb k by (simp add: basis_of_def)
  qed
  have srt: "sorted_wrt (<) (map (\<lambda>p. key (fst p)) ?s)"
  proof -
    have "distinct (map fst ?s)" using spec by (auto simp: dict_ok_def distinct_map intro: inj_on_subset)
    then have "distinct (map key (map fst ?s))" using inj_on_subset [OF inj] by (subst distinct_map [of key]) simp
    then have "distinct (map (\<lambda>p. key (fst p)) ?s)" by (simp only: map_map o_def)
    then show ?thesis by (simp add: strict_sorted_iff)
  qed
  have "sorted_wrt (<) (take 3 (map (\<lambda>p. key (fst p)) ?s))" by (rule sorted_wrt_take [OF srt])
  then have a: "sorted_wrt (<) (map (\<lambda>l. key (pl_price l)) (map to_level (take 3 ?s)))"
    by (simp add: take_map o_def to_level_def)
  have b: "list_all (\<lambda>l. side (pl_price l) \<and> 0 \<le> pl_price l \<and> pl_basis l = basis_of vs (pl_price l) \<and> pl_basis l \<noteq> [])
      (map to_level (take 3 ?s))"
  proof (unfold list_all_iff, safe)
    fix l assume "l \<in> set (map to_level (take 3 ?s))"
    then obtain p where p: "p \<in> set ?g" "side (fst p)" "l = to_level p" by (auto dest!: in_set_takeD)
    then show "side (pl_price l)" "0 \<le> pl_price l" "pl_basis l = basis_of vs (pl_price l)"
      and "pl_basis l = [] \<Longrightarrow> False" using mem [OF p(1)] by (simp_all add: to_level_def)
  qed
  have c: "v \<in> set (map pl_price (map to_level (take 3 ?s)))
      \<or> length (map to_level (take 3 ?s)) = 3 \<and> list_all (\<lambda>l. key (pl_price l) < key v) (map to_level (take 3 ?s))"
    if v: "0 \<le> v" "side v" "Some v \<in> fst ` set vs" for v
  proof -
    have "v \<in> fst ` set ?g" using spec v by simp
    then obtain p where p: "p \<in> set ?s" "fst p = v" using v(2) by auto
    from take_least [OF srt p(1), of 3] show ?thesis
      using p(2) by (auto simp: list_all_iff to_level_def)
  qed
  let ?ls = "map to_level (take 3 ?s)"
  have "case fst p of None \<Rightarrow> True | Some v \<Rightarrow> \<not> (0 \<le> v \<and> side v) \<or> v \<in> set (map pl_price ?ls)
      \<or> length ?ls = 3 \<and> list_all (\<lambda>l. key (pl_price l) < key v) ?ls" if p: "p \<in> set vs" for p
  proof (cases "fst p")
    case (Some v)
    then have "Some v \<in> fst ` set vs" using p by force
    then show ?thesis using c [of v] unfolding Some option.case by blast
  qed simp
  then have "list_all (\<lambda>p. case fst p of None \<Rightarrow> True | Some v \<Rightarrow> \<not> (0 \<le> v \<and> side v) \<or> v \<in> set (map pl_price ?ls)
      \<or> length ?ls = 3 \<and> list_all (\<lambda>l. key (pl_price l) < key v) ?ls) vs"
    unfolding list_all_iff [of _ vs] by blast
  moreover have "length ?ls \<le> 3" by simp
  ultimately show ?thesis unfolding nearest_levels_def using a b by blast
qed

text \<open>
  The levels are the nearest on their side: the supports at most three prices at or below the current
  one in falling order, the resistances at or above it in rising order, each with every basis that has
  that price; a value that is left out lies beyond three that are listed.
\<close>

theorem levels_nearest:
  "nearest_levels (\<lambda>v. v \<le> price) uminus (level_values daily intraday) (tl_supports (technical_levels price daily intraday))
    \<and> nearest_levels (\<lambda>v. price \<le> v) (\<lambda>v. v) (level_values daily intraday) (tl_resistances (technical_levels price daily intraday))"
proof -
  have d: "distinct (map snd (level_values daily intraday))" by (simp add: level_values_def)
  have "inj (uminus :: decimal \<Rightarrow> decimal)" "inj (\<lambda>v :: decimal. v)" by (simp_all add: inj_def)
  then show ?thesis
    using nearest_chosen [OF d, of uminus "\<lambda>v. v \<le> price"] nearest_chosen [OF d, of "\<lambda>v. v" "\<lambda>v. price \<le> v"]
    by (simp add: technical_levels_def Let_def)
qed

section \<open>Witnesses\<close>

definition demo_minute :: "datetime \<Rightarrow> decimal \<Rightarrow> int \<Rightarrow> MinuteBar" where
  "demo_minute t p v = \<lparr>mn_symbol = ''005930'', mn_timestamp = t, mn_timestamp_aware = True, mn_open = p, mn_high = p + 2,
     mn_low = p - 1, mn_close = p + 1, mn_volume = v, mn_currency = ''KRW'', mn_source = ''toss'', mn_as_of = t,
     mn_as_of_aware = True\<rparr>"

definition demo_minutes :: "MinuteBar list" where
  "demo_minutes = [demo_minute 60000000 10 5, demo_minute 120000000 11 7, demo_minute 600000000 12 9]"

lemma aggregation_sound_witness:
  "\<exists>out. aggregate_minute_bars demo_minutes 5 = Inr out \<and> sorted_wrt (<) (map mn_timestamp out)
    \<and> sum_list (map mn_volume out) = 21"
proof -
  have "list_all minute_ok demo_minutes"
    by (simp add: demo_minutes_def demo_minute_def minute_ok_def ohlc_ok_def)
  moreover have "list_all (\<lambda>b. mn_symbol b = ''005930'' \<and> mn_currency b = ''KRW'') demo_minutes"
    by (simp add: demo_minutes_def demo_minute_def)
  moreover have "sum_list (map mn_volume demo_minutes) = 21" by (simp add: demo_minutes_def demo_minute_def)
  ultimately show ?thesis using aggregation_sound [of 5 demo_minutes "''005930''" "''KRW''"] by auto
qed

lemma vwap_between_witness: "\<exists>v. vwap demo_minutes = Some v \<and> 9 \<le> v \<and> v \<le> 14"
proof -
  have t: "sum_list (map mn_volume demo_minutes) = 21" by (simp add: demo_minutes_def demo_minute_def)
  then obtain v where v: "vwap demo_minutes = Some v" by (simp add: vwap_def)
  have n: "numeric_20_6 (of_int k)" if "\<bar>k\<bar> < 10 ^ 14" for k
  proof -
    have "\<bar>of_int k :: rat\<bar> < of_int (10 ^ 14)" using that by linarith
    moreover have "on_grid 6 (of_int k)" unfolding on_grid_iff by (rule exI [of _ "k * 10 ^ 6"]) simp
    ultimately show ?thesis by (simp add: numeric_20_6_def)
  qed
  have p: "list_all (priced 9 14) demo_minutes"
    using n [of 9] n [of 10] n [of 11] n [of 12] n [of 13] n [of 14]
    by (simp add: demo_minutes_def demo_minute_def priced_def minute_ok_def ohlc_ok_def)
  show ?thesis using vwap_between [OF p _ _ _ _ _ v] n [of 9] n [of 14] v t by simp
qed

end
