(* ===== verification/Http.thy ===== *)
theory Http
  imports Prelude
begin

text \<open>
  What the routers answer: a value, the \<open>HTTPException\<close> a handler raises, or an exception no handler
  knows. \<open>answer_status\<close> is what the client sees, with the handler \<open>main.py\<close> registers for a running
  synchronization, and \<open>transactional\<close> the request's database session of \<open>shared/database.py\<close>.
\<close>

datatype detail = DText string | DFields "(string, string) dict"

datatype fault = HTTPException nat detail | Unhandled py_exc

type_synonym 'a http = "fault + 'a"

definition refuse :: "nat \<Rightarrow> string \<Rightarrow> 'a http" where
  "refuse status text = Inl (HTTPException status (DText text))"

definition bindH :: "'a http \<Rightarrow> ('a \<Rightarrow> 'b http) \<Rightarrow> 'b http" where
  "bindH m f = (case m of Inl e \<Rightarrow> Inl e | Inr x \<Rightarrow> f x)"

text \<open>What a service raises and the router catches or lets through.\<close>

definition catching :: "(py_exc \<Rightarrow> fault) \<Rightarrow> 'a res \<Rightarrow> 'a http" where
  "catching h m = (case m of Inl e \<Rightarrow> Inl (h e) | Inr x \<Rightarrow> Inr x)"

definition sync_conflict_handler :: "py_exc \<Rightarrow> nat option" where
  "sync_conflict_handler e = (case e of SyncAlreadyRunningError _ \<Rightarrow> Some 409 | _ \<Rightarrow> None)"

definition fault_status :: "fault \<Rightarrow> nat" where
  "fault_status f = (case f of HTTPException s _ \<Rightarrow> s
     | Unhandled e \<Rightarrow> (case sync_conflict_handler e of Some s \<Rightarrow> s | None \<Rightarrow> 500))"

definition answer_status :: "nat \<Rightarrow> 'a http \<Rightarrow> nat" where
  "answer_status ok m = (case m of Inl f \<Rightarrow> fault_status f | Inr _ \<Rightarrow> ok)"

text \<open>The exception classes of the code that derive from \<open>ValueError\<close>.\<close>

definition is_value_error :: "py_exc \<Rightarrow> bool" where
  "is_value_error e = (case e of ValueError _ \<Rightarrow> True | InvalidBacktestParameters _ \<Rightarrow> True
     | UnsupportedBacktestStrategy _ \<Rightarrow> True | DuplicateDailyBarError _ _ \<Rightarrow> True | InvalidBacktestTransition _ _ \<Rightarrow> True
     | BacktestRangeError _ \<Rightarrow> True | _ \<Rightarrow> False)"

text \<open>\<open>get_db_session\<close>: the session is committed when the handler returns and rolled back when it raises.\<close>

definition transactional :: "('db \<Rightarrow> 'db \<times> 'a http) \<Rightarrow> 'db \<Rightarrow> 'db \<times> 'a http" where
  "transactional h db = (case h db of (db', Inr x) \<Rightarrow> (db', Inr x) | (_, Inl f) \<Rightarrow> (db, Inl f))"

lemma bindH_simps [simp]: "bindH (Inl e) f = Inl e" "bindH (Inr x) f = f x"
  by (simp_all add: bindH_def)

lemma bindH_Inr: "bindH m f = Inr y \<longleftrightarrow> (\<exists>x. m = Inr x \<and> f x = Inr y)"
  by (cases m) auto

lemma refuse_Inr [simp]: "refuse s t \<noteq> Inr x"
  by (simp add: refuse_def)

lemma catching_simps [simp]: "catching h (Inl e) = Inl (h e)" "catching h (Inr x) = Inr x"
  by (simp_all add: catching_def)

lemma transactional_Inl: "transactional h db = (db', Inl f) \<Longrightarrow> db' = db"
  by (auto simp: transactional_def split: prod.splits sum.splits)

lemma transactional_Inr: "transactional h db = (db', Inr x) \<longleftrightarrow> h db = (db', Inr x)"
  by (auto simp: transactional_def split: prod.splits sum.splits)

end
