(* ===== verification/Settings.thy ===== *)
theory Settings
  imports Decimal
begin

text \<open>
  The settings, \<open>config.py\<close>: the fields the modelled code reads, the constraints on each, and the
  checks across fields. Where the values come from (environment, \<open>.env\<close> file) and the catalogue of time
  zones are inputs. \<open>should_start_scheduler\<close> is \<open>main.py\<close>'s switch.
\<close>

datatype app_env = Development | Test | Production

record Settings =
  app_env :: app_env
  api_base_path :: string
  jwt_signing_key :: string
  jwt_issuer :: string
  jwt_audience :: string
  jwt_access_ttl_seconds :: int
  refresh_token_pepper :: string
  refresh_ttl_days :: int
  refresh_cookie_secure :: bool
  toss_client_id :: "string option"
  toss_client_secret :: "string option"
  toss_request_timeout_seconds :: rat
  toss_max_retries :: int
  toss_token_expiry_skew_seconds :: int
  scheduler_enabled :: bool
  watchlist_pipeline_stale_after_seconds :: int
  watchlist_job_hour :: int
  watchlist_job_minute :: int
  watchlist_job_timezone :: string
  watchlist_job_misfire_grace_seconds :: int
  slack_webhook_url :: "string option"
  notification_timeout_seconds :: rat
  notification_max_retries :: int
  sync_history_years :: int
  sync_batch_size :: int
  backtest_max_range_days :: int

definition default_settings :: Settings where
  "default_settings = \<lparr>app_env = Development, api_base_path = ''/api/v1'',
     jwt_signing_key = ''development-only-signing-key-change-me-32-chars'', jwt_issuer = ''swing-trading-screener'',
     jwt_audience = ''swing-trading-screener-web'', jwt_access_ttl_seconds = 900,
     refresh_token_pepper = ''development-only-refresh-pepper-change-me'', refresh_ttl_days = 14,
     refresh_cookie_secure = False, toss_client_id = None, toss_client_secret = None, toss_request_timeout_seconds = 10,
     toss_max_retries = 2, toss_token_expiry_skew_seconds = 30, scheduler_enabled = False,
     watchlist_pipeline_stale_after_seconds = 7200, watchlist_job_hour = 18, watchlist_job_minute = 20,
     watchlist_job_timezone = ''Asia/Seoul'', watchlist_job_misfire_grace_seconds = 3600, slack_webhook_url = None,
     notification_timeout_seconds = 5, notification_max_retries = 2, sync_history_years = 3, sync_batch_size = 500,
     backtest_max_range_days = 3650\<rparr>"

definition between :: "'a :: linorder \<Rightarrow> 'a \<Rightarrow> 'a \<Rightarrow> bool" where
  "between lo hi x \<longleftrightarrow> lo \<le> x \<and> x \<le> hi"

definition field_constraints :: "Settings \<Rightarrow> bool" where
  "field_constraints s \<longleftrightarrow> 32 \<le> length (jwt_signing_key s) \<and> between 60 3600 (jwt_access_ttl_seconds s)
     \<and> 32 \<le> length (refresh_token_pepper s) \<and> between 1 30 (refresh_ttl_days s)
     \<and> 0 < toss_request_timeout_seconds s \<and> toss_request_timeout_seconds s \<le> 60 \<and> between 0 5 (toss_max_retries s)
     \<and> between 0 300 (toss_token_expiry_skew_seconds s) \<and> 0 < watchlist_pipeline_stale_after_seconds s
     \<and> between 0 23 (watchlist_job_hour s) \<and> between 0 59 (watchlist_job_minute s)
     \<and> 0 < watchlist_job_misfire_grace_seconds s \<and> 0 < notification_timeout_seconds s
     \<and> notification_timeout_seconds s \<le> 30 \<and> between 0 5 (notification_max_retries s)
     \<and> between 1 20 (sync_history_years s) \<and> between 10 5000 (sync_batch_size s)
     \<and> between 1 36500 (backtest_max_range_days s)"

text \<open>\<open>needle in hay\<close>.\<close>

fun contains :: "string \<Rightarrow> string \<Rightarrow> bool" where
  "contains needle [] = (needle = [])"
| "contains needle (c # cs) = (take (length needle) (c # cs) = needle \<or> contains needle cs)"

text \<open>\<open>not value\<close> for an optional text.\<close>

definition missing :: "string option \<Rightarrow> bool" where
  "missing v \<longleftrightarrow> v = None \<or> v = Some ''''"

definition validate_settings :: "(string \<Rightarrow> bool) \<Rightarrow> Settings \<Rightarrow> Settings res" where
  "validate_settings zone_known s =
    bindE (assertE (field_constraints s) (ValueError ''field constraints'')) (\<lambda>_.
    bindE (assertE (zone_known (watchlist_job_timezone s))
      (ValueError ''WATCHLIST_JOB_TIMEZONE must be a valid IANA timezone'')) (\<lambda>_.
    bindE (assertE (\<not> (app_env s = Production \<and> contains ''development-only'' (jwt_signing_key s @ refresh_token_pepper s)))
      (ValueError ''Production authentication secrets must be explicitly configured'')) (\<lambda>_.
    bindE (assertE (\<not> (app_env s = Production \<and> (missing (toss_client_id s) \<or> missing (toss_client_secret s))))
      (ValueError ''TOSS_CLIENT_ID and TOSS_CLIENT_SECRET are required in production'')) (\<lambda>_. Inr s))))"

definition should_start_scheduler :: "Settings \<Rightarrow> bool" where
  "should_start_scheduler s \<longleftrightarrow> scheduler_enabled s \<and> app_env s \<noteq> Test"

lemma contains_iff: "contains p s \<longleftrightarrow> (\<exists>a b. s = a @ p @ b)"
proof (induction s)
  case (Cons c cs)
  have "take (length p) (c # cs) = p \<longleftrightarrow> (\<exists>b. c # cs = p @ b)"
    by (metis append_eq_conv_conj)
  moreover have "(\<exists>a b. c # cs = a @ p @ b) \<longleftrightarrow> (\<exists>b. c # cs = p @ b) \<or> (\<exists>a b. cs = a @ p @ b)"
    by (metis append_Cons append_Nil list.exhaust list.inject)
  ultimately show ?case using Cons.IH by simp
qed auto

lemma validate_settings_Inr: "validate_settings zone s = Inr t \<longleftrightarrow> t = s \<and> field_constraints s
    \<and> zone (watchlist_job_timezone s) \<and> (app_env s = Production \<longrightarrow>
      \<not> contains ''development-only'' (jwt_signing_key s @ refresh_token_pepper s)
      \<and> \<not> missing (toss_client_id s) \<and> \<not> missing (toss_client_secret s))"
  by (auto simp: validate_settings_def bindE_eq_Inr)

end
