(* ===== verification/Identity.thy ===== *)
theory Identity
  imports Http Settings
begin

text \<open>
  Authentication, \<open>modules/identity\<close>: the users and the refresh sessions, login, refresh with its rotation,
  logout, and the checks of the current user. Password hashing, the keyed hash of a refresh token and the
  JWT codec are parameters; tokens, identifiers and clock readings are inputs of a request.
\<close>

section \<open>Rows\<close>

record User =
  us_id :: uuid
  us_username :: string
  us_password_hash :: string
  us_role :: string
  us_is_active :: bool

record RefreshSession =
  rs_id :: uuid
  rs_user_id :: uuid
  rs_family_id :: uuid
  rs_token_hash :: string
  rs_expires_at :: datetime
  rs_revoked_at :: "datetime option"

record auth_db =
  db_users :: "User list"
  db_sessions :: "RefreshSession list"

text \<open>The claims of an access token; a decoded token may lack the subject.\<close>

record claims =
  cl_sub :: "string option"
  cl_role :: string
  cl_iss :: string
  cl_aud :: string
  cl_iat :: datetime
  cl_exp :: datetime
  cl_jti :: uuid

text \<open>The type of an encoded access token is left open.\<close>

record 'tok auth_env =
  ae_verify_password :: "string \<Rightarrow> string \<Rightarrow> bool"
  ae_hmac :: "string \<Rightarrow> string \<Rightarrow> string"
  ae_jwt_encode :: "claims \<Rightarrow> string \<Rightarrow> 'tok"
  ae_jwt_decode :: "'tok \<Rightarrow> string \<Rightarrow> string \<Rightarrow> string \<Rightarrow> datetime \<Rightarrow> claims option"
  ae_uuid_text :: "uuid \<Rightarrow> string"
  ae_parse_uuid :: "string \<Rightarrow> uuid option"

text \<open>What a request draws: a token, identifiers, and the clock at its two readings.\<close>

record fresh =
  fr_token :: string
  fr_session_id :: uuid
  fr_family_id :: uuid
  fr_jti :: uuid
  fr_now :: datetime
  fr_issued_at :: datetime

record LoginRequest =
  lr_username :: string
  lr_password :: string

record 'tok AccessTokenResponse =
  at_access_token :: 'tok
  at_token_type :: string
  at_expires_in :: int

record refresh_cookie =
  ck_token :: string
  ck_max_age :: int
  ck_httponly :: bool
  ck_secure :: bool
  ck_samesite :: string
  ck_path :: string

section \<open>Tokens\<close>

definition seconds :: "int \<Rightarrow> datetime" where
  "seconds n = n * 1000000"

definition days :: "int \<Rightarrow> datetime" where
  "days n = seconds (n * 86400)"

definition create_access_token :: "'tok auth_env \<Rightarrow> Settings \<Rightarrow> uuid \<Rightarrow> string \<Rightarrow> fresh \<Rightarrow> 'tok \<times> int" where
  "create_access_token env st user_id role fr =
    (ae_jwt_encode env \<lparr>cl_sub = Some (ae_uuid_text env user_id), cl_role = role, cl_iss = jwt_issuer st,
       cl_aud = jwt_audience st, cl_iat = fr_issued_at fr, cl_exp = fr_issued_at fr + seconds (jwt_access_ttl_seconds st),
       cl_jti = fr_jti fr\<rparr> (jwt_signing_key st), jwt_access_ttl_seconds st)"

definition decode_access_token :: "'tok auth_env \<Rightarrow> Settings \<Rightarrow> 'tok \<Rightarrow> datetime \<Rightarrow> claims option" where
  "decode_access_token env st token now = ae_jwt_decode env token (jwt_signing_key st) (jwt_audience st) (jwt_issuer st) now"

definition hash_refresh_token :: "'tok auth_env \<Rightarrow> Settings \<Rightarrow> string \<Rightarrow> string" where
  "hash_refresh_token env st token = ae_hmac env (refresh_token_pepper st) token"

definition set_refresh_cookie :: "Settings \<Rightarrow> string \<Rightarrow> refresh_cookie" where
  "set_refresh_cookie st token = \<lparr>ck_token = token, ck_max_age = refresh_ttl_days st * 86400, ck_httponly = True,
     ck_secure = refresh_cookie_secure st, ck_samesite = ''lax'', ck_path = api_base_path st @ ''/auth''\<rparr>"

section \<open>Requests\<close>

definition first_row :: "('a \<Rightarrow> bool) \<Rightarrow> 'a list \<Rightarrow> 'a option" where
  "first_row P xs = (case filter P xs of [] \<Rightarrow> None | x # _ \<Rightarrow> Some x)"

text \<open>The flush of an added session: the primary key and the hash are unique.\<close>

definition add_session :: "RefreshSession \<Rightarrow> auth_db \<Rightarrow> auth_db http" where
  "add_session s db =
    (if rs_id s \<in> rs_id ` set (db_sessions db) \<or> rs_token_hash s \<in> rs_token_hash ` set (db_sessions db)
     then Inl (Unhandled (IntegrityError ''refresh_sessions''))
     else Inr (db\<lparr>db_sessions := db_sessions db @ [s]\<rparr>))"

text \<open>A new session of a family, its cookie and its access token.\<close>

definition open_session :: "'tok auth_env \<Rightarrow> Settings \<Rightarrow> User \<Rightarrow> uuid \<Rightarrow> fresh \<Rightarrow> auth_db
    \<Rightarrow> auth_db \<times> ('tok AccessTokenResponse \<times> refresh_cookie) http" where
  "open_session env st user family fr db =
    (case add_session \<lparr>rs_id = fr_session_id fr, rs_user_id = us_id user, rs_family_id = family,
        rs_token_hash = hash_refresh_token env st (fr_token fr), rs_expires_at = fr_now fr + days (refresh_ttl_days st),
        rs_revoked_at = None\<rparr> db of
       Inl f \<Rightarrow> (db, Inl f)
     | Inr db' \<Rightarrow> (db', let (token, ttl) = create_access_token env st (us_id user) (us_role user) fr
         in Inr (\<lparr>at_access_token = token, at_token_type = ''bearer'', at_expires_in = ttl\<rparr>,
           set_refresh_cookie st (fr_token fr))))"

definition login_payload :: "LoginRequest \<Rightarrow> unit http" where
  "login_payload p = (if between 1 100 (length (lr_username p)) \<and> between 8 256 (length (lr_password p)) then Inr ()
     else refuse 422 ''validation'')"

definition login :: "'tok auth_env \<Rightarrow> Settings \<Rightarrow> LoginRequest \<Rightarrow> fresh \<Rightarrow> auth_db
    \<Rightarrow> auth_db \<times> ('tok AccessTokenResponse \<times> refresh_cookie) http" where
  "login env st p fr = transactional (\<lambda>db. case login_payload p of Inl f \<Rightarrow> (db, Inl f) | Inr _ \<Rightarrow>
    (case first_row (\<lambda>u. us_username u = lr_username p) (db_users db) of
       None \<Rightarrow> (db, refuse 401 ''Invalid username or password'')
     | Some user \<Rightarrow>
         if \<not> us_is_active user \<or> \<not> ae_verify_password env (lr_password p) (us_password_hash user)
         then (db, refuse 401 ''Invalid username or password'')
         else open_session env st user (fr_family_id fr) fr db))"

text \<open>
  \<open>refresh\<close> reads the session and its user, then writes: the presented session is revoked by its primary
  key and its successor added. The two halves are apart because another request may come between them.
\<close>

definition refresh_read :: "'tok auth_env \<Rightarrow> Settings \<Rightarrow> string option \<Rightarrow> datetime \<Rightarrow> auth_db \<Rightarrow> (RefreshSession \<times> User) http" where
  "refresh_read env st cookie now db =
    (case cookie of None \<Rightarrow> refuse 401 ''Refresh token required''
     | Some token \<Rightarrow> if token = '''' then refuse 401 ''Refresh token required''
       else (case first_row (\<lambda>s. rs_token_hash s = hash_refresh_token env st token) (db_sessions db) of
           None \<Rightarrow> refuse 401 ''Invalid refresh session''
         | Some stored \<Rightarrow>
             if rs_revoked_at stored \<noteq> None \<or> rs_expires_at stored \<le> now then refuse 401 ''Invalid refresh session''
             else (case first_row (\<lambda>u. us_id u = rs_user_id stored) (db_users db) of
                 None \<Rightarrow> refuse 401 ''Invalid refresh session''
               | Some user \<Rightarrow> if \<not> us_is_active user then refuse 401 ''Invalid refresh session''
                   else Inr (stored, user))))"

definition revoke :: "(RefreshSession \<Rightarrow> bool) \<Rightarrow> datetime \<Rightarrow> auth_db \<Rightarrow> auth_db" where
  "revoke P now db = db\<lparr>db_sessions := map (\<lambda>s. if P s then s\<lparr>rs_revoked_at := Some now\<rparr> else s) (db_sessions db)\<rparr>"

definition refresh_write :: "'tok auth_env \<Rightarrow> Settings \<Rightarrow> RefreshSession \<Rightarrow> User \<Rightarrow> fresh \<Rightarrow> auth_db
    \<Rightarrow> auth_db \<times> ('tok AccessTokenResponse \<times> refresh_cookie) http" where
  "refresh_write env st stored user fr db =
    open_session env st user (rs_family_id stored) fr (revoke (\<lambda>s. rs_id s = rs_id stored) (fr_now fr) db)"

definition refresh :: "'tok auth_env \<Rightarrow> Settings \<Rightarrow> string option \<Rightarrow> fresh \<Rightarrow> auth_db
    \<Rightarrow> auth_db \<times> ('tok AccessTokenResponse \<times> refresh_cookie) http" where
  "refresh env st cookie fr = transactional (\<lambda>db. case refresh_read env st cookie (fr_now fr) db of
     Inl f \<Rightarrow> (db, Inl f) | Inr (stored, user) \<Rightarrow> refresh_write env st stored user fr db)"

definition logout :: "'tok auth_env \<Rightarrow> Settings \<Rightarrow> string option \<Rightarrow> datetime \<Rightarrow> auth_db \<Rightarrow> auth_db" where
  "logout env st cookie now db = (case cookie of None \<Rightarrow> db
     | Some token \<Rightarrow> if token = '''' then db
         else revoke (\<lambda>s. rs_token_hash s = hash_refresh_token env st token \<and> rs_revoked_at s = None) now db)"

section \<open>The current user\<close>

definition get_current_user :: "'tok auth_env \<Rightarrow> Settings \<Rightarrow> 'tok option \<Rightarrow> datetime \<Rightarrow> auth_db \<Rightarrow> User http" where
  "get_current_user env st bearer now db =
    (let unauthorized = refuse 401 ''Invalid or expired credentials'' in
     case bearer of None \<Rightarrow> unauthorized
     | Some token \<Rightarrow> (case decode_access_token env st token now of None \<Rightarrow> unauthorized
       | Some c \<Rightarrow> (case cl_sub c of None \<Rightarrow> unauthorized
         | Some sub \<Rightarrow> (case ae_parse_uuid env sub of None \<Rightarrow> unauthorized
           | Some i \<Rightarrow> (case first_row (\<lambda>u. us_id u = i \<and> us_is_active u) (db_users db) of
                 None \<Rightarrow> unauthorized | Some user \<Rightarrow> Inr user)))))"

definition require_admin :: "User \<Rightarrow> User http" where
  "require_admin user = (if us_role user \<noteq> ''admin'' then refuse 403 ''Administrator access required'' else Inr user)"

record UserResponse =
  ur_id :: uuid
  ur_username :: string
  ur_role :: string

definition me :: "User \<Rightarrow> UserResponse" where
  "me user = \<lparr>ur_id = us_id user, ur_username = us_username user, ur_role = us_role user\<rparr>"

text \<open>An endpoint behind \<open>CurrentUser\<close> and one behind \<open>AdminUser\<close>.\<close>

definition for_user :: "'tok auth_env \<Rightarrow> Settings \<Rightarrow> 'tok option \<Rightarrow> datetime \<Rightarrow> auth_db \<Rightarrow> (User \<Rightarrow> 'a http) \<Rightarrow> 'a http" where
  "for_user env st bearer now db h = bindH (get_current_user env st bearer now db) h"

definition for_admin :: "'tok auth_env \<Rightarrow> Settings \<Rightarrow> 'tok option \<Rightarrow> datetime \<Rightarrow> auth_db \<Rightarrow> (User \<Rightarrow> 'a http) \<Rightarrow> 'a http" where
  "for_admin env st bearer now db h = bindH (bindH (get_current_user env st bearer now db) require_admin) h"

end
