(* ===== verification/Identity_Props.thy ===== *)
theory Identity_Props
  imports Identity
begin

text \<open>
  The refresh sessions as a state machine whose steps are whole requests: token hashes stay unique, a family has at most
  one live session, and a token that was rotated or logged out is refused for ever. Two requests that read before
  either writes break the rotation; and the access token names the user who logged in until it expires.
\<close>

section \<open>Steps\<close>

inductive auth_step :: "'tok auth_env \<Rightarrow> Settings \<Rightarrow> auth_db \<Rightarrow> auth_db \<Rightarrow> bool" for env st where
  login: "login env st p fr db = (db', r) \<Longrightarrow> fr_family_id fr \<notin> rs_family_id ` set (db_sessions db) \<Longrightarrow> auth_step env st db db'"
| refresh: "refresh env st cookie fr db = (db', r) \<Longrightarrow> auth_step env st db db'"
| logout: "auth_step env st db (logout env st cookie now db)"
| accounts: "auth_step env st db (db\<lparr>db_users := us\<rparr>)"

definition no_sessions :: "User list \<Rightarrow> auth_db" where
  "no_sessions us = \<lparr>db_users = us, db_sessions = []\<rparr>"

definition live :: "uuid \<Rightarrow> auth_db \<Rightarrow> RefreshSession list" where
  "live f db = filter (\<lambda>s. rs_family_id s = f \<and> rs_revoked_at s = None) (db_sessions db)"

definition sessions_inv :: "auth_db \<Rightarrow> bool" where
  "sessions_inv db \<longleftrightarrow> distinct (map rs_id (db_sessions db)) \<and> distinct (map rs_token_hash (db_sessions db))
     \<and> (\<forall>f. length (live f db) \<le> 1)"

section \<open>Rows\<close>

lemma first_row_Some: "first_row P xs = Some x \<Longrightarrow> x \<in> set xs \<and> P x"
  by (auto simp: first_row_def filter_eq_Cons_iff split: list.splits)

lemma first_row_None: "first_row P xs = None \<longleftrightarrow> (\<forall>x \<in> set xs. \<not> P x)"
proof -
  have "first_row P xs = None \<longleftrightarrow> filter P xs = []" by (simp add: first_row_def split: list.split)
  then show ?thesis by (simp add: filter_empty_conv)
qed

lemma first_row_unique: "x \<in> set xs \<Longrightarrow> P x \<Longrightarrow> (\<And>y. y \<in> set xs \<Longrightarrow> P y \<Longrightarrow> y = x) \<Longrightarrow> first_row P xs = Some x"
proof -
  assume x: "x \<in> set xs" "P x" and u: "\<And>y. y \<in> set xs \<Longrightarrow> P y \<Longrightarrow> y = x"
  then obtain y where "first_row P xs = Some y" using first_row_None [of P xs] by (cases "first_row P xs") blast+
  with first_row_Some [OF this] u show ?thesis by blast
qed

lemma revoke_ids [simp]: "map rs_id (db_sessions (revoke P now db)) = map rs_id (db_sessions db)"
  "map rs_token_hash (db_sessions (revoke P now db)) = map rs_token_hash (db_sessions db)"
  by (simp_all add: revoke_def)

lemma revoke_images [simp]: "rs_id ` set (db_sessions (revoke P now db)) = rs_id ` set (db_sessions db)"
  "rs_token_hash ` set (db_sessions (revoke P now db)) = rs_token_hash ` set (db_sessions db)"
  using revoke_ids [of P now db] by (metis list.set_map)+

lemma revoke_live: "live f (revoke P now db) = filter (\<lambda>s. \<not> P s) (live f db)"
proof -
  have "filter (\<lambda>s. rs_family_id s = f \<and> rs_revoked_at s = None)
      (map (\<lambda>s. if P s then s\<lparr>rs_revoked_at := Some now\<rparr> else s) xs)
      = filter (\<lambda>s. \<not> P s) (filter (\<lambda>s. rs_family_id s = f \<and> rs_revoked_at s = None) xs)" for xs
    by (induction xs) auto
  then show ?thesis by (simp add: live_def revoke_def)
qed

lemma revoke_inv: "sessions_inv db \<Longrightarrow> sessions_inv (revoke P now db)"
  unfolding sessions_inv_def revoke_ids revoke_live by (metis le_trans length_filter_le)

lemma add_session_Inr: "add_session s db = Inr db' \<longleftrightarrow> rs_id s \<notin> rs_id ` set (db_sessions db)
    \<and> rs_token_hash s \<notin> rs_token_hash ` set (db_sessions db) \<and> db' = db\<lparr>db_sessions := db_sessions db @ [s]\<rparr>"
  by (auto simp: add_session_def)

lemma add_session_inv:
  assumes "add_session s db = Inr db'" and "sessions_inv db" and "rs_revoked_at s = None" and "live (rs_family_id s) db = []"
  shows "sessions_inv db'"
  using assms by (auto simp: add_session_Inr sessions_inv_def live_def)

text \<open>What a session that is opened adds.\<close>

definition new_session :: "'tok auth_env \<Rightarrow> Settings \<Rightarrow> User \<Rightarrow> uuid \<Rightarrow> fresh \<Rightarrow> RefreshSession" where
  "new_session env st user family fr = \<lparr>rs_id = fr_session_id fr, rs_user_id = us_id user, rs_family_id = family,
     rs_token_hash = hash_refresh_token env st (fr_token fr), rs_expires_at = fr_now fr + days (refresh_ttl_days st),
     rs_revoked_at = None\<rparr>"

lemma open_session_Inr: "open_session env st user family fr db = (db', Inr out) \<longleftrightarrow>
    add_session (new_session env st user family fr) db = Inr db'
    \<and> out = (\<lparr>at_access_token = fst (create_access_token env st (us_id user) (us_role user) fr), at_token_type = ''bearer'',
        at_expires_in = jwt_access_ttl_seconds st\<rparr>, set_refresh_cookie st (fr_token fr))"
  by (auto simp: open_session_def new_session_def create_access_token_def Let_def split: sum.splits)

section \<open>The operations\<close>

lemma login_Inr: "login env st p fr db = (db', Inr out) \<Longrightarrow> \<exists>user. first_row (\<lambda>u. us_username u = lr_username p) (db_users db) = Some user
    \<and> us_is_active user \<and> ae_verify_password env (lr_password p) (us_password_hash user)
    \<and> open_session env st user (fr_family_id fr) fr db = (db', Inr out)"
  by (auto simp: login_def transactional_Inr split: sum.splits option.splits if_splits)

lemma refresh_read_Inr: "refresh_read env st cookie now db = Inr (stored, user) \<longleftrightarrow> (\<exists>token. cookie = Some token \<and> token \<noteq> ''''
    \<and> first_row (\<lambda>s. rs_token_hash s = hash_refresh_token env st token) (db_sessions db) = Some stored
    \<and> rs_revoked_at stored = None \<and> now < rs_expires_at stored
    \<and> first_row (\<lambda>u. us_id u = rs_user_id stored) (db_users db) = Some user \<and> us_is_active user)"
  by (auto simp: refresh_read_def refuse_def split: option.splits if_splits)

lemma refresh_Inr: "refresh env st cookie fr db = (db', Inr out) \<longleftrightarrow> (\<exists>stored user.
    refresh_read env st cookie (fr_now fr) db = Inr (stored, user) \<and> refresh_write env st stored user fr db = (db', Inr out))"
  by (auto simp: refresh_def transactional_Inr split: sum.splits)

text \<open>A request that fails leaves the tables alone.\<close>

lemma failed_requests: "login env st p fr db = (db', Inl f) \<Longrightarrow> db' = db" "refresh env st cookie fr db = (db', Inl f) \<Longrightarrow> db' = db"
  unfolding login_def refresh_def by (rule transactional_Inl, assumption)+

text \<open>A live session is the only one of its family, so revoking it leaves the family without one.\<close>

lemma revoke_last:
  assumes "sessions_inv db" and "stored \<in> set (db_sessions db)" and "rs_revoked_at stored = None"
  shows "live (rs_family_id stored) (revoke (\<lambda>s. rs_id s = rs_id stored) now db) = []"
proof -
  have m: "stored \<in> set (live (rs_family_id stored) db)" using assms by (simp add: live_def)
  have "length (live (rs_family_id stored) db) \<le> 1" using assms(1) by (simp add: sessions_inv_def)
  then have "live (rs_family_id stored) db = [stored]"
    using m by (cases "live (rs_family_id stored) db") auto
  then show ?thesis by (simp add: revoke_live)
qed

lemma auth_step_inv: "auth_step env st db db' \<Longrightarrow> sessions_inv db \<Longrightarrow> sessions_inv db'"
proof (induction rule: auth_step.induct)
  case (login p fr db db' r)
  show ?case
  proof (cases r)
    case (Inl f)
    then show ?thesis using login failed_requests(1) by blast
  next
    case (Inr out)
    then obtain user where "open_session env st user (fr_family_id fr) fr db = (db', Inr out)"
      using login_Inr login.hyps(1) by blast
    then have "add_session (new_session env st user (fr_family_id fr) fr) db = Inr db'" by (simp add: open_session_Inr)
    moreover have "\<forall>s \<in> set (db_sessions db). rs_family_id s \<noteq> fr_family_id fr" using login.hyps(2) by (metis imageI)
    then have "live (fr_family_id fr) db = []" by (simp add: live_def filter_empty_conv)
    ultimately show ?thesis using add_session_inv [OF _ login.prems] by (simp add: new_session_def)
  qed
next
  case (refresh cookie fr db db' r)
  show ?case
  proof (cases r)
    case (Inl f)
    then show ?thesis using refresh failed_requests(2) by blast
  next
    case (Inr out)
    then obtain stored user where r: "refresh_read env st cookie (fr_now fr) db = Inr (stored, user)"
        "refresh_write env st stored user fr db = (db', Inr out)" using refresh.hyps refresh_Inr by metis
    let ?db = "revoke (\<lambda>s. rs_id s = rs_id stored) (fr_now fr) db"
    have s: "stored \<in> set (db_sessions db)" "rs_revoked_at stored = None"
      using r(1) by (auto simp: refresh_read_Inr dest: first_row_Some)
    have "add_session (new_session env st user (rs_family_id stored) fr) ?db = Inr db'"
      using r(2) by (simp add: refresh_write_def open_session_Inr)
    moreover have "sessions_inv ?db" using refresh.prems by (rule revoke_inv)
    moreover have "live (rs_family_id stored) ?db = []" using refresh.prems s by (rule revoke_last)
    ultimately show ?thesis using add_session_inv by (simp add: new_session_def)
  qed
next
  case (logout db cookie now)
  then show ?case by (auto simp: logout_def revoke_inv split: option.split)
next
  case (accounts db us)
  then show ?case by (simp add: sessions_inv_def live_def)
qed

lemma reachable_inv: "(auth_step env st)\<^sup>*\<^sup>* (no_sessions us) db \<Longrightarrow> sessions_inv db"
proof (induction rule: rtranclp_induct)
  case base
  then show ?case by (simp add: sessions_inv_def no_sessions_def live_def)
next
  case (step db db')
  then show ?case using auth_step_inv by blast
qed

text \<open>What a successful refresh does to the sessions.\<close>

lemma refresh_rotates:
  assumes inv: "sessions_inv db" and "refresh env st (Some token) fr db = (db', Inr out)"
  shows "\<exists>stored successor. live (rs_family_id stored) db = [stored]
    \<and> rs_token_hash stored = hash_refresh_token env st token \<and> fr_now fr < rs_expires_at stored
    \<and> live (rs_family_id stored) db' = [successor] \<and> rs_token_hash successor = hash_refresh_token env st (fr_token fr)
    \<and> rs_user_id successor = rs_user_id stored \<and> ck_token (snd out) = fr_token fr
    \<and> (\<forall>f. f \<noteq> rs_family_id stored \<longrightarrow> live f db' = live f db)
    \<and> map rs_token_hash (db_sessions db') = map rs_token_hash (db_sessions db) @ [rs_token_hash successor]"
proof -
  obtain stored user where r: "refresh_read env st (Some token) (fr_now fr) db = Inr (stored, user)"
      "refresh_write env st stored user fr db = (db', Inr out)" using assms(2) refresh_Inr by metis
  have s: "stored \<in> set (db_sessions db)" "rs_token_hash stored = hash_refresh_token env st token" "rs_revoked_at stored = None"
      "fr_now fr < rs_expires_at stored" and u: "us_id user = rs_user_id stored"
    using r(1) by (auto simp: refresh_read_Inr dest: first_row_Some)
  let ?new = "new_session env st user (rs_family_id stored) fr" and ?db = "revoke (\<lambda>s. rs_id s = rs_id stored) (fr_now fr) db"
  have "add_session ?new ?db = Inr db'" and ck: "ck_token (snd out) = fr_token fr"
    using r(2) by (auto simp: refresh_write_def open_session_Inr set_refresh_cookie_def)
  then have db': "db' = ?db\<lparr>db_sessions := db_sessions ?db @ [?new]\<rparr>" by (simp add: add_session_Inr)
  have "stored \<in> set (live (rs_family_id stored) db)" using s by (simp add: live_def)
  moreover have "length (live (rs_family_id stored) db) \<le> 1" using inv by (simp add: sessions_inv_def)
  ultimately have one: "live (rs_family_id stored) db = [stored]" by (cases "live (rs_family_id stored) db") auto
  have new: "live (rs_family_id stored) db' = [?new]"
    using revoke_last [OF inv s(1,3), of "fr_now fr"] by (simp add: db' live_def new_session_def)
  have other: "live f db' = live f db" if f: "f \<noteq> rs_family_id stored" for f
  proof -
    have ids: "x = stored" if "x \<in> set (db_sessions db)" "rs_id x = rs_id stored" for x
      using inv that s(1) by (auto simp: sessions_inv_def distinct_map inj_on_def)
    have "live f db' = live f ?db" using f by (simp add: db' live_def new_session_def)
    also have "\<dots> = live f db" unfolding revoke_live by (rule filter_True) (use ids f in \<open>auto simp: live_def\<close>)
    finally show ?thesis .
  qed
  show ?thesis
    using one new other s u ck
    by (intro exI [of _ stored] exI [of _ ?new]) (simp add: db' new_session_def)
qed

text \<open>
  C27. In every state that any sequence of logins, refreshes, logouts and account changes reaches, the sessions
  have distinct identifiers and distinct token hashes, and a family has at most one live session: a token that
  collides with a stored one opens no session. A refresh that succeeds there was shown the only live session
  of its family, unexpired; afterwards the family's only live session is the successor with the new token and
  the same owner, whose hash is new to the table and added to it, and the other families are as before.
\<close>

theorem sessions_rotate:
  assumes "(auth_step env st)\<^sup>*\<^sup>* (no_sessions us) db"
  shows "distinct (map rs_id (db_sessions db)) \<and> distinct (map rs_token_hash (db_sessions db))
    \<and> (\<forall>f. length (live f db) \<le> 1)
    \<and> (\<forall>token fr db' out. refresh env st (Some token) fr db = (db', Inr out) \<longrightarrow>
        (\<exists>stored successor. live (rs_family_id stored) db = [stored]
          \<and> rs_token_hash stored = hash_refresh_token env st token \<and> fr_now fr < rs_expires_at stored
          \<and> live (rs_family_id stored) db' = [successor] \<and> rs_token_hash successor = hash_refresh_token env st (fr_token fr)
          \<and> rs_user_id successor = rs_user_id stored \<and> ck_token (snd out) = fr_token fr
          \<and> (\<forall>f. f \<noteq> rs_family_id stored \<longrightarrow> live f db' = live f db)
          \<and> map rs_token_hash (db_sessions db') = map rs_token_hash (db_sessions db) @ [rs_token_hash successor]
          \<and> distinct (map rs_token_hash (db_sessions db'))))"
proof -
  have inv: "sessions_inv db" using assms by (rule reachable_inv)
  have "distinct (map rs_token_hash (db_sessions db'))" if "refresh env st (Some token) fr db = (db', Inr out)" for token fr db' out
    using auth_step_inv [OF auth_step.refresh [OF that] inv] by (simp add: sessions_inv_def)
  moreover have "distinct (map rs_id (db_sessions db)) \<and> distinct (map rs_token_hash (db_sessions db)) \<and> (\<forall>f. length (live f db) \<le> 1)"
    using inv by (simp add: sessions_inv_def)
  ultimately show ?thesis using refresh_rotates [OF inv] by fast
qed

section \<open>Dead tokens\<close>

definition dead :: "string \<Rightarrow> auth_db \<Rightarrow> bool" where
  "dead h db \<longleftrightarrow> (\<exists>s \<in> set (db_sessions db). rs_token_hash s = h \<and> rs_revoked_at s \<noteq> None)"

lemma revoke_mem: "s \<in> set (db_sessions db)
    \<Longrightarrow> (if P s then s\<lparr>rs_revoked_at := Some now\<rparr> else s) \<in> set (db_sessions (revoke P now db))"
  by (simp add: revoke_def)

lemma dead_revoked: "s \<in> set (db_sessions db) \<Longrightarrow> P s \<Longrightarrow> dead (rs_token_hash s) (revoke P now db)"
proof -
  assume "s \<in> set (db_sessions db)" "P s"
  then have "s\<lparr>rs_revoked_at := Some now\<rparr> \<in> set (db_sessions (revoke P now db))" using revoke_mem [of s db P now] by simp
  then show "dead (rs_token_hash s) (revoke P now db)" unfolding dead_def by (intro bexI [of _ "s\<lparr>rs_revoked_at := Some now\<rparr>"]) simp_all
qed

lemma dead_revoke: "dead h db \<Longrightarrow> dead h (revoke P now db)"
proof -
  assume "dead h db"
  then obtain s where s: "s \<in> set (db_sessions db)" "rs_token_hash s = h" "rs_revoked_at s \<noteq> None" by (auto simp: dead_def)
  show ?thesis
  proof (cases "P s")
    case True
    then show ?thesis using dead_revoked [of s db P now] s by simp
  next
    case False
    then have "s \<in> set (db_sessions (revoke P now db))" using revoke_mem [OF s(1), of P now] by simp
    then show ?thesis using s by (auto simp: dead_def)
  qed
qed

lemma dead_open: "open_session env st user f fr db = (db', r) \<Longrightarrow> dead h db \<Longrightarrow> dead h db'"
  by (auto simp: open_session_def dead_def add_session_def Let_def split: sum.splits if_splits)

lemma dead_step: "auth_step env st db db' \<Longrightarrow> dead h db \<Longrightarrow> dead h db'"
proof (induction rule: auth_step.induct)
  case (login p fr db db' r)
  then show ?case
    by (auto simp: login_def transactional_def split: prod.splits sum.splits option.splits if_splits intro: dead_open)
next
  case (refresh cookie fr db db' r)
  then show ?case
    by (auto simp: refresh_def refresh_write_def transactional_def split: prod.splits sum.splits intro: dead_open dead_revoke)
next
  case (logout db cookie now)
  then show ?case by (auto simp: logout_def dead_revoke split: option.split)
qed (simp add: dead_def)

lemma dead_refused:
  assumes "sessions_inv db" and "dead (hash_refresh_token env st token) db" and "token \<noteq> ''''"
  shows "refresh env st (Some token) fr db = (db, refuse 401 ''Invalid refresh session'')"
proof -
  obtain s where s: "s \<in> set (db_sessions db)" "rs_token_hash s = hash_refresh_token env st token" "rs_revoked_at s \<noteq> None"
    using assms(2) by (auto simp: dead_def)
  have "first_row (\<lambda>s. rs_token_hash s = hash_refresh_token env st token) (db_sessions db) = Some s"
    using s assms(1) by (intro first_row_unique) (auto simp: sessions_inv_def distinct_map inj_on_def)
  then show ?thesis
    using s(3) assms(3) by (auto simp: refresh_def refresh_read_def transactional_def refuse_def)
qed

text \<open>
  C28. A token whose session has ended, by a refresh that rotated it or by a logout, is refused for ever:
  whatever requests come in between, presenting it answers 401 and changes nothing. In particular its
  reuse leaves the rest of the family alone.
\<close>

theorem ended_sessions_stay_dead:
  assumes "(auth_step env st)\<^sup>*\<^sup>* (no_sessions us) db" and "token \<noteq> ''''"
    and "refresh env st (Some token) fr db = (db1, Inr out)
      \<or> db1 = logout env st (Some token) now db \<and> hash_refresh_token env st token \<in> rs_token_hash ` set (db_sessions db)"
    and "(auth_step env st)\<^sup>*\<^sup>* db1 db2"
  shows "refresh env st (Some token) fr' db2 = (db2, refuse 401 ''Invalid refresh session'')"
proof -
  let ?h = "hash_refresh_token env st token"
  have step: "auth_step env st db db1" using assms(3) auth_step.intros(2,3) by metis
  have "dead ?h db1"
    using assms(3)
  proof
    assume "refresh env st (Some token) fr db = (db1, Inr out)"
    then obtain stored user where r: "refresh_read env st (Some token) (fr_now fr) db = Inr (stored, user)"
        "refresh_write env st stored user fr db = (db1, Inr out)" using refresh_Inr by metis
    have "stored \<in> set (db_sessions db)" "rs_token_hash stored = ?h"
      using r(1) by (auto simp: refresh_read_Inr dest: first_row_Some)
    then have "dead ?h (revoke (\<lambda>s. rs_id s = rs_id stored) (fr_now fr) db)"
      using dead_revoked [of stored db "\<lambda>s. rs_id s = rs_id stored"] by simp
    then show ?thesis using r(2) by (auto simp: refresh_write_def intro: dead_open)
  next
    assume l: "db1 = logout env st (Some token) now db \<and> ?h \<in> rs_token_hash ` set (db_sessions db)"
    then obtain s where s: "s \<in> set (db_sessions db)" "rs_token_hash s = ?h" by auto
    let ?P = "\<lambda>s. rs_token_hash s = ?h \<and> rs_revoked_at s = None"
    have "db1 = revoke ?P now db" using l assms(2) by (simp add: logout_def)
    then show ?thesis using dead_revoked [OF s(1), of ?P now] dead_revoke [of ?h db ?P now] s
      by (cases "rs_revoked_at s") (auto simp: dead_def)
  qed
  with assms(4) have "dead ?h db2" by (induction rule: rtranclp_induct) (auto intro: dead_step)
  moreover have "(auth_step env st)\<^sup>*\<^sup>* (no_sessions us) db2"
    using assms(1,4) step by (meson rtranclp.rtrancl_into_rtrancl rtranclp_trans)
  ultimately show ?thesis using assms(2) reachable_inv dead_refused by metis
qed

section \<open>Two requests at once\<close>

text \<open>
  C29. The rotation is not atomic: when two requests with the same token both read before either writes,
  both succeed, and their family has two live sessions.
\<close>

theorem refresh_race:
  assumes "(auth_step env st)\<^sup>*\<^sup>* (no_sessions us) db"
    and "refresh_read env st (Some token) (fr_now fr1) db = Inr (stored, user)"
    and "refresh_read env st (Some token) (fr_now fr2) db = Inr (stored, user)"
    and "distinct (fr_session_id fr1 # fr_session_id fr2 # map rs_id (db_sessions db))"
    and "distinct (hash_refresh_token env st (fr_token fr1) # hash_refresh_token env st (fr_token fr2)
      # map rs_token_hash (db_sessions db))"
  shows "\<exists>db1 db2 out1 out2. refresh_write env st stored user fr1 db = (db1, Inr out1)
    \<and> refresh_write env st stored user fr2 db1 = (db2, Inr out2) \<and> length (live (rs_family_id stored) db2) = 2"
proof -
  let ?P = "\<lambda>s. rs_id s = rs_id stored" and ?f = "rs_family_id stored"
  let ?n1 = "new_session env st user ?f fr1" and ?n2 = "new_session env st user ?f fr2"
  have s: "stored \<in> set (db_sessions db)" "rs_revoked_at stored = None"
    using assms(2) by (auto simp: refresh_read_Inr dest: first_row_Some)
  define d where "d = revoke ?P (fr_now fr1) db"
  define db1 where "db1 = d\<lparr>db_sessions := db_sessions d @ [?n1]\<rparr>"
  have ids: "rs_id ` set (db_sessions d) = rs_id ` set (db_sessions db)"
      "rs_token_hash ` set (db_sessions d) = rs_token_hash ` set (db_sessions db)"
    unfolding d_def by simp_all
  have a1: "add_session ?n1 d = Inr db1" using assms(4,5) ids by (simp add: add_session_Inr db1_def new_session_def)
  have no: "live ?f d = []" unfolding d_def by (rule revoke_last [OF reachable_inv [OF assms(1)] s])
  define e where "e = revoke ?P (fr_now fr2) db1"
  define db2 where "db2 = e\<lparr>db_sessions := db_sessions e @ [?n2]\<rparr>"
  have "rs_id ` set (db_sessions e) = insert (fr_session_id fr1) (rs_id ` set (db_sessions db))"
      "rs_token_hash ` set (db_sessions e) = insert (hash_refresh_token env st (fr_token fr1)) (rs_token_hash ` set (db_sessions db))"
    unfolding e_def using ids by (simp_all add: db1_def new_session_def)
  then have a2: "add_session ?n2 e = Inr db2" using assms(4,5) by (auto simp: add_session_Inr db2_def new_session_def)
  have "live ?f db1 = [?n1]" using no by (simp add: db1_def live_def new_session_def)
  moreover have "rs_id stored \<noteq> fr_session_id fr1" using assms(4) imageI [OF s(1), of rs_id] by auto
  ultimately have "live ?f e = [?n1]" unfolding e_def revoke_live by (simp add: new_session_def)
  then have "length (live ?f db2) = 2" by (simp add: db2_def live_def new_session_def)
  then show ?thesis using a1 a2 unfolding refresh_write_def open_session_Inr d_def [symmetric] e_def by blast
qed

section \<open>Access tokens\<close>

text \<open>
  The documented behaviour of the codec: a token decodes with its key, audience and issuer, from its issue
  until its expiry, cut to whole seconds, and keeps its subject; from its expiry on it does not decode.
\<close>

definition jwt_documented :: "'tok auth_env \<Rightarrow> bool" where
  "jwt_documented env \<longleftrightarrow>
    (\<forall>c k now. (cl_iat c \<le> now \<and> now < cl_exp c div 1000000 * 1000000
       \<longrightarrow> (\<exists>c'. ae_jwt_decode env (ae_jwt_encode env c k) k (cl_aud c) (cl_iss c) now = Some c' \<and> cl_sub c' = cl_sub c))
     \<and> (cl_exp c \<le> now \<longrightarrow> ae_jwt_decode env (ae_jwt_encode env c k) k (cl_aud c) (cl_iss c) now = None))
   \<and> (\<forall>i. ae_parse_uuid env (ae_uuid_text env i) = Some i)"

lemma jwt_decodes: "jwt_documented env \<Longrightarrow> cl_iat c \<le> now \<Longrightarrow> now < cl_exp c div 1000000 * 1000000
    \<Longrightarrow> \<exists>c'. ae_jwt_decode env (ae_jwt_encode env c k) k (cl_aud c) (cl_iss c) now = Some c' \<and> cl_sub c' = cl_sub c"
  by (simp add: jwt_documented_def)

lemma jwt_expires: "jwt_documented env \<Longrightarrow> cl_exp c \<le> now
    \<Longrightarrow> ae_jwt_decode env (ae_jwt_encode env c k) k (cl_aud c) (cl_iss c) now = None"
  by (simp add: jwt_documented_def)

definition claims_of :: "'tok auth_env \<Rightarrow> Settings \<Rightarrow> uuid \<Rightarrow> string \<Rightarrow> fresh \<Rightarrow> claims" where
  "claims_of env st i role fr = \<lparr>cl_sub = Some (ae_uuid_text env i), cl_role = role, cl_iss = jwt_issuer st,
     cl_aud = jwt_audience st, cl_iat = fr_issued_at fr, cl_exp = fr_issued_at fr + seconds (jwt_access_ttl_seconds st),
     cl_jti = fr_jti fr\<rparr>"

lemma decode_created: "decode_access_token env st (fst (create_access_token env st i role fr)) now
    = (let c = claims_of env st i role fr in ae_jwt_decode env (ae_jwt_encode env c (jwt_signing_key st)) (jwt_signing_key st)
        (cl_aud c) (cl_iss c) now)"
  by (simp add: create_access_token_def decode_access_token_def claims_of_def)

lemma token_names_user:
  assumes "jwt_documented env" and "distinct (map us_id (db_users db))" and "user \<in> set (db_users db)" and "us_is_active user"
    and "fr_issued_at fr \<le> now" and "now < (fr_issued_at fr + seconds (jwt_access_ttl_seconds st)) div 1000000 * 1000000"
  shows "get_current_user env st (Some (fst (create_access_token env st (us_id user) role fr))) now db = Inr user"
proof -
  have "first_row (\<lambda>u. us_id u = us_id user \<and> us_is_active u) (db_users db) = Some user"
    using assms(2-4) by (intro first_row_unique) (auto simp: distinct_map inj_on_def)
  moreover obtain c' where "decode_access_token env st (fst (create_access_token env st (us_id user) role fr)) now = Some c'"
      "cl_sub c' = Some (ae_uuid_text env (us_id user))"
    using jwt_decodes [OF assms(1), of "claims_of env st (us_id user) role fr" now "jwt_signing_key st"] assms(5,6)
    unfolding decode_created by (auto simp: claims_of_def Let_def)
  ultimately show ?thesis using assms(1) by (simp add: get_current_user_def jwt_documented_def)
qed

lemma expired_token:
  assumes "jwt_documented env" and "fr_issued_at fr + seconds (jwt_access_ttl_seconds st) \<le> now"
  shows "get_current_user env st (Some (fst (create_access_token env st i role fr))) now db = refuse 401 ''Invalid or expired credentials''"
  using jwt_expires [OF assms(1), of "claims_of env st i role fr" now "jwt_signing_key st"] assms(2)
  by (simp add: get_current_user_def decode_created Let_def) (simp add: claims_of_def)

text \<open>
  C30. Logging in and using the access token come round: until the token expires it authenticates exactly the
  user whose name was given and whose password verified, with the rights of that user's role, and once
  expired it authenticates nobody.
\<close>

theorem login_authenticates:
  assumes "jwt_documented env" and "distinct (map us_id (db_users db))" and "login env st p fr db = (db', Inr (reply, cookie))"
  shows "\<exists>user \<in> set (db_users db). us_username user = lr_username p \<and> us_is_active user
    \<and> ae_verify_password env (lr_password p) (us_password_hash user)
    \<and> (\<forall>now. fr_issued_at fr \<le> now \<and> now < (fr_issued_at fr + seconds (at_expires_in reply)) div 1000000 * 1000000 \<longrightarrow>
        get_current_user env st (Some (at_access_token reply)) now db' = Inr user
        \<and> for_admin env st (Some (at_access_token reply)) now db' Inr
          = (if us_role user = ''admin'' then Inr user else refuse 403 ''Administrator access required''))
    \<and> (\<forall>now. fr_issued_at fr + seconds (at_expires_in reply) \<le> now \<longrightarrow>
        get_current_user env st (Some (at_access_token reply)) now db' = refuse 401 ''Invalid or expired credentials'')"
proof -
  obtain user where u: "first_row (\<lambda>u. us_username u = lr_username p) (db_users db) = Some user" "us_is_active user"
      "ae_verify_password env (lr_password p) (us_password_hash user)"
    and o: "open_session env st user (fr_family_id fr) fr db = (db', Inr (reply, cookie))"
    using login_Inr [OF assms(3)] by blast
  have m: "user \<in> set (db_users db)" "us_username user = lr_username p" using first_row_Some [OF u(1)] by simp_all
  have users: "db_users db' = db_users db" using o by (auto simp: open_session_Inr add_session_Inr)
  have tok: "at_access_token reply = fst (create_access_token env st (us_id user) (us_role user) fr)"
      "at_expires_in reply = jwt_access_ttl_seconds st" using o by (auto simp: open_session_Inr)
  have valid: "get_current_user env st (Some (at_access_token reply)) now db' = Inr user"
    if "fr_issued_at fr \<le> now" "now < (fr_issued_at fr + seconds (at_expires_in reply)) div 1000000 * 1000000" for now
    using token_names_user [OF assms(1), of db' user fr now st] assms(2) m u(2) users tok that by simp
  then have admin: "for_admin env st (Some (at_access_token reply)) now db' Inr
      = (if us_role user = ''admin'' then Inr user else refuse 403 ''Administrator access required'')"
    if "fr_issued_at fr \<le> now" "now < (fr_issued_at fr + seconds (at_expires_in reply)) div 1000000 * 1000000" for now
    using that by (simp add: for_admin_def require_admin_def refuse_def)
  show ?thesis using valid admin expired_token [OF assms(1)] tok m u(2,3) by (intro bexI [of _ user]) auto
qed

section \<open>Witnesses\<close>

definition demo_auth :: "(claims \<times> string) auth_env" where
  "demo_auth = \<lparr>ae_verify_password = (\<lambda>p h. p = h), ae_hmac = (\<lambda>k t. t), ae_jwt_encode = (\<lambda>c k. (c, k)),
     ae_jwt_decode = (\<lambda>t k aud iss now. if snd t = k \<and> cl_aud (fst t) = aud \<and> cl_iss (fst t) = iss
        \<and> cl_iat (fst t) \<le> now \<and> now < cl_exp (fst t) div 1000000 * 1000000 then Some (fst t) else None),
     ae_uuid_text = (\<lambda>i. replicate i CHR ''1''), ae_parse_uuid = (\<lambda>s. Some (length s))\<rparr>"

definition alice :: User where
  "alice = \<lparr>us_id = 1, us_username = ''alice'', us_password_hash = ''password'', us_role = ''admin'', us_is_active = True\<rparr>"

definition drawn :: "nat \<Rightarrow> string \<Rightarrow> fresh" where
  "drawn i t = \<lparr>fr_token = t, fr_session_id = i, fr_family_id = 9, fr_jti = i, fr_now = int i, fr_issued_at = int i\<rparr>"

definition alice_in :: auth_db where
  "alice_in = fst (login demo_auth default_settings \<lparr>lr_username = ''alice'', lr_password = ''password''\<rparr> (drawn 1 ''a'')
     (no_sessions [alice]))"

lemmas demo_auth_defs = demo_auth_def alice_def drawn_def login_def refresh_def transactional_def login_payload_def between_def
  first_row_def open_session_def add_session_def no_sessions_def create_access_token_def set_refresh_cookie_def
  hash_refresh_token_def refresh_read_def refresh_write_def revoke_def default_settings_def days_def seconds_def

lemma alice_in: "alice_in = \<lparr>db_users = [alice], db_sessions = [\<lparr>rs_id = 1, rs_user_id = 1, rs_family_id = 9, rs_token_hash = ''a'',
    rs_expires_at = 1 + days 14, rs_revoked_at = None\<rparr>]\<rparr>"
  by (simp add: alice_in_def demo_auth_defs)

lemma alice_reachable: "(auth_step demo_auth default_settings)\<^sup>*\<^sup>* (no_sessions [alice]) alice_in"
proof -
  have "auth_step demo_auth default_settings (no_sessions [alice]) alice_in"
    by (rule auth_step.login [of _ _ "\<lparr>lr_username = ''alice'', lr_password = ''password''\<rparr>" "drawn 1 ''a''"])
      (simp_all add: alice_in_def no_sessions_def prod_eq_iff)
  then show ?thesis by (rule r_into_rtranclp)
qed

lemma alice_refreshes: "\<exists>db out. refresh demo_auth default_settings (Some ''a'') (drawn 2 ''b'') alice_in = (db, Inr out)"
  by (simp add: alice_in demo_auth_defs)

lemma sessions_rotate_witness:
  "\<exists>db out successor. refresh demo_auth default_settings (Some ''a'') (drawn 2 ''b'') alice_in = (db, Inr out)
    \<and> live 9 db = [successor] \<and> rs_token_hash successor = ''b''"
proof -
  obtain db out where r: "refresh demo_auth default_settings (Some ''a'') (drawn 2 ''b'') alice_in = (db, Inr out)"
    using alice_refreshes by blast
  obtain stored successor where l: "live (rs_family_id stored) alice_in = [stored]" "live (rs_family_id stored) db = [successor]"
      "rs_token_hash successor = hash_refresh_token demo_auth default_settings (fr_token (drawn 2 ''b''))"
    using sessions_rotate [OF alice_reachable] r by meson
  have "stored \<in> set (live (rs_family_id stored) alice_in)" unfolding l(1) by simp
  then have "rs_family_id stored = 9" by (auto simp: alice_in live_def split: if_splits)
  then show ?thesis using r l by (auto simp: demo_auth_defs)
qed

lemma ended_sessions_stay_dead_witness:
  "\<exists>db out. refresh demo_auth default_settings (Some ''a'') (drawn 2 ''b'') alice_in = (db, Inr out)
    \<and> refresh demo_auth default_settings (Some ''a'') (drawn 3 ''c'') db = (db, refuse 401 ''Invalid refresh session'')"
proof -
  obtain db out where r: "refresh demo_auth default_settings (Some ''a'') (drawn 2 ''b'') alice_in = (db, Inr out)"
    using alice_refreshes by blast
  show ?thesis
    using r ended_sessions_stay_dead [OF alice_reachable _ disjI1 [OF r], of db "drawn 3 ''c''"] by blast
qed

lemma refresh_race_witness:
  "\<exists>stored user db1 db2 out1 out2. refresh_write demo_auth default_settings stored user (drawn 2 ''b'') alice_in = (db1, Inr out1)
    \<and> refresh_write demo_auth default_settings stored user (drawn 3 ''c'') db1 = (db2, Inr out2)
    \<and> length (live (rs_family_id stored) db2) = 2"
proof -
  let ?s = "hd (db_sessions alice_in)"
  have r: "refresh_read demo_auth default_settings (Some ''a'') (fr_now (drawn i t)) alice_in = Inr (?s, alice)" if "i \<in> {2, 3}" for i t
    using that by (auto simp: alice_in demo_auth_defs)
  have "distinct (fr_session_id (drawn 2 ''b'') # fr_session_id (drawn 3 ''c'') # map rs_id (db_sessions alice_in))"
    "distinct (hash_refresh_token demo_auth default_settings (fr_token (drawn 2 ''b''))
      # hash_refresh_token demo_auth default_settings (fr_token (drawn 3 ''c'')) # map rs_token_hash (db_sessions alice_in))"
    by (simp_all add: alice_in demo_auth_defs)
  then show ?thesis using refresh_race [OF alice_reachable r r, of 2 3] by blast
qed

lemma login_authenticates_witness:
  "\<exists>db reply cookie. login demo_auth default_settings \<lparr>lr_username = ''alice'', lr_password = ''password''\<rparr> (drawn 1 ''a'')
      (no_sessions [alice]) = (db, Inr (reply, cookie))
    \<and> get_current_user demo_auth default_settings (Some (at_access_token reply)) 7 db = Inr alice"
proof -
  let ?login = "login demo_auth default_settings \<lparr>lr_username = ''alice'', lr_password = ''password''\<rparr> (drawn 1 ''a'') (no_sessions [alice])"
  obtain db reply cookie where l: "?login = (db, Inr (reply, cookie))" and e: "at_expires_in reply = 900"
    by (simp add: demo_auth_defs)
  have j: "jwt_documented demo_auth" by (auto simp: jwt_documented_def demo_auth_def)
  have d: "distinct (map us_id (db_users (no_sessions [alice])))" by (simp add: no_sessions_def)
  show ?thesis using l login_authenticates [OF j d l] e by (auto simp: no_sessions_def drawn_def seconds_def)
qed

end
