(* ===== verification/Market_Service.thy ===== *)
theory Market_Service
  imports Realtime Identity
begin

text \<open>
  The market data service, \<open>modules/market/application.py\<close>, and its routes, \<open>presentation/router.py\<close>.
  The provider's answers to one request are the arguments of the model, as is the order in which
  concurrent calls complete; the text of an exception is a parameter.
\<close>

section \<open>The service\<close>

record market_provider =
  mp_status :: "ProviderStatus res"
  mp_instrument :: "string \<Rightarrow> InstrumentSnapshot res"
  mp_daily_bars :: "string \<Rightarrow> date \<Rightarrow> date \<Rightarrow> MarketBar list res"
  mp_prices :: "string list \<Rightarrow> QuoteSnapshot list res"
  mp_minute_bars :: "string \<Rightarrow> int \<Rightarrow> MinuteBar list res"
  mp_warnings :: "string \<Rightarrow> StockWarning list res"

record BarsResult =
  br_result_symbol :: string
  br_result_bars :: "MarketBar list"
  br_result_source :: string
  br_result_as_of :: datetime
  br_result_stale :: bool

record PricesResult =
  pq_quotes :: "QuoteSnapshot list"
  pq_source :: string
  pq_as_of :: datetime

definition max_range_days :: int where
  "max_range_days = 366"

text \<open>\<open>str.upper\<close> and \<open>str.isalnum\<close> on ASCII texts.\<close>

definition upper_char :: "char \<Rightarrow> char" where
  "upper_char c = (if 97 \<le> (of_char c :: nat) \<and> (of_char c :: nat) \<le> 122 then char_of (of_char c - 32 :: nat) else c)"

definition is_alnum :: "char \<Rightarrow> bool" where
  "is_alnum c = (let n = of_char c :: nat in (48 \<le> n \<and> n \<le> 57) \<or> (65 \<le> n \<and> n \<le> 90) \<or> (97 \<le> n \<and> n \<le> 122))"

definition alnum :: "string \<Rightarrow> bool" where
  "alnum s \<longleftrightarrow> s \<noteq> '''' \<and> list_all is_alnum s"

definition symbol_of :: "string \<Rightarrow> string res" where
  "symbol_of value = (let v = map upper_char (strip value) in
     if v = '''' \<or> 32 < length v \<or> \<not> alnum (filter (\<lambda>c. c \<noteq> CHR ''-'') v) then Inl (ValueError ''invalid instrument symbol'')
     else Inr v)"

definition service_instrument :: "market_provider \<Rightarrow> string \<Rightarrow> InstrumentSnapshot res" where
  "service_instrument mp symbol = bindE (symbol_of symbol) (mp_instrument mp)"

definition newest_as_of :: "('a \<Rightarrow> datetime) \<Rightarrow> datetime \<Rightarrow> 'a list \<Rightarrow> datetime" where
  "newest_as_of as_of now xs = (case xs of [] \<Rightarrow> now | x # rest \<Rightarrow> foldl max (as_of x) (map as_of rest))"

definition service_daily_bars :: "market_provider \<Rightarrow> datetime \<Rightarrow> string \<Rightarrow> date \<Rightarrow> date \<Rightarrow> BarsResult res" where
  "service_daily_bars mp now symbol start stop =
    (if stop < start then Inl (ValueError ''start_date must not be after end_date'')
     else if max_range_days < stop - start then Inl (ValueError ''date range must not exceed 366 days'')
     else bindE (symbol_of symbol) (\<lambda>s. bindE (mp_daily_bars mp s start stop) (\<lambda>bars.
       let as_of = newest_as_of mk_as_of now bars
       in Inr \<lparr>br_result_symbol = s, br_result_bars = bars,
         br_result_source = (if bars = [] then ''toss'' else mk_source (hd bars)), br_result_as_of = as_of,
         br_result_stale = (86400 * 1000000 < now - as_of)\<rparr>)))"

definition service_prices :: "market_provider \<Rightarrow> datetime \<Rightarrow> string list \<Rightarrow> PricesResult res" where
  "service_prices mp now symbols = bindE (mapE symbol_of symbols) (\<lambda>clean. bindE (mp_prices mp clean) (\<lambda>quotes.
     Inr \<lparr>pq_quotes = quotes, pq_source = (if quotes = [] then ''toss'' else q_source (hd quotes)),
       pq_as_of = newest_as_of q_as_of now quotes\<rparr>))"

definition service_warnings :: "market_provider \<Rightarrow> string \<Rightarrow> StockWarning list res" where
  "service_warnings mp symbol = bindE (symbol_of symbol) (mp_warnings mp)"

text \<open>\<open>asyncio.gather\<close> of four calls: their values, or the exception of the one that fails first.\<close>

definition failure_of :: "'a res \<Rightarrow> py_exc option" where
  "failure_of m = (case m of Inl e \<Rightarrow> Some e | Inr _ \<Rightarrow> None)"

definition first_failure :: "nat list \<Rightarrow> py_exc option list \<Rightarrow> py_exc option" where
  "first_failure order es = (case List.map_filter (\<lambda>i. if i < length es then es ! i else None) order of
     [] \<Rightarrow> None | e # _ \<Rightarrow> Some e)"

definition gather4 :: "nat list \<Rightarrow> 'a res \<Rightarrow> 'b res \<Rightarrow> 'c res \<Rightarrow> 'd res \<Rightarrow> ('a \<times> 'b \<times> 'c \<times> 'd) res" where
  "gather4 order a b c d = (case first_failure order [failure_of a, failure_of b, failure_of c, failure_of d] of
     Some e \<Rightarrow> Inl e
   | None \<Rightarrow> bindE a (\<lambda>w. bindE b (\<lambda>x. bindE c (\<lambda>y. bindE d (\<lambda>z. Inr (w, x, y, z))))))"

definition listed_kospi_share :: "InstrumentSnapshot \<Rightarrow> bool" where
  "listed_kospi_share i \<longleftrightarrow> in_market i = ''KOSPI'' \<and> in_security_type i = Some ''common_stock''
     \<and> in_listing_status i = Some ''listed''"

definition realtime_analysis :: "market_provider \<Rightarrow> SwingConfig \<Rightarrow> nat list \<Rightarrow> date \<Rightarrow> string \<Rightarrow> RealtimeAnalysis res" where
  "realtime_analysis mp config order today symbol =
    bindE (symbol_of symbol) (\<lambda>s. bindE (mp_instrument mp s) (\<lambda>i.
    if \<not> listed_kospi_share i then Inl (ValueError ''only active KOSPI common stocks are supported'')
    else bindE (gather4 order (mp_prices mp [s]) (mp_daily_bars mp s (today - 240) today) (mp_minute_bars mp s 200) (mp_warnings mp s))
      (\<lambda>(quotes, daily_bars, minute_bars, warnings).
      if length quotes \<noteq> 1 \<or> q_symbol (hd quotes) \<noteq> s
      then Inl (ValueError ''provider did not return the requested quote'')
      else analyze_realtime i (hd quotes) daily_bars minute_bars warnings config)))"

section \<open>The routes\<close>

fun kind_name :: "provider_error_kind \<Rightarrow> string" where
  "kind_name ProviderAuthenticationError = ''ProviderAuthenticationError''"
| "kind_name ProviderForbiddenError = ''ProviderForbiddenError''"
| "kind_name ProviderNotFoundError = ''ProviderNotFoundError''"
| "kind_name ProviderValidationError = ''ProviderValidationError''"
| "kind_name ProviderRateLimitError = ''ProviderRateLimitError''"
| "kind_name ProviderUnavailableError = ''ProviderUnavailableError''"
| "kind_name ProviderMalformedResponseError = ''ProviderMalformedResponseError''"

definition provider_status :: "ProviderError \<Rightarrow> nat" where
  "provider_status e =
    (if er_kind e = ProviderValidationError then 422 else if er_kind e = ProviderAuthenticationError then 502
     else if er_kind e = ProviderForbiddenError then 503 else if er_kind e = ProviderNotFoundError then 404
     else if er_kind e = ProviderRateLimitError \<or> er_retryable e then 503 else 502)"

definition optional_detail :: "string \<Rightarrow> string option \<Rightarrow> (string, string) dict" where
  "optional_detail key v = (case v of None \<Rightarrow> [] | Some s \<Rightarrow> if s = '''' then [] else [(key, s)])"

definition raise_market :: "(py_exc \<Rightarrow> string) \<Rightarrow> py_exc \<Rightarrow> fault" where
  "raise_market message e =
    (if is_value_error e then HTTPException 422 (DText (message e))
     else case e of ProviderException er \<Rightarrow> HTTPException (provider_status er)
         (DFields ([(''code'', kind_name (er_kind er)), (''message'', er_message er), (''provider'', er_provider er)]
           @ optional_detail ''request_id'' (er_request_id er) @ optional_detail ''provider_code'' (er_provider_code er)))
       | _ \<Rightarrow> Unhandled e)"

text \<open>\<open>symbols.split(",")\<close>\<close>

fun split_commas :: "string \<Rightarrow> string list" where
  "split_commas [] = ['''']"
| "split_commas (c # cs) = (if c = CHR '','' then '''' # split_commas cs
     else case split_commas cs of [] \<Rightarrow> [[c]] | w # ws \<Rightarrow> (c # w) # ws)"

definition status_route :: "User http \<Rightarrow> market_provider \<Rightarrow> ProviderStatus http" where
  "status_route user mp = bindH user (\<lambda>_. catching Unhandled (mp_status mp))"

definition prices_route :: "(py_exc \<Rightarrow> string) \<Rightarrow> User http \<Rightarrow> market_provider \<Rightarrow> datetime \<Rightarrow> string \<Rightarrow> PricesResult http" where
  "prices_route message user mp now symbols = bindH user (\<lambda>_.
     if symbols = '''' then refuse 422 ''validation''
     else catching (raise_market message) (service_prices mp now (split_commas symbols)))"

definition instrument_route :: "(py_exc \<Rightarrow> string) \<Rightarrow> User http \<Rightarrow> market_provider \<Rightarrow> string \<Rightarrow> InstrumentSnapshot http" where
  "instrument_route message user mp symbol = bindH user (\<lambda>_. catching (raise_market message) (service_instrument mp symbol))"

definition warnings_route :: "(py_exc \<Rightarrow> string) \<Rightarrow> User http \<Rightarrow> market_provider \<Rightarrow> string \<Rightarrow> StockWarning list http" where
  "warnings_route message user mp symbol = bindH user (\<lambda>_. catching (raise_market message) (service_warnings mp symbol))"

definition analysis_route :: "(py_exc \<Rightarrow> string) \<Rightarrow> User http \<Rightarrow> market_provider \<Rightarrow> SwingConfig \<Rightarrow> nat list \<Rightarrow> date
    \<Rightarrow> string \<Rightarrow> RealtimeAnalysis http" where
  "analysis_route message user mp config order today symbol =
     bindH user (\<lambda>_. catching (raise_market message) (realtime_analysis mp config order today symbol))"

definition bars_route :: "(py_exc \<Rightarrow> string) \<Rightarrow> User http \<Rightarrow> market_provider \<Rightarrow> datetime \<Rightarrow> string \<Rightarrow> date \<Rightarrow> date
    \<Rightarrow> BarsResult http" where
  "bars_route message user mp now symbol start stop =
     bindH user (\<lambda>_. catching (raise_market message) (service_daily_bars mp now symbol start stop))"

end
