(* ===== verification/Realtime_Returns.thy ===== *)
theory Realtime_Returns
  imports Realtime_Props
begin

text \<open>
  The live analysis returns on well-formed data: every rounding to a quantum stays within 28 digits when
  prices are from the columns' range, no positive price is below a millionth, and the traded value is
  below ten to the 22nd.
\<close>

section \<open>Bounded arithmetic\<close>

lemma representable_power: "k \<le> 22 \<Longrightarrow> representable (10 ^ k)" "k \<le> 22 \<Longrightarrow> representable (- (10 ^ k))"
proof -
  have g: "on_grid 0 (of_int n)" for n by (simp add: on_grid_def)
  have "dround (10 ^ k) = 10 ^ k" "dround (- (10 ^ k)) = - (10 ^ k)" if k: "k \<le> 22"
  proof -
    have "(10 :: rat) ^ k \<le> 10 ^ 22" using k by (intro power_increasing) simp_all
    then have lt: "(10 :: rat) ^ k < 10 ^ 28" by (rule order_le_less_trans) simp
    show "dround (10 ^ k) = 10 ^ k"
      using dround_grid [of 0 "10 ^ k"] g [of "10 ^ k"] lt by simp
    then show "dround (- (10 ^ k)) = - (10 ^ k)" by (simp add: dround_minus)
  qed
  then show "k \<le> 22 \<Longrightarrow> representable (10 ^ k)" "k \<le> 22 \<Longrightarrow> representable (- (10 ^ k))" by (simp_all add: representable_def)
qed

definition small :: "nat \<Rightarrow> decimal \<Rightarrow> bool" where
  "small k x \<longleftrightarrow> \<bar>x\<bar> \<le> 10 ^ k"

lemma small_dround: "k \<le> 22 \<Longrightarrow> small k x \<Longrightarrow> small k (dround x)"
  using dround_ge [OF representable_power(2), of k x] dround_le [OF representable_power(1), of k x]
  by (auto simp: small_def abs_le_iff)

lemma small_mono: "small k x \<Longrightarrow> k \<le> l \<Longrightarrow> small l x"
  unfolding small_def using power_increasing [of k l "10 :: rat"] by linarith

text \<open>A rounding to a hundredth or a ten-thousandth of a bounded value.\<close>

lemma quantize_small:
  assumes "small 20 x" and "0 < q" and "1 \<le> 10 ^ 4 * q"
  shows "\<exists>y. dquantize half_up q x = Inr y"
proof -
  have "\<bar>x / q\<bar> \<le> 10 ^ 20 / q" using assms(1,2) by (simp add: small_def divide_right_mono)
  also have "\<dots> \<le> 10 ^ 20 * 10 ^ 4" using assms(2,3) by (simp add: pos_divide_le_eq mult.assoc)
  finally have b: "\<bar>x / q\<bar> \<le> of_int (10 ^ 24)" by simp
  have "x / q \<le> of_int (10 ^ 24)" "of_int (- (10 ^ 24)) \<le> x / q" using b unfolding of_int_minus by linarith+
  then have "half_up (x / q) \<le> 10 ^ 24" "- (10 ^ 24) \<le> half_up (x / q)" using hu.rnd_le hu.rnd_ge by blast+
  then have "\<bar>half_up (x / q)\<bar> < 10 ^ 28" by (simp add: abs_less_iff)
  then show ?thesis by (simp add: dquantize_def Let_def)
qed

lemma quantize_error:
  assumes "dquantize half_up q x = Inr y" and "0 < q"
  shows "\<bar>y\<bar> \<le> \<bar>x\<bar> + q"
proof -
  let ?m = "half_up (x / q)"
  have y: "y = of_int ?m * q" using assms(1) by (auto simp: dquantize_Inr_iff)
  have "\<lfloor>x / q\<rfloor> \<le> ?m" "?m \<le> \<lceil>x / q\<rceil>" using hu.rnd_between [of "x / q"] by simp_all
  then have "of_int ?m \<le> x / q + 1" "x / q - 1 \<le> of_int ?m" by linarith+
  then have "of_int ?m * q \<le> x + q" "x - q \<le> of_int ?m * q"
    using mult_right_mono [of "of_int ?m" "x / q + 1" q] mult_right_mono [of "x / q - 1" "of_int ?m" q] assms(2)
    by (simp_all add: algebra_simps)
  then show ?thesis unfolding y by linarith
qed

lemma price_text_returns: "small 14 v \<Longrightarrow> returns (price_text v)"
  using quantize_small [OF small_mono [of 14 v 20], of "1 / 100"] by (auto simp: price_text_def)

definition pct_ok :: "decimal option \<Rightarrow> bool" where
  "pct_ok p \<longleftrightarrow> (case p of None \<Rightarrow> True | Some x \<Rightarrow> \<bar>x\<bar> \<le> 10 ^ 17 + 1)"

lemma percent_text_returns: "pct_ok p \<Longrightarrow> returns (percent_text p)"
proof (cases p)
  case (Some x)
  assume "pct_ok p"
  then have "small 20 (x * 100)" by (simp add: Some pct_ok_def small_def abs_mult)
  then have "small 20 (dmul x 100)" unfolding dmul_def by (intro small_dround) simp_all
  then show ?thesis using quantize_small [of "dmul x 100" "1 / 100"] by (auto simp: Some percent_text_def)
qed (simp add: percent_text_def)

text \<open>A price of the range, and a base that is zero or at least a millionth.\<close>

definition in_range :: "decimal \<Rightarrow> bool" where
  "in_range x \<longleftrightarrow> 0 \<le> x \<and> x \<le> 10 ^ 11"

lemma ratio_returns:
  assumes "in_range v" and "in_range b" and "b \<le> 0 \<or> 1 / 10 ^ 6 \<le> b"
  shows "\<exists>r. price_ratio v b = Inr r \<and> pct_ok r"
proof (cases "b \<le> 0")
  case False
  then have b: "1 / 10 ^ 6 \<le> b" "0 < b" using assms(3) by simp_all
  have "small 11 (v - b)" using assms(1,2) by (simp add: in_range_def small_def abs_le_iff)
  then have "small 11 (dsub v b)" unfolding dsub_def by (rule small_dround [rotated]) simp
  then have "\<bar>dsub v b / b\<bar> \<le> 10 ^ 11 / b" using b(2) by (simp add: small_def divide_right_mono)
  also have "\<dots> \<le> 10 ^ 17" using b by (simp add: pos_divide_le_eq)
  finally have "small 17 (dsub v b / b)" by (simp add: small_def)
  then have q: "small 17 (dquot (dsub v b) b)" unfolding dquot_def by (rule small_dround [rotated]) simp
  then obtain y where y: "dquantize half_up (1 / 10000) (dquot (dsub v b) b) = Inr y"
    using quantize_small [OF small_mono [OF q], of "1 / 10000"] by auto
  have "\<bar>y\<bar> \<le> 10 ^ 17 + 1" using quantize_error [OF y] q by (simp add: small_def)
  then show ?thesis using False y by (simp add: price_ratio_def pct_ok_def)
qed (simp add: price_ratio_def pct_ok_def)

section \<open>Minute bars\<close>

text \<open>Minute bars of one instrument, priced from a millionth up, whose traded value stays below the bound.\<close>

definition minutes_ok :: "decimal \<Rightarrow> MinuteBar list \<Rightarrow> bool" where
  "minutes_ok hi bars \<longleftrightarrow> list_all (priced (1 / 10 ^ 6) hi) bars \<and> hi * of_int (sum_list (map mn_volume bars)) < 10 ^ 22"

lemma priced_range: "priced (1 / 10 ^ 6) hi b \<Longrightarrow> hi \<le> 10 ^ 11 \<Longrightarrow>
    in_range (mn_open b) \<and> in_range (mn_high b) \<and> in_range (mn_low b) \<and> in_range (mn_close b)
    \<and> 1 / 10 ^ 6 \<le> mn_open b \<and> 1 / 10 ^ 6 \<le> mn_close b"
  by (auto simp: priced_def minute_ok_def ohlc_ok_def in_range_def)

lemma joined_minutes_ok:
  assumes ok: "minutes_ok hi bars" and m: "1 < minutes" and hi: "numeric_20_6 hi"
    and one: "list_all (\<lambda>b. mn_symbol b = symbol \<and> mn_currency b = currency) bars"
  shows "\<exists>out. aggregate_minute_bars bars minutes = Inr out \<and> minutes_ok hi out"
proof -
  have each: "priced (1 / 10 ^ 6) hi b" if "b \<in> set bars" for b using ok that by (simp add: minutes_ok_def list_all_iff)
  then have mok: "list_all minute_ok bars" by (auto simp: list_all_iff priced_def)
  obtain out where out: "aggregate_minute_bars bars minutes = Inr out" "list_all (joined_from minutes bars) out"
      "sum_list (map mn_volume out) = sum_list (map mn_volume bars)"
    using aggregated [OF m mok one] by blast
  have "priced (1 / 10 ^ 6) hi b" if b: "b \<in> set out" for b
  proof -
    let ?g = "bars_of_bucket minutes bars (mn_timestamp b)"
    have sub: "set ?g \<subseteq> set bars" by (auto simp: bars_of_bucket_def)
    have j: "?g \<noteq> []" "minute_ok b" "mn_close b = mn_close (last ?g)" "mn_high b \<in> mn_high ` set ?g" "mn_low b \<in> mn_low ` set ?g"
      using out(2) b by (auto simp: list_all_iff joined_from_def Let_def)
    have "last ?g \<in> set bars" using j(1) sub by auto
    then show ?thesis using each j sub unfolding priced_def by (metis (no_types, opaque_lifting) imageE subsetD)
  qed
  then have "minutes_ok hi out" using ok out(3) by (simp add: minutes_ok_def list_all_iff)
  with out(1) show ?thesis by blast
qed

lemma mean_20:
  assumes "20 \<le> length xs" and "list_all (\<lambda>x. numeric_20_6 x \<and> in_range x) xs" and "mean_of (last_n 20 xs) = Some m"
  shows "in_range m"
proof -
  have "length (last_n 20 xs) = 20" using assms(1) by simp
  then have "simple_moving_average xs 20 = Inr (Some m)"
    using assms(1,3) by (auto simp: mean_of_def simple_moving_average_def check_period_def last_n_def split: if_splits)
  moreover have "numeric_20_6 x \<and> 0 \<le> x \<and> 0 \<le> x \<and> x \<le> 10 ^ 11" if "x \<in> set (last_n (nat 20) xs)" for x
    using that assms(2) set_last_n [of 20 xs] by (auto simp: list_all_iff in_range_def)
  moreover have "representable (10 ^ 11)" by (rule representable_power) simp
  ultimately have "0 \<le> m \<and> m \<le> 10 ^ 11" using sma_bounds [of xs 20 m 0 "10 ^ 11"] by simp
  then show ?thesis by (simp add: in_range_def)
qed

definition opt_in_range :: "decimal option \<Rightarrow> bool" where
  "opt_in_range v \<longleftrightarrow> (case v of None \<Rightarrow> True | Some x \<Rightarrow> in_range x)"

lemma extremes_in_range: "list_all in_range xs \<Longrightarrow> opt_in_range (list_max xs) \<and> opt_in_range (list_min xs)"
  using max_of_in [of xs] min_of_in [of xs] by (auto simp: list_max_def list_min_def opt_in_range_def list_all_iff)

text \<open>What the narrative and the levels need of an intraday summary.\<close>

definition intraday_ok :: "IntradaySummary \<Rightarrow> bool" where
  "intraday_ok s \<longleftrightarrow> pct_ok (is_change_from_open_pct s)
     \<and> (case is_vwap s of None \<Rightarrow> True | Some v \<Rightarrow> in_range v \<and> 1 / 10 ^ 6 \<le> v)
     \<and> list_all opt_in_range [is_sma20 s, is_session_low s, is_session_high s, is_recent_low_20 s, is_recent_high_20 s]"

lemma session_subset: "set (session_of bars) \<subseteq> set bars"
  by (auto simp: session_of_def)

lemma filtered_volume:
  "(\<And>b. b \<in> set bars \<Longrightarrow> 0 \<le> mn_volume b) \<Longrightarrow> sum_list (map mn_volume (filter P bars)) \<le> sum_list (map mn_volume bars)"
  by (induction bars) (auto intro: add_mono add_increasing)

lemma intraday_returns:
  assumes ok: "minutes_ok hi bars" and hi: "numeric_20_6 hi" "1 / 10 ^ 6 \<le> hi" "hi \<le> 10 ^ 11" and price: "in_range price"
  shows "\<exists>s. intraday_summary timeframe bars price = Inr s \<and> intraday_ok s"
proof (cases "bars = []")
  case True
  then show ?thesis by (simp add: intraday_summary_def no_candles_def intraday_ok_def pct_ok_def opt_in_range_def)
next
  case False
  let ?session = "session_of bars" and ?recent = "last_n 20 bars"
  have each: "priced (1 / 10 ^ 6) hi b" if "b \<in> set bars" for b using ok that by (simp add: minutes_ok_def list_all_iff)
  note range = priced_range [OF each hi(3)]
  have vol: "0 \<le> mn_volume b" if "b \<in> set bars" for b using each [OF that] by (simp add: priced_def minute_ok_def)
  have sess: "b \<in> set bars" if "b \<in> set ?session" for b using that session_subset by auto
  have rec: "b \<in> set bars" if "b \<in> set ?recent" for b using that set_last_n [of 20 bars] by auto
  have "\<exists>r. (if ?session = [] then Inr None else price_ratio price (mn_open (hd ?session))) = Inr r \<and> pct_ok r"
    using ratio_returns [OF price, of "mn_open (hd ?session)"] range [OF sess, of "hd ?session"]
    by (cases "?session = []") (auto simp: pct_ok_def)
  then obtain change where c: "(if ?session = [] then Inr None else price_ratio price (mn_open (hd ?session))) = Inr change"
      "pct_ok change" by blast
  have "\<exists>r. (if 6 \<le> length bars then price_ratio price (mn_close (bars ! (length bars - 6))) else Inr None) = Inr r"
    using ratio_returns [OF price, of "mn_close (bars ! (length bars - 6))"] range [of "bars ! (length bars - 6)"] False
    by auto
  then obtain momentum where m: "(if 6 \<le> length bars then price_ratio price (mn_close (bars ! (length bars - 6))) else Inr None)
      = Inr momentum" by blast
  have vw: "in_range v \<and> 1 / 10 ^ 6 \<le> v" if "vwap ?session = Some v" for v
  proof -
    have "sum_list (map mn_volume ?session) \<le> sum_list (map mn_volume bars)"
      unfolding session_of_def using vol by (rule filtered_volume)
    then have "hi * of_int (sum_list (map mn_volume ?session)) \<le> hi * of_int (sum_list (map mn_volume bars))"
      using hi(2) by (intro mult_left_mono) simp_all
    then have "hi * of_int (sum_list (map mn_volume ?session)) < 10 ^ 22" using ok by (simp add: minutes_ok_def)
    moreover have "list_all (priced (1 / 10 ^ 6) hi) ?session" using each sess by (simp add: list_all_iff)
    moreover have "numeric_20_6 (1 / 10 ^ 6)" by (auto simp: numeric_20_6_def on_grid_iff intro: exI [of _ 1])
    ultimately have "1 / 10 ^ 6 \<le> v \<and> v \<le> hi" using vwap_bounds [of "1 / 10 ^ 6" hi ?session v] hi(1,2) that by simp
    then show ?thesis using hi(3) by (auto simp: in_range_def intro: order_trans [of 0 "1 / 10 ^ 6"])
  qed
  have s20: "opt_in_range (if 20 \<le> length (map mn_close bars) then mean_of (last_n 20 (map mn_close bars)) else None)"
    using mean_20 [of "map mn_close bars"] range each
    by (auto simp: opt_in_range_def list_all_iff priced_def split: option.split)
  have ext: "list_all in_range (map mn_high ?session)" "list_all in_range (map mn_low ?session)"
      "list_all in_range (map mn_high ?recent)" "list_all in_range (map mn_low ?recent)"
    using range sess rec by (auto simp: list_all_iff)
  show ?thesis
    using False c m s20 vw extremes_in_range [OF ext(1)] extremes_in_range [OF ext(2)] extremes_in_range [OF ext(3)] extremes_in_range [OF ext(4)]
    by (simp add: intraday_summary_def Let_def intraday_ok_def split: option.split)
qed

section \<open>Daily bars\<close>

definition daily_ok :: "MarketBar list \<Rightarrow> bool" where
  "daily_ok bars \<longleftrightarrow> ascending bars \<and> list_all stored_bar bars \<and> list_all (\<lambda>b. mk_high b \<le> 10 ^ 11) bars
     \<and> list_all (\<lambda>b. strip (mk_symbol b) \<noteq> '''') bars"

definition daily_summary_ok :: "DailySummary \<Rightarrow> bool" where
  "daily_summary_ok s \<longleftrightarrow> pct_ok (ds_change_pct s)
     \<and> list_all opt_in_range [ds_sma20 s, ds_recent_low_20 s, ds_recent_high_20 s]"

lemma grid_positive: "numeric_20_6 x \<Longrightarrow> 0 \<le> x \<Longrightarrow> x \<le> 0 \<or> 1 / 10 ^ 6 \<le> x"
proof -
  assume x: "numeric_20_6 x" "0 \<le> x"
  then obtain c where c: "x = of_int c / 10 ^ 6" by (auto simp: numeric_20_6_def on_grid_iff)
  have "c \<le> 0 \<or> 1 \<le> c" by linarith
  then show ?thesis
  proof
    assume "1 \<le> c"
    then have "(1 :: rat) \<le> of_int c" by simp
    then show ?thesis unfolding c by (intro disjI2 divide_right_mono) simp_all
  qed (simp add: c divide_nonpos_pos)
qed

lemma previous_close_mem: "previous_close bars d = Some p \<Longrightarrow> \<exists>b \<in> set bars. p = mk_close b"
proof -
  assume p: "previous_close bars d = Some p"
  have "butlast bars \<noteq> []" if "2 \<le> length bars" using that by (cases bars rule: rev_cases) auto
  then have "2 \<le> length bars \<Longrightarrow> last (butlast bars) \<in> set bars" using last_in_set in_set_butlastD by metis
  then show ?thesis using p last_in_set [of bars] by (auto simp: previous_close_def split: if_splits)
qed

lemma prior_bars_subset: "set (last_n 20 (prior_bars bars)) \<subseteq> set bars"
  using set_last_n [of 20 "prior_bars bars"] set_prior_n [of 20 bars] set_last_n [of 20 bars]
  by (auto simp: prior_bars_def Let_def split: if_splits)

lemma passed_has_bars: "swing_evaluate c bars i = Inr r \<Longrightarrow> sr_passed r \<Longrightarrow> bars \<noteq> [] \<and> sr_symbol r = mk_symbol (last bars)"
proof -
  assume r: "swing_evaluate c bars i = Inr r" "sr_passed r"
  have "fst (swing_common c bars i)" using swing_evaluate_Inr [OF r(1)] r(2) by (auto simp: filter_empty_conv)
  then have "bars \<noteq> []" by (auto simp: swing_common_def)
  then show ?thesis using r(1) by (auto simp: swing_evaluate_def Let_def bindE_eq_Inr)
qed

lemma ranks_alone:
  assumes "swing_evaluate c bars i = Inr r" and "sr_passed r" and "strip (sr_symbol r) \<noteq> ''''"
  shows "\<exists>k. rank_swing c [r] = Inr k"
proof -
  have "returns (rank_swing c [r])"
    using swing_result_shape [OF assms(1)] assms(2,3) by (intro rank_swing_returns_all) auto
  then show ?thesis by (simp add: returns_iff)
qed

lemma daily_returns:
  assumes v: "validate_config c = Inr c'" and m: "marks_ok c" and ok: "daily_ok bars" and price: "in_range (q_price quote)"
  shows "\<exists>s. daily_summary bars quote c = Inr s \<and> daily_summary_ok s"
proof -
  have each: "stored_bar b" "mk_high b \<le> 10 ^ 11" "strip (mk_symbol b) \<noteq> ''''" if "b \<in> set bars" for b
    using ok that by (auto simp: daily_ok_def list_all_iff)
  have range: "in_range (mk_close b)" "in_range (mk_high b)" "in_range (mk_low b)" if "b \<in> set bars" for b
    using each(1,2) [OF that] by (auto simp: stored_bar_def bar_ok_def ohlc_ok_def in_range_def)
  obtain i where i: "calculate bars = Inr i" using ok calculate_iff by (auto simp: daily_ok_def)
  obtain r where r: "swing_evaluate c bars i = Inr r" using swing_evaluate_returns_ok [OF v m] by (auto simp: returns_iff)
  have "\<exists>t. (if sr_passed r then bindE (rank_swing c [r]) (\<lambda>ranked. Inr (Some (rc_total_score (hd ranked)))) else Inr None) = Inr t"
  proof (cases "sr_passed r")
    case True
    have "strip (sr_symbol r) \<noteq> ''''" using passed_has_bars [OF r True] each(3) [of "last bars"] by simp
    then show ?thesis using ranks_alone [OF r True] True by auto
  qed simp
  then obtain t where t: "(if sr_passed r then bindE (rank_swing c [r]) (\<lambda>ranked. Inr (Some (rc_total_score (hd ranked)))) else Inr None) = Inr t"
    by blast
  let ?previous = "previous_close bars (seoul_date (q_as_of quote))"
  have "\<exists>x. (case ?previous of None \<Rightarrow> Inr None | Some p \<Rightarrow> price_ratio (q_price quote) p) = Inr x \<and> pct_ok x"
  proof (cases ?previous)
    case (Some p)
    then obtain b where b: "b \<in> set bars" "p = mk_close b" using previous_close_mem by blast
    then have "p \<le> 0 \<or> 1 / 10 ^ 6 \<le> p"
      using grid_positive [of p] each(1) [OF b(1)] by (auto simp: stored_bar_def bar_ok_def ohlc_ok_def)
    then show ?thesis using ratio_returns [OF price, of p] range b Some by simp
  qed (simp add: pct_ok_def)
  then obtain x where x: "(case ?previous of None \<Rightarrow> Inr None | Some p \<Rightarrow> price_ratio (q_price quote) p) = Inr x" "pct_ok x"
    by blast
  have "opt_in_range (sma20 i)"
  proof (cases "sma20 i")
    case (Some a)
    have s: "simple_moving_average (map mk_close bars) 20 = Inr (Some a)"
      using i Some by (auto simp: calculate_def Let_def bindE_eq_Inr)
    have "numeric_20_6 y \<and> 0 \<le> y \<and> 0 \<le> y \<and> y \<le> 10 ^ 11" if "y \<in> set (last_n (nat 20) (map mk_close bars))" for y
      using that set_last_n [of "nat 20" "map mk_close bars"] each(1) range(1) by (fastforce simp: stored_bar_def in_range_def)
    moreover have "representable (10 ^ 11)" by (rule representable_power) simp
    ultimately have "0 \<le> a \<and> a \<le> 10 ^ 11" using sma_bounds [OF s, of 0 "10 ^ 11"] by simp
    then show ?thesis by (simp add: Some opt_in_range_def in_range_def)
  qed (simp add: opt_in_range_def)
  moreover have "list_all in_range (map mk_high (last_n 20 (prior_bars bars)))" "list_all in_range (map mk_low (last_n 20 (prior_bars bars)))"
    using prior_bars_subset [of bars] range by (auto simp: list_all_iff)
  moreover have "0 \<le> minimum_candidate_score c \<and> minimum_candidate_score c \<le> 100" using min_history [OF v] by simp
  ultimately show ?thesis
    using i r t x extremes_in_range
    by (simp add: daily_summary_def Let_def daily_summary_ok_def)
qed

section \<open>The whole analysis\<close>

lemma levels_in_range:
  assumes "daily_summary_ok daily" and "intraday_ok i" and "l \<in> set (tl_supports (technical_levels p daily i)) \<union> set (tl_resistances (technical_levels p daily i))"
  shows "in_range (pl_price l)"
proof -
  have d: "distinct (map snd (level_values daily i))" by (simp add: level_values_def)
  have "pl_price l \<in> fst ` set (grouped_levels (level_values daily i))"
    using assms(3) by (force simp: technical_levels_def Let_def to_level_def dest!: in_set_takeD)
  then have "Some (pl_price l) \<in> fst ` set (level_values daily i)" using grouped_spec [OF d] by simp
  then have "opt_in_range (Some (pl_price l))"
    using assms(1,2) by (auto simp: level_values_def daily_summary_ok_def intraday_ok_def opt_in_range_def split: option.splits)
  then show ?thesis by (simp add: opt_in_range_def)
qed

lemma in_range_text: "in_range v \<Longrightarrow> returns (price_text v)"
  by (rule price_text_returns) (auto simp: in_range_def small_def)

lemma narrative_returns:
  assumes d: "daily_summary_ok daily" and i: "intraday_ok i" and price: "in_range (q_price quote)"
  shows "returns (narrative quote daily i (technical_levels (q_price quote) daily i) warnings)"
proof -
  let ?l = "technical_levels (q_price quote) daily i"
  have vw: "in_range v" "1 / 10 ^ 6 \<le> v" if "is_vwap i = Some v" for v using i that by (simp_all add: intraday_ok_def)
  have s: "returns (price_text (pl_price l))" if "l \<in> set (tl_supports ?l) \<union> set (tl_resistances ?l)" for l
    using levels_in_range [OF d i that] by (rule in_range_text)
  have second: "returns (case is_vwap i of None \<Rightarrow> Inr (NoVwap (is_timeframe i))
      | Some v \<Rightarrow> bindE (percent_text (is_change_from_open_pct i)) (\<lambda>c. bindE (price_text v) (\<lambda>p. Inr (IntradayChange (is_timeframe i) c p))))"
    using i in_range_text [OF vw(1)] percent_text_returns by (auto simp: returns_bindE intraday_ok_def split: option.split)
  have entry: "returns (case (tl_resistances ?l, is_vwap i) of
        (l # _, _) \<Rightarrow> bindE (price_text (pl_price l)) (\<lambda>p. Inr (AboveResistance p (is_timeframe i)))
      | ([], Some v) \<Rightarrow> bindE (price_text v) (\<lambda>p. Inr (HoldVwap p))
      | ([], None) \<Rightarrow> Inr AwaitBreakout)"
    using s in_range_text [OF vw(1)] by (cases "tl_resistances ?l") (auto simp: returns_bindE split: option.split)
  have stop: "returns (case tl_supports ?l of [] \<Rightarrow> Inr NoSupport
      | l # _ \<Rightarrow> bindE (price_text (pl_price l)) (\<lambda>p. Inr (BelowSupport p)))"
    using s by (cases "tl_supports ?l") (auto simp: returns_bindE)
  have "returns (far_above (q_price quote) (is_vwap i))"
    using ratio_returns [OF price vw(1)] vw(2) by (auto simp: far_above_def returns_bindE split: option.split)
  then have flags: "returns (risk_flags quote daily i warnings)" by (simp add: risk_flags_def Let_def returns_bindE)
  have change: "returns (percent_text (ds_change_pct daily))" using d by (simp add: daily_summary_ok_def percent_text_returns)
  show ?thesis
    unfolding narrative_def using in_range_text [OF price] change second entry stop flags by (simp add: returns_bindE)
qed

text \<open>
  The live analysis returns for every share whose data is well formed: prices in the range of
  the columns and from a millionth up within the day, minute bars of one instrument, ascending stored
  daily bars, and a configuration that validates and whose scoring marks are in order.
\<close>

lemma analyze_realtime_returns:
  assumes "validate_config c = Inr c'" and "marks_ok c" and "in_range (q_price quote)" and "daily_ok daily_bars"
    and "minutes_ok hi minute_bars" and "numeric_20_6 hi" and "1 / 10 ^ 6 \<le> hi" and "hi \<le> 10 ^ 11"
    and "list_all (\<lambda>b. mn_symbol b = symbol \<and> mn_currency b = currency) minute_bars"
  shows "\<exists>a. analyze_realtime instrument quote daily_bars minute_bars warnings c = Inr a
    \<and> ra_instrument a = instrument \<and> ra_quote a = quote \<and> map fst (ra_intraday a) = [''1m'', ''5m'', ''10m''] \<and> ra_daily_bars a = last_n 120 daily_bars"
proof -
  have f1: "aggregate_minute_bars minute_bars 1 = Inr minute_bars" by (simp add: aggregate_minute_bars_def)
  obtain f5 where f5: "aggregate_minute_bars minute_bars 5 = Inr f5" "minutes_ok hi f5"
    using joined_minutes_ok [OF assms(5) _ assms(6,9), of 5] by auto
  obtain f10 where f10: "aggregate_minute_bars minute_bars 10 = Inr f10" "minutes_ok hi f10"
    using joined_minutes_ok [OF assms(5) _ assms(6,9), of 10] by auto
  note i = intraday_returns [OF _ assms(6-8,3)]
  obtain i1 i5 i10 where i1: "intraday_summary ''1m'' minute_bars (q_price quote) = Inr i1"
    and i5: "intraday_summary ''5m'' f5 (q_price quote) = Inr i5" "intraday_ok i5"
    and i10: "intraday_summary ''10m'' f10 (q_price quote) = Inr i10"
    using i [OF assms(5)] i [OF f5(2)] i [OF f10(2)] by metis
  obtain d where d: "daily_summary daily_bars quote c = Inr d" "daily_summary_ok d"
    using daily_returns [OF assms(1,2,4,3)] by blast
  obtain n where n: "narrative quote d i5 (technical_levels (q_price quote) d i5) warnings = Inr n"
    using narrative_returns [OF d(2) i5(2) assms(3)] by (auto simp: returns_iff)
  show ?thesis using f1 f5(1) f10(1) i1 i5(1) i10 d(1) n by (simp add: analyze_realtime_def Let_def)
qed

section \<open>Well-formed demonstration data\<close>

lemma default_config_ok: "validate_config default_config = Inr default_config \<and> marks_ok default_config"
  by (simp add: validate_config_def default_config_def required_history_def
    marks_ok_def box_marks_def pullback_marks_def contraction_marks_def)

lemma on_grid_of_int: "on_grid k (of_int n)"
  unfolding on_grid_iff by (rule exI [of _ "n * 10 ^ k"]) simp

definition demo_quote :: QuoteSnapshot where
  "demo_quote = \<lparr>q_symbol = ''005930'', q_price = 11, q_currency = ''KRW'', q_source = ''toss'', q_as_of = 0, q_delayed = None\<rparr>"

definition demo_daily :: "MarketBar list" where
  "demo_daily = map (\<lambda>d. plain_bar d (10 + d)) [1, 2, 3]"

lemma demo_daily_ok: "daily_ok demo_daily"
  by (simp add: demo_daily_def daily_ok_def ascending_sorted stored_bar_def bar_ok_def ohlc_ok_def plain_bar_def numeric_20_6_def
    on_grid_def strip_def is_space_def)

lemma numeric_of_int: "\<bar>k\<bar> < 10 ^ 14 \<Longrightarrow> numeric_20_6 (of_int k)"
proof -
  assume "\<bar>k\<bar> < 10 ^ 14"
  then have "\<bar>of_int k :: rat\<bar> < of_int (10 ^ 14)" by linarith
  then show ?thesis by (simp add: numeric_20_6_def on_grid_of_int)
qed

lemma demo_minutes_ok: "minutes_ok 14 demo_minutes" "numeric_20_6 14"
    "list_all (\<lambda>b. mn_symbol b = ''005930'' \<and> mn_currency b = ''KRW'') demo_minutes"
  using numeric_of_int [of 9] numeric_of_int [of 10] numeric_of_int [of 11] numeric_of_int [of 12] numeric_of_int [of 13] numeric_of_int [of 14]
  by (simp_all add: minutes_ok_def demo_minutes_def demo_minute_def priced_def minute_ok_def ohlc_ok_def)

lemma demo_quote_ok: "in_range (q_price demo_quote)"
  by (simp add: demo_quote_def in_range_def)

end
