(* ===== verification/Market_Routes.thy ===== *)
theory Market_Routes
  imports Market_Service Realtime_Returns Toss_Answers
begin

text \<open>
  The market routes over the adapter: the canonical form of a symbol, the status a client sees for each
  refusal of the provider, which failures no handler knows, and the analysis route on well-formed data.
\<close>

section \<open>Symbols\<close>

lemma upper_char_idem: "upper_char (upper_char c) = upper_char c"
  by (auto simp: upper_char_def)

lemma upper_char_space: "is_space (upper_char c) \<longleftrightarrow> is_space c"
  by (auto simp: upper_char_def is_space_def)

text \<open>A stripped text starts and ends with no space, and stripping it again changes nothing.\<close>

lemma strip_ends: "strip s \<noteq> '''' \<Longrightarrow> \<not> is_space (hd (strip s)) \<and> \<not> is_space (last (strip s))"
proof -
  assume n: "strip s \<noteq> ''''"
  let ?d = "dropWhile is_space s"
  have e: "strip s = rev (dropWhile is_space (rev ?d))" by (simp add: strip_def)
  have "dropWhile is_space (rev ?d) \<noteq> []" using n e by (metis rev.simps(1))
  then have "\<not> is_space (hd (dropWhile is_space (rev ?d)))" by (rule hd_dropWhile)
  then have l: "\<not> is_space (last (strip s))" using n unfolding e by (simp add: last_rev)
  obtain ys where "rev ?d = ys @ dropWhile is_space (rev ?d)" by (metis takeWhile_dropWhile_id)
  then have split: "?d = strip s @ rev ys" unfolding e by (metis rev_append rev_rev_ident)
  then have "?d \<noteq> []" "hd ?d = hd (strip s)" using n by simp_all
  then show ?thesis using l hd_dropWhile [of is_space s] by simp
qed

lemma strip_id: "s \<noteq> '''' \<Longrightarrow> \<not> is_space (hd s) \<Longrightarrow> \<not> is_space (last s) \<Longrightarrow> strip s = s"
proof -
  assume s: "s \<noteq> ''''" "\<not> is_space (hd s)" "\<not> is_space (last s)"
  then have "dropWhile is_space s = s" by (cases s) simp_all
  moreover have "dropWhile is_space (rev s) = rev s" using s by (cases s rule: rev_cases) simp_all
  ultimately show ?thesis by (simp add: strip_def)
qed

text \<open>
  A symbol that is accepted is canonical: 1 to 32 characters, each a capital letter, a digit or a
  hyphen, not all hyphens; and accepting it again gives it back.
\<close>

theorem symbol_canonical:
  assumes "symbol_of value = Inr v"
  shows "1 \<le> length v \<and> length v \<le> 32 \<and> list_all (\<lambda>c. c = CHR ''-'' \<or> is_alnum c \<and> upper_char c = c) v
    \<and> (\<exists>c \<in> set v. c \<noteq> CHR ''-'') \<and> symbol_of v = Inr v"
proof -
  have v: "v = map upper_char (strip value)" "v \<noteq> ''''" "length v \<le> 32" "alnum (filter (\<lambda>c. c \<noteq> CHR ''-'') v)"
    using assms by (auto simp: symbol_of_def Let_def split: if_splits)
  have up: "map upper_char v = v" unfolding v(1) by (simp add: upper_char_idem)
  have n: "strip value \<noteq> ''''" using v(1,2) by auto
  have "\<not> is_space (hd v)" "\<not> is_space (last v)"
    using strip_ends [OF n] n unfolding v(1) by (simp_all add: hd_map last_map upper_char_space)
  then have sv: "strip v = v" using v(2) by (intro strip_id)
  have again: "symbol_of v = Inr v" unfolding symbol_of_def Let_def sv up using v(2-4) by simp
  have chars: "list_all (\<lambda>c. c = CHR ''-'' \<or> is_alnum c \<and> upper_char c = c) v"
    using v(4) up by (auto simp: alnum_def list_all_iff map_idI dest: map_eq_conv [THEN iffD1, of upper_char _ id, simplified])
  have "\<exists>c \<in> set v. c \<noteq> CHR ''-''" using v(4) by (auto simp: alnum_def filter_empty_conv)
  moreover have "1 \<le> length v" using v(2) by (cases v) simp_all
  ultimately show ?thesis using v(3) again chars by blast
qed

section \<open>Statuses\<close>

text \<open>
  What a client sees when the provider refuses: 404 stays 404; a bad request is the client's (422) and a
  refused credential the gateway's (502); a ban, a rate limit and a failure of the provider answer 503.
\<close>

theorem refused_response_status:
  "fault_status (raise_market message (ProviderException (response_error rd now r authentication))) =
    (if rs_status r = 404 then 404 else if rs_status r = 400 then 422 else if rs_status r = 401 then 502
     else if rs_status r = 403 \<or> rs_status r = 429 \<or> 500 \<le> rs_status r then 503
     else if authentication then 502 else 422)"
proof -
  obtain code body said where d: "error_details r authentication = (code, body, said)" by (cases "error_details r authentication") auto
  consider "rs_status r \<in> {400, 401, 403, 404, 429}" | "500 \<le> rs_status r" | "rs_status r \<notin> {400, 401, 403, 404, 429}" "\<not> 500 \<le> rs_status r"
    by blast
  then show ?thesis
    by cases (auto simp: raise_market_def is_value_error_def fault_status_def provider_status_def response_error_def Let_def d)
qed

definition known_status :: "nat \<Rightarrow> bool" where
  "known_status s \<longleftrightarrow> s \<in> {404, 422, 502, 503}"

text \<open>The answer of a route: a value, a status of the list, or an exception of the transport or of the token's clock.\<close>

definition answers_well :: "'a http \<Rightarrow> bool" where
  "answers_well m \<longleftrightarrow> (case m of Inr _ \<Rightarrow> True | Inl f \<Rightarrow> known_status (fault_status f)
     \<or> (\<exists>t. f = Unhandled (TransportError t) \<or> f = Unhandled (OverflowError t)))"

lemma raise_market_leaked: "leaked e \<Longrightarrow> answers_well (Inl (raise_market message e))"
proof (cases e)
  case (ProviderException er)
  then show ?thesis
    by (cases "er_kind er") (auto simp: answers_well_def raise_market_def is_value_error_def fault_status_def provider_status_def known_status_def)
qed (auto simp: leaked_def request_error_def answers_well_def raise_market_def is_value_error_def fault_status_def known_status_def)

lemma catching_well: "fails_only leaked m \<Longrightarrow> answers_well (catching (raise_market message) m)"
  using raise_market_leaked by (cases m) (auto simp: fails_only_def answers_well_def)

lemma symbol_fails [failing]: "fails_only leaked (symbol_of v)"
  by (auto simp: fails_only_def symbol_of_def Let_def leaked_def split: if_splits)

text \<open>What the adapter promises of a provider's failures.\<close>

definition adapter_failures :: "market_provider \<Rightarrow> bool" where
  "adapter_failures mp \<longleftrightarrow> (\<forall>s. fails_only leaked (mp_instrument mp s)) \<and> (\<forall>s a b. fails_only request_error (mp_daily_bars mp s a b))
     \<and> (\<forall>ss. fails_only request_error (mp_prices mp ss)) \<and> (\<forall>s. fails_only request_error (mp_warnings mp s))"

text \<open>
  C31. Over a provider that fails as the adapter does, every instrument, price, warning and bar request of a
  known user is answered with its value, with 404, 422, 502 or 503, or fails with one of the two exceptions
  no handler knows. A request without a user is refused before the provider is asked.
\<close>

theorem market_routes_answer:
  assumes "adapter_failures mp"
  shows "answers_well (instrument_route message (Inr user) mp symbol) \<and> answers_well (prices_route message (Inr user) mp now symbols)
    \<and> answers_well (warnings_route message (Inr user) mp symbol) \<and> answers_well (bars_route message (Inr user) mp now symbol start stop)
    \<and> (\<forall>f mp'. instrument_route message (Inl f) mp' symbol = Inl f \<and> prices_route message (Inl f) mp' now symbols = Inl f
        \<and> warnings_route message (Inl f) mp' symbol = Inl f \<and> bars_route message (Inl f) mp' now symbol start stop = Inl f)"
proof -
  have weak: "fails_only request_error m \<Longrightarrow> fails_only leaked m" for m :: "'b res" by (simp add: fails_only_def leaked_def)
  note a = assms [unfolded adapter_failures_def]
  have "fails_only leaked (service_instrument mp symbol)"
    unfolding service_instrument_def using a by (intro failing) blast
  moreover have "fails_only leaked (service_warnings mp symbol)"
    unfolding service_warnings_def using a by (intro failing weak) blast
  moreover have "fails_only leaked (mp_prices mp ss)" "fails_only leaked (mp_daily_bars mp s start stop)" for ss s
    using a by (auto simp: fails_only_def leaked_def)
  then have "fails_only leaked (service_prices mp now (split_commas symbols))" "fails_only leaked (service_daily_bars mp now symbol start stop)"
    unfolding service_prices_def service_daily_bars_def Let_def by (auto intro!: failing) (simp_all add: fails_only_def)
  ultimately show ?thesis
    by (simp add: instrument_route_def prices_route_def warnings_route_def bars_route_def catching_well)
      (simp add: answers_well_def refuse_def fault_status_def known_status_def)
qed

section \<open>The analysis\<close>

lemma no_failure: "first_failure order [None, None, None, None] = None"
proof -
  have "List.map_filter (\<lambda>i. if i < length es then es ! i else None) order = []"
    if "set es \<subseteq> {None}" for es :: "py_exc option list"
  proof (induction order)
    case (Cons i order)
    have "(if i < length es then es ! i else None) = None" using that nth_mem [of i es] by force
    then show ?case using Cons by simp
  qed simp
  from this [of "[None, None, None, None]"] show ?thesis by (simp add: first_failure_def)
qed

text \<open>
  C32. A known user who asks for a listed KOSPI share gets its analysis whenever the provider's answers are well
  formed: the requested quote, ascending stored daily bars, minute bars of one instrument within the price
  range. The order in which the four calls complete does not matter.
\<close>

theorem analysis_route_answers:
  assumes "symbol_of symbol = Inr s" and "mp_instrument mp s = Inr i" and "listed_kospi_share i"
    and "mp_prices mp [s] = Inr [q]" and "q_symbol q = s" and "mp_daily_bars mp s (today - 240) today = Inr bars"
    and "mp_minute_bars mp s 200 = Inr minutes" and "mp_warnings mp s = Inr ws"
    and "validate_config c = Inr c'" and "marks_ok c" and "in_range (q_price q)" and "daily_ok bars"
    and "minutes_ok hi minutes" and "numeric_20_6 hi" and "1 / 10 ^ 6 \<le> hi" and "hi \<le> 10 ^ 11"
    and "list_all (\<lambda>b. mn_symbol b = s \<and> mn_currency b = currency) minutes"
  shows "\<exists>a. (\<forall>order. analysis_route message (Inr user) mp c order today symbol = Inr a)
    \<and> ra_instrument a = i \<and> ra_quote a = q \<and> map fst (ra_intraday a) = [''1m'', ''5m'', ''10m'']
    \<and> ra_daily_bars a = last_n 120 bars"
proof -
  have g: "gather4 order (mp_prices mp [s]) (mp_daily_bars mp s (today - 240) today) (mp_minute_bars mp s 200) (mp_warnings mp s)
      = Inr ([q], bars, minutes, ws)" for order
    unfolding assms(4,6-8) by (simp add: gather4_def failure_of_def no_failure)
  obtain a where a: "analyze_realtime i q bars minutes ws c = Inr a" "ra_instrument a = i" "ra_quote a = q"
      "map fst (ra_intraday a) = [''1m'', ''5m'', ''10m'']" "ra_daily_bars a = last_n 120 bars"
    using analyze_realtime_returns [OF assms(9-17), of i ws] by (elim exE conjE) (rule that)
  have "analysis_route message (Inr user) mp c order today symbol = Inr a" for order
    unfolding analysis_route_def realtime_analysis_def assms(1) bindE_simps assms(2) g using assms(3,5) a(1) by simp
  then show ?thesis by (intro exI [of _ a] conjI allI) (simp_all add: a)
qed

section \<open>Witnesses\<close>

lemma symbol_canonical_witness: "\<exists>v. symbol_of '' brk-b '' = Inr v \<and> symbol_of v = Inr v \<and> length v \<le> 32"
proof -
  have "symbol_of '' brk-b '' = Inr ''BRK-B''" by code_simp
  from symbol_canonical [OF this] show ?thesis using \<open>symbol_of '' brk-b '' = Inr ''BRK-B''\<close> by blast
qed

definition listed_share :: InstrumentSnapshot where
  "listed_share = \<lparr>in_symbol = ''005930'', in_name = ''Samsung'', in_market = ''KOSPI'', in_country = None,
     in_currency = ''KRW'', in_security_type = Some ''common_stock'', in_listing_status = Some ''listed'',
     in_exchange = None, in_is_common_share = Some True, in_status = Some ''ACTIVE'', in_list_date = None,
     in_delist_date = None, in_korean_market_detail = None, in_source = ''toss'', in_as_of = 0\<rparr>"

definition demo_provider :: market_provider where
  "demo_provider = \<lparr>mp_status = Inl (TransportError ''down''), mp_instrument = (\<lambda>s. Inr listed_share),
     mp_daily_bars = (\<lambda>s a b. Inr demo_daily), mp_prices = (\<lambda>ss. Inr [demo_quote]), mp_minute_bars = (\<lambda>s n. Inr demo_minutes),
     mp_warnings = (\<lambda>s. Inl (TransportError ''down''))\<rparr>"

definition known_user :: User where
  "known_user = \<lparr>us_id = 1, us_username = ''alice'', us_password_hash = '''', us_role = ''admin'', us_is_active = True\<rparr>"

lemma market_routes_answer_witness:
  "answers_well (warnings_route (\<lambda>e. '''') (Inr known_user) demo_provider ''005930'')
    \<and> answers_well (instrument_route (\<lambda>e. '''') (Inr known_user) demo_provider ''005930'')"
proof -
  have "adapter_failures demo_provider"
    by (simp add: adapter_failures_def demo_provider_def fails_only_def request_error_def)
  from market_routes_answer [OF this] show ?thesis by blast
qed

lemma analysis_route_answers_witness:
  "\<exists>a. (\<forall>order. analysis_route (\<lambda>e. '''') (Inr known_user) (demo_provider\<lparr>mp_warnings := (\<lambda>s. Inr [])\<rparr>) default_config order 738000 ''005930''
      = Inr a) \<and> ra_quote a = demo_quote"
proof -
  let ?mp = "demo_provider\<lparr>mp_warnings := (\<lambda>s. Inr [])\<rparr>"
  have s: "symbol_of ''005930'' = Inr ''005930''" by code_simp
  have i: "mp_instrument ?mp ''005930'' = Inr listed_share" "mp_prices ?mp [''005930''] = Inr [demo_quote]"
    "mp_daily_bars ?mp ''005930'' (738000 - 240) 738000 = Inr demo_daily" "mp_minute_bars ?mp ''005930'' 200 = Inr demo_minutes"
    "mp_warnings ?mp ''005930'' = Inr []" by (simp_all add: demo_provider_def)
  have l: "listed_kospi_share listed_share" by (simp add: listed_kospi_share_def listed_share_def)
  have q: "q_symbol demo_quote = ''005930''" by (simp add: demo_quote_def)
  show ?thesis
    using analysis_route_answers [OF s i(1) l i(2) q i(3-5) conjunct1 [OF default_config_ok] conjunct2 [OF default_config_ok]
        demo_quote_ok demo_daily_ok demo_minutes_ok(1,2) _ _ demo_minutes_ok(3), of "\<lambda>e. []" known_user] by auto
qed

end
