(* ===== verification/Api_Backtests.thy ===== *)
theory Api_Backtests
  imports Backtest_Service Http
begin

text \<open>
  The backtest routes, \<open>api/backtests/router.py\<close>, and their request and response types,
  \<open>api/backtests/schemas.py\<close>. Every route runs in the session of its request. A request is its decoded
  JSON; the response types of a trade, a point of the curve and the rows by symbol and by exit reason have
  exactly the fields of the domain's types and are those.
\<close>

section \<open>Requests\<close>

text \<open>\<open>None\<close> for an execution mode the client did not send (\<open>model_fields_set\<close>); its default is independent.\<close>

record BacktestCreateRequest =
  rq_strategy_name :: string
  rq_strategy_version :: "string option"
  rq_parameters :: "(string, pyval) dict"
  rq_start_date :: date
  rq_end_date :: date
  rq_data_as_of :: "(datetime \<times> bool) option"
  rq_execution_mode :: "string option"

definition requested_mode :: "BacktestCreateRequest \<Rightarrow> string" where
  "requested_mode req = (case rq_execution_mode req of None \<Rightarrow> ''independent'' | Some m \<Rightarrow> m)"

definition validate_mode_parameters :: "BacktestCreateRequest \<Rightarrow> unit res" where
  "validate_mode_parameters req =
    (let parsed = dict_set ''execution_mode'' (VStr (requested_mode req)) (rq_parameters req) in
     if requested_mode req = ''portfolio'' then bindE (parse_portfolio parsed) (\<lambda>_. Inr ())
     else if \<exists>k \<in> {''max_open_positions'', ''position_sizing_mode'', ''position_size_pct'', ''minimum_cash_buffer_pct''}.
         map_of parsed k \<noteq> None
     then Inl (ValueError ''portfolio parameters are incompatible with independent mode'')
     else bindE (parse_parameters parsed) (\<lambda>_. Inr ()))"

definition validate_create_request :: "BacktestCreateRequest \<Rightarrow> unit http" where
  "validate_create_request req =
    (if rq_strategy_name req \<noteq> ''watchlist_entry'' \<or> rq_strategy_version req \<notin> {None, Some ''1''}
        \<or> requested_mode req \<notin> {''independent'', ''portfolio''}
        \<or> (case rq_data_as_of req of None \<Rightarrow> False | Some (_, aware) \<Rightarrow> \<not> aware)
     then refuse 422 ''validation''
     else catching (\<lambda>e. if is_value_error e then HTTPException 422 (DText ''validation'') else Unhandled e)
       (validate_mode_parameters req))"

section \<open>Responses\<close>

record BacktestResponse =
  bt_id :: uuid
  bt_strategy_name :: string
  bt_strategy_version :: "string option"
  bt_parameters :: "(string, pyval) dict"
  bt_start_date :: date
  bt_end_date :: date
  bt_data_as_of :: "datetime option"
  bt_status :: BacktestStatus
  bt_created_at :: datetime
  bt_started_at :: "datetime option"
  bt_completed_at :: "datetime option"
  bt_result :: "metrics option"
  bt_failure_code :: "string option"
  bt_failure_message :: "string option"
  bt_execution_mode :: BacktestExecutionMode

text \<open>
  \<open>BacktestResponse.model_validate\<close> reads the run's attributes; the property \<open>execution_mode\<close> may raise,
  and the validation error that carries its exception is no \<open>HTTPException\<close>.
\<close>

definition backtest_response :: "BacktestRun \<Rightarrow> BacktestResponse http" where
  "backtest_response r = bindH (catching Unhandled (execution_mode r)) (\<lambda>mode. Inr
     \<lparr>bt_id = r_id r, bt_strategy_name = r_strategy_name r, bt_strategy_version = r_strategy_version r,
      bt_parameters = r_parameters r, bt_start_date = r_start_date r, bt_end_date = r_end_date r,
      bt_data_as_of = r_data_as_of r, bt_status = r_status r, bt_created_at = r_created_at r,
      bt_started_at = r_started_at r, bt_completed_at = r_completed_at r, bt_result = r_result r,
      bt_failure_code = r_failure_code r, bt_failure_message = r_failure_message r, bt_execution_mode = mode\<rparr>)"

record PortfolioSnapshotResponse =
  ps_trading_date :: date
  ps_snapshot_cash :: decimal
  ps_market_value :: decimal
  ps_realized_pnl :: decimal
  ps_unrealized_pnl :: decimal
  ps_total_equity :: decimal
  ps_cumulative_return :: decimal
  ps_running_peak_equity :: decimal
  ps_drawdown :: decimal
  ps_drawdown_pct :: decimal
  ps_open_position_count :: nat

definition snapshot_response :: "PortfolioSnapshot \<Rightarrow> PortfolioSnapshotResponse" where
  "snapshot_response s = \<lparr>ps_trading_date = sn_trading_date s, ps_snapshot_cash = sn_cash s, ps_market_value = sn_market_value s,
     ps_realized_pnl = sn_realized_pnl s, ps_unrealized_pnl = sn_unrealized_pnl s, ps_total_equity = sn_total_equity s,
     ps_cumulative_return = sn_cumulative_return s, ps_running_peak_equity = sn_running_peak_equity s,
     ps_drawdown = sn_drawdown s, ps_drawdown_pct = sn_drawdown_pct s, ps_open_position_count = sn_open_position_count s\<rparr>"

record PortfolioResponse =
  pr_run_id :: uuid
  pr_initial_capital :: decimal
  pr_final_equity :: decimal
  pr_final_cash :: decimal
  pr_net_profit :: decimal
  pr_total_return :: decimal
  pr_max_drawdown :: decimal
  pr_max_drawdown_pct :: decimal
  pr_maximum_open_positions_used :: int
  pr_average_capital_utilization :: decimal
  pr_snapshots :: "PortfolioSnapshotResponse list"

text \<open>A field of the stored result, read as a decimal and as an integer; a value of another kind fails validation.\<close>

definition result_decimal :: "metrics \<Rightarrow> string \<Rightarrow> decimal http" where
  "result_decimal m k = (case map_of m k of None \<Rightarrow> Inl (Unhandled (KeyError k))
     | Some (MDec d) \<Rightarrow> Inr d | Some (MInt i) \<Rightarrow> Inr (of_int i) | Some _ \<Rightarrow> Inl (Unhandled (ValueError k)))"

definition result_int :: "metrics \<Rightarrow> string \<Rightarrow> int http" where
  "result_int m k = (case map_of m k of None \<Rightarrow> Inl (Unhandled (KeyError k))
     | Some (MInt i) \<Rightarrow> Inr i | Some (MDec d) \<Rightarrow> if d = of_int \<lfloor>d\<rfloor> then Inr \<lfloor>d\<rfloor> else Inl (Unhandled (ValueError k))
     | Some _ \<Rightarrow> Inl (Unhandled (ValueError k)))"

definition portfolio_response :: "uuid \<Rightarrow> metrics \<Rightarrow> PortfolioSnapshot list \<Rightarrow> PortfolioResponse http" where
  "portfolio_response i m snapshots =
    bindH (result_decimal m ''initial_capital'') (\<lambda>capital. bindH (result_decimal m ''final_equity'') (\<lambda>equity.
    bindH (result_decimal m ''final_cash'') (\<lambda>cash. bindH (result_decimal m ''net_profit'') (\<lambda>net.
    bindH (result_decimal m ''total_return'') (\<lambda>total. bindH (result_decimal m ''max_drawdown'') (\<lambda>drawdown.
    bindH (result_decimal m ''max_drawdown_pct'') (\<lambda>drawdown_pct. bindH (result_int m ''maximum_open_positions_used'') (\<lambda>used.
    bindH (result_decimal m ''average_capital_utilization'') (\<lambda>utilization.
    Inr \<lparr>pr_run_id = i, pr_initial_capital = capital, pr_final_equity = equity, pr_final_cash = cash, pr_net_profit = net,
      pr_total_return = total, pr_max_drawdown = drawdown, pr_max_drawdown_pct = drawdown_pct,
      pr_maximum_open_positions_used = used, pr_average_capital_utilization = utilization,
      pr_snapshots = map snapshot_response snapshots\<rparr>)))))))))"

record AnalysisSummaryResponse =
  sr_winning_trades :: nat
  sr_losing_trades :: nat
  sr_breakeven_trades :: int
  sr_win_rate :: "decimal option"
  sr_gross_profit :: decimal
  sr_gross_loss :: decimal
  sr_net_profit :: decimal
  sr_average_trade_pnl :: "decimal option"
  sr_average_win :: "decimal option"
  sr_average_loss :: "decimal option"
  sr_largest_win :: "decimal option"
  sr_largest_loss :: "decimal option"
  sr_profit_factor :: "decimal option"
  sr_average_holding_days :: "decimal option"
  sr_max_consecutive_wins :: nat
  sr_max_consecutive_losses :: nat
  sr_max_realized_pnl_drawdown :: decimal

definition summary_response :: "AnalysisSummary \<Rightarrow> AnalysisSummaryResponse" where
  "summary_response s = \<lparr>sr_winning_trades = ts_winning_trades s, sr_losing_trades = ts_losing_trades s,
     sr_breakeven_trades = ts_breakeven_trades s, sr_win_rate = ts_win_rate s, sr_gross_profit = ts_gross_profit s,
     sr_gross_loss = ts_gross_loss s, sr_net_profit = ts_net_profit s, sr_average_trade_pnl = ts_average_trade_pnl s,
     sr_average_win = as_average_win s, sr_average_loss = as_average_loss s, sr_largest_win = ts_largest_win s,
     sr_largest_loss = ts_largest_loss s, sr_profit_factor = as_profit_factor s,
     sr_average_holding_days = ts_average_holding_days s, sr_max_consecutive_wins = as_max_consecutive_wins s,
     sr_max_consecutive_losses = as_max_consecutive_losses s,
     sr_max_realized_pnl_drawdown = as_max_realized_pnl_drawdown s\<rparr>"

record MonthAnalysisResponse =
  mr_month :: month
  mr_trade_count :: nat
  mr_winning_trades :: nat
  mr_losing_trades :: nat
  mr_breakeven_trades :: int
  mr_win_rate :: "decimal option"
  mr_gross_profit :: decimal
  mr_gross_loss :: decimal
  mr_net_profit :: decimal
  mr_average_trade_pnl :: "decimal option"
  mr_average_holding_days :: "decimal option"

definition month_response :: "MonthAnalysis \<Rightarrow> MonthAnalysisResponse" where
  "month_response s = \<lparr>mr_month = mo_month s, mr_trade_count = ts_trade_count s, mr_winning_trades = ts_winning_trades s,
     mr_losing_trades = ts_losing_trades s, mr_breakeven_trades = ts_breakeven_trades s, mr_win_rate = ts_win_rate s,
     mr_gross_profit = ts_gross_profit s, mr_gross_loss = ts_gross_loss s, mr_net_profit = ts_net_profit s,
     mr_average_trade_pnl = ts_average_trade_pnl s, mr_average_holding_days = ts_average_holding_days s\<rparr>"

record BacktestAnalysisResponse =
  an_run_id :: uuid
  an_trade_count :: nat
  an_summary :: AnalysisSummaryResponse
  an_cumulative_realized_pnl :: "CumulativePoint list"
  an_by_symbol :: "SymbolAnalysis list"
  an_by_exit_reason :: "ExitReasonAnalysis list"
  an_by_month :: "MonthAnalysisResponse list"

definition analysis_response :: "BacktestAnalysis \<Rightarrow> BacktestAnalysisResponse" where
  "analysis_response a = \<lparr>an_run_id = ba_run_id a, an_trade_count = ba_trade_count a,
     an_summary = summary_response (ba_summary a), an_cumulative_realized_pnl = ba_cumulative_realized_pnl a,
     an_by_symbol = ba_by_symbol a, an_by_exit_reason = ba_by_exit_reason a, an_by_month = map month_response (ba_by_month a)\<rparr>"

section \<open>Routes\<close>

text \<open>What the reading routes make of the service's exceptions.\<close>

definition read_fault :: "py_exc \<Rightarrow> fault" where
  "read_fault e = (case e of BacktestNotFoundError \<Rightarrow> HTTPException 404 (DText ''Backtest run not found'')
     | BacktestAnalysisUnavailableError m \<Rightarrow> HTTPException 409 (DText m)
     | PortfolioUnavailableError m \<Rightarrow> HTTPException 409 (DText m)
     | _ \<Rightarrow> Unhandled e)"

definition portfolio_route :: "uuid \<Rightarrow> backtest_db \<Rightarrow> PortfolioResponse http" where
  "portfolio_route i db = bindH (catching read_fault (service_portfolio i db)) (\<lambda>(run, snapshots).
     portfolio_response (r_id run) (case r_result run of None \<Rightarrow> [] | Some m \<Rightarrow> m) snapshots)"

definition analysis_of_route :: "uuid \<Rightarrow> backtest_db \<Rightarrow> BacktestAnalysisResponse http" where
  "analysis_of_route i db = bindH (catching read_fault (service_analyze i db)) (\<lambda>a. Inr (analysis_response a))"

definition stored_parameters :: "BacktestCreateRequest \<Rightarrow> (string, pyval) dict" where
  "stored_parameters req = (case rq_execution_mode req of None \<Rightarrow> rq_parameters req
     | Some mode \<Rightarrow> dict_set ''execution_mode'' (VStr mode) (rq_parameters req))"

definition create_route :: "(BacktestRun \<Rightarrow> backtest_db \<Rightarrow> metrics res \<times> backtest_db) \<Rightarrow> (py_exc \<Rightarrow> string)
    \<Rightarrow> service_inputs \<Rightarrow> int \<Rightarrow> BacktestCreateRequest \<Rightarrow> backtest_db \<Rightarrow> backtest_db \<times> BacktestResponse http" where
  "create_route execute message si max_days req = transactional (\<lambda>db.
     case validate_create_request req of Inl f \<Rightarrow> (db, Inl f)
     | Inr _ \<Rightarrow>
       (let (run, db') = service_create execute message si max_days (rq_strategy_name req) (rq_start_date req) (rq_end_date req)
            (rq_strategy_version req) (stored_parameters req) (rq_data_as_of req) db
        in (db', bindH (catching (\<lambda>e. if is_value_error e then HTTPException 422 (DText (message e)) else Unhandled e) run)
              backtest_response)))"

definition trades_route :: "uuid \<Rightarrow> int \<Rightarrow> int \<Rightarrow> string option \<Rightarrow> BacktestExitReason option \<Rightarrow> backtest_db
    \<Rightarrow> BacktestTrade list http" where
  "trades_route i limit offset symbol reason db =
    (if limit < 1 \<or> 500 < limit \<or> offset < 0 then refuse 422 ''validation''
     else catching read_fault (service_list_trades i (nat limit) (nat offset) symbol reason db))"

fun mapH :: "('a \<Rightarrow> 'b http) \<Rightarrow> 'a list \<Rightarrow> 'b list http" where
  "mapH f [] = Inr []"
| "mapH f (x # xs) = bindH (f x) (\<lambda>y. bindH (mapH f xs) (\<lambda>ys. Inr (y # ys)))"

definition list_route :: "backtest_db \<Rightarrow> BacktestResponse list http" where
  "list_route db = mapH backtest_response (list_runs db)"

definition get_route :: "uuid \<Rightarrow> backtest_db \<Rightarrow> BacktestResponse http" where
  "get_route i db = bindH (catching read_fault (service_get i db)) backtest_response"

end
