(* ===== verification/Api_Backtests_Props.thy ===== *)
theory Api_Backtests_Props
  imports Api_Backtests
begin

text \<open>
  What the backtest routes answer: the outcomes of a creation with the session's rollback, the agreement of
  the request's validation with the executor's, reading a created run back, and the listing over every
  state that creations can reach.
\<close>

section \<open>The request's checks\<close>

lemma parse_ignores_mode [simp]: "parse_parameters (dict_set ''execution_mode'' v ps) = parse_parameters ps"
  by (simp add: parse_parameters_def decimal_value_def holding_value_def)

lemma mode_check_failures: "fails_only is_value_error (validate_mode_parameters req)"
proof -
  have "is_invalid_parameters e \<Longrightarrow> is_value_error e" for e by (cases e) (simp_all add: is_value_error_def)
  then have "fails_only is_value_error (parse_portfolio v)" "fails_only is_value_error (parse_parameters v)" for v
    by (auto simp: fails_only_def dest: parse_portfolio_error parse_parameters_error)
  then show ?thesis
    by (auto simp: validate_mode_parameters_def Let_def intro!: failing) (simp_all add: fails_only_def is_value_error_def)
qed

lemma validate_answers: "validate_create_request req = Inr () \<or> validate_create_request req = refuse 422 ''validation''"
  using mode_check_failures [of req]
  by (cases "validate_mode_parameters req") (auto simp: validate_create_request_def fails_only_def refuse_def)

lemma validated_name: "validate_create_request req = Inr u \<Longrightarrow> rq_strategy_name req = ''watchlist_entry''
    \<and> rq_strategy_version req \<in> {None, Some ''1''} \<and> requested_mode req \<in> {''independent'', ''portfolio''}"
  by (simp add: validate_create_request_def split: if_splits)

lemma validated_mode: "validate_create_request req = Inr u \<Longrightarrow> validate_mode_parameters req = Inr ()"
  by (cases "validate_mode_parameters req") (simp_all add: validate_create_request_def split: if_splits)

section \<open>The executor's failures\<close>

definition data_failure :: "py_exc \<Rightarrow> bool" where
  "data_failure e \<longleftrightarrow> failure_code e \<notin> {''INVALID_PARAMETERS'', ''UNSUPPORTED_STRATEGY''}"

lemma money_failures [failing]: "fails_only data_failure (money x)" "fails_only data_failure (ratio x)"
    "fails_only data_failure (ddiv x y)"
  by (simp_all add: fails_only_def money_def ratio_def dquantize_def Let_def ddiv_def data_failure_def)

lemma store_failures [failing]: "fails_only data_failure (insert_trades ts db)" "fails_only data_failure (insert_snapshots ss db)"
  by (simp_all add: fails_only_def insert_trades_def insert_snapshots_def data_failure_def)

lemma close_failures [failing]: "fails_only data_failure (close_position env s p d r e x)"
  unfolding close_position_def Let_def by (intro failing)

lemma step_failures [failing]:
  "fails_only data_failure (exit_step env day bars final x s)" "fails_only data_failure (entry_step env day bars x sig)"
  "fails_only data_failure (liquidate_step env day bars x s)" "fails_only data_failure (snapshot_step env day x)"
proof -
  have key: "fails_only data_failure (Inl (KeyError k))" for k by (simp add: fails_only_def data_failure_def)
  show "fails_only data_failure (exit_step env day bars final x s)"
    unfolding exit_step_def by (auto simp: Let_def split: option.splits intro!: failing key)
  show "fails_only data_failure (entry_step env day bars x sig)"
    unfolding entry_step_def by (auto simp: Let_def split: option.splits prod.splits intro!: failing key)
  show "fails_only data_failure (liquidate_step env day bars x s)"
    unfolding liquidate_step_def by (auto split: option.splits intro!: failing key)
  show "fails_only data_failure (snapshot_step env day x)"
    unfolding snapshot_step_def Let_def by (intro failing)
qed

lemma day_failures [failing]: "fails_only data_failure (day_step env by_date events last_day x day)"
  unfolding day_step_def Let_def by (intro failing) (auto intro!: failing)

lemma find_entry_failures [failing]: "fails_only data_failure (find_entry by_date sig days)"
  by (induction days) (auto simp: fails_only_def data_failure_def split: option.splits)

lemma table_failures [failing]: "fails_only data_failure (index_bars rows)"
    "fails_only data_failure (schedule_step by_date dates acc sig)"
    "fails_only data_failure (bars_by_symbol_step acc' row)"
  unfolding index_bars_def index_step_def schedule_step_def bars_by_symbol_step_def
  by (auto simp: split_def intro!: failing split: option.splits) (simp_all add: fails_only_def data_failure_def)

lemma run_days_failures [failing]: "fails_only data_failure (run_days env signals rows)"
  unfolding run_days_def Let_def create_state_def
  by (auto simp: split_def intro!: failing) (simp add: fails_only_def data_failure_def)

lemma simulate_failures: "valid_parameters p \<Longrightarrow> fails_only data_failure (simulate_signal uid now run sig bars p)"
  using simulate_outcomes [of p uid now run sig bars] by (auto simp: fails_only_def data_failure_def)

lemma metrics_failures [failing]: "fails_only data_failure (calculate_metrics ts n p)"
    "fails_only data_failure (portfolio_metrics env n x)"
  unfolding calculate_metrics_def portfolio_metrics_def Let_def when_count_def trade_return_def
  by (auto intro!: failing)


lemma fst_bind: "fst (case m of Inl e \<Rightarrow> (Inl e, db) | Inr x \<Rightarrow> f x) = bindE m (\<lambda>x. fst (f x))"
  by (cases m) simp_all

lemma executor_failures:
  "parse_portfolio (r_parameters run) = Inr p \<Longrightarrow> fails_only data_failure (fst (execute_portfolio su st run db))"
  "parse_parameters (r_parameters run) = Inr q \<Longrightarrow> list_all (\<lambda>k. map_of (r_parameters run) k = None) portfolio_only_keys
    \<Longrightarrow> fails_only data_failure (fst (execute_independent su st run db))"
proof -
  assume "parse_portfolio (r_parameters run) = Inr p"
  then show "fails_only data_failure (fst (execute_portfolio su st run db))"
    unfolding execute_portfolio_def Let_def by (simp add: fst_bind) (intro failing)
next
  assume p: "parse_parameters (r_parameters run) = Inr q"
    and none: "list_all (\<lambda>k. map_of (r_parameters run) k = None) portfolio_only_keys"
  then have v: "fails_only data_failure (simulate_signal uid now run sig bars q)" for uid now sig bars
    using simulate_failures parse_parameters_valid by blast
  have sims: "fails_only data_failure (simulate_all su run q bars signals)" for bars signals
    unfolding simulate_all_def split_def by (intro failing v)
  show "fails_only data_failure (fst (execute_independent su st run db))"
    using none unfolding execute_independent_def Let_def p
    by (auto simp: fst_bind list_all_iff split_def intro!: failing sims)
qed

lemma validated_executes:
  assumes "validate_create_request req = Inr ()" and "rq_execution_mode req = Some m"
    and "r_parameters run = stored_parameters req" and "strip (r_strategy_name run) = ''watchlist_entry''"
    and "r_strategy_version run = Some ''1''"
  shows "fails_only data_failure (fst (db_execute su watchlist_entry_strategy run db))"
proof -
  have m: "requested_mode req = m" using assms(2) by (simp add: requested_mode_def)
  have ps: "r_parameters run = dict_set ''execution_mode'' (VStr m) (rq_parameters req)"
    using assms(2,3) by (simp add: stored_parameters_def)
  have d: "db_execute su watchlist_entry_strategy run db = (if m = ''portfolio'' then execute_portfolio su watchlist_entry_strategy run db
      else execute_independent su watchlist_entry_strategy run db)"
    using assms(4,5) validated_name [OF assms(1)] m
    by (auto simp: db_execute_def validate_strategy_contract_def watchlist_entry_strategy_def ps strip_def is_space_def)
  note checked = validated_mode [OF assms(1), unfolded validate_mode_parameters_def Let_def m, folded ps]
  show ?thesis
  proof (cases "m = ''portfolio''")
    case True
    then obtain p where "parse_portfolio (r_parameters run) = Inr p" using checked by (auto simp: bindE_eq_Inr)
    then show ?thesis unfolding d using True executor_failures(1) by simp
  next
    case False
    then obtain q where "parse_parameters (r_parameters run) = Inr q"
      and "list_all (\<lambda>k. map_of (r_parameters run) k = None) portfolio_only_keys"
      using checked by (auto simp: bindE_eq_Inr portfolio_only_keys_def split: if_splits)
    then show ?thesis unfolding d using False executor_failures(2) by simp
  qed
qed

section \<open>Creating\<close>

fun mode_value :: "BacktestExecutionMode \<Rightarrow> string" where
  "mode_value INDEPENDENT = ''independent''"
| "mode_value PORTFOLIO = ''portfolio''"

lemma execution_mode_Inr: "execution_mode r = Inr m \<longleftrightarrow>
    (case map_of (r_parameters r) ''execution_mode'' of None \<Rightarrow> m = INDEPENDENT | Some v \<Rightarrow> v = VStr (mode_value m))"
  by (cases m) (auto simp: execution_mode_def split: option.splits)

lemma execution_mode_Inl: "execution_mode r = Inl e \<longleftrightarrow> e = ValueError ''not a valid BacktestExecutionMode''
    \<and> (\<exists>v. map_of (r_parameters r) ''execution_mode'' = Some v \<and> v \<noteq> VStr ''independent'' \<and> v \<noteq> VStr ''portfolio'')"
  by (auto simp: execution_mode_def split: option.splits)

lemma prepare_failures: "fails_only is_value_error (prepare_run si m name s e v ps asof)"
  by (auto simp: fails_only_def prepare_run_def bindE_eq_Inl validate_strategy_contract_def create_run_def Let_def
      is_value_error_def split: if_splits option.splits prod.splits)

lemma prepared_fields: "prepare_run si m name s e v ps asof = Inr run \<Longrightarrow> r_parameters run = ps
    \<and> strip (r_strategy_name run) = ''watchlist_entry'' \<and> r_strategy_version run = Some ''1''"
  by (auto simp: prepare_run_def bindE_eq_Inr validate_strategy_contract_def create_run_def Let_def strip_def is_space_def
      split: if_splits option.splits)

lemma backtest_response_Inr: "backtest_response r = Inr out \<Longrightarrow> bt_id out = r_id r \<and> bt_created_at out = r_created_at r \<and> bt_parameters out = r_parameters r
    \<and> bt_status out = r_status r \<and> bt_failure_code out = r_failure_code r \<and> bt_result out = r_result r
    \<and> execution_mode r = Inr (bt_execution_mode out)"
  by (cases "execution_mode r") (auto simp: backtest_response_def)

text \<open>What a creation stores and what it answers about it.\<close>

definition stored_run :: "(py_exc \<Rightarrow> string) \<Rightarrow> service_inputs \<Rightarrow> surroundings \<Rightarrow> BacktestCreateRequest \<Rightarrow> backtest_db \<Rightarrow> backtest_db
    \<Rightarrow> BacktestRun \<Rightarrow> bool" where
  "stored_run msg si su req db db' final \<longleftrightarrow> db_runs db' = put_run final (db_runs db)
     \<and> (\<forall>i. get_run i db' = (if i = si_id si then Some final else get_run i db))
     \<and> r_id final = si_id si \<and> r_parameters final = stored_parameters req
     \<and> (\<exists>running db2. finished msg (si_ended si) running (fst (db_execute su watchlist_entry_strategy running db2)) final
          \<and> r_parameters running = stored_parameters req \<and> strip (r_strategy_name running) = ''watchlist_entry''
          \<and> r_strategy_version running = Some ''1'')"

definition prepared_by :: "service_inputs \<Rightarrow> int \<Rightarrow> BacktestCreateRequest \<Rightarrow> BacktestRun res" where
  "prepared_by si max_days req = prepare_run si max_days (rq_strategy_name req) (rq_start_date req) (rq_end_date req)
     (rq_strategy_version req) (stored_parameters req) (rq_data_as_of req)"

lemma create_route_prepared:
  assumes "validate_create_request req = Inr ()" and "prepared_by si max_days req = Inr run"
  shows "\<exists>final db'. stored_run msg si su req db db' final
    \<and> create_route (db_execute su watchlist_entry_strategy) msg si max_days req db = transactional (\<lambda>db. (db', backtest_response final)) db"
proof -
  note prep = assms(2) [unfolded prepared_by_def]
  obtain final db' running db2 where f: "service_create (db_execute su watchlist_entry_strategy) msg si max_days
      (rq_strategy_name req) (rq_start_date req) (rq_end_date req) (rq_strategy_version req) (stored_parameters req)
      (rq_data_as_of req) db = (Inr final, db')"
    "db_runs db' = put_run final (db_runs db)" "\<forall>i. get_run i db' = (if i = r_id run then Some final else get_run i db)"
    "running = run\<lparr>r_status := RUNNING, r_started_at := Some (si_started si)\<rparr>"
    "finished msg (si_ended si) running (fst (db_execute su watchlist_entry_strategy running db2)) final"
    using database_executor.create_finishes [OF prep] by blast
  have "stored_run msg si su req db db' final"
    unfolding stored_run_def using f(2-5) prepared_run [OF prep] prepared_fields [OF prep]
    by (intro conjI exI [of _ running] exI [of _ db2]) (simp_all add: finished_def)
  then show ?thesis using assms(1) f(1) by (intro exI [of _ final] exI [of _ db']) (simp add: create_route_def transactional_def)
qed

lemma create_route_cases:
  obtains f where "create_route (db_execute su watchlist_entry_strategy) msg si max_days req db = (db, Inl f)" "fault_status f = 422"
  | final db' where "validate_create_request req = Inr ()" "stored_run msg si su req db db' final"
      "create_route (db_execute su watchlist_entry_strategy) msg si max_days req db
        = transactional (\<lambda>db. (db', backtest_response final)) db"
proof (cases "validate_create_request req")
  case (Inl f)
  then have "f = HTTPException 422 (DText ''validation'')" using validate_answers [of req] by (simp add: refuse_def)
  with Inl that(1) show thesis by (simp add: create_route_def transactional_def fault_status_def)
next
  case (Inr u)
  show thesis
  proof (cases "prepared_by si max_days req")
    case (Inl e)
    then have "is_value_error e" using prepare_failures unfolding fails_only_def prepared_by_def by blast
    with Inr Inl that(1) show thesis
      by (simp add: create_route_def transactional_def database_executor.create_refused fault_status_def flip: prepared_by_def)
  next
    case (Inr run)
    with create_route_prepared [of req si max_days run msg su db] \<open>validate_create_request req = Inr u\<close> that(2) show thesis by auto
  qed
qed

lemma finished_status: "finished msg ended running result final \<Longrightarrow> r_status final = COMPLETED \<and> r_failure_code final = None
    \<and> result = Inr (the (r_result final)) \<and> r_result final \<noteq> None
    \<or> r_status final = FAILED \<and> (\<exists>e. result = Inl e \<and> r_failure_code final = Some (failure_code e))"
  by (cases result) (auto simp: finished_def)

lemma stored_run_status: "stored_run msg si su req db db' final \<Longrightarrow> r_status final = COMPLETED \<or> r_status final = FAILED"
  unfolding stored_run_def using finished_status by blast

lemma stored_run_fails:
  assumes "stored_run msg si su req db db' final" and "validate_create_request req = Inr ()" and "rq_execution_mode req = Some m"
  shows "r_failure_code final \<notin> {Some ''INVALID_PARAMETERS'', Some ''UNSUPPORTED_STRATEGY''}"
proof -
  obtain running db2 where f: "finished msg (si_ended si) running (fst (db_execute su watchlist_entry_strategy running db2)) final"
    and r: "r_parameters running = stored_parameters req" "strip (r_strategy_name running) = ''watchlist_entry''"
      "r_strategy_version running = Some ''1''" using assms(1) unfolding stored_run_def by blast
  have d: "fails_only data_failure (fst (db_execute su watchlist_entry_strategy running db2))"
    by (rule validated_executes [OF assms(2,3) r])
  have "data_failure e" if "fst (db_execute su watchlist_entry_strategy running db2) = Inl e" for e
    using d that by (simp add: fails_only_def)
  with finished_status [OF f] show ?thesis by (auto simp: data_failure_def)
qed

text \<open>
  C33. Creating a backtest: a refused request answers 422 and writes nothing. An accepted one answers the run it
  stored, in a final status and with the parameters as sent; when the client named the execution mode, the run
  has that mode and the executor never fails over its parameters. Only a client that leaves the field out and
  writes an unknown mode among the parameters gets an internal error, and then nothing is stored.
\<close>

theorem create_backtest_answers:
  "case create_route (db_execute su watchlist_entry_strategy) msg si max_days req db of
     (db', Inl f) \<Rightarrow> db' = db \<and> (fault_status f = 422 \<or> fault_status f = 500 \<and> rq_execution_mode req = None
       \<and> (\<exists>v. map_of (rq_parameters req) ''execution_mode'' = Some v \<and> v \<notin> {VStr ''independent'', VStr ''portfolio''}))
   | (db', Inr out) \<Rightarrow> (\<exists>run. backtest_response run = Inr out
         \<and> (\<forall>i. get_run i db' = (if i = si_id si then Some run else get_run i db)))
       \<and> bt_id out = si_id si \<and> bt_parameters out = stored_parameters req \<and> bt_status out \<in> {COMPLETED, FAILED}
       \<and> (rq_execution_mode req = None \<or> mode_value (bt_execution_mode out) = requested_mode req
            \<and> bt_failure_code out \<notin> {Some ''INVALID_PARAMETERS'', Some ''UNSUPPORTED_STRATEGY''})"
proof (cases rule: create_route_cases [of su msg si max_days req db])
  case (1 f)
  then show ?thesis by simp
next
  case (2 final db')
  have ps: "r_parameters final = stored_parameters req" using 2(2) by (simp add: stored_run_def)
  show ?thesis
  proof (cases "execution_mode final")
    case (Inl e)
    then obtain v where v: "map_of (stored_parameters req) ''execution_mode'' = Some v"
        "v \<notin> {VStr ''independent'', VStr ''portfolio''}" "e = ValueError ''not a valid BacktestExecutionMode''"
      by (auto simp: execution_mode_Inl ps)
    then have "rq_execution_mode req = None"
      using validated_name [OF 2(1)] by (cases "rq_execution_mode req") (auto simp: stored_parameters_def requested_mode_def)
    with v Inl show ?thesis unfolding 2(3)
      by (simp add: transactional_def backtest_response_def stored_parameters_def fault_status_def sync_conflict_handler_def)
  next
    case (Inr m)
    then obtain out where out: "backtest_response final = Inr out" by (simp add: backtest_response_def)
    note fields = backtest_response_Inr [OF out]
    have "mode_value (bt_execution_mode out) = requested_mode req" if "rq_execution_mode req = Some x" for x
      using fields that by (simp add: execution_mode_Inr ps stored_parameters_def requested_mode_def)
    with fields out 2 stored_run_status [OF 2(2)] stored_run_fails [OF 2(2,1)] show ?thesis unfolding 2(3)
      by (cases "rq_execution_mode req") (auto simp: transactional_def stored_run_def)
  qed
qed

section \<open>Reading back\<close>

lemma portfolio_result_shape:
  assumes "portfolio_metrics env n x = Inr m"
  shows "\<exists>p. portfolio_response i m snaps = Inr p \<and> pr_run_id p = i \<and> pr_snapshots p = map snapshot_response snaps
    \<and> map_of m ''final_equity'' = Some (MDec (pr_final_equity p)) \<and> map_of m ''max_drawdown'' = Some (MDec (pr_max_drawdown p))
    \<and> map_of m ''maximum_open_positions_used'' = Some (MInt (pr_maximum_open_positions_used p))"
    "list_all (\<lambda>k. map_of m k \<noteq> None) portfolio_result_keys"
  using assms by (auto simp: portfolio_metrics_def Let_def bindE_eq_Inr portfolio_response_def result_decimal_def result_int_def
      portfolio_result_keys_def)

lemma portfolio_execution_result: "fst (execute_portfolio su st run db) = Inr m \<Longrightarrow> \<exists>env n x. portfolio_metrics env n x = Inr m"
  unfolding execute_portfolio_def Let_def by (auto simp: fst_bind bindE_eq_Inr split: sum.splits)

text \<open>
  C34. A run that a creation answered reads back as the same response. Once completed its analysis is
  answered over all of its trades, and its portfolio data, with the figures of the stored result, exactly when
  it ran in portfolio mode; a failed run has neither. Another identifier that had no run is not found.
\<close>

theorem created_run_reads:
  assumes "create_route (db_execute su watchlist_entry_strategy) msg si max_days req db = (db', Inr out)"
  shows "get_route (si_id si) db' = Inr out
    \<and> (if bt_status out = COMPLETED
       then (\<exists>a. analysis_of_route (si_id si) db' = Inr a \<and> an_run_id a = si_id si
              \<and> an_trade_count a = length (filter (\<lambda>t. t_run_id t = si_id si) (db_trades db')))
         \<and> (if bt_execution_mode out = PORTFOLIO
            then \<exists>p m. portfolio_route (si_id si) db' = Inr p \<and> bt_result out = Some m
                \<and> map_of m ''final_equity'' = Some (MDec (pr_final_equity p))
                \<and> map_of m ''max_drawdown'' = Some (MDec (pr_max_drawdown p))
                \<and> pr_snapshots p = map snapshot_response (list_snapshots (si_id si) db')
            else answer_status 200 (portfolio_route (si_id si) db') = 409)
       else answer_status 200 (analysis_of_route (si_id si) db') = 409 \<and> answer_status 200 (portfolio_route (si_id si) db') = 409)
    \<and> (\<forall>i. i \<noteq> si_id si \<and> get_run i db = None \<longrightarrow> answer_status 200 (get_route i db') = 404)"
proof -
  obtain final where f: "stored_run msg si su req db db' final" "backtest_response final = Inr out"
    using assms by (cases rule: create_route_cases [of su msg si max_days req db])
      (auto simp: transactional_def split: sum.splits)
  let ?i = "si_id si"
  have get: "get_run i db' = (if i = ?i then Some final else get_run i db)" for i using f(1) by (simp add: stored_run_def)
  have mine: "service_get ?i db' = Inr final" and id: "r_id final = ?i"
    using f(1) by (simp_all add: service_get_def get stored_run_def)
  note fields = backtest_response_Inr [OF f(2)]
  note routes = analysis_of_route_def portfolio_route_def service_analyze_def service_portfolio_def mine
  have same: "get_route ?i db' = Inr out" by (simp add: get_route_def mine f(2))
  have lost: "answer_status 200 (get_route i db') = 404" if "i \<noteq> ?i" "get_run i db = None" for i
    using that by (simp add: get_route_def service_get_def get read_fault_def answer_status_def fault_status_def)
  have failed: "answer_status 200 (analysis_of_route ?i db') = 409" "answer_status 200 (portfolio_route ?i db') = 409"
    if "bt_status out \<noteq> COMPLETED"
    using that fields by (simp_all add: routes assertE_def read_fault_def answer_status_def fault_status_def)
  have analysis: "\<exists>a. analysis_of_route ?i db' = Inr a \<and> an_run_id a = ?i
      \<and> an_trade_count a = length (filter (\<lambda>t. t_run_id t = ?i) (db_trades db'))" if "bt_status out = COMPLETED"
    using that fields by (simp add: routes analysis_response_def analyze_trades_def Let_def list_all_trades_def trade_stats_def)
  have independent: "answer_status 200 (portfolio_route ?i db') = 409" if "bt_status out = COMPLETED" "bt_execution_mode out \<noteq> PORTFOLIO"
    using that fields by (simp add: routes assertE_def read_fault_def answer_status_def fault_status_def)
  have portfolio: "\<exists>p m. portfolio_route ?i db' = Inr p \<and> bt_result out = Some m
      \<and> map_of m ''final_equity'' = Some (MDec (pr_final_equity p)) \<and> map_of m ''max_drawdown'' = Some (MDec (pr_max_drawdown p))
      \<and> pr_snapshots p = map snapshot_response (list_snapshots ?i db')" if c: "bt_status out = COMPLETED" "bt_execution_mode out = PORTFOLIO"
  proof -
    obtain running db2 where fin: "finished msg (si_ended si) running (fst (db_execute su watchlist_entry_strategy running db2)) final"
      and r: "r_parameters running = stored_parameters req" "strip (r_strategy_name running) = ''watchlist_entry''"
        "r_strategy_version running = Some ''1''" and ps: "r_parameters final = stored_parameters req"
      using f(1) unfolding stored_run_def by blast
    obtain m where m: "fst (db_execute su watchlist_entry_strategy running db2) = Inr m" "r_result final = Some m"
      using finished_status [OF fin] c fields by auto
    have "map_of (stored_parameters req) ''execution_mode'' = Some (VStr ''portfolio'')"
      using c(2) fields by (auto simp: execution_mode_Inr ps split: option.splits)
    then have "db_execute su watchlist_entry_strategy running db2 = execute_portfolio su watchlist_entry_strategy running db2"
      using r by (simp add: db_execute_def validate_strategy_contract_def watchlist_entry_strategy_def strip_def is_space_def)
    with m(1) obtain env n x where "portfolio_metrics env n x = Inr m" using portfolio_execution_result by metis
    note shape = portfolio_result_shape [OF this]
    obtain p where "portfolio_response ?i m (list_snapshots ?i db') = Inr p" "map_of m ''final_equity'' = Some (MDec (pr_final_equity p))"
        "map_of m ''max_drawdown'' = Some (MDec (pr_max_drawdown p))" "pr_snapshots p = map snapshot_response (list_snapshots ?i db')"
      using shape(1) by blast
    then show ?thesis using c fields m(2) shape(2) id
      by (intro exI [of _ p] exI [of _ m]) (simp add: routes assertE_def)
  qed
  show ?thesis using same lost failed analysis independent portfolio by (cases "bt_status out = COMPLETED") simp_all
qed

section \<open>The listing\<close>

text \<open>The steps of the backtest tables: creations, and whatever other components do to the other tables.\<close>

inductive backtest_step :: "backtest_db \<Rightarrow> backtest_db \<Rightarrow> bool" where
  bs_create: "create_route (db_execute su watchlist_entry_strategy) msg si max_days req db = (db', reply) \<Longrightarrow> backtest_step db db'"
| bs_other: "db_runs db' = db_runs db \<Longrightarrow> backtest_step db db'"

definition readable :: "backtest_db \<Rightarrow> bool" where
  "readable db \<longleftrightarrow> distinct (map r_id (db_runs db)) \<and> (\<forall>run \<in> set (db_runs db).
     r_status run \<in> {COMPLETED, FAILED} \<and> (\<exists>out. backtest_response run = Inr out))"

lemma backtest_step_readable: "backtest_step db db' \<Longrightarrow> readable db \<Longrightarrow> readable db'"
proof (induction rule: backtest_step.induct)
  case (bs_create su msg si max_days req db db' reply)
  then show ?case
  proof (cases rule: create_route_cases [of su msg si max_days req db])
    case (2 final db2)
    show ?thesis
    proof (cases "backtest_response final")
      case (Inl f)
      with 2(3) bs_create show ?thesis by (simp add: transactional_def)
    next
      case (Inr out)
      then have "db_runs db' = put_run final (db_runs db)" using 2(2,3) bs_create by (simp add: transactional_def stored_run_def)
      then show ?thesis using bs_create(2) Inr put_run_rows [of "db_runs db" final] stored_run_status [OF 2(2)]
        by (auto simp: readable_def)
    qed
  qed (use bs_create in auto)
qed (simp add: readable_def)

lemma find_distinct: "distinct (map f xs) \<Longrightarrow> x \<in> set xs \<Longrightarrow> find (\<lambda>y. f y = f x) xs = Some x"
  by (induction xs) auto

lemma newest_first: "sorted_wrt (\<lambda>a b. f b \<le> f a) (sort_key (\<lambda>x. - f x :: int) xs)"
  using sorted_sort_key [of "\<lambda>x. - f x" xs] by (simp add: sorted_wrt_map)

lemma distinct_sort_key_map: "distinct (map f (sort_key k xs)) \<longleftrightarrow> distinct (map f xs)"
  by (metis distinct_map distinct_sort set_sort)

lemma list_all2_mem: "list_all2 P xs ys \<Longrightarrow> y \<in> set ys \<Longrightarrow> \<exists>x \<in> set xs. P x y"
  by (induction rule: list_all2_induct) auto

lemma mapH_Inr: "(\<And>x. x \<in> set xs \<Longrightarrow> \<exists>y. f x = Inr y) \<Longrightarrow> \<exists>ys. mapH f xs = Inr ys \<and> list_all2 (\<lambda>x y. f x = Inr y) xs ys"
proof (induction xs)
  case (Cons x xs)
  then obtain y ys where "f x = Inr y" "mapH f xs = Inr ys" "list_all2 (\<lambda>x y. f x = Inr y) xs ys" by (meson list.set_intros)
  then show ?case by simp
qed simp

text \<open>
  C35. In every state that creations reach from empty tables, with any change of the other tables in between, the
  listing answers every stored run, newest first, each as it was answered when it was created.
\<close>

theorem listing_answers:
  assumes "backtest_step\<^sup>*\<^sup>* db0 db" and "db_runs db0 = []"
  shows "\<exists>outs. list_route db = Inr outs \<and> length outs = length (db_runs db)
    \<and> distinct (map bt_id outs) \<and> sorted_wrt (\<lambda>a b. bt_created_at b \<le> bt_created_at a) outs
    \<and> (\<forall>out \<in> set outs. get_route (bt_id out) db = Inr out \<and> bt_status out \<in> {COMPLETED, FAILED})"
proof -
  have "readable db0" using assms(2) by (simp add: readable_def)
  with assms(1) have r: "readable db" by (induction rule: rtranclp_induct) (auto intro: backtest_step_readable)
  have found: "get_run (r_id run) db = Some run" if "run \<in> set (db_runs db)" for run
    using r that unfolding get_run_def readable_def by (intro find_distinct) simp_all
  obtain outs where outs: "list_route db = Inr outs" "list_all2 (\<lambda>run out. backtest_response run = Inr out) (list_runs db) outs"
    using mapH_Inr [of "list_runs db" backtest_response] r by (auto simp: list_route_def list_runs_def readable_def)
  have keys: "map bt_id outs = map r_id (list_runs db)" "map bt_created_at outs = map r_created_at (list_runs db)"
    using outs(2) by (induction rule: list_all2_induct) (auto dest: backtest_response_Inr)
  have "distinct (map r_id (list_runs db))" using r by (simp add: readable_def list_runs_def distinct_sort_key_map)
  then have "distinct (map bt_id outs)" using keys(1) by simp
  moreover have "sorted_wrt (\<lambda>a b. b \<le> a) (map r_created_at (list_runs db))"
    unfolding list_runs_def sorted_wrt_map by (rule newest_first)
  then have "sorted_wrt (\<lambda>a b. bt_created_at b \<le> bt_created_at a) outs"
    unfolding keys(2) [symmetric] sorted_wrt_map .
  moreover have "get_route (bt_id out) db = Inr out \<and> bt_status out \<in> {COMPLETED, FAILED}" if mem: "out \<in> set outs" for out
  proof -
    obtain run where run: "run \<in> set (db_runs db)" "backtest_response run = Inr out"
      using list_all2_mem [OF outs(2) mem] unfolding list_runs_def by auto
    have "r_status run \<in> {COMPLETED, FAILED}" using r run(1) unfolding readable_def by blast
    then show ?thesis using found [OF run(1)] backtest_response_Inr [OF run(2)] run(2) by (simp add: get_route_def service_get_def)
  qed
  moreover have "length outs = length (db_runs db)" using list_all2_lengthD [OF outs(2)] by (simp add: list_runs_def)
  ultimately show ?thesis using outs(1) by (intro exI [of _ outs]) blast
qed

section \<open>An execution mode among the parameters\<close>

text \<open>A request that leaves the field out and writes the mode among the parameters.\<close>

definition mode_in_parameters :: "pyval \<Rightarrow> date \<Rightarrow> date \<Rightarrow> BacktestCreateRequest" where
  "mode_in_parameters v start stop = \<lparr>rq_strategy_name = ''watchlist_entry'', rq_strategy_version = None,
     rq_parameters = [(''execution_mode'', v)], rq_start_date = start, rq_end_date = stop, rq_data_as_of = None,
     rq_execution_mode = None\<rparr>"

lemma mode_in_parameters_valid: "validate_create_request (mode_in_parameters v start stop) = Inr ()"
proof -
  have d: "parse_parameters [] = Inr default_parameters" by code_simp
  have "parse_parameters [(''execution_mode'', w)] = parse_parameters []" for w
    using parse_ignores_mode [of w "[]"] by simp
  then show ?thesis
    by (simp add: mode_in_parameters_def validate_create_request_def validate_mode_parameters_def requested_mode_def d)
qed

lemma mode_in_parameters_prepared:
  assumes "start \<le> stop" and "stop - start \<le> max_days"
  shows "\<exists>run. prepared_by si max_days (mode_in_parameters v start stop) = Inr run"
  using assms by (simp add: prepared_by_def mode_in_parameters_def stored_parameters_def prepare_run_def validate_strategy_contract_def
      create_run_def Let_def strip_def is_space_def assertE_def)

text \<open>
  C36. The validation judges the execution mode by the field alone. A request that names the mode among its
  parameters instead always passes it, as independent; with the portfolio mode there it is then executed as a
  portfolio run without the keys that mode needs and stored as failed over its parameters; with any other text
  it is executed, and the answer is an internal error that rolls the run back.
\<close>

theorem mode_in_parameters_escapes:
  assumes "start \<le> stop" and "stop - start \<le> max_days"
  shows "validate_create_request (mode_in_parameters v start stop) = Inr ()
    \<and> (v \<notin> {VStr ''independent'', VStr ''portfolio''} \<longrightarrow>
        create_route (db_execute su watchlist_entry_strategy) msg si max_days (mode_in_parameters v start stop) db
          = (db, Inl (Unhandled (ValueError ''not a valid BacktestExecutionMode''))))
    \<and> (\<exists>db' out. create_route (db_execute su watchlist_entry_strategy) msg si max_days
          (mode_in_parameters (VStr ''portfolio'') start stop) db = (db', Inr out)
        \<and> bt_status out = FAILED \<and> bt_failure_code out = Some ''INVALID_PARAMETERS'' \<and> bt_execution_mode out = PORTFOLIO)"
proof -
  let ?req = "\<lambda>v. mode_in_parameters v start stop"
  have ps: "stored_parameters (?req v) = [(''execution_mode'', v)]" for v
    by (simp add: stored_parameters_def mode_in_parameters_def)
  have made: "\<exists>final db'. stored_run msg si su (?req v) db db' final
      \<and> create_route (db_execute su watchlist_entry_strategy) msg si max_days (?req v) db
          = transactional (\<lambda>db. (db', backtest_response final)) db" for v
    using mode_in_parameters_prepared [OF assms] create_route_prepared [OF mode_in_parameters_valid] by metis
  have unknown: "create_route (db_execute su watchlist_entry_strategy) msg si max_days (?req v) db
      = (db, Inl (Unhandled (ValueError ''not a valid BacktestExecutionMode'')))"
    if "v \<notin> {VStr ''independent'', VStr ''portfolio''}" for v
  proof -
    obtain final db' where f: "stored_run msg si su (?req v) db db' final" "create_route (db_execute su watchlist_entry_strategy)
        msg si max_days (?req v) db = transactional (\<lambda>db. (db', backtest_response final)) db" using made by blast
    have "execution_mode final = Inl (ValueError ''not a valid BacktestExecutionMode'')"
      using f(1) that by (simp add: execution_mode_Inl stored_run_def ps)
    then show ?thesis using f(2) by (simp add: backtest_response_def transactional_def)
  qed
  let ?r = "?req (VStr ''portfolio'')"
  obtain final db' where f: "stored_run msg si su ?r db db' final" "create_route (db_execute su watchlist_entry_strategy)
      msg si max_days ?r db = transactional (\<lambda>db. (db', backtest_response final)) db" using made by blast
  obtain running db2 where fin: "finished msg (si_ended si) running (fst (db_execute su watchlist_entry_strategy running db2)) final"
    and r: "r_parameters running = stored_parameters ?r" "strip (r_strategy_name running) = ''watchlist_entry''"
      "r_strategy_version running = Some ''1''" using f(1) unfolding stored_run_def by blast
  have "fst (db_execute su watchlist_entry_strategy running db2)
      = Inl (InvalidBacktestParameters ''portfolio mode requires missing keys'')"
    using r by (simp add: db_execute_def validate_strategy_contract_def watchlist_entry_strategy_def strip_def is_space_def ps
        execute_portfolio_def parse_portfolio_def portfolio_required_def assertE_def)
  then have final: "r_status final = FAILED" "r_failure_code final = Some ''INVALID_PARAMETERS''"
    using finished_status [OF fin] by auto
  have "execution_mode final = Inr PORTFOLIO" using f(1) by (simp add: execution_mode_Inr stored_run_def ps)
  then obtain out where out: "backtest_response final = Inr out" by (simp add: backtest_response_def)
  have "bt_execution_mode out = PORTFOLIO" "bt_status out = FAILED" "bt_failure_code out = Some ''INVALID_PARAMETERS''"
    using backtest_response_Inr [OF out] final \<open>execution_mode final = Inr PORTFOLIO\<close> by simp_all
  moreover have "create_route (db_execute su watchlist_entry_strategy) msg si max_days ?r db = (db', Inr out)"
    using f(2) out by (simp add: transactional_def)
  ultimately show ?thesis using mode_in_parameters_valid unknown by blast
qed

section \<open>Witnesses\<close>

definition demo_request :: BacktestCreateRequest where
  "demo_request = \<lparr>rq_strategy_name = ''watchlist_entry'', rq_strategy_version = None, rq_parameters = [],
     rq_start_date = 100, rq_end_date = 120, rq_data_as_of = None, rq_execution_mode = Some ''independent''\<rparr>"

definition demo_created :: "backtest_db \<times> BacktestResponse http" where
  "demo_created = create_route (db_execute demo_su watchlist_entry_strategy) (\<lambda>_. []) demo_inputs 30 demo_request
     (demo_db\<lparr>db_runs := []\<rparr>)"

lemma demo_created_completed:
  "case demo_created of (db, Inr out) \<Rightarrow> bt_status out = COMPLETED \<and> db_trades db \<noteq> [] | _ \<Rightarrow> False"
  by code_simp

lemma created_run_reads_witness:
  "\<exists>db out. demo_created = (db, Inr out) \<and> get_route 9 db = Inr out \<and> (\<exists>a. analysis_of_route 9 db = Inr a)"
proof -
  obtain db out where d: "demo_created = (db, Inr out)" "bt_status out = COMPLETED"
    using demo_created_completed by (auto split: prod.splits sum.splits)
  have "si_id demo_inputs = 9" by (simp add: demo_inputs_def)
  with created_run_reads [OF d(1) [unfolded demo_created_def]] d show ?thesis by auto
qed

lemma listing_answers_witness: "\<exists>outs. list_route (fst demo_created) = Inr outs \<and> length outs = length (db_runs (fst demo_created))"
proof -
  have "backtest_step (demo_db\<lparr>db_runs := []\<rparr>) (fst demo_created)"
    unfolding demo_created_def by (rule bs_create) (rule prod.collapse [symmetric])
  then have "backtest_step\<^sup>*\<^sup>* (demo_db\<lparr>db_runs := []\<rparr>) (fst demo_created)" by (rule r_into_rtranclp)
  from listing_answers [OF this] show ?thesis by auto
qed

lemma mode_in_parameters_escapes_witness:
  "create_route (db_execute demo_su watchlist_entry_strategy) (\<lambda>_. []) demo_inputs 30 (mode_in_parameters (VInt 1) 100 120) demo_db
    = (demo_db, Inl (Unhandled (ValueError ''not a valid BacktestExecutionMode'')))"
  using mode_in_parameters_escapes [of 100 120 30 "VInt 1" demo_su "\<lambda>_. []" demo_inputs demo_db] by simp

end
