(* ===== verification/Notifications.thy ===== *)
theory Notifications
  imports Pipeline_Success Settings Calendar
begin

text \<open>
  Notifications, \<open>modules/notifications/{events,slack,service,pipeline}.py\<close>, the choice of the providers in
  \<open>main.py\<close>, and the scheduled job, \<open>modules/market/scheduler.py\<close>. The outcome of each posting attempt is an
  input; an exception is an abstract value of the type \<open>'e\<close>. A waiting time is a number of seconds.
\<close>

section \<open>Events\<close>

datatype NotificationEventType = WATCHLIST_PUBLISHED | WATCHLIST_FAILED

record NotificationEvent =
  nt_type :: NotificationEventType
  nt_trading_date :: date
  nt_execution_id :: "uuid option"
  nt_candidate_count :: "nat option"
  nt_error_code :: "string option"

section \<open>Slack\<close>

text \<open>How one \<open>post\<close> ends: with a response, one of the two transport failures that are retried, or otherwise.\<close>

datatype 'e post_outcome = Responded nat | TimeoutException | NetworkError | OtherException 'e

datatype delivery_verdict = Posted | Permanent | Transient

text \<open>\<open>raise_for_status\<close> passes the statuses from 200 to 299 and raises for every other.\<close>

fun post_verdict :: "'e post_outcome \<Rightarrow> delivery_verdict" where
  "post_verdict (Responded s) = (if 200 \<le> s \<and> s < 300 then Posted
     else if 400 \<le> s \<and> s < 500 \<and> s \<noteq> 429 then Permanent else Transient)"
| "post_verdict TimeoutException = Transient"
| "post_verdict NetworkError = Transient"
| "post_verdict (OtherException e) = Permanent"

text \<open>
  The attempts from number \<open>n\<close> on: the waits in between, and the end, which is a return or the outcome
  whose exception is raised.
\<close>

function slack_attempts :: "(nat \<Rightarrow> 'e post_outcome) \<Rightarrow> nat \<Rightarrow> nat \<Rightarrow> rat list \<times> ('e post_outcome + unit)" where
  "slack_attempts post max_retries n =
    (if max_retries < n then ([], Inr ())
     else case post_verdict (post n) of
       Posted \<Rightarrow> ([], Inr ())
     | Permanent \<Rightarrow> ([], Inl (post n))
     | Transient \<Rightarrow> if n = max_retries then ([], Inl (post n))
         else let (waits, r) = slack_attempts post max_retries (n + 1) in (1 / 4 * 2 ^ n # waits, r))"
  by pat_completeness auto
termination by (relation "measure (\<lambda>(_, m, a). Suc m - a)") auto

declare slack_attempts.simps [simp del]

definition slack_text :: "NotificationEvent \<Rightarrow> string" where
  "slack_text ev = (case nt_type ev of
     WATCHLIST_PUBLISHED \<Rightarrow> ''Watchlist published for '' @ date_text (nt_trading_date ev) @ '': ''
       @ digits_of (case nt_candidate_count ev of None \<Rightarrow> 0 | Some n \<Rightarrow> n) @ '' candidates''
   | WATCHLIST_FAILED \<Rightarrow> ''Watchlist pipeline failed for '' @ date_text (nt_trading_date ev) @ '': ''
       @ (case nt_error_code ev of None \<Rightarrow> ''unknown'' | Some c \<Rightarrow> if c = '''' then ''unknown'' else c))"

text \<open>The client answers every attempt to post a text.\<close>

definition slack_publish :: "(string \<Rightarrow> nat \<Rightarrow> 'e post_outcome) \<Rightarrow> nat \<Rightarrow> NotificationEvent
    \<Rightarrow> rat list \<times> ('e post_outcome + unit)" where
  "slack_publish client max_retries ev = slack_attempts (client (slack_text ev)) max_retries 0"

section \<open>The service and the publishing pipeline\<close>

text \<open>A provider's delivery of an event; \<open>publish\<close> gathers them all and logs those that raised.\<close>

type_synonym 'e notifier = "NotificationEvent \<Rightarrow> 'e post_outcome + unit"

definition service_publish :: "'e notifier list \<Rightarrow> NotificationEvent \<Rightarrow> (nat \<times> 'e post_outcome) list" where
  "service_publish providers ev = List.map_filter (\<lambda>(i, p). case p ev of Inl e \<Rightarrow> Some (i, e) | Inr _ \<Rightarrow> None)
     (enumerate 0 providers)"

definition slack_providers :: "Settings \<Rightarrow> (string \<Rightarrow> nat \<Rightarrow> 'e post_outcome) \<Rightarrow> 'e notifier list" where
  "slack_providers st client = (if missing (slack_webhook_url st) then []
     else [\<lambda>ev. snd (slack_publish client (nat (notification_max_retries st)) ev)])"

definition event_of :: "PipelineResult \<Rightarrow> NotificationEvent option" where
  "event_of r = map_option (\<lambda>t. \<lparr>nt_type = t, nt_trading_date = pr_trading_date r, nt_execution_id = pr_execution_id r,
       nt_candidate_count = pr_persisted_count r, nt_error_code = pr_error_code r\<rparr>)
     (if pr_status r = SUCCEEDED then Some WATCHLIST_PUBLISHED
      else if pr_status r = ExecutionStatus.FAILED then Some WATCHLIST_FAILED else None)"

record ('t, 'e) published_run =
  pu_db :: "'t pipeline_db"
  pu_result :: "PipelineResult res"
  pu_event :: "NotificationEvent option"
  pu_undelivered :: "(nat \<times> 'e post_outcome) list"

definition publishing_run :: "'e notifier list \<Rightarrow> 't pipeline_env \<Rightarrow> date option \<Rightarrow> TriggerType \<Rightarrow> bool \<Rightarrow> 't pipeline_db
    \<Rightarrow> ('t, 'e) published_run" where
  "publishing_run providers env trading_date trigger force_reanalysis db =
    (let (db', r) = pipeline_run env trading_date trigger force_reanalysis db;
         ev = (case r of Inl e \<Rightarrow> None | Inr x \<Rightarrow> event_of x)
     in \<lparr>pu_db = db', pu_result = r, pu_event = ev,
         pu_undelivered = (case ev of None \<Rightarrow> [] | Some x \<Rightarrow> service_publish providers x)\<rparr>)"

section \<open>The scheduled job\<close>

record cron_job =
  cj_id :: string
  cj_weekdays :: "int set"
  cj_hour :: int
  cj_minute :: int
  cj_max_instances :: nat
  cj_coalesce :: bool
  cj_misfire_grace_time :: int
  cj_timezone :: string

definition build_scheduler :: "Settings \<Rightarrow> cron_job" where
  "build_scheduler st = \<lparr>cj_id = ''daily-watchlist-pipeline'', cj_weekdays = {0..4}, cj_hour = watchlist_job_hour st,
     cj_minute = watchlist_job_minute st, cj_max_instances = 1, cj_coalesce = True,
     cj_misfire_grace_time = watchlist_job_misfire_grace_seconds st, cj_timezone = watchlist_job_timezone st\<rparr>"

text \<open>The minutes, in the job's time zone, at which a cron job falls due.\<close>

definition due :: "cron_job \<Rightarrow> date \<Rightarrow> int \<Rightarrow> int \<Rightarrow> bool" where
  "due j d hour minute \<longleftrightarrow> weekday d \<in> cj_weekdays j \<and> hour = cj_hour j \<and> minute = cj_minute j"

definition run_scheduled_pipeline :: "'e notifier list \<Rightarrow> 't pipeline_env \<Rightarrow> 't pipeline_db \<Rightarrow> ('t, 'e) published_run" where
  "run_scheduled_pipeline providers env db = publishing_run providers env None SCHEDULED False db"

section \<open>Delivery\<close>

text \<open>The delivery as a search: the first attempt that is not transient, if it comes before the last one.\<close>

lemma slack_attempts_first:
  assumes "a + k \<le> m" and "\<And>j. a \<le> j \<Longrightarrow> j < a + k \<Longrightarrow> post_verdict (post j) = Transient"
    and "post_verdict (post (a + k)) \<noteq> Transient \<or> a + k = m"
  shows "slack_attempts post m a = (map (\<lambda>j. 1 / 4 * 2 ^ j) [a..<a + k],
    if post_verdict (post (a + k)) = Posted then Inr () else Inl (post (a + k)))"
  using assms
proof (induction k arbitrary: a)
  case 0
  then show ?case by (subst slack_attempts.simps) (cases "post_verdict (post a)"; auto)
next
  case (Suc k)
  have t: "post_verdict (post a) = Transient" "a \<noteq> m" "\<not> m < a" using Suc.prems(1,2) by auto
  have "slack_attempts post m (Suc a) = (map (\<lambda>j. 1 / 4 * 2 ^ j) [Suc a..<Suc a + k],
      if post_verdict (post (Suc a + k)) = Posted then Inr () else Inl (post (Suc a + k)))"
    using Suc.prems by (intro Suc.IH) auto
  then show ?case using t by (simp add: slack_attempts.simps [of post m a] upt_rec [of a])
qed

text \<open>The number of the last attempt.\<close>

definition last_attempt :: "(nat \<Rightarrow> 'e post_outcome) \<Rightarrow> nat \<Rightarrow> nat" where
  "last_attempt post m = (case find (\<lambda>j. post_verdict (post j) \<noteq> Transient) [0..<m] of None \<Rightarrow> m | Some j \<Rightarrow> j)"

lemma last_attempt: "last_attempt post m \<le> m" "j < last_attempt post m \<Longrightarrow> post_verdict (post j) = Transient"
    "post_verdict (post (last_attempt post m)) \<noteq> Transient \<or> last_attempt post m = m"
  unfolding last_attempt_def
  by (auto split: option.splits simp: find_None_iff find_Some_iff)

lemma geometric_waits: "sum_list (map (\<lambda>j. 1 / 4 * 2 ^ j) [0..<n]) = (1 / 4 * (2 ^ n - 1) :: rat)"
  by (induction n) (simp_all add: field_simps)

text \<open>
  C39. Delivering to Slack ends after at most \<open>max_retries + 1\<close> posts, with waits that double from a quarter
  second and add up to less than a quarter of two to the number of retries. It succeeds exactly when some
  n is answered with a success after transient failures only; a permanent failure (a client error
  other than 429) is never retried, and what it raises is the failure of its last n.
\<close>

theorem slack_delivery:
  "case slack_publish client m ev of (waits, r) \<Rightarrow>
     length waits \<le> m \<and> waits = map (\<lambda>j. 1 / 4 * 2 ^ j) [0..<length waits] \<and> sum_list waits = 1 / 4 * (2 ^ length waits - 1)
     \<and> list_all (\<lambda>j. post_verdict (client (slack_text ev) j) = Transient) [0..<length waits]
     \<and> (r = Inr () \<longleftrightarrow> post_verdict (client (slack_text ev) (length waits)) = Posted)
     \<and> (r = Inr () \<longleftrightarrow> (\<exists>k \<le> m. post_verdict (client (slack_text ev) k) = Posted
          \<and> list_all (\<lambda>j. post_verdict (client (slack_text ev) j) = Transient) [0..<k]))
     \<and> (r \<noteq> Inr () \<longrightarrow> r = Inl (client (slack_text ev) (length waits))
          \<and> (length waits = m \<or> post_verdict (client (slack_text ev) (length waits)) = Permanent))"
proof -
  let ?post = "client (slack_text ev)"
  define k where "k = last_attempt ?post m"
  note last = last_attempt [where post = ?post and m = m, folded k_def]
  have run: "slack_publish client m ev
      = (map (\<lambda>j. 1 / 4 * 2 ^ j) [0..<k], if post_verdict (?post k) = Posted then Inr () else Inl (?post k))"
    unfolding slack_publish_def using slack_attempts_first [of 0 k m ?post] last by simp
  have early: "list_all (\<lambda>j. post_verdict (?post j) = Transient) [0..<k]" using last(2) by (simp add: list_all_iff)
  have only: "j = k" if j: "j \<le> m" "post_verdict (?post j) = Posted" "list_all (\<lambda>i. post_verdict (?post i) = Transient) [0..<j]" for j
  proof (rule ccontr)
    assume "j \<noteq> k"
    then consider "j < k" | "k < j" by linarith
    then show False
    proof cases
      case 1
      then show ?thesis using last(2) j(2) by force
    next
      case 2
      then have "post_verdict (?post k) = Transient" using j(3) by (simp add: list_all_iff)
      then show ?thesis using last(3) 2 j(1) by simp
    qed
  qed
  have found: "post_verdict (?post k) = Posted \<longleftrightarrow> (\<exists>j \<le> m. post_verdict (?post j) = Posted
      \<and> list_all (\<lambda>i. post_verdict (?post i) = Transient) [0..<j])"
    using only early last(1) by blast
  have permanent: "post_verdict (?post k) = Permanent" if "post_verdict (?post k) \<noteq> Posted" "k \<noteq> m"
    using last(3) that by (cases "post_verdict (?post k)") simp_all
  show ?thesis unfolding run prod.case length_map length_upt diff_zero
    using last(1) early found permanent geometric_waits [of k] by (auto simp del: upt_Suc)
qed

text \<open>
  Publishing never interferes with the pipeline: whatever providers there are and however their
  deliveries end, the tables and the result are those of the run itself. An event is published exactly for a
  run that succeeded or failed, none for a skipped one, and it names the execution, its date and its count.
\<close>

theorem publishing_transparent:
  "let p = publishing_run providers env trading_date trigger force db in
     (pu_db p, pu_result p) = pipeline_run env trading_date trigger force db
     \<and> (case pu_event p of
          None \<Rightarrow> pu_undelivered p = [] \<and> (\<forall>r. pu_result p = Inr r \<longrightarrow> pr_status r \<notin> {SUCCEEDED, ExecutionStatus.FAILED})
        | Some ev \<Rightarrow> (\<exists>r. pu_result p = Inr r \<and> nt_trading_date ev = pr_trading_date r \<and> nt_execution_id ev = pr_execution_id r
            \<and> (if nt_type ev = WATCHLIST_PUBLISHED then pr_status r = SUCCEEDED \<and> nt_candidate_count ev = pr_persisted_count r
               else pr_status r = ExecutionStatus.FAILED \<and> nt_error_code ev = pr_error_code r))
            \<and> length (pu_undelivered p) \<le> length providers
            \<and> (\<forall>(i, e) \<in> set (pu_undelivered p). i < length providers \<and> (providers ! i) ev = Inl e))"
proof -
  obtain db' r where run: "pipeline_run env trading_date trigger force db = (db', r)" by fastforce
  have logged: "(i, e) \<in> set (service_publish providers ev) \<Longrightarrow> i < length providers \<and> (providers ! i) ev = Inl e" for i e ev
    by (auto simp: service_publish_def List.map_filter_def in_set_enumerate_eq split: sum.splits)
  have few: "length (service_publish providers ev) \<le> length providers" for ev
    unfolding service_publish_def List.map_filter_def by (simp add: le_trans [OF length_filter_le])
  show ?thesis
    using logged few by (cases r) (auto simp: publishing_run_def run event_of_def Let_def split: if_splits)
qed

text \<open>A due job never meets the weekend: its run is skipped only for another execution of the date.\<close>

lemma scheduled_run_weekday:
  assumes "due (build_scheduler st) (pe_today env) hour minute"
    and "pu_result (run_scheduled_pipeline providers env db) = Inr r"
  shows "r \<noteq> skipped_result env d RESOLVING_TRADING_DATE ''weekend''"
proof -
  have w: "weekday (pe_today env) < 5" using assms(1) by (simp add: due_def build_scheduler_def)
  have run: "snd (pipeline_run env None SCHEDULED False db) = Inr r"
    using assms(2) by (simp add: run_scheduled_pipeline_def publishing_run_def Let_def split: prod.splits)
  show ?thesis
  proof
    assume "r = skipped_result env d RESOLVING_TRADING_DATE ''weekend''"
    with run w show False
      by (auto simp: pipeline_run_def run_acquired_def Let_def pipeline_result_def skipped_result_def split: if_splits sum.splits prod.splits option.splits)
  qed
qed

section \<open>Witnesses\<close>

definition some_event :: NotificationEvent where
  "some_event = \<lparr>nt_type = WATCHLIST_FAILED, nt_trading_date = 738945, nt_execution_id = None, nt_candidate_count = None,
     nt_error_code = Some ''''\<rparr>"

text \<open>A client that is limited once, times out once and then takes the message.\<close>

definition flaky_client :: "string \<Rightarrow> nat \<Rightarrow> unit post_outcome" where
  "flaky_client t j = (if j = 0 then Responded 429 else if j = 1 then TimeoutException else Responded 200)"

lemma slack_delivery_witness: "snd (slack_publish flaky_client 2 some_event) = Inr ()"
proof -
  have "post_verdict (flaky_client (slack_text some_event) 2) = Posted
      \<and> list_all (\<lambda>j. post_verdict (flaky_client (slack_text some_event) j) = Transient) [0..<2]"
    by (simp add: flaky_client_def upt_rec)
  then show ?thesis using slack_delivery [where client = flaky_client and m = 2 and ev = some_event]
    by (cases "slack_publish flaky_client 2 some_event") auto
qed

lemma publishing_transparent_witness:
  "pu_result (publishing_run [\<lambda>ev. Inl NetworkError :: unit post_outcome + unit] breakout_env (Some 738000) MANUAL_REANALYSIS True breakout_db)
    = snd (pipeline_run breakout_env (Some 738000) MANUAL_REANALYSIS True breakout_db)"
proof -
  let ?ps = "[\<lambda>ev. Inl NetworkError :: unit post_outcome + unit]"
  let ?p = "publishing_run ?ps breakout_env (Some 738000) MANUAL_REANALYSIS True breakout_db"
  have "(pu_db ?p, pu_result ?p) = pipeline_run breakout_env (Some 738000) MANUAL_REANALYSIS True breakout_db"
    using publishing_transparent [of ?ps breakout_env "Some 738000" MANUAL_REANALYSIS True breakout_db]
    unfolding Let_def by (rule conjunct1)
  then show ?thesis by (metis snd_conv)
qed

end
