(* ===== verification/Api_Watchlist.thy ===== *)
theory Api_Watchlist
  imports Pipeline Identity
begin

text \<open>
  The watchlist routes, \<open>api/watchlist/{router,schemas}.py\<close>, and the screener's, \<open>api/screener.py\<close>, over the
  tables of executions and entries. The fixed Korean labels and the list of limitations of the definitions
  are left out.
\<close>

section \<open>Responses\<close>

record WatchlistItemResponse =
  wi_rank :: nat
  wi_symbol :: string
  wi_total_score :: decimal
  wi_component_scores :: metric_dict
  wi_warnings :: "string list"
  wi_primary_setup :: "string option"
  wi_matched_setups :: "string list"
  wi_screener_name :: "string option"
  wi_screener_version :: "string option"
  wi_latest_close :: "decimal option"
  wi_average_trading_value_20 :: "decimal option"
  wi_volume_ratio :: "decimal option"
  wi_prior_short_volume_ratio :: "decimal option"
  wi_breakout_volume_ratio :: "decimal option"
  wi_atr_pct :: "decimal option"

text \<open>\<open>setup_metrics.get(primary_setup or "", {})\<close>\<close>

definition primary_metrics :: "ScreeningResult \<Rightarrow> metric_dict" where
  "primary_metrics r = dict_getd (sr_setup_metrics r) (case sr_primary_setup r of None \<Rightarrow> '''' | Some p \<Rightarrow> p) []"

definition item_response :: "WatchlistEntry \<Rightarrow> WatchlistItemResponse" where
  "item_response e = (let s = we_snapshot e; p = sr_primary_setup s; m = primary_metrics s in
     \<lparr>wi_rank = we_rank e, wi_symbol = we_symbol e, wi_total_score = we_total_score e,
      wi_component_scores = we_component_scores e, wi_warnings = we_warnings e, wi_primary_setup = p,
      wi_matched_setups = sr_matched_setups s, wi_screener_name = sr_screener_name s,
      wi_screener_version = sr_screener_version s, wi_latest_close = map_of (sr_metrics s) ''latest_close'',
      wi_average_trading_value_20 = map_of (sr_metrics s) ''average_trading_value_20'',
      wi_volume_ratio = (if p = Some ''box_breakout'' then map_of m ''volume_ratio'' else None),
      wi_prior_short_volume_ratio = (if p \<in> {Some ''trend_pullback'', Some ''volatility_contraction_breakout''}
        then map_of m ''prior_short_volume_ratio'' else None),
      wi_breakout_volume_ratio = (if p = Some ''volatility_contraction_breakout''
        then map_of m ''breakout_volume_ratio'' else None),
      wi_atr_pct = map_of (sr_metrics s) ''atr_pct''\<rparr>)"

text \<open>
  The detail inherits the item's fields, and its own \<open>from_entry\<close> fills only some of them: the others keep
  the defaults of their declaration.
\<close>

record WatchlistDetailResponse = WatchlistItemResponse +
  wd_trading_date :: date
  wd_snapshot :: ScreeningResult
  wd_metrics :: metric_dict
  wd_reasons :: "reason list"
  wd_setup_scores :: metric_dict
  wd_configuration_snapshot :: "(string, cfg_value) dict"
  wd_setup_metrics :: "(string, metric_dict) dict"
  wd_rule_evaluations :: "(string, bool) dict"

definition detail_response :: "WatchlistEntry \<Rightarrow> WatchlistDetailResponse" where
  "detail_response e = (let s = we_snapshot e in
     \<lparr>wi_rank = we_rank e, wi_symbol = we_symbol e, wi_total_score = we_total_score e,
      wi_component_scores = we_component_scores e, wi_warnings = we_warnings e, wi_primary_setup = None,
      wi_matched_setups = [], wi_screener_name = None, wi_screener_version = None, wi_latest_close = None,
      wi_average_trading_value_20 = None, wi_volume_ratio = None, wi_prior_short_volume_ratio = None,
      wi_breakout_volume_ratio = None, wi_atr_pct = None,
      wd_trading_date = we_trading_date e, wd_snapshot = s, wd_metrics = sr_metrics s, wd_reasons = sr_reasons s,
      wd_setup_scores = sr_setup_scores s, wd_configuration_snapshot = sr_configuration_snapshot s,
      wd_setup_metrics = sr_setup_metrics s, wd_rule_evaluations = sr_rule_evaluations s\<rparr>)"

section \<open>The watchlist routes\<close>

definition repository_call :: "'a res \<Rightarrow> 'a http" where
  "repository_call m = catching (\<lambda>e. HTTPException 500 (DText ''Watchlist repository error'')) m"

definition latest_route :: "'t codec \<Rightarrow> 't pipeline_db \<Rightarrow> WatchlistItemResponse list http" where
  "latest_route c db = bindH (repository_call (latest_watchlist c (pd_executions db) (pd_entries db)))
     (\<lambda>es. Inr (map item_response es))"

definition history_route :: "'t pipeline_db \<Rightarrow> date list http" where
  "history_route db = Inr (watchlist_history (pd_executions db) (pd_entries db))"

definition by_date_route :: "'t codec \<Rightarrow> date \<Rightarrow> 't pipeline_db \<Rightarrow> WatchlistItemResponse list http" where
  "by_date_route c d db = bindH (repository_call (list_watchlist c d (pd_entries db))) (\<lambda>es.
     if es = [] \<and> \<not> watchlist_exists d (pd_executions db) (pd_entries db) then refuse 404 ''Watchlist not found''
     else Inr (map item_response es))"

definition by_symbol_route :: "'t codec \<Rightarrow> date \<Rightarrow> string \<Rightarrow> 't pipeline_db \<Rightarrow> WatchlistDetailResponse http" where
  "by_symbol_route c d symbol db = bindH (repository_call (get_entry c d symbol (pd_entries db))) (\<lambda>e. case e of
     None \<Rightarrow> refuse 404 ''Watchlist entry not found'' | Some e \<Rightarrow> Inr (detail_response e))"

section \<open>The screener routes\<close>

record ScreenerDefinitions =
  sd_screener_name :: string
  sd_version :: string
  sd_setup_keys :: "string list"
  sd_defaults :: "(string, cfg_value) dict"

definition definitions_route :: "User http \<Rightarrow> SwingConfig \<Rightarrow> ScreenerDefinitions http" where
  "definitions_route user config = bindH user (\<lambda>_. Inr \<lparr>sd_screener_name = screener_name config,
     sd_version = screener_version config, sd_setup_keys = SETUP_ORDER, sd_defaults = config_snapshot config\<rparr>)"

record ScreenerResultsResponse =
  sc_execution_id :: "uuid option"
  sc_trading_date :: date
  sc_screened_count :: "nat option"
  sc_setup_passed_count :: "nat option"
  sc_score_qualified_count :: "nat option"
  sc_score_threshold :: "decimal option"
  sc_result_count :: "nat option"
  sc_items :: "WatchlistItemResponse list"

text \<open>The constraint of the response's threshold; the counts are natural numbers already.\<close>

definition validated_results :: "ScreenerResultsResponse \<Rightarrow> ScreenerResultsResponse http" where
  "validated_results r = (case sc_score_threshold r of None \<Rightarrow> Inr r
     | Some t \<Rightarrow> if 0 \<le> t \<and> t \<le> 100 then Inr r else Inl (Unhandled (ValueError ''score_threshold'')))"

definition results_route :: "User http \<Rightarrow> 't codec \<Rightarrow> date \<Rightarrow> 't pipeline_db \<Rightarrow> ScreenerResultsResponse http" where
  "results_route user c d db = bindH user (\<lambda>_.
     let execution = latest_succeeded (pd_executions db) d in
     if execution = None \<and> \<not> watchlist_exists d (pd_executions db) (pd_entries db)
     then refuse 404 ''Screener result not found''
     else bindH (catching Unhandled (list_watchlist c d (pd_entries db))) (\<lambda>es.
       validated_results (case execution of
         None \<Rightarrow> \<lparr>sc_execution_id = None, sc_trading_date = d, sc_screened_count = None, sc_setup_passed_count = None,
           sc_score_qualified_count = None, sc_score_threshold = None, sc_result_count = Some (length es),
           sc_items = map item_response es\<rparr>
       | Some x \<Rightarrow> \<lparr>sc_execution_id = Some (ex_id x), sc_trading_date = ex_trading_date x,
           sc_screened_count = ex_screened_count x, sc_setup_passed_count = ex_candidate_count x,
           sc_score_qualified_count = ex_qualified_count x, sc_score_threshold = ex_score_threshold x,
           sc_result_count = ex_persisted_count x, sc_items = map item_response es\<rparr>)))"

end
