(* ===== verification/Api_Admin.thy ===== *)
theory Api_Admin
  imports Notifications Api_Watchlist
begin

text \<open>
  The administrator's routes: the runs of the pipeline, \<open>api/admin_watchlist_pipeline.py\<close>, and the
  synchronization, \<open>modules/market/presentation/{admin_router,schemas}.py\<close>. The response of an execution is the
  pipeline's result type, the responses of the synchronization have the fields of its types. The runs
  commit in sessions of their own, so an error answer does not take back what they stored.
\<close>

section \<open>Pipeline runs\<close>

record RunRequest =
  rn_trading_date :: "date option"
  rn_force_reanalysis :: bool

text \<open>The detail of a failed run; a missing code is the JSON null, here the missing field.\<close>

definition failed_detail :: "PipelineResult \<Rightarrow> detail" where
  "failed_detail r = DFields (case pr_error_code r of None \<Rightarrow> [] | Some c \<Rightarrow> [(''error_code'', c)])"

definition run_answer :: "PipelineResult \<Rightarrow> PipelineResult http" where
  "run_answer r =
    (if pr_skipped_reason r = Some ''already_running'' then refuse 409 ''A run is already active''
     else if pr_skipped_reason r = Some (acquire_value PRIOR_SUCCESS_REQUIRED)
     then refuse 409 ''A prior successful execution is required for reanalysis''
     else if pr_status r = ExecutionStatus.FAILED then Inl (HTTPException 500 (failed_detail r))
     else Inr r)"

definition run_route :: "User http \<Rightarrow> 'e notifier list \<Rightarrow> 't pipeline_env \<Rightarrow> RunRequest option \<Rightarrow> 't pipeline_db
    \<Rightarrow> 't pipeline_db \<times> PipelineResult http" where
  "run_route admin providers env body db =
    (case admin of Inl f \<Rightarrow> (db, Inl f)
     | Inr _ \<Rightarrow>
       let force = (case body of None \<Rightarrow> False | Some b \<Rightarrow> rn_force_reanalysis b);
           trading_date = (case body of None \<Rightarrow> None | Some b \<Rightarrow> rn_trading_date b) in
       if force \<and> trading_date = None then (db, refuse 422 ''trading_date is required for force_reanalysis'')
       else let p = publishing_run providers env trading_date (if force then MANUAL_REANALYSIS else MANUAL) force db in
         (pu_db p, bindH (catching Unhandled (pu_result p)) run_answer))"

definition latest_execution_route :: "User http \<Rightarrow> 't pipeline_db \<Rightarrow> PipelineResult http" where
  "latest_execution_route admin db = bindH admin (\<lambda>_. case list_executions (pd_executions db) 1 of
     [] \<Rightarrow> refuse 404 ''No execution found'' | x # _ \<Rightarrow> Inr (pipeline_result x))"

definition executions_route :: "User http \<Rightarrow> int \<Rightarrow> 't pipeline_db \<Rightarrow> PipelineResult list http" where
  "executions_route admin limit db = bindH admin (\<lambda>_.
     if limit < 1 \<or> 200 < limit then refuse 422 ''validation''
     else Inr (map pipeline_result (list_executions (pd_executions db) (nat limit))))"

definition execution_route :: "User http \<Rightarrow> uuid \<Rightarrow> 't pipeline_db \<Rightarrow> PipelineResult http" where
  "execution_route admin i db = bindH admin (\<lambda>_. case get_execution (pd_executions db) i of
     None \<Rightarrow> refuse 404 ''Execution not found'' | Some x \<Rightarrow> Inr (pipeline_result x))"

section \<open>Synchronization\<close>

definition stocks_route :: "User http \<Rightarrow> 't pipeline_env \<Rightarrow> market_db \<Rightarrow> market_db \<times> SyncResult http" where
  "stocks_route admin env db = (case admin of Inl f \<Rightarrow> (db, Inl f)
     | Inr _ \<Rightarrow> apsnd (catching Unhandled) (runner_run (pe_message env) (pe_to_ms env) (pe_stock_clock env) (pe_stocks_locked env)
         ''stock_master'' (stock_sync (pe_provider env)) db))"

definition daily_bars_route :: "User http \<Rightarrow> 't pipeline_env \<Rightarrow> market_db \<Rightarrow> market_db \<times> SyncResult http" where
  "daily_bars_route admin env db = (case admin of Inl f \<Rightarrow> (db, Inl f)
     | Inr _ \<Rightarrow> apsnd (catching Unhandled) (runner_run (pe_message env) (pe_to_ms env) (pe_bar_clock env) (pe_bars_locked env)
         ''daily_bars'' (bar_sync (pe_provider env) (pe_history_years env) (pe_batch_size env) (sc_today (pe_bar_clock env))) db))"

definition all_jobs_route :: "User http \<Rightarrow> 't pipeline_env \<Rightarrow> market_db \<Rightarrow> market_db \<times> SyncResult list http" where
  "all_jobs_route admin env db = (case admin of Inl f \<Rightarrow> (db, Inl f)
     | Inr _ \<Rightarrow> apsnd (catching Unhandled) (sync_all (pe_message env) (pe_to_ms env) (pe_provider env) (pe_history_years env)
         (pe_batch_size env) (pe_stock_clock env) (pe_bar_clock env) (pe_stocks_locked env) (pe_bars_locked env) db))"

definition sync_status_route :: "User http \<Rightarrow> market_db \<Rightarrow> SyncJob list http" where
  "sync_status_route admin db = bindH admin (\<lambda>_. Inr (job_status db))"

definition sync_history_route :: "User http \<Rightarrow> int \<Rightarrow> market_db \<Rightarrow> SyncJobRun list http" where
  "sync_history_route admin limit db = bindH admin (\<lambda>_.
     if limit < 1 \<or> 200 < limit then refuse 422 ''validation'' else Inr (job_history (nat limit) db))"

end
