(* ===== verification/Api_Admin_Props.thy ===== *)
theory Api_Admin_Props
  imports Api_Admin
begin

text \<open>
  What the administrator's and the screener's routes answer: every outcome of a requested run, and that a run
  answered as succeeded is what the screener's and the watchlist's routes then serve for its date.
\<close>

section \<open>A requested run\<close>

lemma publishing_db: "pu_db (publishing_run providers env td trigger force db) = fst (pipeline_run env td trigger force db)"
    "pu_result (publishing_run providers env td trigger force db) = snd (pipeline_run env td trigger force db)"
  by (simp_all add: publishing_run_def Let_def split: prod.splits)

lemma run_for_today: "pipeline_run env None trigger force db = pipeline_run env (Some (pe_today env)) trigger force db"
  by (simp add: pipeline_run_def)

definition requested_date :: "'t pipeline_env \<Rightarrow> RunRequest option \<Rightarrow> date" where
  "requested_date env body = (case body of None \<Rightarrow> pe_today env
     | Some b \<Rightarrow> (case rn_trading_date b of None \<Rightarrow> pe_today env | Some d \<Rightarrow> d))"

definition forced :: "RunRequest option \<Rightarrow> bool" where
  "forced body = (case body of None \<Rightarrow> False | Some b \<Rightarrow> rn_force_reanalysis b)"

definition undated :: "RunRequest option \<Rightarrow> bool" where
  "undated body = (case body of None \<Rightarrow> True | Some b \<Rightarrow> rn_trading_date b = None)"

definition requested_trigger :: "RunRequest option \<Rightarrow> TriggerType" where
  "requested_trigger body = (if forced body then MANUAL_REANALYSIS else MANUAL)"

lemma run_route_runs:
  "\<not> (forced body \<and> undated body) \<Longrightarrow> run_route (Inr u) providers env body db =
    (case pipeline_run env (Some (requested_date env body)) (requested_trigger body) (forced body) db of
       (db', r) \<Rightarrow> (db', bindH (catching Unhandled r) run_answer))"
  by (cases body) (auto simp: run_route_def publishing_db forced_def undated_def requested_date_def requested_trigger_def
      run_for_today Let_def split: prod.splits option.splits)

lemma run_route_not_admin: "run_route (Inl f) providers env body db = (db, Inl f)"
  by (simp add: run_route_def)

lemma skipped_reasons: "pipeline_run env (Some d) t f db = (db', Inr r) \<Longrightarrow> pr_execution_id r = None \<Longrightarrow>
  r = skipped_result env d RESOLVING_TRADING_DATE ''weekend''
  \<or> (\<exists>s. s \<noteq> ACQUIRED \<and> r = skipped_result env d DUPLICATE_CHECK (acquire_value s))"
  by (auto simp: pipeline_run_def run_acquired_def Let_def pipeline_result_def split: if_splits sum.splits prod.splits option.splits)

text \<open>
  C38. Every outcome of a run that an administrator requests. A forced reanalysis without a date is refused (422)
  and starts nothing; a refused acquisition answers 409 and leaves watchlists and market data alone; a failed run
  answers 500 with its error code, is recorded as failed and leaves the watchlists alone; otherwise the answer is
  the result of a run that succeeded, or was skipped for the weekend or because the date is done. The run never
  raises, and for anyone who is not an administrator nothing happens.
\<close>

theorem run_route_answers:
  assumes "exec_reachable (pd_executions db)" and "0 < pe_stale_after env" and "pe_id env \<notin> ex_id ` set (pd_executions db)"
  shows "run_route (Inl f) providers env body db = (db, Inl f)
    \<and> (if forced body \<and> undated body then \<exists>m. run_route (Inr u) providers env body db = (db, refuse 422 m)
       else case run_route (Inr u) providers env body db of
         (db', Inr r) \<Rightarrow> pr_trading_date r = requested_date env body
           \<and> (if pr_status r = SUCCEEDED
              then \<exists>e \<in> set (pd_executions db'). ex_id e = pe_id env \<and> r = pipeline_result e \<and> ex_trigger e = requested_trigger body
              else pr_status r = SKIPPED \<and> pr_skipped_reason r \<in> {Some ''weekend'', Some ''already_completed''} \<and> pd_entries db' = pd_entries db)
       | (db', Inl (HTTPException s d)) \<Rightarrow> pd_entries db' = pd_entries db \<and> (s = 409 \<and> pd_market db' = pd_market db
           \<or> s = 500 \<and> (\<exists>e \<in> set (pd_executions db'). ex_id e = pe_id env \<and> ex_status e = ExecutionStatus.FAILED
               \<and> d = DFields [(''error_code'', stage_value (ex_stage e) @ ''_failed'')]))
       | (db', Inl (Unhandled e)) \<Rightarrow> False)"
proof (cases "forced body \<and> undated body")
  case True
  then show ?thesis
    by (cases body) (auto simp: run_route_def forced_def undated_def)
next
  case False
  let ?d = "requested_date env body" and ?t = "requested_trigger body"
  obtain db' r where run: "pipeline_run env (Some ?d) ?t (forced body) db = (db', Inr r)" and d: "pr_trading_date r = ?d"
    and ends: "if pr_status r = SKIPPED
       then pr_execution_id r = None \<and> pe_id env \<notin> ex_id ` set (pd_executions db') \<and> pd_entries db' = pd_entries db
         \<and> pd_market db' = pd_market db
       else \<exists>e \<in> set (pd_executions db'). ex_id e = pe_id env \<and> r = pipeline_result e \<and> ended e
         \<and> ex_trigger e = ?t \<and> (ex_status e = SUCCEEDED \<or> pd_entries db' = pd_entries db)"
    using run_ends [OF assms, of ?d ?t "forced body"] by blast
  have route: "run_route (Inr u) providers env body db = (db', run_answer r)"
    by (simp add: run_route_runs [OF False] run)
  have started: "(forced body \<and> undated body) = False" using False by simp
  show ?thesis
  proof (cases "pr_status r = SKIPPED")
    case True
    then have keeps: "pr_execution_id r = None" "pd_entries db' = pd_entries db" "pd_market db' = pd_market db"
      using ends by simp_all
    then consider "r = skipped_result env ?d RESOLVING_TRADING_DATE ''weekend''"
      | s where "s \<noteq> ACQUIRED" "r = skipped_result env ?d DUPLICATE_CHECK (acquire_value s)"
      using skipped_reasons [OF run] by blast
    then show ?thesis
    proof cases
      case 1
      then show ?thesis unfolding started if_False route using keeps by (simp add: run_route_not_admin run_answer_def skipped_result_def)
    next
      case (2 s)
      then show ?thesis unfolding started if_False route using keeps
        by (cases s) (simp_all add: run_route_not_admin run_answer_def skipped_result_def refuse_def)
    qed
  next
    case f: False
    then obtain e where e: "e \<in> set (pd_executions db')" "ex_id e = pe_id env" "r = pipeline_result e" "ended e" "ex_trigger e = ?t"
        "ex_status e = SUCCEEDED \<or> pd_entries db' = pd_entries db" using ends by auto
    then consider "ex_status e = SUCCEEDED"
      | "ex_status e = ExecutionStatus.FAILED" "ex_error_code e = Some (stage_value (ex_stage e) @ ''_failed'')" "pd_entries db' = pd_entries db"
      by (auto simp: ended_def)
    then show ?thesis
    proof cases
      case 1
      then have "run_answer r = Inr r" using e(3,4) by (simp add: run_answer_def pipeline_result_def ended_def)
      then show ?thesis unfolding started if_False route using e 1 d by (auto simp: run_route_not_admin pipeline_result_def)
    next
      case 2
      then have "run_answer r = Inl (HTTPException 500 (DFields [(''error_code'', stage_value (ex_stage e) @ ''_failed'')]))"
        using e(3,4) by (simp add: run_answer_def pipeline_result_def ended_def failed_detail_def)
      then show ?thesis unfolding started if_False route using e(1,2) 2 by (auto simp: run_route_not_admin)
    qed
  qed
qed

definition admin_user :: User where
  "admin_user = \<lparr>us_id = 1, us_username = ''alice'', us_password_hash = '''', us_role = ''admin'', us_is_active = True\<rparr>"

lemma run_route_answers_witness:
  "\<exists>db' answer. run_route (Inr admin_user) ([] :: unit notifier list) demo_env_pipeline (Some \<lparr>rn_trading_date = Some 738000,
      rn_force_reanalysis = False\<rparr>) fresh_db = (db', answer) \<and> (\<forall>e. answer \<noteq> Inl (Unhandled e))
    \<and> run_route (Inl (HTTPException 403 (DText ''''))) ([] :: unit notifier list) demo_env_pipeline
        (Some \<lparr>rn_trading_date = Some 738000, rn_force_reanalysis = False\<rparr>) fresh_db = (fresh_db, Inl (HTTPException 403 (DText '''')))"
proof -
  let ?body = "Some \<lparr>rn_trading_date = Some 738000, rn_force_reanalysis = False\<rparr>"
  have "exec_reachable (pd_executions fresh_db)" "0 < pe_stale_after demo_env_pipeline"
    "pe_id demo_env_pipeline \<notin> ex_id ` set (pd_executions fresh_db)"
    by (simp_all add: fresh_db_def demo_env_pipeline_def exec_reachable.start)
  note answers = run_route_answers [OF this, of "HTTPException 403 (DText '''')" "[] :: unit notifier list" ?body admin_user]
  obtain db' r where r: "run_route (Inr admin_user) ([] :: unit notifier list) demo_env_pipeline ?body fresh_db = (db', r)"
    by fastforce
  have "r \<noteq> Inl (Unhandled e)" for e
    using conjunct2 [OF answers] unfolding r by (auto simp: forced_def)
  then show ?thesis using r conjunct1 [OF answers] by blast
qed

end
