(* ===== verification/Api_Watchlist_Props.thy ===== *)
theory Api_Watchlist_Props
  imports Api_Admin_Props
begin

text \<open>
  What the screener's and the watchlist's routes serve after a successful run, what they answer without one,
  and what the detail of an entry leaves out.
\<close>

section \<open>The newest execution\<close>

lemma newest_unique:
  assumes "x \<in> set es" and "ex_trading_date x = d" and "ex_status x = s"
    and "\<And>e. e \<in> set es \<Longrightarrow> ex_trading_date e = d \<Longrightarrow> e \<noteq> x \<Longrightarrow> ex_started_at e < ex_started_at x"
  shows "newest_with s d es = Some x"
proof -
  let ?xs = "filter (\<lambda>e. ex_trading_date e = d \<and> ex_status e = s) es"
  have x: "x \<in> set ?xs" using assms(1-3) by simp
  have "set (newest_first ?xs) = set ?xs" by (simp add: newest_first_def)
  then have "newest_first ?xs \<noteq> []" using x by (metis empty_iff empty_set)
  then obtain y ys where y: "newest_first ?xs = y # ys" by (cases "newest_first ?xs") simp_all
  then have "set (y # ys) = set ?xs" by (metis newest_first_def set_sort)
  then have mem: "y \<in> set ?xs" "x \<in> set (y # ys)" using x by auto
  have "sorted (map (\<lambda>e. - ex_started_at e) (y # ys))" unfolding y [symmetric] newest_first_def by simp
  then have "ex_started_at x \<le> ex_started_at y" using mem(2) by auto
  then have "y = x" using assms(4) [of y] mem(1) by force
  then show ?thesis by (simp add: newest_with_def y first_of_def)
qed

lemma acquire_rows:
  assumes "acquire_execution es i now d t s f = Inr (es', r)" and "e \<in> set es'"
  shows "e = new_execution i d t now \<or> (\<exists>o1 \<in> set es. ex_id e = ex_id o1 \<and> ex_trading_date e = ex_trading_date o1
    \<and> ex_started_at e = ex_started_at o1)"
proof -
  let ?new = "new_execution i d t now" and ?upd = "\<lambda>j. update_execution j (recover_stale now) es"
  have kept: "\<exists>o1 \<in> set es. ex_id e = ex_id o1 \<and> ex_trading_date e = ex_trading_date o1 \<and> ex_started_at e = ex_started_at o1"
    if "e \<in> set (?upd j)" for j
    using that by (fastforce simp: update_execution_def recover_stale_def split: if_splits)
  have "es' = es \<or> es' = es @ [?new] \<or> (\<exists>j. es' = ?upd j \<or> es' = ?upd j @ [?new])"
    using assms(1) by (auto simp: acquire_execution_def Let_def split: option.splits if_splits)
  then have "e \<in> set es \<or> e = ?new \<or> (\<exists>j. e \<in> set (?upd j))" using assms(2) by auto
  then show ?thesis using kept by blast
qed

text \<open>The run's own row, and that it started after every other execution of its date.\<close>

lemma run_row:
  assumes "exec_reachable (pd_executions db)" and "pe_id env \<notin> ex_id ` set (pd_executions db)"
    and "pipeline_run env (Some d) t f db = (db', Inr r)" and "pr_status r = SUCCEEDED"
    and later: "\<And>e. e \<in> set (pd_executions db) \<Longrightarrow> ex_trading_date e = d \<Longrightarrow> ex_started_at e < pe_acquired env"
  shows "\<exists>row. r = pipeline_result row \<and> latest_succeeded (pd_executions db') d = Some row \<and> ex_id row = pe_id env
    \<and> ex_trading_date row = d"
proof -
  obtain es aq where acq: "acquire_execution (pd_executions db) (pe_id env) (pe_acquired env) d t (pe_stale_after env) f = Inr (es, aq)"
      "aq_status aq = ACQUIRED"
    and run: "run_acquired env (pe_id env) d f (db\<lparr>pd_executions := es\<rparr>) = (db', Inr r)"
    using assms(3,4) acquire_answer
    by (force simp: pipeline_run_def Let_def skipped_result_def new_execution_def split: if_splits sum.splits prod.splits option.splits)
  let ?new = "new_execution (pe_id env) d t (pe_acquired env)"
  have reach: "exec_reachable es" using exec_step.acquire [OF acq(1) assms(2)] assms(1) exec_reachable.step by blast
  have new: "?new \<in> set es" using acquire_answer [OF acq(1)] acq(2) by simp
  from run_acquired_ends [of "db\<lparr>pd_executions := es\<rparr>" "pe_id env" d t "pe_acquired env" env f] reach new run
  obtain row where row: "r = pipeline_result row" "progress (pe_id env) es (pd_executions db')" "row \<in> set (pd_executions db')"
      "own_row (pe_id env) d t (pe_acquired env) row" by auto
  have ids: "distinct (map ex_id (pd_executions db'))"
    using exec_reachable_inv [of "pd_executions db'"] row(2) reach by (simp add: progress_def exec_inv_def)
  have "ex_started_at e < ex_started_at row" if e: "e \<in> set (pd_executions db')" "ex_trading_date e = d" "e \<noteq> row" for e
  proof -
    have "ex_id e \<noteq> ex_id row" using e ids row(3) by (auto simp: distinct_map dest: inj_onD)
    moreover obtain e1 where e1: "e1 \<in> set es" "row_progress (pe_id env) e1 e" using progress_mem [OF row(2) e(1)] by blast
    ultimately have "e1 \<noteq> ?new" using row(4) by (auto simp: own_row_def row_progress_def new_execution_def)
    then obtain o1 where "o1 \<in> set (pd_executions db)" "ex_trading_date e1 = ex_trading_date o1" "ex_started_at e1 = ex_started_at o1"
      using acquire_rows [OF acq(1) e1(1)] by blast
    then show ?thesis using later [of o1] e(2) e1(2) row(4) by (simp add: row_progress_def own_row_def)
  qed
  then have "latest_succeeded (pd_executions db') d = Some row"
    unfolding latest_succeeded_def using row(1,3,4) assms(4)
    by (intro newest_unique) (auto simp: own_row_def pipeline_result_def)
  then show ?thesis using row(1,4) by (auto simp: own_row_def)
qed

lemma run_route_Inr:
  assumes "run_route (Inr u) providers env body db = (db', Inr r)"
  shows "pipeline_run env (Some (requested_date env body)) (requested_trigger body) (forced body) db = (db', Inr r)"
proof (cases "forced body \<and> undated body")
  case True
  then show ?thesis using assms by (cases body) (auto simp: run_route_def forced_def undated_def refuse_def)
next
  case False
  obtain db1 x where p: "pipeline_run env (Some (requested_date env body)) (requested_trigger body) (forced body) db = (db1, x)"
    by fastforce
  have "db' = db1" "bindH (catching Unhandled x) run_answer = Inr r"
    using assms unfolding run_route_runs [OF False] p by simp_all
  moreover have "run_answer q = Inr r \<Longrightarrow> q = r" for q by (auto simp: run_answer_def refuse_def split: if_splits)
  ultimately show ?thesis using p by (cases x) auto
qed

section \<open>Rows and responses\<close>

lemma mapE_source: "mapE f xs = Inr ys \<Longrightarrow> y \<in> set ys \<Longrightarrow> \<exists>x \<in> set xs. f x = Inr y"
  by (induction xs arbitrary: ys) (auto simp: bindE_eq_Inr)

lemma row_entry_fields: "row_entry c r = Inr w \<Longrightarrow> we_symbol w = er_symbol r \<and> we_trading_date w = er_trading_date r"
  by (auto simp: row_entry_def split: option.splits pydec.splits)

text \<open>An entry that is listed is found under its symbol.\<close>

lemma listed_found:
  assumes "distinct (map (\<lambda>e. (er_trading_date e, er_symbol e)) es)" and "list_watchlist c d es = Inr ws" and "w \<in> set ws"
  shows "get_entry c d (we_symbol w) es = Inr (Some w)" "we_trading_date w = d"
proof -
  obtain r where r: "r \<in> set es" "er_trading_date r = d" "row_entry c r = Inr w"
    using mapE_source [OF assms(2) [unfolded list_watchlist_def] assms(3)] by auto
  note f = row_entry_fields [OF r(3)]
  have "find (\<lambda>e. er_trading_date e = d \<and> er_symbol e = er_symbol r) es = Some r"
    using assms(1) r(1,2) by (induction es) (auto simp: image_iff)
  then show "get_entry c d (we_symbol w) es = Inr (Some w)" "we_trading_date w = d" using f r by (simp_all add: get_entry_def)
qed

lemma save_distinct: "save_watchlist c ids d ks es = Inr es' \<Longrightarrow> distinct (map (\<lambda>e. (er_trading_date e, er_symbol e)) es')"
  by (auto simp: save_watchlist_def Let_def entries_ok_def bindE_eq_Inr split: if_splits)

lemma item_fields [simp]: "wi_rank (item_response w) = we_rank w" "wi_total_score (item_response w) = we_total_score w"
    "wi_symbol (item_response w) = we_symbol w"
  by (simp_all add: item_response_def Let_def)

lemma detail_fields [simp]: "wi_total_score (detail_response w) = we_total_score w" "wd_trading_date (detail_response w) = we_trading_date w"
  by (simp_all add: detail_response_def Let_def)

text \<open>The counts of a successful run, in order.\<close>

definition counts_ordered :: "nat option \<Rightarrow> nat option \<Rightarrow> nat option \<Rightarrow> nat option \<Rightarrow> bool" where
  "counts_ordered screened passed qualified kept \<longleftrightarrow> (\<exists>a b c k. screened = Some a \<and> passed = Some b
     \<and> qualified = Some c \<and> kept = Some k \<and> k \<le> c \<and> c \<le> b \<and> b \<le> a)"

lemma run_counts:
  assumes "pipeline_run env (Some d) t f db = (db', Inr r)" and "pr_status r = SUCCEEDED"
  shows "counts_ordered (pr_screened_count r) (pr_candidate_count r) (pr_qualified_count r) (pr_persisted_count r)"
    "pr_score_threshold r = Some (minimum_candidate_score (pe_config env))"
    "distinct (map (\<lambda>e. (er_trading_date e, er_symbol e)) (pd_entries db'))"
proof -
  obtain db1 i st0 st row where r: "r = pipeline_result row"
    and b: "pipeline_body env i d f (db1, st0) = ((db', st), Inr row)"
    using run_succeeded [OF assms] by blast
  obtain inputs candidates scored ranked where v: "scan (swing_evaluate (pe_config env)) inputs = Inr candidates"
      "rank_swing (pe_config env) candidates = Inr scored"
      "ranked = first_n (maximum_candidates (pe_config env)) (qualified_candidates (pe_config env) scored)"
      "save_watchlist (pe_codec env) (take (length ranked) (pe_entry_ids env)) d ranked (pd_entries db1) = Inr (pd_entries db')"
    and n: "ex_screened_count row = Some (length inputs)" "ex_candidate_count row = Some (length candidates)"
      "ex_qualified_count row = Some (length (qualified_candidates (pe_config env) scored))" "ex_persisted_count row = Some (length ranked)"
    using body_Inr [OF b] by auto
  obtain rs where rs: "candidates = filter sr_passed rs" "map sr_symbol rs = map si_symbol inputs"
    using swing.scan_results [OF v(1)] by blast
  have "length rs = length inputs" using rs(2) by (metis length_map)
  then have a: "length candidates \<le> length inputs" using rs(1) by (simp add: le_trans [OF length_filter_le])
  have "length scored = length candidates"
    using v(2) swing_ranker.ranked(2) by (auto simp: rank_swing_def bindE_eq_Inr dest!: mset_eq_length) (metis length_map size_mset swing_ranker.ranked(2))
  then have q: "length (qualified_candidates (pe_config env) scored) \<le> length candidates"
    by (metis length_filter_le qualified_candidates_def)
  have "length ranked \<le> length (qualified_candidates (pe_config env) scored)" using v(3) by (simp add: first_n_def)
  with a q n show "counts_ordered (pr_screened_count r) (pr_candidate_count r) (pr_qualified_count r) (pr_persisted_count r)"
    by (simp add: counts_ordered_def r pipeline_result_def)
  show "distinct (map (\<lambda>e. (er_trading_date e, er_symbol e)) (pd_entries db'))" using save_distinct [OF v(4)] .
  obtain a bb c ks s where "persist_result env i d a bb c ks s = ((db', st), Inr row)"
    using b unfolding pipeline_body_def Let_def and_then_Inr by blast
  from persist_Inr [OF this] show "pr_score_threshold r = Some (minimum_candidate_score (pe_config env))"
    by (auto simp: r pipeline_result_def finish_row_def dest!: finish_row_mem)
qed

section \<open>What is served\<close>

text \<open>An item and a detail that show a candidate.\<close>

definition shows_candidate :: "WatchlistItemResponse \<Rightarrow> RankedCandidate \<Rightarrow> bool" where
  "shows_candidate i k \<longleftrightarrow> wi_rank i = rc_rank k \<and> wi_symbol i = rc_symbol k \<and> wi_total_score i = rc_total_score k
     \<and> wi_component_scores i = rc_component_scores k \<and> wi_warnings i = rc_warnings k
     \<and> wi_primary_setup i = sr_primary_setup (rc_source_result k)
     \<and> wi_matched_setups i = sr_matched_setups (rc_source_result k)
     \<and> wi_latest_close i = map_of (sr_metrics (rc_source_result k)) ''latest_close''"

definition details_candidate :: "WatchlistDetailResponse \<Rightarrow> date \<Rightarrow> RankedCandidate \<Rightarrow> bool" where
  "details_candidate x d k \<longleftrightarrow> wd_trading_date x = d \<and> wi_rank x = rc_rank k \<and> wi_symbol x = rc_symbol k
     \<and> wi_total_score x = rc_total_score k \<and> wi_component_scores x = rc_component_scores k
     \<and> wd_snapshot x = rc_source_result k"

lemma stored_shown:
  "length ids = length ks \<Longrightarrow> list_all2 shows_candidate (map item_response (map2 (\<lambda>i k. stored_entry i d k) ids ks)) ks"
  by (induction ids ks rule: list_induct2) (simp_all add: shows_candidate_def item_response_def stored_entry_def Let_def)

lemma stored_detailed: "details_candidate (detail_response (stored_entry i d k)) d k"
  by (simp add: details_candidate_def detail_response_def stored_entry_def Let_def)

lemma stored_of_candidate: "length ids = length ks \<Longrightarrow> k \<in> set ks
    \<Longrightarrow> \<exists>i. stored_entry i d k \<in> set (map2 (\<lambda>i k. stored_entry i d k) ids ks)"
  by (induction ids ks rule: list_induct2) auto

text \<open>
  C37. Publication end to end. After a run that an administrator requested was answered as succeeded, the screener's
  results of the date are those of this run: its identifier and threshold, its four counts, each the one the
  answer to the administrator has and the one the run computed (screened inputs, passing results, those that reach
  the threshold, those kept), and as items exactly the candidates it kept, in order, with their scores and setups,
  ranked one to n by falling score, none below the threshold. The watchlist of the date serves the same items,
  every kept candidate is answered under its symbol with the result it was screened with, and the watchlists
  of the other dates are served as before.
\<close>

theorem run_published:
  assumes "run_route (Inr u) providers env (Some \<lparr>rn_trading_date = Some d, rn_force_reanalysis = force\<rparr>) db = (db', Inr r)"
    and "pr_status r = SUCCEEDED" and "exec_reachable (pd_executions db)" and "pe_id env \<notin> ex_id ` set (pd_executions db)"
    and "list_all (\<lambda>e. ex_trading_date e = d \<longrightarrow> ex_started_at e < pe_acquired env) (pd_executions db)"
    and "validate_config (pe_config env) = Inr c" and "codec_ok (pe_codec env)"
    and "maximum_candidates (pe_config env) \<le> int (length (pe_entry_ids env))"
    and "distinct (map bar_key (mdb_bars (pd_market db')))" and "rows_valid (mdb_bars (pd_market db'))"
  shows "\<exists>out kept. results_route (Inr user) (pe_codec env) d db' = Inr out
    \<and> sc_execution_id out = Some (pe_id env) \<and> pr_execution_id r = Some (pe_id env)
    \<and> sc_trading_date out = d \<and> sc_score_threshold out = Some (minimum_candidate_score (pe_config env))
    \<and> run_computed env d (pd_market db') r kept
    \<and> sc_screened_count out = pr_screened_count r \<and> sc_setup_passed_count out = pr_candidate_count r
    \<and> sc_score_qualified_count out = pr_qualified_count r \<and> sc_result_count out = pr_persisted_count r
    \<and> counts_ordered (sc_screened_count out) (sc_setup_passed_count out) (sc_score_qualified_count out) (sc_result_count out)
    \<and> list_all2 shows_candidate (sc_items out) kept
    \<and> sc_result_count out = Some (length (sc_items out))
    \<and> map wi_rank (sc_items out) = [1..<length (sc_items out) + 1]
    \<and> sorted_wrt (\<lambda>a b. wi_total_score b \<le> wi_total_score a) (sc_items out)
    \<and> list_all (\<lambda>i. minimum_candidate_score (pe_config env) \<le> wi_total_score i) (sc_items out)
    \<and> by_date_route (pe_codec env) d db' = Inr (sc_items out)
    \<and> list_all (\<lambda>k. \<exists>x. by_symbol_route (pe_codec env) d (rc_symbol k) db' = Inr x \<and> details_candidate x d k) kept
    \<and> (\<forall>d'. d' \<noteq> d \<longrightarrow> list_watchlist (pe_codec env) d' (pd_entries db') = list_watchlist (pe_codec env) d' (pd_entries db))"
proof -
  let ?body = "Some \<lparr>rn_trading_date = Some d, rn_force_reanalysis = force\<rparr>"
  have req: "requested_date env ?body = d" "forced ?body = force" "undated ?body = False"
    by (simp_all add: requested_date_def forced_def undated_def)
  have run: "pipeline_run env (Some d) (requested_trigger ?body) force db = (db', Inr r)"
    using run_route_Inr [OF assms(1)] unfolding req .
  obtain row where row: "r = pipeline_result row" "latest_succeeded (pd_executions db') d = Some row" "ex_id row = pe_id env"
      "ex_trading_date row = d"
    using run_row [OF assms(3,4) run assms(2)] assms(5) by (auto simp: list_all_iff)
  obtain kept where kept: "run_computed env d (pd_market db') r kept"
      "list_watchlist (pe_codec env) d (pd_entries db')
        = Inr (map2 (\<lambda>i k. stored_entry i d k) (take (length kept) (pe_entry_ids env)) kept)"
      "length (take (length kept) (pe_entry_ids env)) = length kept"
    using stored_candidates [OF run assms(2,6-8)] by blast
  define ws where "ws = map2 (\<lambda>i k. stored_entry i d k) (take (length kept) (pe_entry_ids env)) kept"
  have ws: "list_watchlist (pe_codec env) d (pd_entries db') = Inr ws" "pr_persisted_count r = Some (length ws)"
      "map we_rank ws = [1..<length ws + 1]" "sorted_wrt (\<lambda>a b. we_total_score b \<le> we_total_score a) ws"
      "list_all (\<lambda>w. minimum_candidate_score (pe_config env) \<le> we_total_score w) ws"
    and others: "\<forall>d'. d' \<noteq> d \<longrightarrow> list_watchlist (pe_codec env) d' (pd_entries db') = list_watchlist (pe_codec env) d' (pd_entries db)"
    using stored_watchlist [OF run assms(2,6-10)] kept(2) by (auto simp: list_all_iff ws_def [symmetric])
  note counts = run_counts [OF run assms(2)]
  have range: "0 \<le> minimum_candidate_score (pe_config env)" "minimum_candidate_score (pe_config env) \<le> 100"
    using assms(6) by (auto simp: validate_config_def bindE_eq_Inr)
  let ?out = "\<lparr>sc_execution_id = Some (ex_id row), sc_trading_date = d, sc_screened_count = ex_screened_count row,
    sc_setup_passed_count = ex_candidate_count row, sc_score_qualified_count = ex_qualified_count row,
    sc_score_threshold = ex_score_threshold row, sc_result_count = ex_persisted_count row, sc_items = map item_response ws\<rparr>"
  have fields: "pr_execution_id r = Some (ex_id row)" "pr_screened_count r = ex_screened_count row"
      "pr_candidate_count r = ex_candidate_count row" "pr_qualified_count r = ex_qualified_count row"
      "pr_persisted_count r = ex_persisted_count row" "pr_score_threshold r = ex_score_threshold row"
    unfolding row(1) by (simp_all add: pipeline_result_def)
  have threshold: "ex_score_threshold row = Some (minimum_candidate_score (pe_config env))" using fields(6) counts(2) by simp
  have out: "results_route (Inr user) (pe_codec env) d db' = Inr ?out"
    using row(2,4) threshold range by (simp add: results_route_def Let_def ws(1) validated_results_def)
  have exists: "watchlist_exists d (pd_executions db') (pd_entries db')"
  proof -
    have "row \<in> set (pd_executions db')" "ex_status row = SUCCEEDED"
      using row(2) newest_with_mem unfolding latest_succeeded_def by blast+
    then show ?thesis using row(4) by (auto simp: watchlist_exists_def list_ex_iff)
  qed
  have date: "by_date_route (pe_codec env) d db' = Inr (map item_response ws)"
    using exists by (simp add: by_date_route_def repository_call_def ws(1))
  have detail: "\<exists>x. by_symbol_route (pe_codec env) d (rc_symbol k) db' = Inr x \<and> details_candidate x d k" if "k \<in> set kept" for k
  proof -
    have "\<exists>i. stored_entry i d k \<in> set ws" unfolding ws_def by (rule stored_of_candidate [OF kept(3) \<open>k \<in> set kept\<close>])
    then obtain i where i: "stored_entry i d k \<in> set ws" by blast
    have "we_symbol (stored_entry i d k) = rc_symbol k" by (simp add: stored_entry_def)
    then show ?thesis using listed_found(1) [OF counts(3) ws(1) i] stored_detailed [of i d k]
      by (simp add: by_symbol_route_def repository_call_def)
  qed
  have shown: "list_all2 shows_candidate (map item_response ws) kept" unfolding ws_def by (rule stored_shown [OF kept(3)])
  have ranks: "map wi_rank (map item_response ws) = [1..<length ws + 1]" using ws(3) by (simp add: o_def del: upt_Suc)
  have parts: "sc_execution_id ?out = Some (pe_id env)" "pr_execution_id r = Some (pe_id env)" "sc_trading_date ?out = d"
      "sc_score_threshold ?out = Some (minimum_candidate_score (pe_config env))" "sc_screened_count ?out = pr_screened_count r"
      "sc_setup_passed_count ?out = pr_candidate_count r" "sc_score_qualified_count ?out = pr_qualified_count r"
      "sc_result_count ?out = pr_persisted_count r" "sc_items ?out = map item_response ws"
    using fields threshold row(3) by simp_all
  show ?thesis
    by (intro exI [of _ ?out] exI [of _ kept], unfold parts)
      (use out kept(1) counts(1) ws(2,4,5) shown ranks date detail others in
        \<open>simp add: list_all_iff sorted_wrt_map del: upt_Suc\<close>)
qed

section \<open>The detail of an entry\<close>

text \<open>
  C40. The detail that is answered for an item of a watchlist agrees with it on the rank and the score, but it has
  lost the setup: where the list names the primary setup and gives its figures, the detail answers the
  defaults of the inherited fields, null and the empty list.
\<close>

theorem detail_loses_setup:
  assumes "entries_ok (pd_entries db)" and "by_date_route c d db = Inr items" and "i \<in> set items"
    and "wi_primary_setup i = Some p"
  shows "\<exists>detail. by_symbol_route c d (wi_symbol i) db = Inr detail \<and> wi_symbol detail = wi_symbol i
    \<and> wi_rank detail = wi_rank i \<and> wi_total_score detail = wi_total_score i \<and> wi_component_scores detail = wi_component_scores i
    \<and> wd_trading_date detail = d \<and> sr_primary_setup (wd_snapshot detail) = Some p
    \<and> wi_primary_setup detail = None \<and> wi_matched_setups detail = [] \<and> wi_screener_name detail = None
    \<and> wi_latest_close detail = None \<and> wi_volume_ratio detail = None \<and> wi_atr_pct detail = None"
proof -
  obtain ws where ws: "list_watchlist c d (pd_entries db) = Inr ws" "items = map item_response ws"
    using assms(2) by (cases "list_watchlist c d (pd_entries db)")
      (auto simp: by_date_route_def repository_call_def refuse_def split: if_splits)
  then obtain w where w: "w \<in> set ws" "i = item_response w" using assms(3) by auto
  have "distinct (map (\<lambda>e. (er_trading_date e, er_symbol e)) (pd_entries db))" using assms(1) by (simp add: entries_ok_def)
  note found = listed_found [OF this ws(1) w(1)]
  have "sr_primary_setup (we_snapshot w) = Some p" using assms(4) by (simp add: w(2) item_response_def Let_def)
  then show ?thesis using found
    by (intro exI [of _ "detail_response w"]) (simp add: by_symbol_route_def repository_call_def w(2) detail_response_def
        item_response_def Let_def)
qed

section \<open>Witnesses\<close>

lemma earlier_reachable: "exec_reachable (pd_executions breakout_db)"
proof -
  let ?new = "new_execution 0 738000 SCHEDULED 0"
  have "acquire_execution [] 0 0 738000 SCHEDULED 7200 False
      = Inr ([?new], \<lparr>aq_status = ACQUIRED, aq_execution = Some ?new, aq_recovered = None\<rparr>)"
    by (simp add: acquire_execution_def newest_with_def newest_first_def first_of_def Let_def)
  from exec_step.acquire [OF this] have "exec_reachable [?new]" using exec_reachable.start exec_reachable.step by auto
  moreover have f: "finish_execution_row [?new] 0 5 (done_with 2) = Inr ([earlier_run], earlier_run)"
    by (simp add: finish_execution_row_def get_execution_def update_execution_def earlier_run_def new_execution_def)
  have "exec_step [?new] [earlier_run]" using exec_step.finish [OF f] by (simp add: done_with_def)
  ultimately show ?thesis using exec_reachable.step by (auto simp: breakout_db_def)
qed

lemma run_published_witness:
  "\<exists>db' r out. run_route (Inr admin_user) ([] :: unit notifier list) breakout_env
      (Some \<lparr>rn_trading_date = Some 738000, rn_force_reanalysis = True\<rparr>) breakout_db = (db', Inr r)
    \<and> results_route (Inr admin_user) plain_codec 738000 db' = Inr out \<and> sc_result_count out = Some (length (sc_items out))"
proof -
  let ?body = "Some \<lparr>rn_trading_date = Some 738000, rn_force_reanalysis = True\<rparr>"
  obtain db' r where run: "pipeline_run breakout_env (Some 738000) MANUAL_REANALYSIS True breakout_db = (db', Inr r)"
    "pr_status r = SUCCEEDED" "pd_market db' = breakout_market" using breakout_run by blast
  have env: "pe_codec breakout_env = plain_codec" "maximum_candidates (pe_config breakout_env) = 5"
      "length (pe_entry_ids breakout_env) = 10" "0 < pe_stale_after breakout_env" "pe_acquired breakout_env = 1"
      "pe_id breakout_env \<notin> ex_id ` set (pd_executions breakout_db)"
      "list_all (\<lambda>e. ex_started_at e < 1) (pd_executions breakout_db)"
    by (simp_all add: breakout_env_def demo_env_pipeline_def default_config_def breakout_db_def earlier_run_def finish_row_def
        new_execution_def)
  have req: "requested_date breakout_env ?body = 738000" "forced ?body" "\<not> undated ?body" "requested_trigger ?body = MANUAL_REANALYSIS"
    by (simp_all add: requested_date_def forced_def undated_def requested_trigger_def)
  have "pr_skipped_reason r = None"
    using run_ends [OF earlier_reachable env(4,6), of 738000 MANUAL_REANALYSIS True] run
    by (auto simp: pipeline_result_def ended_def)
  then have route: "run_route (Inr admin_user) ([] :: unit notifier list) breakout_env ?body breakout_db = (db', Inr r)"
    using run(2) by (simp add: run_route_runs req run(1) run_answer_def)
  have later: "list_all (\<lambda>e. ex_trading_date e = 738000 \<longrightarrow> ex_started_at e < pe_acquired breakout_env) (pd_executions breakout_db)"
    using env(5,7) by (simp add: list_all_iff)
  have ok: "codec_ok (pe_codec breakout_env)" "maximum_candidates (pe_config breakout_env) \<le> int (length (pe_entry_ids breakout_env))"
    by (simp_all add: env plain_codec_ok)
  have bars: "distinct (map bar_key (mdb_bars (pd_market db')))" "rows_valid (mdb_bars (pd_market db'))"
    using breakout_rows by (simp_all only: run(3))
  show ?thesis
    using run_published [OF route run(2) earlier_reachable env(6) later breakout_config(1) ok bars, of admin_user] route
    unfolding env(1) by blast
qed

definition boxed_db :: "plain_text pipeline_db" where
  "boxed_db = \<lparr>pd_market = breakout_market, pd_executions = [], pd_entries = new_rows plain_codec [7] 738000
     [plain_candidate ''A'' 1 90]\<rparr>"

lemma detail_loses_setup_witness:
  "\<exists>items detail. by_date_route plain_codec 738000 boxed_db = Inr items \<and> map wi_primary_setup items = [Some ''box_breakout'']
    \<and> by_symbol_route plain_codec 738000 ''A'' boxed_db = Inr detail \<and> wi_primary_setup detail = None"
proof -
  let ?k = "plain_candidate ''A'' 1 90"
  have "score_ok (90 :: decimal)" using two_scores_ok by (simp add: two_candidates_def plain_candidate_def)
  then have "list_watchlist plain_codec 738000 (pd_entries boxed_db) = Inr [stored_entry 7 738000 ?k]"
    using row_entry_row [OF plain_codec_ok, of ?k 7 738000]
    by (simp add: list_watchlist_def boxed_db_def new_rows_def plain_candidate_def entry_row_fields)
  then have items: "by_date_route plain_codec 738000 boxed_db = Inr [item_response (stored_entry 7 738000 ?k)]"
    by (simp add: by_date_route_def repository_call_def)
  have ok: "entries_ok (pd_entries boxed_db)" by (simp add: entries_ok_def boxed_db_def new_rows_def)
  let ?i = "item_response (stored_entry 7 738000 ?k)"
  have i: "wi_primary_setup ?i = Some ''box_breakout''" "wi_symbol ?i = ''A''"
    by (simp_all add: item_response_def stored_entry_def plain_candidate_def passing_def Let_def)
  from detail_loses_setup [OF ok items _ i(1)] i items show ?thesis by auto
qed

end
