(* ===== verification/Spec2Isabelle.thy ===== *)
theory Spec2Isabelle
  imports Simulate_Props Backtest_Service Analysis_Props Portfolio_Props Swing_Props Ranking_Props
    Pipeline_Success Toss_Answers Toss_Tokens Realtime_Props
    Identity_Props Market_Routes Api_Backtests_Props Api_Watchlist_Props
begin

text \<open>
  A verification library for the backend of the stock screener, \<open>src/backend/src/screener\<close> (paths below are
  relative to it). The backend collects the daily bars of KOSPI shares from the Toss service, screens and ranks
  them into a watchlist per trading date, replays watchlists as backtests, analyses single shares live and
  serves all of it over HTTP to logged-in users.

  \<^bold>\<open>Shared ground.\<close> \<open>Prelude\<close>: the exceptions of the code as the datatype \<open>py_exc\<close>, results \<open>py_exc + 'a\<close> with their
  combinators and two collections of rules (when a composed result returns, and what it can fail with),
  insertion-ordered dictionaries, the state-and-exception monad \<open>io\<close>. \<open>Decimal\<close>: Python's decimals as rationals,
  each operator rounded half-even to 28 digits, quantization and its failure. \<open>Decimal_Text\<close>, \<open>Calendar\<close>: the texts
  of numbers and dates. \<open>Canonical_Order\<close>, \<open>Streaks\<close>: sorting by a key that tells rows apart, longest runs.

  \<^bold>\<open>Backtests\<close> (\<open>modules/backtest\<close>). \<open>Backtest_Domain\<close> (\<open>domain.py\<close>: runs and their guarded transitions),
  \<open>Backtest_Params\<close> (parsing in \<open>executor.py\<close> and \<open>portfolio.py\<close>), \<open>Backtest_Simulate\<close>, \<open>Backtest_Metrics\<close>
  (\<open>executor.py\<close>), \<open>Portfolio\<close> (\<open>portfolio.py\<close>: sizing, exits, the day loop), \<open>Analysis\<close> (\<open>analysis.py\<close>),
  \<open>Backtest_Store\<close> (\<open>models.py\<close>, \<open>repository.py\<close>), \<open>Backtest_Executor\<close> (the two executors),
  \<open>Backtest_Service\<close> (\<open>service.py\<close>). \<open>Simulate_Props\<close> shows that a trade does not look ahead and that its accounts
  balance; \<open>Portfolio_Props\<close> the invariant of the day loop: one sound snapshot per market day, a flat end, the
  largest affordable quantity; \<open>Analysis_Props\<close> that the report does not depend on the order of its trades.

  \<^bold>\<open>Screening\<close> (\<open>modules/market/{indicators,screening,scanning,ranking}\<close>). \<open>Market_Domain\<close> (\<open>domain.py\<close>),
  \<open>Indicators\<close>, \<open>Scoring\<close>, \<open>Swing\<close> (\<open>screening/swing.py\<close>), \<open>Scanning\<close> (the breakout strategy, the engine, the
  scanner), \<open>Ranking\<close>. \<open>Swing_Props\<close> shows what a result and a breakout candidate mean, \<open>Ranking_Props\<close> that a
  ranking does not depend on the order of its input, \<open>Screening_Returns\<close> when screening and ranking return.

  \<^bold>\<open>Market data.\<close> \<open>Market_Store\<close> (\<open>infrastructure/{models,repositories}.py\<close>), \<open>Sync\<close> (\<open>sync.py\<close>), with
  \<open>Market_Store_Props\<close> (an upsert refines the override of a map) and \<open>Sync_Props\<close> (each run is recorded with its
  outcome and keeps what its body committed). The Toss adapter, \<open>infrastructure/toss.py\<close>: \<open>Toss_Values\<close> (decoded JSON, errors), \<open>Toss_Client\<close>
  (requests, retries, pacing), \<open>Toss_Provider\<close> (its operations), with \<open>Toss_Props\<close> (a request ends within its
  budget, requests for charts are paced), \<open>Toss_Answers\<close> (what the operations return and raise) and \<open>Toss_Tokens\<close>
  (several tasks share one token). \<open>Realtime\<close>, \<open>Realtime_Props\<close>, \<open>Realtime_Returns\<close>: \<open>technical_analysis.py\<close>.

  \<^bold>\<open>The pipeline\<close> (\<open>modules/market/{pipeline,watchlist}\<close>). \<open>Executions\<close> (\<open>pipeline/models.py\<close>,
  \<open>pipeline/repository.py\<close>), \<open>Watchlist\<close>, \<open>Pipeline\<close> (\<open>pipeline/service.py\<close>: synchronize, read the inputs,
  screen, rank, store). \<open>Executions_Props\<close> gives the table of executions as a state machine with its
  invariant, and the answer and effect of an acquisition; \<open>Watchlist_Props\<close> that a saved watchlist reads back; \<open>Pipeline_Inputs\<close> that the window query gives the
  last bars of each traded symbol; \<open>Pipeline_Props\<close> that a run always ends in a recorded result and what a successful
  one stores; \<open>Pipeline_Success\<close> when it succeeds. \<open>Notifications\<close>: \<open>modules/notifications\<close> and \<open>scheduler.py\<close>.

  \<^bold>\<open>The service boundary.\<close> \<open>Http\<close> (a route answers a value, an \<open>HTTPException\<close> or an exception nobody handles;
  the request's session commits or rolls back, \<open>shared/database.py\<close>), \<open>Settings\<close> (\<open>config.py\<close>), \<open>Identity\<close> with
  \<open>Identity_Props\<close> (\<open>modules/identity\<close>: rotation of refresh sessions as a state machine over whole requests, and
  the race of two of them), \<open>Market_Service\<close> with \<open>Market_Routes\<close> (\<open>modules/market/{application.py,presentation}\<close>),
  \<open>Api_Backtests\<close>, \<open>Api_Watchlist\<close>, \<open>Api_Admin\<close> with their \<open>_Props\<close> (\<open>api\<close>, \<open>presentation/admin_router.py\<close>):
  every outcome of a creation and of a requested run, and that what a run stored is what is served.

  \<^bold>\<open>Interfaces.\<close> Where one part relies on another the contract is a locale, interpreted on the model: the
  roundings, canonical orders, keyed tables, the ranker, the screening strategy, the body of a synchronization
  run, the backtest executor, the relations a pipeline action keeps and the invariants of the HTTP client.

  \<^bold>\<open>Loops.\<close> Recursion is structural or has a measure: sizing by the quantity, the request loop by its two
  budgets (retries and one renewal of the token), the Slack delivery by the attempts left. Only the loop over
  pages of candles may run on, since the service chooses the cursors: it is a \<open>partial_function\<close> on options, and
  \<open>Toss_Answers\<close> shows that it returns when the cursors come from a finite set.

  \<^bold>\<open>How state is modelled.\<close> A database table is the list of its rows and SQL is written as list functions; a
  transaction keeps its new tables or none of them. Clock readings, random tokens and new identifiers are inputs.
  Interleavings that matter are step relations: the executions of the pipeline, the tasks on one token manager,
  the halves of two refresh requests, the order in which concurrent calls complete.

  \<^bold>\<open>Parameters.\<close> Code that is not in the repository is an argument with its documented behaviour as a
  hypothesis where one is needed: the provider's answers and the HTTP client, pydantic's JSON texts (\<open>codec_ok\<close>),
  password hashing and the keyed hash, the JWT codec (\<open>jwt_documented\<close>), the texts and class names of
  exceptions, the catalogue of time zones.

  \<^bold>\<open>Not modelled.\<close> The capacity of numeric columns and the exponent limits of decimals; characters outside ASCII, so
  the Korean sentences and labels are constructors or left out; floats of durations, which are exact here; time zones
  other than the nine hours of Seoul; the advisory lock of an acquisition, which is atomic here; log lines; the
  middlewares, the health endpoints and the wiring of \<open>main.py\<close>; the scheduler's own loop; the offline universe
  builder \<open>krx_universe.py\<close> and \<open>universe.py\<close>, which classify Korean names by Unicode patterns; migrations, scripts
  and the front end.
\<close>

end
